(* ===== verification/Prelude.thy ===== *)
theory Prelude
  imports Main "HOL-Library.Char_ord" "HOL-Library.List_Lexorder" "HOL-Library.Multiset" "HOL-Library.AList"
begin

text \<open>
  What every component shares: the names of the source's primitive types, the parts of
  the JavaScript standard library the modules use (\<open>trim\<close>, \<open>toLowerCase\<close>, \<open>split\<close>,
  decimal conversion, \<open>findIndex\<close>, stable \<open>sort\<close>), and the generic lemmas about them.

  A JavaScript string is a HOL \<open>string\<close>, a list of code units below 256. On these code
  units \<open>trim\<close>, \<open>toLowerCase\<close>, \<open>===\<close> and \<open><\<close> are exactly those of the language.
  A \<open>bigint\<close>, and a \<open>number\<close> used as a counter, is an \<open>int\<close>.
\<close>

named_theorems trans_simps \<open>unfolding rules of the transition functions\<close>
named_theorems slot_simps \<open>projections of review slots\<close>

type_synonym jsstring = string
type_synonym bigint = int

section \<open>Errors as values\<close>

text \<open>The exceptions the modelled code throws, with their messages.\<close>

datatype js_error =
    TypeError jsstring
  | PlainError jsstring
  | AddValidationError jsstring

fun sum_bind :: "'e + 'a \<Rightarrow> ('a \<Rightarrow> 'e + 'b) \<Rightarrow> 'e + 'b" where
  "sum_bind (Inl e) f = Inl e"
| "sum_bind (Inr a) f = f a"

fun map_result :: "('a \<Rightarrow> 'e + 'b) \<Rightarrow> 'a list \<Rightarrow> 'e + 'b list" where
  "map_result f [] = Inr []"
| "map_result f (x # xs) =
     sum_bind (f x) (\<lambda>y. sum_bind (map_result f xs) (\<lambda>ys. Inr (y # ys)))"

lemma sum_bind_Inr: "sum_bind m f = Inr b \<longleftrightarrow> (\<exists>a. m = Inr a \<and> f a = Inr b)"
  by (cases m) auto

lemma map_result_Inr:
  "map_result f xs = Inr ys \<Longrightarrow> length ys = length xs \<and> (\<forall>i < length xs. f (xs ! i) = Inr (ys ! i))"
proof (induction xs arbitrary: ys)
  case Nil
  then show ?case by simp
next
  case (Cons x xs)
  then obtain z zs where "f x = Inr z" "map_result f xs = Inr zs" "ys = z # zs"
    by (auto simp: sum_bind_Inr)
  with Cons.IH [of zs] show ?case by (auto simp: nth_Cons split: nat.split)
qed

section \<open>Strings\<close>

lemma of_char_bound: "(of_char c :: nat) < 256"
proof -
  have "(of_char c :: nat) = of_char (char_of (of_char c :: nat) :: char)" by simp
  also have "\<dots> = of_char c mod 256" by (simp only: of_char_of)
  finally show ?thesis by (metis mod_less_divisor zero_less_numeral)
qed

definition is_js_space :: "char \<Rightarrow> bool" where
  "is_js_space c \<longleftrightarrow> (of_char c :: nat) \<in> {9, 10, 11, 12, 13, 32, 160}"

definition js_trim_start :: "jsstring \<Rightarrow> jsstring" where
  "js_trim_start s = dropWhile is_js_space s"

definition js_trim_end :: "jsstring \<Rightarrow> jsstring" where
  "js_trim_end s = rev (dropWhile is_js_space (rev s))"

definition js_trim :: "jsstring \<Rightarrow> jsstring" where
  "js_trim s = js_trim_end (js_trim_start s)"

definition js_lower_char :: "char \<Rightarrow> char" where
  "js_lower_char c =
     (let n = (of_char c :: nat)
      in if 65 \<le> n \<and> n \<le> 90 \<or> 192 \<le> n \<and> n \<le> 222 \<and> n \<noteq> 215 then char_of (n + 32) else c)"

definition js_lower :: "jsstring \<Rightarrow> jsstring" where
  "js_lower s = map js_lower_char s"

text \<open>\<open>s.split(sep)\<close> for a one-character separator (or a character class).\<close>

fun split_on :: "(char \<Rightarrow> bool) \<Rightarrow> jsstring \<Rightarrow> jsstring list" where
  "split_on p [] = [[]]"
| "split_on p (c # cs) =
     (if p c then [] # split_on p cs
      else (case split_on p cs of [] \<Rightarrow> [[c]] | w # ws \<Rightarrow> (c # w) # ws))"

text \<open>\<open>parts.join(sep)\<close>.\<close>

fun js_join :: "jsstring \<Rightarrow> jsstring list \<Rightarrow> jsstring" where
  "js_join sep [] = []"
| "js_join sep [w] = w"
| "js_join sep (w # v # ws) = w @ sep @ js_join sep (v # ws)"

fun js_includes :: "jsstring \<Rightarrow> jsstring \<Rightarrow> bool" where
  "js_includes needle [] = (needle = [])"
| "js_includes needle (c # cs) = (take (length needle) (c # cs) = needle \<or> js_includes needle cs)"

definition js_starts_with :: "jsstring \<Rightarrow> jsstring \<Rightarrow> bool" where
  "js_starts_with prefix s = (take (length prefix) s = prefix)"

lemma split_on_nonempty [simp]: "split_on p s \<noteq> []"
  by (induction s) (auto split: list.splits)

lemma split_on_none: "\<forall>c \<in> set s. \<not> p c \<Longrightarrow> split_on p s = [s]"
  by (induction s) auto

lemma split_on_append_sep:
  "\<forall>c \<in> set w. \<not> p c \<Longrightarrow> p d \<Longrightarrow> split_on p (w @ d # s) = w # split_on p s"
  by (induction w) auto

lemma split_on_join:
  assumes "p d" and "\<forall>w \<in> set ws. \<forall>c \<in> set w. \<not> p c" and "ws \<noteq> []"
  shows "split_on p (js_join [d] ws) = ws"
  using assms
proof (induction "[d]" ws rule: js_join.induct)
  case (2 w)
  then show ?case by (simp add: split_on_none)
next
  case (3 w v ws)
  then show ?case by (simp add: split_on_append_sep)
qed simp

lemma split_on_pieces: "\<forall>w \<in> set (split_on p s). \<forall>c \<in> set w. \<not> p c"
  by (induction s) (auto split: list.splits)

subsection \<open>Trimming\<close>

lemma js_trim_Nil [simp]: "js_trim [] = []"
  by (simp add: js_trim_def js_trim_start_def js_trim_end_def)

lemma js_trim_fixed:
  assumes "s = [] \<or> (\<not> is_js_space (hd s) \<and> \<not> is_js_space (last s))"
  shows "js_trim s = s"
proof -
  have "dropWhile is_js_space s = s" "dropWhile is_js_space (rev s) = rev s"
    using assms by (auto simp: dropWhile_eq_self_iff hd_rev)
  then show ?thesis by (simp add: js_trim_def js_trim_start_def js_trim_end_def)
qed

lemma js_trim_no_space: "\<forall>c \<in> set s. \<not> is_js_space c \<Longrightarrow> js_trim s = s"
  by (rule js_trim_fixed) (cases s, auto)

lemma js_trim_end_not_space: "js_trim_end s \<noteq> [] \<Longrightarrow> \<not> is_js_space (last (js_trim_end s))"
  unfolding js_trim_end_def last_rev by (rule hd_dropWhile) simp

lemma js_trim_end_prefix: "\<exists>t. s = js_trim_end s @ t"
proof -
  have "rev s = takeWhile is_js_space (rev s) @ dropWhile is_js_space (rev s)" by simp
  then have "s = rev (dropWhile is_js_space (rev s)) @ rev (takeWhile is_js_space (rev s))"
    by (metis rev_append rev_rev_ident)
  then show ?thesis unfolding js_trim_end_def by blast
qed

lemma js_trim_ends: "js_trim s = [] \<or> (\<not> is_js_space (hd (js_trim s)) \<and> \<not> is_js_space (last (js_trim s)))"
proof (cases "js_trim s = []")
  case False
  obtain t where t: "js_trim_start s = js_trim s @ t"
    using js_trim_end_prefix [of "js_trim_start s"] by (auto simp: js_trim_def)
  with False have "js_trim_start s \<noteq> []" "hd (js_trim s) = hd (js_trim_start s)"
    by (auto simp: hd_append)
  then have "\<not> is_js_space (hd (js_trim s))"
    unfolding js_trim_start_def using hd_dropWhile [of is_js_space s] by simp
  moreover from False have "\<not> is_js_space (last (js_trim s))"
    by (simp add: js_trim_def js_trim_end_not_space)
  ultimately show ?thesis by simp
qed simp

lemma js_trim_idem [simp]: "js_trim (js_trim s) = js_trim s"
  by (rule js_trim_fixed) (rule js_trim_ends)

lemma set_js_trim: "set (js_trim s) \<subseteq> set s"
  unfolding js_trim_def js_trim_start_def js_trim_end_def
  by (auto dest!: set_dropWhileD)

subsection \<open>Lower case\<close>

lemma js_lower_char_idem [simp]: "js_lower_char (js_lower_char c) = js_lower_char c"
proof -
  have "(of_char c :: nat) < 256" by (rule of_char_bound)
  then show ?thesis by (auto simp: js_lower_char_def Let_def of_char_of)
qed

lemma js_lower_idem [simp]: "js_lower (js_lower s) = js_lower s"
  by (simp add: js_lower_def comp_def)

lemma js_space_lower [simp]: "is_js_space (js_lower_char c) = is_js_space c"
proof -
  have "(of_char c :: nat) < 256" by (rule of_char_bound)
  then show ?thesis by (auto simp: js_lower_char_def is_js_space_def Let_def of_char_of)
qed

lemma js_lower_Nil_iff [simp]: "js_lower s = [] \<longleftrightarrow> s = []"
  by (simp add: js_lower_def)

lemma js_trim_lower: "js_trim (js_lower s) = js_lower (js_trim s)"
  by (simp add: js_trim_def js_trim_start_def js_trim_end_def js_lower_def dropWhile_map
      comp_def rev_map)

section \<open>Decimal numerals\<close>

definition digit_char :: "nat \<Rightarrow> char" where
  "digit_char d = ''0123456789'' ! d"

definition is_digit :: "char \<Rightarrow> bool" where
  "is_digit c \<longleftrightarrow> c \<in> set ''0123456789''"

definition digit_val :: "char \<Rightarrow> nat" where
  "digit_val c = of_char c - 48"

text \<open>\<open>n.toString()\<close> of a non-negative integer, and of a \<open>bigint\<close>.\<close>

fun dec_of_nat :: "nat \<Rightarrow> jsstring" where
  "dec_of_nat n = (if n < 10 then [digit_char n] else dec_of_nat (n div 10) @ [digit_char (n mod 10)])"

declare dec_of_nat.simps [simp del]

definition dec_of_int :: "bigint \<Rightarrow> jsstring" where
  "dec_of_int i = (if i < 0 then CHR ''-'' # dec_of_nat (nat (- i)) else dec_of_nat (nat i))"

text \<open>\<open>BigInt(s)\<close> and \<open>Number(s)\<close> of a string of digits.\<close>

definition nat_of_dec :: "jsstring \<Rightarrow> nat" where
  "nat_of_dec s = foldl (\<lambda>acc c. 10 * acc + digit_val c) 0 s"

lemma digit_cases: "d < 10 \<Longrightarrow> d \<in> {0, 1, 2, 3, 4, 5, 6, 7, 8, 9::nat}"
  by auto

lemma digit_val_char [simp]: "d < 10 \<Longrightarrow> digit_val (digit_char d) = d"
  by (drule digit_cases) (auto simp: digit_val_def digit_char_def)

lemma is_digit_char [simp]: "d < 10 \<Longrightarrow> is_digit (digit_char d)"
  by (drule digit_cases) (auto simp: is_digit_def digit_char_def)

lemma digit_char_inj: "d < 10 \<Longrightarrow> e < 10 \<Longrightarrow> digit_char d = digit_char e \<longleftrightarrow> d = e"
  by (metis digit_val_char)

lemma is_digit_not_special:
  "is_digit c \<Longrightarrow> \<not> is_js_space c \<and> c \<noteq> CHR '','' \<and> c \<noteq> CHR ''-'' \<and> c \<noteq> CHR ''['' \<and> c \<noteq> CHR '']''"
  by (auto simp: is_digit_def is_js_space_def)

lemma nat_of_dec_snoc [simp]: "nat_of_dec (s @ [c]) = 10 * nat_of_dec s + digit_val c"
  by (simp add: nat_of_dec_def)

lemma dec_of_nat_digits: "\<forall>c \<in> set (dec_of_nat n). is_digit c"
proof (induction n rule: dec_of_nat.induct)
  case (1 n)
  then show ?case by (subst dec_of_nat.simps) (auto split: if_splits)
qed

lemma dec_of_nat_nonempty [simp]: "dec_of_nat n \<noteq> []"
  by (subst dec_of_nat.simps) simp

lemma nat_of_dec_of_nat [simp]: "nat_of_dec (dec_of_nat n) = n"
proof (induction n rule: dec_of_nat.induct)
  case (1 n)
  show ?case
  proof (cases "n < 10")
    case True
    then show ?thesis by (subst dec_of_nat.simps) (simp add: nat_of_dec_def)
  next
    case False
    with 1 show ?thesis by (subst dec_of_nat.simps) simp
  qed
qed

lemma dec_of_nat_inj [simp]: "dec_of_nat m = dec_of_nat n \<longleftrightarrow> m = n"
  by (metis nat_of_dec_of_nat)

lemma dec_of_nat_hd: "0 < n \<Longrightarrow> hd (dec_of_nat n) \<noteq> CHR ''0''"
proof (induction n rule: dec_of_nat.induct)
  case (1 n)
  show ?case
  proof (cases "n < 10")
    case True
    then have "digit_char n \<noteq> CHR ''0''"
      using 1 digit_char_inj [of n 0] by (simp add: digit_char_def)
    with True show ?thesis by (subst dec_of_nat.simps) simp
  next
    case False
    with 1 show ?thesis by (subst dec_of_nat.simps) (simp add: hd_append)
  qed
qed

lemma dec_of_nat_not_minus: "dec_of_nat m \<noteq> CHR ''-'' # s"
proof
  assume "dec_of_nat m = CHR ''-'' # s"
  then have "is_digit CHR ''-''" using dec_of_nat_digits [of m] by simp
  then show False by (simp add: is_digit_def)
qed

lemma dec_of_int_inj [simp]: "dec_of_int i = dec_of_int j \<longleftrightarrow> i = j"
  by (auto simp: dec_of_int_def dec_of_nat_not_minus dec_of_nat_not_minus [symmetric])

section \<open>Maps\<close>

text \<open>
  A JavaScript \<open>Map\<close> is its list of entries in insertion order: \<open>get\<close> is \<open>map_of\<close>, \<open>set\<close> is
  \<open>AList.update\<close> (which replaces in place or appends) and \<open>delete\<close> is \<open>AList.delete\<close>.
\<close>

type_synonym 'v js_map = "(jsstring \<times> 'v) list"

lemmas js_map_simps [simp] = update_conv' delete_conv'

section \<open>Searching lists\<close>

text \<open>\<open>xs.findIndex(p)\<close>, with \<open>None\<close> for \<open>-1\<close>; \<open>xs.find(p)\<close> is the library's \<open>find\<close>.\<close>

fun find_index :: "('a \<Rightarrow> bool) \<Rightarrow> 'a list \<Rightarrow> nat option" where
  "find_index p [] = None"
| "find_index p (x # xs) = (if p x then Some 0 else map_option Suc (find_index p xs))"

lemma find_index_None: "find_index p xs = None \<longleftrightarrow> (\<forall>x \<in> set xs. \<not> p x)"
  by (induction xs) auto

lemma find_index_Some:
  "find_index p xs = Some i \<Longrightarrow> i < length xs \<and> p (xs ! i) \<and> (\<forall>j < i. \<not> p (xs ! j))"
proof (induction xs arbitrary: i)
  case (Cons x xs)
  then show ?case by (auto split: if_splits simp: less_Suc_eq_0_disj)
qed simp

text \<open>\<open>xs.filter((_, position) => position !== i)\<close>.\<close>

definition remove_nth :: "nat \<Rightarrow> 'a list \<Rightarrow> 'a list" where
  "remove_nth i xs = take i xs @ drop (Suc i) xs"

lemma find_index_le_find: "find p xs = None \<longleftrightarrow> find_index p xs = None"
  by (auto simp: find_None_iff find_index_None)

lemma find_Some_props: "find p xs = Some x \<Longrightarrow> x \<in> set xs \<and> p x"
  by (auto simp: find_Some_iff)

lemma find_distinct:
  assumes "x \<in> set xs" "p x" and uniq: "\<And>y. y \<in> set xs \<Longrightarrow> p y \<Longrightarrow> y = x"
  shows "find p xs = Some x"
proof (cases "find p xs")
  case None
  then have "\<not> p x" using \<open>x \<in> set xs\<close> by (auto simp: find_None_iff)
  with \<open>p x\<close> show ?thesis by simp
next
  case (Some y)
  then have "y \<in> set xs" "p y" by (auto dest: find_Some_props)
  then have "y = x" by (rule uniq)
  with Some show ?thesis by simp
qed

lemma not_in_image: "k \<notin> f ` A \<Longrightarrow> x \<in> A \<Longrightarrow> f x \<noteq> k"
  by blast

lemma map_id_on: "(\<And>x. x \<in> set xs \<Longrightarrow> f x = x) \<Longrightarrow> map f xs = xs"
  by (induction xs) auto

text \<open>\<open>xs.map((x) => p(x) ? f(x) : x)\<close>: the update of the elements a predicate selects.\<close>

definition map_where :: "('a \<Rightarrow> bool) \<Rightarrow> ('a \<Rightarrow> 'a) \<Rightarrow> 'a list \<Rightarrow> 'a list" where
  "map_where p f xs = map (\<lambda>x. if p x then f x else x) xs"

lemma length_map_where [simp]: "length (map_where p f xs) = length xs"
  by (simp add: map_where_def)

lemma nth_map_where: "i < length xs \<Longrightarrow> map_where p f xs ! i = (if p (xs ! i) then f (xs ! i) else xs ! i)"
  by (simp add: map_where_def)

lemma nth_map_where_other: "i < length xs \<Longrightarrow> \<not> p (xs ! i) \<Longrightarrow> map_where p f xs ! i = xs ! i"
  by (simp add: map_where_def)

lemma map_where_none: "find p xs = None \<Longrightarrow> map_where p f xs = xs"
  unfolding map_where_def by (rule map_id_on) (auto simp: find_None_iff)

lemma map_where_proj: "(\<And>x. x \<in> set xs \<Longrightarrow> p x \<Longrightarrow> g (f x) = g x) \<Longrightarrow> map g (map_where p f xs) = map g xs"
  by (induction xs) (auto simp: map_where_def)

lemma list_all_map_where:
  "(\<And>x. x \<in> set xs \<Longrightarrow> P x \<Longrightarrow> p x \<Longrightarrow> P (f x)) \<Longrightarrow> \<forall>x \<in> set xs. P x \<Longrightarrow> \<forall>x \<in> set (map_where p f xs). P x"
  by (auto simp: map_where_def)

lemma map_where_simps [simp]:
  "map_where p f [] = []"
  "map_where p f (x # xs) = (if p x then f x else x) # map_where p f xs"
  by (simp_all add: map_where_def)

section \<open>Stable sorting with a comparator\<close>

text \<open>
  \<open>xs.sort(cmp)\<close> is stable (ECMAScript 2019): for a consistent comparator the sorted
  permutation that keeps the source order of ties is the only possible result, which
  this insertion sort computes.
\<close>

fun js_insert :: "('a \<Rightarrow> 'a \<Rightarrow> int) \<Rightarrow> 'a \<Rightarrow> 'a list \<Rightarrow> 'a list" where
  "js_insert cmp x [] = [x]"
| "js_insert cmp x (y # ys) = (if cmp x y \<le> 0 then x # y # ys else y # js_insert cmp x ys)"

definition js_sort :: "('a \<Rightarrow> 'a \<Rightarrow> int) \<Rightarrow> 'a list \<Rightarrow> 'a list" where
  "js_sort cmp xs = foldr (js_insert cmp) xs []"

lemma js_sort_simps [simp]:
  "js_sort cmp [] = []"
  "js_sort cmp (x # xs) = js_insert cmp x (js_sort cmp xs)"
  by (simp_all add: js_sort_def)

lemma mset_js_insert [simp]: "mset (js_insert cmp x ys) = add_mset x (mset ys)"
  by (induction ys) auto

lemma mset_js_sort [simp]: "mset (js_sort cmp xs) = mset xs"
  by (induction xs) auto

lemma set_js_insert [simp]: "set (js_insert cmp x ys) = insert x (set ys)"
  by (induction ys) auto

lemma set_js_sort [simp]: "set (js_sort cmp xs) = set xs"
  by (induction xs) auto

lemma length_js_sort [simp]: "length (js_sort cmp xs) = length xs"
  by (metis mset_js_sort size_mset)

definition consistent_cmp :: "('a \<Rightarrow> 'a \<Rightarrow> int) \<Rightarrow> bool" where
  "consistent_cmp cmp \<longleftrightarrow>
     (\<forall>x y. cmp x y \<le> 0 \<or> cmp y x \<le> 0) \<and>
     (\<forall>x y z. cmp x y \<le> 0 \<longrightarrow> cmp y z \<le> 0 \<longrightarrow> cmp x z \<le> 0)"

lemma consistent_cmp_total: "consistent_cmp cmp \<Longrightarrow> \<not> cmp x y \<le> 0 \<Longrightarrow> cmp y x \<le> 0"
  unfolding consistent_cmp_def by blast

lemma consistent_cmp_trans: "consistent_cmp cmp \<Longrightarrow> cmp x y \<le> 0 \<Longrightarrow> cmp y z \<le> 0 \<Longrightarrow> cmp x z \<le> 0"
  unfolding consistent_cmp_def by blast

lemma sorted_js_insert:
  assumes c: "consistent_cmp cmp" and s: "sorted_wrt (\<lambda>x y. cmp x y \<le> 0) ys"
  shows "sorted_wrt (\<lambda>x y. cmp x y \<le> 0) (js_insert cmp x ys)"
  using s
proof (induction ys)
  case (Cons y ys)
  then show ?case
    using consistent_cmp_total [OF c, of x y] consistent_cmp_trans [OF c, of x y] by auto
qed simp

lemma sorted_js_sort: "consistent_cmp cmp \<Longrightarrow> sorted_wrt (\<lambda>x y. cmp x y \<le> 0) (js_sort cmp xs)"
  by (induction xs) (auto intro: sorted_js_insert)

text \<open>Stability: the elements of a class closed under ties keep their source order.\<close>

lemma filter_js_insert:
  assumes "\<And>y. P x \<Longrightarrow> P y \<Longrightarrow> cmp x y \<le> 0"
  shows "filter P (js_insert cmp x ys) = (if P x then x # filter P ys else filter P ys)"
  using assms by (induction ys) auto

lemma js_sort_stable:
  assumes "\<And>x y. P x \<Longrightarrow> P y \<Longrightarrow> cmp x y \<le> 0"
  shows "filter P (js_sort cmp xs) = filter P xs"
  by (induction xs) (auto simp: filter_js_insert assms)

lemma sorted_wrt_unique:
  assumes "sorted_wrt P xs" and "sorted_wrt P ys" and "mset xs = mset ys"
    and "\<And>x y. x \<in> set xs \<Longrightarrow> y \<in> set xs \<Longrightarrow> P x y \<Longrightarrow> P y x \<Longrightarrow> x = y" and "\<And>x. P x x"
  shows "xs = ys"
  using assms(1-4)
proof (induction xs arbitrary: ys)
  case Nil
  then show ?case by simp
next
  case (Cons x xs)
  then obtain y ys' where ys: "ys = y # ys'" by (cases ys) auto
  have sets: "set (x # xs) = set ys" using Cons.prems(3) by (metis set_mset_mset)
  have "y \<in> set (x # xs)" using sets ys by (metis list.set_intros(1))
  moreover have "x \<in> set (y # ys')" using sets ys by (metis list.set_intros(1))
  ultimately have "P x y" "P y x" using Cons.prems(1,2) ys assms(5) by auto
  then have "x = y" using Cons.prems(4) sets ys by auto
  moreover have "xs = ys'"
    by (rule Cons.IH) (use Cons.prems ys \<open>x = y\<close> in auto)
  ultimately show ?case using ys by simp
qed

end
