(* ===== verification/Messages.thy ===== *)
theory Messages
  imports Prelude
begin

text \<open>
  The messages of \<open>frontend-astro/src/generated/denpie_pb.ts\<close> the modelled modules read and
  build. A message is a record with the generated fields, in their order; an optional
  field is an \<open>option\<close>; a repeated field is a list; an \<open>int64\<close> is a \<open>bigint\<close>.
\<close>

datatype TipcardTypeValue =
    TypeUnspecified | TypeRepeatable | TypeCasual | TypeManual | TypeCustom

datatype ReviewActionValue =
    ActionUnspecified | ActionAgain | ActionLearned | ActionSkipKnown
  | ActionSkipNotInterested | ActionSkipTooDifficult | ActionAcknowledge

record TipcardImageInfo =
  im_id :: bigint
  im_position :: bigint
  im_mimeType :: jsstring
  im_byteSize :: bigint
  im_downloadPath :: jsstring

record CardSource =
  cs_documentId :: bigint
  cs_sourceType :: jsstring
  cs_title :: jsstring
  cs_url :: "jsstring option"

record GroundingEvidence =
  ge_sourceType :: jsstring
  ge_title :: jsstring
  ge_url :: "jsstring option"
  ge_documentId :: "bigint option"
  ge_excerpt :: jsstring
  ge_retrievedAt :: jsstring

record FlowCardInfo =
  fc_id :: bigint
  fc_topicName :: jsstring
  fc_topicIcon :: jsstring
  fc_topicColor :: jsstring
  fc_title :: jsstring
  fc_fullContent :: jsstring
  fc_compressedContent :: jsstring
  fc_createdAt :: jsstring
  fc_tipcardType :: jsstring
  fc_status :: jsstring
  fc_nextReviewAt :: jsstring
  fc_repeatCount :: int
  fc_pinned :: bool
  fc_pendingCount :: bigint
  fc_images :: "TipcardImageInfo list"
  fc_sources :: "CardSource list"
  fc_groundingStatus :: jsstring
  fc_groundingSourceMode :: jsstring
  fc_groundingEvidence :: "GroundingEvidence list"

text \<open>The fields of \<open>ReviewAndAdvanceResponse\<close> a review consumes (\<open>ReviewSuccessFields\<close>).\<close>

record ReviewSuccessFields =
  rs_nextCard :: "FlowCardInfo option"
  rs_dailyComplete :: bool
  rs_refillScheduled :: bool
  rs_pendingCount :: int

record TipsRequestV1 =
  tr_count :: int
  tr_topics :: "jsstring list"
  tr_tipcardType :: TipcardTypeValue
  tr_excludeCardIds :: "bigint list"
  tr_manualContent :: jsstring
  tr_manualCompressedContent :: jsstring
  tr_manualImageData :: "jsstring list"

text \<open>A card for closed examples: the given identity, topic and type, everything else plain.\<close>

definition sample_card :: "bigint \<Rightarrow> jsstring \<Rightarrow> jsstring \<Rightarrow> bool \<Rightarrow> FlowCardInfo" where
  "sample_card i topic ctype pin =
     \<lparr>fc_id = i, fc_topicName = topic, fc_topicIcon = [], fc_topicColor = [], fc_title = ''t'',
      fc_fullContent = ''body'', fc_compressedContent = [], fc_createdAt = ''2026-01-01'',
      fc_tipcardType = ctype, fc_status = ''active'', fc_nextReviewAt = [], fc_repeatCount = 0,
      fc_pinned = pin, fc_pendingCount = 0, fc_images = [], fc_sources = [],
      fc_groundingStatus = [], fc_groundingSourceMode = [], fc_groundingEvidence = []\<rparr>"

lemma sample_card_simps [simp]:
  "fc_id (sample_card i topic ctype pin) = i"
  "fc_topicName (sample_card i topic ctype pin) = topic"
  "fc_tipcardType (sample_card i topic ctype pin) = ctype"
  "fc_status (sample_card i topic ctype pin) = ''active''"
  "fc_pinned (sample_card i topic ctype pin) = pin"
  "fc_title (sample_card i topic ctype pin) = ''t''"
  "fc_createdAt (sample_card i topic ctype pin) = ''2026-01-01''"
  by (simp_all add: sample_card_def)

end
