(* ===== verification/I18n.thy ===== *)
theory I18n
  imports Prelude
begin

text \<open>
  \<open>lib/i18n.ts\<close> and \<open>lib/tip-type.ts\<close>: catalog lookup and placeholder interpolation. The
  English catalog (\<open>i18n/en.json\<close>) is data: the model takes the catalog of the locale as
  the argument \<open>cat\<close>, a function from message keys to messages.

  \<open>replaceAll\<close> with a string replacement gives \<open>$$\<close>, \<open>$&\<close>, \<open>$`\<close> and \<open>$'\<close> their
  meaning of the language; both arguments are modelled with that substitution.
\<close>

type_synonym catalog = "jsstring \<Rightarrow> jsstring"

text \<open>GetSubstitution for a string pattern: \<open>pre\<close> precedes the match and \<open>post\<close> follows it.\<close>

fun js_substitution :: "jsstring \<Rightarrow> jsstring \<Rightarrow> jsstring \<Rightarrow> jsstring \<Rightarrow> jsstring" where
  "js_substitution matched pre post [] = []"
| "js_substitution matched pre post [c] = [c]"
| "js_substitution matched pre post (c # d # cs) =
     (if c = CHR ''$'' \<and> d = CHR ''$'' then CHR ''$'' # js_substitution matched pre post cs
      else if c = CHR ''$'' \<and> d = CHR ''&'' then matched @ js_substitution matched pre post cs
      else if c = CHR ''$'' \<and> d = CHR ''`'' then pre @ js_substitution matched pre post cs
      else if c = CHR ''$'' \<and> d = CHR 0x27 then post @ js_substitution matched pre post cs
      else c # js_substitution matched pre post (d # cs))"

fun replace_all_from :: "jsstring \<Rightarrow> jsstring \<Rightarrow> jsstring \<Rightarrow> jsstring \<Rightarrow> jsstring" where
  "replace_all_from pat rep pre [] = []"
| "replace_all_from pat rep pre (c # cs) =
     (if js_starts_with pat (c # cs)
      then js_substitution pat pre (drop (length pat - 1) cs) rep @
           replace_all_from pat rep (pre @ c # take (length pat - 1) cs) (drop (length pat - 1) cs)
      else c # replace_all_from pat rep (pre @ [c]) cs)"

text \<open>\<open>s.replaceAll(pat, rep)\<close> for a non-empty pattern (every pattern here is \<open>{name}\<close>).\<close>

definition js_replace_all :: "jsstring \<Rightarrow> jsstring \<Rightarrow> jsstring \<Rightarrow> jsstring" where
  "js_replace_all pat rep s = replace_all_from pat rep [] s"

definition i18n_t :: "catalog \<Rightarrow> jsstring \<Rightarrow> jsstring" where
  "i18n_t cat key = cat key"

definition i18n_tf :: "catalog \<Rightarrow> jsstring \<Rightarrow> (jsstring \<times> jsstring) list \<Rightarrow> jsstring" where
  "i18n_tf cat key args =
     foldl (\<lambda>message (name, value). js_replace_all (''{'' @ name @ ''}'') value message) (i18n_t cat key) args"

definition TIP_TYPE_KEYS :: "jsstring \<rightharpoonup> jsstring" where
  "TIP_TYPE_KEYS = map_of
     [(''casual_tip'', ''tip_type.casual_tip''), (''repeatable_tip'', ''tip_type.repeatable_tip''),
      (''manual_tip'', ''tip_type.manual_tip''), (''custom_tip'', ''tip_type.custom_tip'')]"

text \<open>
  The lookup is for own keys. (A tip type that names a member of \<open>Object.prototype\<close>, such
  as \<open>toString\<close>, also hits in the source, with a value that is no message key; the
  protocol has no such type.)
\<close>

definition tipTypeLabel :: "catalog \<Rightarrow> jsstring \<Rightarrow> jsstring" where
  "tipTypeLabel cat tipcardType =
     (if tipcardType = [] then i18n_t cat ''common.unspecified''
      else (case TIP_TYPE_KEYS tipcardType of
              None \<Rightarrow> tipcardType
            | Some key \<Rightarrow> i18n_t cat key))"

lemma js_substitution_plain:
  "CHR ''$'' \<notin> set rep \<Longrightarrow> js_substitution matched pre post rep = rep"
  by (induction matched pre post rep rule: js_substitution.induct) auto

lemma replace_all_from_skip:
  "p = CHR ''{'' \<Longrightarrow> CHR ''{'' \<notin> set s \<Longrightarrow> replace_all_from (p # ps) rep pre (s @ u) = s @ replace_all_from (p # ps) rep (pre @ s) u"
  by (induction s arbitrary: pre) (auto simp: js_starts_with_def)

end
