(* ===== verification/Review_State.thy ===== *)
theory Review_State
  imports Messages I18n
begin

text \<open>
  \<open>lib/flow-review-state.ts\<close>: one Flow slot's review lifecycle. \<open>ReviewSlot\<close> has the
  source's seven kinds; the shared selectors (\<open>slot_card\<close>, \<open>slot_generation\<close>, \<dots>) are the
  fields TypeScript reads after narrowing. Every transition takes the slot list and returns
  the next one. A \<open>TypeError\<close> is an \<open>Inl\<close>. \<open>Date.now()\<close> is the argument \<open>now\<close>.
\<close>

section \<open>Data\<close>

record ReviewAttempt =
  ra_grade :: int
  ra_action :: ReviewActionValue
  ra_idempotencyKey :: jsstring

record ReviewedSlotIdentity =
  ri_reviewedCardId :: bigint
  ri_topicName :: jsstring
  ri_title :: jsstring
  ri_createdAt :: jsstring
  ri_tipcardType :: jsstring
  ri_pinned :: bool

record ContinueAttempt =
  ca_topicName :: jsstring
  ca_idempotencyKey :: jsstring

text \<open>\<open>ReviewFailureFields\<close> and \<open>ContinueFailureFields\<close> (and the pin and delete ones) agree.\<close>

record FailureFields =
  ff_mutationOutcomeIndeterminate :: bool
  ff_message :: jsstring

datatype ReviewSlot =
    SlotIdle (slot_card: FlowCardInfo)
  | SlotReviewing (slot_card: FlowCardInfo) (slot_generation: int) (slot_attempt: ReviewAttempt)
  | SlotError (slot_card: FlowCardInfo) (slot_generation: int) (slot_attempt: ReviewAttempt)
      (slot_indeterminate: bool) (slot_message: jsstring)
  | SlotCompleted (slot_reviewed: ReviewedSlotIdentity)
  | SlotAwaitingRefill (slot_refillToken: int) (slot_refillAttempts: int)
      (slot_reviewed: ReviewedSlotIdentity)
  | SlotContinuing (slot_generation: int) (slot_continueAttempt: ContinueAttempt)
      (slot_startedAt: int) (slot_reviewed: ReviewedSlotIdentity)
  | SlotContinueError (slot_generation: int) (slot_continueAttempt: ContinueAttempt)
      (slot_indeterminate: bool) (slot_message: jsstring) (slot_reviewed: ReviewedSlotIdentity)

datatype RetryDecision =
    ReuseAttempt ReviewAttempt int
  | NeedsNewKey int ReviewActionValue int

datatype ContinueRetryDecision =
    ReuseContinueAttempt ContinueAttempt int
  | ContinueNeedsNewKey jsstring int

section \<open>Review\<close>

definition isReviewing :: "ReviewSlot \<Rightarrow> int \<Rightarrow> bool" where
  "isReviewing slot generation \<longleftrightarrow> is_SlotReviewing slot \<and> slot_generation slot = generation"

definition startable :: "bigint \<Rightarrow> ReviewSlot \<Rightarrow> bool" where
  "startable cardId c \<longleftrightarrow> (is_SlotIdle c \<or> is_SlotError c) \<and> fc_id (slot_card c) = cardId"

definition startReview :: "ReviewSlot list \<Rightarrow> bigint \<Rightarrow> ReviewAttempt \<Rightarrow> ReviewSlot list" where
  "startReview slots cardId attempt =
     (case find (startable cardId) slots of
        None \<Rightarrow> slots
      | Some slot \<Rightarrow>
          let nextGeneration = (if is_SlotError slot then slot_generation slot + 1 else 1)
          in map_where (startable cardId)
               (\<lambda>current. SlotReviewing (slot_card current) nextGeneration attempt) slots)"

definition reviewing_card :: "bigint \<Rightarrow> ReviewSlot \<Rightarrow> bool" where
  "reviewing_card cardId c \<longleftrightarrow> is_SlotReviewing c \<and> fc_id (slot_card c) = cardId"

definition reviewed_identity :: "bigint \<Rightarrow> FlowCardInfo \<Rightarrow> ReviewedSlotIdentity" where
  "reviewed_identity reviewedCardId fcard =
     \<lparr>ri_reviewedCardId = reviewedCardId, ri_topicName = fc_topicName fcard,
      ri_title = fc_title fcard, ri_createdAt = fc_createdAt fcard,
      ri_tipcardType = fc_tipcardType fcard, ri_pinned = fc_pinned fcard\<rparr>"

definition reviewSuccess ::
    "ReviewSlot list \<Rightarrow> bigint \<Rightarrow> int \<Rightarrow> ReviewSuccessFields \<Rightarrow> ReviewSlot list" where
  "reviewSuccess slots reviewedCardId generation response =
     (case find (reviewing_card reviewedCardId) slots of
        None \<Rightarrow> slots
      | Some slot \<Rightarrow>
          if \<not> isReviewing slot generation then slots
          else map_where
            (\<lambda>current. isReviewing current generation \<and> fc_id (slot_card current) = reviewedCardId)
            (\<lambda>current.
               case rs_nextCard response of
                 Some nextCard \<Rightarrow>
                   SlotIdle (nextCard\<lparr>fc_pinned := fc_pinned (slot_card current),
                                      fc_pendingCount := rs_pendingCount response\<rparr>)
               | None \<Rightarrow>
                   let identity = reviewed_identity reviewedCardId (slot_card current)
                   in if rs_dailyComplete response \<or> \<not> rs_refillScheduled response
                      then SlotCompleted identity
                      else SlotAwaitingRefill generation 0 identity)
            slots)"

definition reviewFailure ::
    "ReviewSlot list \<Rightarrow> bigint \<Rightarrow> int \<Rightarrow> FailureFields \<Rightarrow> ReviewSlot list" where
  "reviewFailure slots reviewedCardId generation failure =
     (case find (reviewing_card reviewedCardId) slots of
        None \<Rightarrow> slots
      | Some slot \<Rightarrow>
          if \<not> isReviewing slot generation then slots
          else map_where
            (\<lambda>current. isReviewing current generation \<and> fc_id (slot_card current) = reviewedCardId)
            (\<lambda>current. SlotError (slot_card current) (slot_generation current)
               (slot_attempt current) (ff_mutationOutcomeIndeterminate failure) (ff_message failure))
            slots)"

definition retryDecision :: "ReviewSlot \<Rightarrow> js_error + RetryDecision" where
  "retryDecision slot =
     (if \<not> is_SlotError slot
      then Inl (TypeError ''retryDecision requires an errored review slot'')
      else if slot_indeterminate slot
      then Inr (ReuseAttempt (slot_attempt slot) (slot_generation slot))
      else Inr (NeedsNewKey (ra_grade (slot_attempt slot)) (ra_action (slot_attempt slot))
                  (slot_generation slot)))"

section \<open>Identity\<close>

definition is_live :: "ReviewSlot \<Rightarrow> bool" where
  "is_live slot \<longleftrightarrow> is_SlotIdle slot \<or> is_SlotReviewing slot \<or> is_SlotError slot"

definition slotIdentity :: "ReviewSlot \<Rightarrow> jsstring" where
  "slotIdentity slot =
     (if is_live slot then dec_of_int (fc_id (slot_card slot))
      else dec_of_int (ri_reviewedCardId (slot_reviewed slot)))"

definition flowSlotKey :: "ReviewSlot \<Rightarrow> jsstring" where
  "flowSlotKey slot =
     (if is_live slot
      then if fc_tipcardType (slot_card slot) = ''repeatable_tip''
           then ''repeatable:'' @ fc_topicName (slot_card slot)
           else ''card:'' @ dec_of_int (fc_id (slot_card slot))
      else if ri_tipcardType (slot_reviewed slot) = ''repeatable_tip''
           then ''repeatable:'' @ ri_topicName (slot_reviewed slot)
           else ''card:'' @ dec_of_int (ri_reviewedCardId (slot_reviewed slot)))"

section \<open>Refill polling\<close>

definition awaiting :: "bigint \<Rightarrow> int \<Rightarrow> ReviewSlot \<Rightarrow> bool" where
  "awaiting reviewedCardId token c \<longleftrightarrow>
     is_SlotAwaitingRefill c \<and> ri_reviewedCardId (slot_reviewed c) = reviewedCardId \<and>
     slot_refillToken c = token"

definition findAwaitingRefill :: "ReviewSlot list \<Rightarrow> bigint \<Rightarrow> int \<Rightarrow> ReviewSlot option" where
  "findAwaitingRefill slots reviewedCardId token = find (awaiting reviewedCardId token) slots"

definition refillPollFound ::
    "ReviewSlot list \<Rightarrow> bigint \<Rightarrow> int \<Rightarrow> FlowCardInfo \<Rightarrow> ReviewSlot list" where
  "refillPollFound slots reviewedCardId token nextCard =
     (case findAwaitingRefill slots reviewedCardId token of
        None \<Rightarrow> slots
      | Some slot \<Rightarrow>
          if fc_id nextCard = reviewedCardId \<or>
             fc_topicName nextCard \<noteq> ri_topicName (slot_reviewed slot) \<or>
             fc_tipcardType nextCard \<noteq> ''repeatable_tip'' \<or>
             fc_status nextCard \<noteq> ''active''
          then slots
          else map_where (awaiting reviewedCardId token)
                 (\<lambda>current. SlotIdle (nextCard\<lparr>fc_pinned := ri_pinned (slot_reviewed current)\<rparr>))
                 slots)"

definition refillPollMiss ::
    "ReviewSlot list \<Rightarrow> bigint \<Rightarrow> int \<Rightarrow> int \<Rightarrow> ReviewSlot list" where
  "refillPollMiss slots reviewedCardId token maxAttempts =
     (case findAwaitingRefill slots reviewedCardId token of
        None \<Rightarrow> slots
      | Some slot \<Rightarrow>
          if maxAttempts < 1 \<or> slot_refillAttempts slot + 1 > maxAttempts then slots
          else map_where (awaiting reviewedCardId token)
                 (\<lambda>current.
                    if slot_refillAttempts current + 1 \<ge> maxAttempts
                    then SlotCompleted (slot_reviewed current)
                    else SlotAwaitingRefill (slot_refillToken current)
                           (slot_refillAttempts current + 1) (slot_reviewed current))
                 slots)"

section \<open>Continue\<close>

definition continueElapsedSeconds :: "int \<Rightarrow> int \<Rightarrow> int" where
  "continueElapsedSeconds startedAt now = max 0 ((now - startedAt) div 1000)"

definition pad_start :: "nat \<Rightarrow> char \<Rightarrow> jsstring \<Rightarrow> jsstring" where
  "pad_start n c s = replicate (n - length s) c @ s"

text \<open>\<open>%\<close> takes the sign of the dividend; the callers pass a non-negative count.\<close>

definition formatContinueElapsed :: "int \<Rightarrow> jsstring" where
  "formatContinueElapsed totalSeconds =
     (let minutes = totalSeconds div 60;
          seconds = sgn totalSeconds * (\<bar>totalSeconds\<bar> mod 60)
      in dec_of_int minutes @ '':'' @ pad_start 2 CHR ''0'' (dec_of_int seconds))"

definition CONTINUE_TICK_AFTER_SECONDS :: int where
  "CONTINUE_TICK_AFTER_SECONDS = 5"

definition CONTINUE_SLOW_AFTER_SECONDS :: int where
  "CONTINUE_SLOW_AFTER_SECONDS = 45"

definition continuingStatusText :: "catalog \<Rightarrow> int \<Rightarrow> jsstring \<Rightarrow> jsstring" where
  "continuingStatusText cat elapsedSeconds topicName =
     (if elapsedSeconds \<ge> CONTINUE_SLOW_AFTER_SECONDS
      then i18n_tf cat ''flow.continuing_slow_description''
             [(''topic'', topicName), (''elapsed'', formatContinueElapsed elapsedSeconds)]
      else if elapsedSeconds \<ge> CONTINUE_TICK_AFTER_SECONDS
      then i18n_tf cat ''flow.continuing_elapsed_description''
             [(''topic'', topicName), (''elapsed'', formatContinueElapsed elapsedSeconds)]
      else i18n_tf cat ''flow.continuing_description'' [(''topic'', topicName)])"

definition continuable :: "bigint \<Rightarrow> ReviewSlot \<Rightarrow> bool" where
  "continuable reviewedCardId c \<longleftrightarrow>
     (is_SlotCompleted c \<or> is_SlotContinueError c) \<and>
     ri_reviewedCardId (slot_reviewed c) = reviewedCardId"

definition startContinue ::
    "int \<Rightarrow> ReviewSlot list \<Rightarrow> bigint \<Rightarrow> ContinueAttempt \<Rightarrow> ReviewSlot list" where
  "startContinue now slots reviewedCardId attempt =
     (case find (continuable reviewedCardId) slots of
        None \<Rightarrow> slots
      | Some slot \<Rightarrow>
          if ri_tipcardType (slot_reviewed slot) \<noteq> ''repeatable_tip'' \<or>
             ca_topicName attempt \<noteq> ri_topicName (slot_reviewed slot)
          then slots
          else map_where (continuable reviewedCardId)
                 (\<lambda>current.
                    if is_SlotCompleted current
                    then SlotContinuing 1 attempt now (slot_reviewed current)
                    else SlotContinuing (slot_generation current + 1) attempt now
                           (slot_reviewed current))
                 slots)"

definition continuing :: "bigint \<Rightarrow> int \<Rightarrow> ReviewSlot \<Rightarrow> bool" where
  "continuing reviewedCardId generation c \<longleftrightarrow>
     is_SlotContinuing c \<and> ri_reviewedCardId (slot_reviewed c) = reviewedCardId \<and>
     slot_generation c = generation"

definition continueSuccess ::
    "ReviewSlot list \<Rightarrow> bigint \<Rightarrow> int \<Rightarrow> FlowCardInfo \<Rightarrow> int \<Rightarrow> ReviewSlot list" where
  "continueSuccess slots reviewedCardId generation fcard pendingCount =
     (case find (continuing reviewedCardId generation) slots of
        None \<Rightarrow> slots
      | Some slot \<Rightarrow>
          if fc_topicName fcard \<noteq> ri_topicName (slot_reviewed slot) \<or>
             fc_tipcardType fcard \<noteq> ''repeatable_tip'' \<or>
             fc_status fcard \<noteq> ''active''
          then slots
          else map_where (continuing reviewedCardId generation)
                 (\<lambda>current. SlotIdle (fcard\<lparr>fc_pinned := ri_pinned (slot_reviewed current),
                                           fc_pendingCount := pendingCount\<rparr>))
                 slots)"

definition continueFailure ::
    "ReviewSlot list \<Rightarrow> bigint \<Rightarrow> int \<Rightarrow> FailureFields \<Rightarrow> ReviewSlot list" where
  "continueFailure slots reviewedCardId generation failure =
     (case find (continuing reviewedCardId generation) slots of
        None \<Rightarrow> slots
      | Some slot \<Rightarrow>
          map_where (continuing reviewedCardId generation)
            (\<lambda>current. SlotContinueError (slot_generation current) (slot_continueAttempt current)
               (ff_mutationOutcomeIndeterminate failure) (ff_message failure)
               (slot_reviewed current))
            slots)"

definition continueRetryDecision :: "ReviewSlot \<Rightarrow> js_error + ContinueRetryDecision" where
  "continueRetryDecision slot =
     (if \<not> is_SlotContinueError slot
      then Inl (TypeError ''continueRetryDecision requires a continueError slot'')
      else if slot_indeterminate slot
      then Inr (ReuseContinueAttempt (slot_continueAttempt slot) (slot_generation slot))
      else Inr (ContinueNeedsNewKey (ca_topicName (slot_continueAttempt slot)) (slot_generation slot)))"

end
