(* ===== verification/Review_Lifecycle.thy ===== *)
theory Review_Lifecycle
  imports Review_State
begin

text \<open>
  What the transitions of \<open>Review_State\<close> promise. \<open>slot_step\<close> is the lifecycle of one slot
  as an inductive relation; \<open>review_apply\<close> runs one event of the component on the slot
  list. The lemmas show that an event touches only its own card's slot, that on lists with
  distinct card ids it refines the lifecycle, that it keeps slots well formed, and that a
  response commits at most once and never under a stale generation.
\<close>

section \<open>Projections\<close>

definition slotCardId :: "ReviewSlot \<Rightarrow> bigint" where
  "slotCardId slot = (if is_live slot then fc_id (slot_card slot) else ri_reviewedCardId (slot_reviewed slot))"

lemma is_live_simps [simp]:
  "is_live (SlotIdle c)" "is_live (SlotReviewing c g a)" "is_live (SlotError c g a b m)"
  "\<not> is_live (SlotCompleted ri)" "\<not> is_live (SlotAwaitingRefill tok n ri)"
  "\<not> is_live (SlotContinuing g ca st ri)" "\<not> is_live (SlotContinueError g ca b m ri)"
  by (simp_all add: is_live_def)

lemma slotCardId_simps [simp]:
  "slotCardId (SlotIdle c) = fc_id c" "slotCardId (SlotReviewing c g a) = fc_id c"
  "slotCardId (SlotError c g a b m) = fc_id c"
  "slotCardId (SlotCompleted ri) = ri_reviewedCardId ri"
  "slotCardId (SlotAwaitingRefill tok n ri) = ri_reviewedCardId ri"
  "slotCardId (SlotContinuing g ca st ri) = ri_reviewedCardId ri"
  "slotCardId (SlotContinueError g ca b m ri) = ri_reviewedCardId ri"
  by (simp_all add: slotCardId_def)

lemma reviewed_identity_simps [simp]:
  "ri_reviewedCardId (reviewed_identity k c) = k"
  "ri_topicName (reviewed_identity k c) = fc_topicName c"
  "ri_title (reviewed_identity k c) = fc_title c"
  "ri_createdAt (reviewed_identity k c) = fc_createdAt c"
  "ri_tipcardType (reviewed_identity k c) = fc_tipcardType c"
  "ri_pinned (reviewed_identity k c) = fc_pinned c"
  by (simp_all add: reviewed_identity_def)

lemma selector_simps [slot_simps]:
  "startable k s \<longleftrightarrow> (\<exists>c. s = SlotIdle c \<and> fc_id c = k) \<or> (\<exists>c g a b m. s = SlotError c g a b m \<and> fc_id c = k)"
  "reviewing_card k s \<longleftrightarrow> (\<exists>c g a. s = SlotReviewing c g a \<and> fc_id c = k)"
  "isReviewing s g \<longleftrightarrow> (\<exists>c a. s = SlotReviewing c g a)"
  "awaiting k tok s \<longleftrightarrow> (\<exists>n ri. s = SlotAwaitingRefill tok n ri \<and> ri_reviewedCardId ri = k)"
  "continuable k s \<longleftrightarrow> (\<exists>ri. s = SlotCompleted ri \<and> ri_reviewedCardId ri = k) \<or>
     (\<exists>g ca b m ri. s = SlotContinueError g ca b m ri \<and> ri_reviewedCardId ri = k)"
  "continuing k g s \<longleftrightarrow> (\<exists>ca st ri. s = SlotContinuing g ca st ri \<and> ri_reviewedCardId ri = k)"
  by (cases s; auto simp: startable_def reviewing_card_def isReviewing_def awaiting_def
        continuable_def continuing_def)+

section \<open>Events\<close>

datatype ReviewEvent =
    EvStart bigint ReviewAttempt
  | EvSuccess bigint int ReviewSuccessFields
  | EvFailure bigint int FailureFields
  | EvRefillFound bigint int FlowCardInfo
  | EvRefillMiss bigint int int
  | EvStartContinue int bigint ContinueAttempt
  | EvContinueSuccess bigint int FlowCardInfo int
  | EvContinueFailure bigint int FailureFields

fun event_target :: "ReviewEvent \<Rightarrow> bigint" where
  "event_target (EvStart k a) = k"
| "event_target (EvSuccess k g r) = k"
| "event_target (EvFailure k g f) = k"
| "event_target (EvRefillFound k tok c) = k"
| "event_target (EvRefillMiss k tok n) = k"
| "event_target (EvStartContinue now k a) = k"
| "event_target (EvContinueSuccess k g c n) = k"
| "event_target (EvContinueFailure k g f) = k"

fun review_apply :: "ReviewSlot list \<Rightarrow> ReviewEvent \<Rightarrow> ReviewSlot list" where
  "review_apply slots (EvStart k a) = startReview slots k a"
| "review_apply slots (EvSuccess k g r) = reviewSuccess slots k g r"
| "review_apply slots (EvFailure k g f) = reviewFailure slots k g f"
| "review_apply slots (EvRefillFound k tok c) = refillPollFound slots k tok c"
| "review_apply slots (EvRefillMiss k tok n) = refillPollMiss slots k tok n"
| "review_apply slots (EvStartContinue now k a) = startContinue now slots k a"
| "review_apply slots (EvContinueSuccess k g c n) = continueSuccess slots k g c n"
| "review_apply slots (EvContinueFailure k g f) = continueFailure slots k g f"

lemmas review_ops = startReview_def reviewSuccess_def reviewFailure_def refillPollFound_def
  findAwaitingRefill_def refillPollMiss_def startContinue_def continueSuccess_def
  continueFailure_def

text \<open>Every operation is the identity or a \<open>map_where\<close> on slots of its own card.\<close>

definition only_own_card :: "bigint \<Rightarrow> ReviewSlot list \<Rightarrow> ReviewSlot list \<Rightarrow> bool" where
  "only_own_card k xs ys \<longleftrightarrow>
     ys = xs \<or> (\<exists>p f. ys = map_where p f xs \<and> (\<forall>s. p s \<longrightarrow> slotCardId s = k))"

lemma only_own_card_refl [simp, intro]: "only_own_card k xs xs"
  by (simp add: only_own_card_def)

lemma only_own_card_map_where [intro]:
  "(\<And>s. p s \<Longrightarrow> slotCardId s = k) \<Longrightarrow> only_own_card k xs (map_where p f xs)"
  unfolding only_own_card_def by blast

lemma review_apply_shape: "only_own_card (event_target e) slots (review_apply slots e)"
  by (cases e)
    (auto simp: review_ops Let_def slot_simps split: option.splits intro!: only_own_card_map_where)

lemma review_apply_length [simp]: "length (review_apply slots e) = length slots"
  using review_apply_shape [of e slots] by (auto simp: only_own_card_def)

lemma review_apply_frame:
  "i < length slots \<Longrightarrow> slotCardId (slots ! i) \<noteq> event_target e \<Longrightarrow> review_apply slots e ! i = slots ! i"
  using review_apply_shape [of e slots] by (auto simp: only_own_card_def nth_map_where)

section \<open>The lifecycle of one slot\<close>

definition continues_topic :: "ReviewedSlotIdentity \<Rightarrow> ContinueAttempt \<Rightarrow> bool" where
  "continues_topic ri a \<longleftrightarrow> ri_tipcardType ri = ''repeatable_tip'' \<and> ca_topicName a = ri_topicName ri"

definition replaces_topic :: "ReviewedSlotIdentity \<Rightarrow> FlowCardInfo \<Rightarrow> bool" where
  "replaces_topic ri n \<longleftrightarrow>
     fc_topicName n = ri_topicName ri \<and> fc_tipcardType n = ''repeatable_tip'' \<and> fc_status n = ''active''"

inductive slot_step :: "ReviewSlot \<Rightarrow> ReviewSlot \<Rightarrow> bool" where
  begin_review: "slot_step (SlotIdle c) (SlotReviewing c 1 a)"
| retry_review: "slot_step (SlotError c g a0 b m) (SlotReviewing c (g + 1) a)"
| advance: "slot_step (SlotReviewing c g a)
     (SlotIdle (n\<lparr>fc_pinned := fc_pinned c, fc_pendingCount := p\<rparr>))"
| complete: "slot_step (SlotReviewing c g a) (SlotCompleted (reviewed_identity (fc_id c) c))"
| schedule: "slot_step (SlotReviewing c g a) (SlotAwaitingRefill g 0 (reviewed_identity (fc_id c) c))"
| fail_review: "slot_step (SlotReviewing c g a) (SlotError c g a b m)"
| refilled: "replaces_topic ri n \<Longrightarrow> fc_id n \<noteq> ri_reviewedCardId ri \<Longrightarrow>
     slot_step (SlotAwaitingRefill tok k ri) (SlotIdle (n\<lparr>fc_pinned := ri_pinned ri\<rparr>))"
| missed: "slot_step (SlotAwaitingRefill tok k ri) (SlotAwaitingRefill tok (k + 1) ri)"
| gave_up: "slot_step (SlotAwaitingRefill tok k ri) (SlotCompleted ri)"
| begin_continue: "continues_topic ri a \<Longrightarrow> slot_step (SlotCompleted ri) (SlotContinuing 1 a st ri)"
| retry_continue: "continues_topic ri a \<Longrightarrow>
     slot_step (SlotContinueError g a0 b m ri) (SlotContinuing (g + 1) a st ri)"
| continued: "replaces_topic ri n \<Longrightarrow> slot_step (SlotContinuing g a st ri)
     (SlotIdle (n\<lparr>fc_pinned := ri_pinned ri, fc_pendingCount := p\<rparr>))"
| fail_continue: "slot_step (SlotContinuing g a st ri) (SlotContinueError g a b m ri)"

inductive_cases slot_step_IdleE: "slot_step (SlotIdle c) t"
inductive_cases slot_step_CompletedE: "slot_step (SlotCompleted ri) t"
inductive_simps slot_step_to_Reviewing: "slot_step s (SlotReviewing c g a)"
inductive_simps slot_step_to_Completed: "slot_step s (SlotCompleted ri)"

abbreviation slot_steps :: "ReviewSlot \<Rightarrow> ReviewSlot \<Rightarrow> bool" where
  "slot_steps \<equiv> slot_step\<^sup>=\<^sup>="

lemma list_all2_map_where:
  "(\<And>s. s \<in> set xs \<Longrightarrow> p s \<Longrightarrow> R s (f s)) \<Longrightarrow> (\<And>s. R s s) \<Longrightarrow> list_all2 R xs (map_where p f xs)"
  by (induction xs) auto

definition distinct_cards :: "ReviewSlot list \<Rightarrow> bool" where
  "distinct_cards slots \<longleftrightarrow> distinct (map slotCardId slots)"

lemma distinct_cards_unique:
  "distinct_cards slots \<Longrightarrow> s \<in> set slots \<Longrightarrow> s' \<in> set slots \<Longrightarrow> slotCardId s = slotCardId s' \<Longrightarrow> s = s'"
  unfolding distinct_cards_def by (auto simp: distinct_map dest: inj_onD)

lemma find_unique:
  assumes "distinct_cards slots" and "find p slots = Some slot" and "\<And>s. p s \<Longrightarrow> slotCardId s = k"
    and "s \<in> set slots" and "slotCardId s = k"
  shows "s = slot"
  using assms by (metis distinct_cards_unique find_Some_props)

text \<open>The refinement, operation by operation.\<close>

lemma refine_map_where:
  assumes d: "distinct_cards slots" and f: "find q slots = Some slot"
    and q: "\<And>s. q s \<Longrightarrow> slotCardId s = k" and p: "\<And>s. p s \<Longrightarrow> slotCardId s = k"
    and step: "q slot \<Longrightarrow> p slot \<Longrightarrow> slot_steps slot (upd slot)"
  shows "list_all2 slot_steps slots (map_where p upd slots)"
proof (rule list_all2_map_where)
  fix s assume s: "s \<in> set slots" "p s"
  with p have "slotCardId s = k" by blast
  with d f q s have "s = slot" by (auto intro: find_unique)
  with s f step show "slot_steps s (upd s)" by (auto dest: find_Some_props)
qed simp

lemma list_all2_slot_steps_refl [simp]: "list_all2 slot_steps xs xs"
  by (simp add: list.rel_refl)

lemma refine_startReview: "distinct_cards slots \<Longrightarrow> list_all2 slot_steps slots (startReview slots k a)"
  unfolding startReview_def Let_def
  by (auto split: option.splits intro!: refine_map_where [where q = "startable k" and k = k]
      simp: slot_simps slot_step.intros)

lemma refine_reviewSuccess: "distinct_cards slots \<Longrightarrow> list_all2 slot_steps slots (reviewSuccess slots k g r)"
  unfolding reviewSuccess_def Let_def
  by (auto split: option.splits intro!: refine_map_where [where q = "reviewing_card k" and k = k]
      simp: slot_simps slot_step.intros)

lemma refine_reviewFailure: "distinct_cards slots \<Longrightarrow> list_all2 slot_steps slots (reviewFailure slots k g f)"
  unfolding reviewFailure_def
  by (auto split: option.splits intro!: refine_map_where [where q = "reviewing_card k" and k = k]
      simp: slot_simps slot_step.intros)

lemma refine_refillPollFound:
  "distinct_cards slots \<Longrightarrow> list_all2 slot_steps slots (refillPollFound slots k tok n)"
  unfolding refillPollFound_def findAwaitingRefill_def
  by (auto split: option.splits intro!: refine_map_where [where q = "awaiting k tok" and k = k]
      simp: slot_simps replaces_topic_def slot_step.intros)

lemma refine_refillPollMiss:
  "distinct_cards slots \<Longrightarrow> list_all2 slot_steps slots (refillPollMiss slots k tok n)"
  unfolding refillPollMiss_def findAwaitingRefill_def
  by (auto split: option.splits intro!: refine_map_where [where q = "awaiting k tok" and k = k]
      simp: slot_simps slot_step.intros)

lemma refine_startContinue:
  "distinct_cards slots \<Longrightarrow> list_all2 slot_steps slots (startContinue now slots k a)"
  unfolding startContinue_def
  by (auto split: option.splits intro!: refine_map_where [where q = "continuable k" and k = k]
      simp: slot_simps continues_topic_def slot_step.intros)

lemma refine_continueSuccess:
  "distinct_cards slots \<Longrightarrow> list_all2 slot_steps slots (continueSuccess slots k g n p)"
  unfolding continueSuccess_def
  by (auto split: option.splits intro!: refine_map_where [where q = "continuing k g" and k = k]
      simp: slot_simps replaces_topic_def slot_step.intros)

lemma refine_continueFailure:
  "distinct_cards slots \<Longrightarrow> list_all2 slot_steps slots (continueFailure slots k g f)"
  unfolding continueFailure_def
  by (auto split: option.splits intro!: refine_map_where [where q = "continuing k g" and k = k]
      simp: slot_simps slot_step.intros)

lemmas refine_ops = refine_startReview refine_reviewSuccess refine_reviewFailure
  refine_refillPollFound refine_refillPollMiss refine_startContinue refine_continueSuccess
  refine_continueFailure

lemma review_apply_refines: "distinct_cards slots \<Longrightarrow> list_all2 slot_steps slots (review_apply slots e)"
  by (cases e) (simp_all add: refine_ops)

section \<open>Well-formed slots\<close>

fun slot_ok :: "ReviewSlot \<Rightarrow> bool" where
  "slot_ok (SlotIdle c) = True"
| "slot_ok (SlotReviewing c g a) = (1 \<le> g)"
| "slot_ok (SlotError c g a b m) = (1 \<le> g)"
| "slot_ok (SlotCompleted ri) = True"
| "slot_ok (SlotAwaitingRefill tok n ri) = (1 \<le> tok \<and> 0 \<le> n)"
| "slot_ok (SlotContinuing g a st ri) = (1 \<le> g \<and> continues_topic ri a)"
| "slot_ok (SlotContinueError g a b m ri) = (1 \<le> g \<and> continues_topic ri a)"

definition slots_inv :: "ReviewSlot list \<Rightarrow> bool" where
  "slots_inv slots \<longleftrightarrow> distinct_cards slots \<and> (\<forall>s \<in> set slots. slot_ok s)"

lemma slot_step_ok: "slot_step s s' \<Longrightarrow> slot_ok s \<Longrightarrow> slot_ok s'"
  by (induction rule: slot_step.induct) (auto simp: continues_topic_def)

lemma list_all2_steps_ok:
  "list_all2 slot_steps xs ys \<Longrightarrow> \<forall>s \<in> set xs. slot_ok s \<Longrightarrow> \<forall>s \<in> set ys. slot_ok s"
  by (induction rule: list_all2_induct) (auto intro: slot_step_ok)

text \<open>The card a response brings, and the server's promise that no other slot shows it.\<close>

fun delivered :: "ReviewEvent \<Rightarrow> FlowCardInfo option" where
  "delivered (EvSuccess k g r) = rs_nextCard r"
| "delivered (EvRefillFound k tok c) = Some c"
| "delivered (EvContinueSuccess k g c n) = Some c"
| "delivered _ = None"

definition fresh_event :: "ReviewSlot list \<Rightarrow> ReviewEvent \<Rightarrow> bool" where
  "fresh_event slots e \<longleftrightarrow>
     (case delivered e of None \<Rightarrow> True
      | Some n \<Rightarrow> \<forall>s \<in> set slots. slotCardId s = fc_id n \<longrightarrow> slotCardId s = event_target e)"

text \<open>A slot keeps its card id unless its own event brings it a new card.\<close>

definition id_ok :: "ReviewEvent \<Rightarrow> ReviewSlot \<Rightarrow> ReviewSlot \<Rightarrow> bool" where
  "id_ok e s s' \<longleftrightarrow> slotCardId s' = slotCardId s \<or>
     slotCardId s = event_target e \<and> (\<exists>n. delivered e = Some n \<and> slotCardId s' = fc_id n)"

lemma id_ok_refl [simp]: "id_ok e s s" "list_all2 (id_ok e) xs xs"
  by (auto simp: id_ok_def intro: list.rel_refl)

lemma review_apply_ids: "list_all2 (id_ok e) slots (review_apply slots e)"
  by (cases e)
    (auto simp: review_ops Let_def slot_simps id_ok_def [of "_ :: ReviewEvent" "_ _"]
      split: option.splits intro!: list_all2_map_where)

lemma distinct_cards_apply:
  assumes d: "distinct_cards slots" and fresh: "fresh_event slots e"
  shows "distinct_cards (review_apply slots e)"
proof -
  let ?ys = "review_apply slots e"
  have ids: "id_ok e (slots ! i) (?ys ! i)" if "i < length slots" for i
    using review_apply_ids that by (auto simp: list_all2_conv_all_nth)
  have "slotCardId (?ys ! i) \<noteq> slotCardId (?ys ! j)"
    if ij: "i < length slots" "j < length slots" "i \<noteq> j" for i j
  proof -
    have ne: "slotCardId (slots ! i) \<noteq> slotCardId (slots ! j)"
      using d ij by (simp add: distinct_cards_def distinct_conv_nth)
    show ?thesis
    proof (cases "delivered e")
      case None
      with ne ids [OF ij(1)] ids [OF ij(2)] show ?thesis by (simp add: id_ok_def)
    next
      case (Some n)
      with fresh ij have
        "slotCardId (slots ! i) = fc_id n \<longrightarrow> slotCardId (slots ! i) = event_target e"
        "slotCardId (slots ! j) = fc_id n \<longrightarrow> slotCardId (slots ! j) = event_target e"
        by (auto simp: fresh_event_def)
      with Some ne ids [OF ij(1)] ids [OF ij(2)] show ?thesis
        unfolding id_ok_def by (metis option.inject)
    qed
  qed
  then show ?thesis
    by (simp add: distinct_cards_def distinct_conv_nth)
qed

lemma slots_inv_apply: "slots_inv slots \<Longrightarrow> fresh_event slots e \<Longrightarrow> slots_inv (review_apply slots e)"
  using list_all2_steps_ok [OF review_apply_refines] distinct_cards_apply
  by (auto simp: slots_inv_def)

inductive review_reachable :: "ReviewSlot list \<Rightarrow> ReviewSlot list \<Rightarrow> bool" for start where
  review_start: "review_reachable start start"
| review_event: "review_reachable start slots \<Longrightarrow> fresh_event slots e \<Longrightarrow>
     review_reachable start (review_apply slots e)"

lemma review_reachable_inv:
  "review_reachable start slots \<Longrightarrow> slots_inv start \<Longrightarrow> slots_inv slots \<and> length slots = length start"
  by (induction rule: review_reachable.induct) (auto intro: slots_inv_apply)

section \<open>Responses commit once\<close>

text \<open>A response for \<open>k\<close> under generation \<open>g\<close> is accepted when the first slot reviewing \<open>k\<close> waits for it.\<close>

definition accepts :: "ReviewSlot list \<Rightarrow> bigint \<Rightarrow> int \<Rightarrow> bool" where
  "accepts slots k g \<longleftrightarrow> (\<exists>s. find (reviewing_card k) slots = Some s \<and> isReviewing s g)"

definition waits_for :: "bigint \<Rightarrow> int \<Rightarrow> ReviewSlot \<Rightarrow> bool" where
  "waits_for k g s \<longleftrightarrow> reviewing_card k s \<and> isReviewing s g"

lemma map_where_cleared:
  "(\<And>s. p s \<Longrightarrow> \<not> q (f s)) \<Longrightarrow> (\<And>s. q s \<Longrightarrow> p s) \<Longrightarrow> \<forall>s \<in> set (map_where p f xs). \<not> q s"
  by (auto simp: map_where_def)

lemma not_accepted:
  assumes "\<not> accepts slots k g"
  shows "reviewSuccess slots k g r = slots" and "reviewFailure slots k g f = slots"
  using assms by (auto simp: accepts_def reviewSuccess_def reviewFailure_def split: option.splits)

lemma nobody_waits: "\<forall>s \<in> set slots. \<not> waits_for k g s \<Longrightarrow> \<not> accepts slots k g"
  by (auto simp: accepts_def waits_for_def dest: find_Some_props)

lemma success_clears: "accepts slots k g \<Longrightarrow> \<forall>s \<in> set (reviewSuccess slots k g r). \<not> waits_for k g s"
  unfolding accepts_def reviewSuccess_def
  by (elim exE conjE, simp only: option.case if_False not_True_eq_False, rule map_where_cleared)
    (auto simp: Let_def waits_for_def slot_simps split: option.splits if_splits)

lemma failure_clears: "accepts slots k g \<Longrightarrow> \<forall>s \<in> set (reviewFailure slots k g f). \<not> waits_for k g s"
  unfolding accepts_def reviewFailure_def
  by (elim exE conjE, simp only: option.case if_False not_True_eq_False, rule map_where_cleared)
    (auto simp: waits_for_def slot_simps)

lemma settled:
  "\<not> accepts (reviewSuccess slots k g r) k g" "\<not> accepts (reviewFailure slots k g f) k g"
  by (cases "accepts slots k g"; simp add: success_clears failure_clears nobody_waits not_accepted)+

text \<open>A retry moves the slot to the next generation, where no older response can reach it.\<close>

lemma distinct_find:
  assumes "distinct_cards slots" and "s \<in> set slots" and "q s" and "\<And>s'. q s' \<Longrightarrow> slotCardId s' = slotCardId s"
  shows "find q slots = Some s"
  using assms by (intro find_distinct) (auto dest: distinct_cards_unique)

lemma review_at:
  assumes d: "distinct_cards slots" and i: "i < length slots" and s: "slots ! i = SlotReviewing c g a"
  shows "find (reviewing_card (fc_id c)) slots = Some (SlotReviewing c g a)"
    and "reviewFailure slots (fc_id c) g f ! i =
           SlotError c g a (ff_mutationOutcomeIndeterminate f) (ff_message f)"
proof -
  have "SlotReviewing c g a \<in> set slots" using i s by (metis nth_mem)
  then show f: "find (reviewing_card (fc_id c)) slots = Some (SlotReviewing c g a)"
    by (intro distinct_find [OF d]) (auto simp: slot_simps)
  show "reviewFailure slots (fc_id c) g f ! i =
          SlotError c g a (ff_mutationOutcomeIndeterminate f) (ff_message f)"
    using i s by (simp add: reviewFailure_def f isReviewing_def nth_map_where)
qed

lemma distinct_after: "distinct_cards slots \<Longrightarrow> delivered e = None \<Longrightarrow> distinct_cards (review_apply slots e)"
  by (rule distinct_cards_apply) (simp_all add: fresh_event_def)

lemma start_at:
  assumes d: "distinct_cards slots" and i: "i < length slots"
    and s: "slots ! i = SlotError c g a b m"
  shows "startReview slots (fc_id c) a' ! i = SlotReviewing c (g + 1) a'"
proof -
  have "SlotError c g a b m \<in> set slots" using i s by (metis nth_mem)
  then have "find (startable (fc_id c)) slots = Some (SlotError c g a b m)"
    by (intro distinct_find [OF d]) (auto simp: slot_simps)
  then show ?thesis using i s by (simp add: startReview_def nth_map_where startable_def)
qed

lemma stale_generation:
  assumes d: "distinct_cards slots" and i: "i < length slots"
    and s: "slots ! i = SlotReviewing c g a" and g': "g' \<noteq> g"
  shows "reviewSuccess slots (fc_id c) g' r = slots" and "reviewFailure slots (fc_id c) g' f = slots"
proof -
  have "\<not> accepts slots (fc_id c) g'"
    using review_at(1) [OF d i s] g' by (simp add: accepts_def isReviewing_def)
  then show "reviewSuccess slots (fc_id c) g' r = slots" "reviewFailure slots (fc_id c) g' f = slots"
    by (rule not_accepted)+
qed

section \<open>Properties\<close>

text \<open>C1: every event of the review component refines the slot lifecycle: on a slot list with
  distinct card ids each slot either keeps its state or makes one step of \<open>slot_step\<close>, and
  the list keeps its length.\<close>

theorem review_refines_lifecycle:
  assumes "distinct_cards slots"
  shows "list_all2 slot_steps slots (review_apply slots e) \<and>
         (\<forall>i < length slots. slotCardId (slots ! i) \<noteq> event_target e \<longrightarrow>
            review_apply slots e ! i = slots ! i)"
  using review_apply_refines [OF assms] review_apply_frame by blast

definition two_slots :: "ReviewSlot list" where
  "two_slots =
     [SlotReviewing (sample_card 7 ''math'' ''repeatable_tip'' True) 1 \<lparr>ra_grade = 5, ra_action = ActionLearned, ra_idempotencyKey = ''k1''\<rparr>,
      SlotIdle (sample_card 8 ''art'' ''casual_tip'' False)]"

lemma two_slots_ok [simp]: "distinct_cards two_slots" "slots_inv two_slots"
  by (simp_all add: two_slots_def distinct_cards_def slots_inv_def)

theorem review_refines_lifecycle_witness:
  "list_all2 slot_steps two_slots (review_apply two_slots (EvStart 8 \<lparr>ra_grade = 3, ra_action = ActionAcknowledge, ra_idempotencyKey = ''k2''\<rparr>))"
  using review_refines_lifecycle [OF two_slots_ok(1)] by blast




text \<open>C4: a retry supersedes the failed request: after the failure of a review in flight at
  generation \<open>g\<close> and a new start, the slot is in flight at \<open>g + 1\<close> with the new attempt, and a
  response under any other generation (the late answer of the first request, in
  particular) changes nothing.\<close>

theorem review_retry_supersedes:
  assumes "distinct_cards slots" and "i < length slots" and "slots ! i = SlotReviewing c g a"
    and "g' \<noteq> g + 1"
  shows "let s' = startReview (reviewFailure slots (fc_id c) g f) (fc_id c) a'
         in s' ! i = SlotReviewing c (g + 1) a' \<and>
            reviewSuccess s' (fc_id c) g' r = s' \<and> reviewFailure s' (fc_id c) g' f' = s'"
proof -
  let ?s1 = "reviewFailure slots (fc_id c) g f"
  let ?s2 = "startReview ?s1 (fc_id c) a'"
  have d1: "distinct_cards ?s1" using distinct_after [OF assms(1), of "EvFailure (fc_id c) g f"] by simp
  have d2: "distinct_cards ?s2" using distinct_after [OF d1, of "EvStart (fc_id c) a'"] by simp
  have len: "length ?s1 = length slots" "length ?s2 = length slots"
    using review_apply_length [of slots "EvFailure (fc_id c) g f"]
      review_apply_length [of ?s1 "EvStart (fc_id c) a'"] by simp_all
  have at: "?s2 ! i = SlotReviewing c (g + 1) a'"
    by (rule start_at [OF d1]) (use assms(2) len review_at(2) [OF assms(1-3)] in auto)
  show ?thesis
    using at stale_generation [OF d2 _ at assms(4)] assms(2) len by (simp add: Let_def)
qed

theorem review_retry_supersedes_witness:
  "startReview (reviewFailure two_slots 7 1 \<lparr>ff_mutationOutcomeIndeterminate = True, ff_message = ''lost''\<rparr>) 7
     \<lparr>ra_grade = 5, ra_action = ActionLearned, ra_idempotencyKey = ''k1''\<rparr> ! 0 =
   SlotReviewing (sample_card 7 ''math'' ''repeatable_tip'' True) 2 \<lparr>ra_grade = 5, ra_action = ActionLearned, ra_idempotencyKey = ''k1''\<rparr>"
proof -
  have at: "two_slots ! 0 = SlotReviewing (sample_card 7 ''math'' ''repeatable_tip'' True) 1 \<lparr>ra_grade = 5, ra_action = ActionLearned, ra_idempotencyKey = ''k1''\<rparr>"
    and len: "0 < length two_slots" by (simp_all add: two_slots_def)
  show ?thesis
    using review_retry_supersedes [OF two_slots_ok(1) len at, of 1] by (simp add: Let_def)
qed

text \<open>The retry decision preserves the payload: failing a review in flight leaves an error
  slot whose retry reuses the exact attempt, idempotency key included, when the outcome was
  indeterminate, and otherwise asks for a new key for the same grade and action; asking for a
  decision on any other kind of slot is a TypeError.\<close>

theorem review_failure_retry_decision:
  assumes "distinct_cards slots" and "i < length slots" and "slots ! i = SlotReviewing c g a"
  shows "retryDecision (reviewFailure slots (fc_id c) g f ! i) =
           (if ff_mutationOutcomeIndeterminate f then Inr (ReuseAttempt a g)
            else Inr (NeedsNewKey (ra_grade a) (ra_action a) g)) \<and>
         retryDecision (slots ! i) = Inl (TypeError ''retryDecision requires an errored review slot'')"
  using review_at(2) [OF assms] assms(3) by (simp add: retryDecision_def)

theorem review_failure_retry_decision_witness:
  "retryDecision (reviewFailure two_slots 7 1 \<lparr>ff_mutationOutcomeIndeterminate = True, ff_message = ''lost''\<rparr> ! 0) =
     Inr (ReuseAttempt \<lparr>ra_grade = 5, ra_action = ActionLearned, ra_idempotencyKey = ''k1''\<rparr> 1)"
proof -
  have at: "two_slots ! 0 = SlotReviewing (sample_card 7 ''math'' ''repeatable_tip'' True) 1 \<lparr>ra_grade = 5, ra_action = ActionLearned, ra_idempotencyKey = ''k1''\<rparr>"
    and len: "0 < length two_slots" by (simp_all add: two_slots_def)
  show ?thesis
    using review_failure_retry_decision [OF two_slots_ok(1) len at] by simp
qed

end
