(* ===== verification/Review_Refill.thy ===== *)
theory Review_Refill
  imports Review_Lifecycle
begin

text \<open>
  The placeholders of the review lifecycle: the bounded refill poll, the visual key of a
  repeatable slot, and the Continue mutation with its retry rule.
\<close>

section \<open>Refill polling\<close>

lemma awaiting_at:
  assumes d: "distinct_cards slots" and i: "i < length slots"
    and s: "slots ! i = SlotAwaitingRefill tok n ri"
  shows "find (awaiting (ri_reviewedCardId ri) tok) slots = Some (SlotAwaitingRefill tok n ri)"
proof -
  have "SlotAwaitingRefill tok n ri \<in> set slots" using i s by (metis nth_mem)
  then show ?thesis by (intro distinct_find [OF d]) (auto simp: slot_simps)
qed

lemma miss_at:
  assumes "distinct_cards slots" and "i < length slots"
    and "slots ! i = SlotAwaitingRefill tok n ri" and "0 \<le> n" and "n < m"
  shows "refillPollMiss slots (ri_reviewedCardId ri) tok m ! i =
           (if n + 1 \<ge> m then SlotCompleted ri else SlotAwaitingRefill tok (n + 1) ri)"
  using awaiting_at [OF assms(1-3)] assms
  by (auto simp: refillPollMiss_def findAwaitingRefill_def nth_map_where awaiting_def)

lemma miss_not_awaiting:
  assumes "distinct_cards slots" and "i < length slots" and "slots ! i = SlotCompleted ri"
  shows "refillPollMiss slots (ri_reviewedCardId ri) tok m ! i = slots ! i"
  using assms by (auto simp: refillPollMiss_def nth_map_where awaiting_def split: option.splits)

lemma miss_distinct: "distinct_cards slots \<Longrightarrow> distinct_cards (refillPollMiss slots k tok m)"
  using distinct_after [of slots "EvRefillMiss k tok m"] by simp

lemma miss_length [simp]: "length (refillPollMiss slots k tok m) = length slots"
  using review_apply_length [of slots "EvRefillMiss k tok m"] by simp

definition poll_misses :: "bigint \<Rightarrow> int \<Rightarrow> int \<Rightarrow> nat \<Rightarrow> ReviewSlot list \<Rightarrow> ReviewSlot list" where
  "poll_misses k tok m j slots = ((\<lambda>s. refillPollMiss s k tok m) ^^ j) slots"

lemma poll_misses_Suc: "poll_misses k tok m (Suc j) slots = refillPollMiss (poll_misses k tok m j slots) k tok m"
  by (simp add: poll_misses_def)

lemma poll_misses_shape: "distinct_cards slots \<Longrightarrow> distinct_cards (poll_misses k tok m j slots) \<and>
    length (poll_misses k tok m j slots) = length slots"
  by (induction j) (auto simp: poll_misses_def miss_distinct)

lemma poll_misses_at:
  assumes d: "distinct_cards slots" and i: "i < length slots"
    and s: "slots ! i = SlotAwaitingRefill tok 0 ri" and m: "1 \<le> m"
  shows "poll_misses (ri_reviewedCardId ri) tok m j slots ! i =
           (if int j < m then SlotAwaitingRefill tok (int j) ri else SlotCompleted ri)"
proof (induction j)
  case 0
  then show ?case using s m by (simp add: poll_misses_def)
next
  case (Suc j)
  let ?s = "poll_misses (ri_reviewedCardId ri) tok m j slots"
  have d': "distinct_cards ?s" and i': "i < length ?s" using poll_misses_shape [OF d] i by simp_all
  show ?case
  proof (cases "int j < m")
    case True
    then have "?s ! i = SlotAwaitingRefill tok (int j) ri" using Suc by simp
    from miss_at [OF d' i' this _ True] show ?thesis by (simp add: poll_misses_Suc add.commute)
  next
    case False
    then have "?s ! i = SlotCompleted ri" using Suc by simp
    with False miss_not_awaiting [OF d' i' this] show ?thesis by (simp add: poll_misses_Suc)
  qed
qed

section \<open>The visual key\<close>

definition repeatable_slot :: "ReviewSlot \<Rightarrow> bool" where
  "repeatable_slot s \<longleftrightarrow>
     (if is_live s then fc_tipcardType (slot_card s) else ri_tipcardType (slot_reviewed s)) = ''repeatable_tip''"

definition slot_topic :: "ReviewSlot \<Rightarrow> jsstring" where
  "slot_topic s = (if is_live s then fc_topicName (slot_card s) else ri_topicName (slot_reviewed s))"

lemma flowSlotKey_repeatable: "repeatable_slot s \<Longrightarrow> flowSlotKey s = ''repeatable:'' @ slot_topic s"
  by (auto simp: flowSlotKey_def repeatable_slot_def slot_topic_def split: if_splits)

text \<open>A delivered card continues the slot's topic when it is repeatable and of the same topic.\<close>

definition same_stack :: "ReviewEvent \<Rightarrow> ReviewSlot \<Rightarrow> bool" where
  "same_stack e s \<longleftrightarrow>
     (\<forall>k g r n. e = EvSuccess k g r \<longrightarrow> rs_nextCard r = Some n \<longrightarrow>
        fc_topicName n = slot_topic s \<and> fc_tipcardType n = ''repeatable_tip'')"

definition keeps_stack :: "ReviewEvent \<Rightarrow> ReviewSlot \<Rightarrow> ReviewSlot \<Rightarrow> bool" where
  "keeps_stack e s s' \<longleftrightarrow>
     (repeatable_slot s \<longrightarrow> same_stack e s \<longrightarrow> repeatable_slot s' \<and> slot_topic s' = slot_topic s)"

lemma keeps_stack_refl [simp]: "keeps_stack e s s" "list_all2 (keeps_stack e) xs xs"
  by (auto simp: keeps_stack_def intro: list.rel_refl)

lemma list_all2_guarded:
  assumes "distinct_cards slots" and "find q slots = Some slot" and "\<And>s. q s \<Longrightarrow> slotCardId s = k"
    and "\<And>s. p s \<Longrightarrow> slotCardId s = k" and "q slot \<Longrightarrow> p slot \<Longrightarrow> R slot (upd slot)" and "\<And>s. R s s"
  shows "list_all2 R slots (map_where p upd slots)"
proof (rule list_all2_map_where)
  fix s assume s: "s \<in> set slots" "p s"
  then have "s = slot" using assms(1-4) by (metis find_unique)
  with s assms(2,5) show "R s (upd s)" by (auto dest: find_Some_props)
qed (rule assms(6))

lemmas stack_simps = keeps_stack_def repeatable_slot_def slot_topic_def same_stack_def

lemma stack_start: "list_all2 (keeps_stack e) slots (startReview slots k a)"
  unfolding startReview_def Let_def
  by (simp split: option.split, intro allI impI conjI list_all2_map_where)
    (auto simp: slot_simps stack_simps)

lemma stack_committed:
  "keeps_stack (EvSuccess k g r) (SlotReviewing c g' a)
     (case rs_nextCard r of
        Some n \<Rightarrow> SlotIdle (n\<lparr>fc_pinned := fc_pinned c, fc_pendingCount := p\<rparr>)
      | None \<Rightarrow> if b then SlotCompleted (reviewed_identity k c) else SlotAwaitingRefill tok m (reviewed_identity k c))"
  by (cases "rs_nextCard r"; cases b) (simp_all add: stack_simps)

lemma stack_success: "list_all2 (keeps_stack (EvSuccess k g r)) slots (reviewSuccess slots k g r)"
  unfolding reviewSuccess_def Let_def
  by (simp split: option.split, intro allI impI conjI list_all2_map_where)
    (auto simp only: isReviewing_def ReviewSlot.sel ReviewSlot.collapse is_SlotReviewing_def
      stack_committed keeps_stack_refl)

lemma stack_failure: "list_all2 (keeps_stack e) slots (reviewFailure slots k g f)"
  unfolding reviewFailure_def
  by (simp split: option.split, intro allI impI conjI list_all2_map_where)
    (auto simp: slot_simps stack_simps)

lemma stack_found: "distinct_cards slots \<Longrightarrow> list_all2 (keeps_stack e) slots (refillPollFound slots k tok n)"
  unfolding refillPollFound_def findAwaitingRefill_def
  by (auto split: option.splits intro!: list_all2_guarded [where q = "awaiting k tok" and k = k]
      simp: slot_simps stack_simps)

lemma stack_miss: "list_all2 (keeps_stack e) slots (refillPollMiss slots k tok m)"
  unfolding refillPollMiss_def
  by (simp split: option.split, intro allI impI conjI list_all2_map_where)
    (auto simp: slot_simps stack_simps)

lemma stack_startContinue: "list_all2 (keeps_stack e) slots (startContinue now slots k a)"
  unfolding startContinue_def
  by (simp split: option.split, intro allI impI conjI list_all2_map_where)
    (auto simp: slot_simps stack_simps)

lemma stack_continued: "distinct_cards slots \<Longrightarrow> list_all2 (keeps_stack e) slots (continueSuccess slots k g n p)"
  unfolding continueSuccess_def
  by (auto split: option.splits intro!: list_all2_guarded [where q = "continuing k g" and k = k]
      simp: slot_simps stack_simps)

lemma stack_continueFailure: "list_all2 (keeps_stack e) slots (continueFailure slots k g f)"
  unfolding continueFailure_def
  by (simp split: option.split, intro allI impI conjI list_all2_map_where)
    (auto simp: slot_simps stack_simps)

lemma review_keeps_stack: "distinct_cards slots \<Longrightarrow> list_all2 (keeps_stack e) slots (review_apply slots e)"
  by (cases e) (simp_all add: stack_start stack_success stack_failure stack_found stack_miss
      stack_startContinue stack_continued stack_continueFailure)

section \<open>Continue\<close>

lemma continuable_at:
  assumes d: "distinct_cards slots" and i: "i < length slots" and s: "slots ! i = SlotCompleted ri"
  shows "find (continuable (ri_reviewedCardId ri)) slots = Some (SlotCompleted ri)"
proof -
  have "SlotCompleted ri \<in> set slots" using i s by (metis nth_mem)
  then show ?thesis by (intro distinct_find [OF d]) (auto simp: slot_simps)
qed

lemma continuing_at:
  assumes d: "distinct_cards slots" and i: "i < length slots" and s: "slots ! i = SlotContinuing g a st ri"
  shows "find (continuing (ri_reviewedCardId ri) g) slots = Some (SlotContinuing g a st ri)"
    and "g' \<noteq> g \<Longrightarrow> find (continuing (ri_reviewedCardId ri) g') slots = None"
proof -
  have m: "SlotContinuing g a st ri \<in> set slots" using i s by (metis nth_mem)
  then show "find (continuing (ri_reviewedCardId ri) g) slots = Some (SlotContinuing g a st ri)"
    by (intro distinct_find [OF d]) (auto simp: slot_simps)
  show "find (continuing (ri_reviewedCardId ri) g') slots = None" if "g' \<noteq> g"
  proof -
    have "\<not> continuing (ri_reviewedCardId ri) g' s'" if "s' \<in> set slots" for s'
    proof
      assume c: "continuing (ri_reviewedCardId ri) g' s'"
      then have "s' = SlotContinuing g a st ri"
        using distinct_cards_unique [OF d that m] by (auto simp: slot_simps)
      with c \<open>g' \<noteq> g\<close> show False by (simp add: continuing_def)
    qed
    then show ?thesis by (auto simp: find_None_iff)
  qed
qed

lemma distinct_startContinue: "distinct_cards slots \<Longrightarrow> distinct_cards (startContinue now slots k a)"
  using distinct_after [of slots "EvStartContinue now k a"] by simp

lemma length_startContinue [simp]: "length (startContinue now slots k a) = length slots"
  using review_apply_length [of slots "EvStartContinue now k a"] by simp

section \<open>Properties\<close>

text \<open>C13: the refill poll ends: a slot that starts waiting for a refill is still waiting, with the
  exact count, after fewer than \<open>m\<close> unproductive polls, and is completed after \<open>m\<close> or more.\<close>

theorem refill_poll_ends:
  assumes "distinct_cards slots" and "i < length slots"
    and "slots ! i = SlotAwaitingRefill tok 0 ri" and "1 \<le> m"
  shows "((\<lambda>s. refillPollMiss s (ri_reviewedCardId ri) tok m) ^^ j) slots ! i =
           (if int j < m then SlotAwaitingRefill tok (int j) ri else SlotCompleted ri)"
  using poll_misses_at [OF assms] by (simp add: poll_misses_def)

definition waiting_slots :: "ReviewSlot list" where
  "waiting_slots = [SlotAwaitingRefill 1 0 (reviewed_identity 7 (sample_card 7 ''math'' ''repeatable_tip'' True))]"

lemma waiting_slots_ok [simp]: "distinct_cards waiting_slots"
  by (simp add: waiting_slots_def distinct_cards_def)

theorem refill_poll_ends_witness:
  "((\<lambda>s. refillPollMiss s 7 1 3) ^^ 3) waiting_slots ! 0 =
     SlotCompleted (reviewed_identity 7 (sample_card 7 ''math'' ''repeatable_tip'' True))"
proof -
  have at: "waiting_slots ! 0 = SlotAwaitingRefill 1 0 (reviewed_identity 7 (sample_card 7 ''math'' ''repeatable_tip'' True))"
    and len: "0 < length waiting_slots" by (simp_all add: waiting_slots_def)
  show ?thesis using refill_poll_ends [OF waiting_slots_ok len at, of 3 3] by simp
qed

text \<open>A repeatable slot keeps its visual key through every event of the component, Continue and
  refill included; only a review response can change it, and only by bringing a next card of
  another topic or type.\<close>

theorem repeatable_key_stable:
  assumes "distinct_cards slots" and "i < length slots" and "repeatable_slot (slots ! i)"
    and "same_stack e (slots ! i)"
  shows "flowSlotKey (review_apply slots e ! i) = flowSlotKey (slots ! i)"
  using review_keeps_stack [OF assms(1), of e] assms(2-4)
  by (simp add: list_all2_conv_all_nth keeps_stack_def flowSlotKey_repeatable)

theorem repeatable_key_stable_witness:
  "flowSlotKey (review_apply waiting_slots (EvRefillFound 7 1 (sample_card 9 ''math'' ''repeatable_tip'' False)) ! 0) =
     ''repeatable:math''"
proof -
  have "repeatable_slot (waiting_slots ! 0)" "0 < length waiting_slots"
    "flowSlotKey (waiting_slots ! 0) = ''repeatable:math''"
    by (simp_all add: waiting_slots_def repeatable_slot_def flowSlotKey_def)
  then show ?thesis
    using repeatable_key_stable [OF waiting_slots_ok, of 0 "EvRefillFound 7 1 (sample_card 9 ''math'' ''repeatable_tip'' False)"]
    by (simp add: same_stack_def)
qed

text \<open>Continue runs the same discipline: starting it on a completed repeatable slot puts the slot
  in flight at generation 1, a failure under that generation leaves an error whose decision
  reuses the whole attempt when the outcome was indeterminate and otherwise keeps the topic, and
  a success or failure under any other generation changes nothing.\<close>

theorem continue_in_flight:
  assumes d: "distinct_cards slots" and i: "i < length slots" and s: "slots ! i = SlotCompleted ri"
    and t: "continues_topic ri a"
  shows "let s' = startContinue now slots (ri_reviewedCardId ri) a
         in s' ! i = SlotContinuing 1 a now ri \<and>
            continueRetryDecision (continueFailure s' (ri_reviewedCardId ri) 1 f ! i) =
              (if ff_mutationOutcomeIndeterminate f then Inr (ReuseContinueAttempt a 1)
               else Inr (ContinueNeedsNewKey (ri_topicName ri) 1)) \<and>
            (g \<noteq> 1 \<longrightarrow> continueSuccess s' (ri_reviewedCardId ri) g n p = s' \<and>
                        continueFailure s' (ri_reviewedCardId ri) g f = s')"
proof -
  let ?s = "startContinue now slots (ri_reviewedCardId ri) a"
  have at: "?s ! i = SlotContinuing 1 a now ri"
    using continuable_at [OF d i s] i s t
    by (simp add: startContinue_def continues_topic_def nth_map_where continuable_def)
  note c = continuing_at [OF distinct_startContinue [OF d] _ at]
  have "continueFailure ?s (ri_reviewedCardId ri) 1 f ! i =
      SlotContinueError 1 a (ff_mutationOutcomeIndeterminate f) (ff_message f) ri"
    using c(1) i at by (simp add: continueFailure_def nth_map_where continuing_def)
  with at c(2) i t show ?thesis
    by (simp add: Let_def continueRetryDecision_def continues_topic_def continueSuccess_def continueFailure_def)
qed

theorem continue_in_flight_witness:
  "startContinue 100 [SlotCompleted (reviewed_identity 7 (sample_card 7 ''math'' ''repeatable_tip'' True))] 7
     \<lparr>ca_topicName = ''math'', ca_idempotencyKey = ''k''\<rparr> ! 0 =
   SlotContinuing 1 \<lparr>ca_topicName = ''math'', ca_idempotencyKey = ''k''\<rparr> 100
     (reviewed_identity 7 (sample_card 7 ''math'' ''repeatable_tip'' True))"
proof -
  let ?ri = "reviewed_identity 7 (sample_card 7 ''math'' ''repeatable_tip'' True)"
  have "distinct_cards [SlotCompleted ?ri]" "continues_topic ?ri \<lparr>ca_topicName = ''math'', ca_idempotencyKey = ''k''\<rparr>"
    by (simp_all add: distinct_cards_def continues_topic_def)
  then show ?thesis
    using continue_in_flight [of "[SlotCompleted ?ri]" 0 ?ri "\<lparr>ca_topicName = ''math'', ca_idempotencyKey = ''k''\<rparr>" 100]
    by (simp add: Let_def)
qed

end
