(* ===== verification/Transport.thy ===== *)
theory Transport
  imports Prelude "HOL-Library.Word"
begin

text \<open>
  \<open>lib/api-v1/transport.ts\<close>: envelopes, failure classification and the retry of mutations.

  Code that is not in the repository is an argument: the protobuf codec (\<open>toBin\<close>,
  \<open>fromBin\<close>, which fails with a message), the text decoder (\<open>utf8\<close>). The network is the
  state \<open>Wire\<close>: the log of the requests sent and, for the request number \<open>n\<close>, the reply the
  environment gives, which is arbitrary. The operation and the response body are type
  variables. Random bytes are arguments. \<open>None\<close> for a content type is a missing header.
\<close>

unbundle bit_operations_syntax

type_synonym bytes = "8 word list"

section \<open>Failures\<close>

record TransportError =
  te_status :: int
  te_message :: jsstring
  te_retryable :: bool
  te_mutationOutcomeIndeterminate :: bool
  te_requestId :: jsstring

record 'op ApiV1Request =
  rq_requestId :: jsstring
  rq_auth :: jsstring
  rq_op :: 'op
  rq_idempotencyKey :: jsstring

record ApiError =
  ae_code :: int
  ae_message :: jsstring
  ae_retryable :: bool

datatype 'body Outcome = OutcomeSuccess 'body | OutcomeError ApiError | OutcomeNone

record 'body ApiV1Response =
  rp_requestId :: jsstring
  rp_outcome :: "'body Outcome"

section \<open>Envelopes\<close>

definition buildEnvelope ::
    "'op \<Rightarrow> jsstring \<Rightarrow> jsstring option \<Rightarrow> bool \<Rightarrow> TransportError + 'op ApiV1Request" where
  "buildEnvelope op requestId idempotencyKey isMutation =
     (if isMutation \<and> (case idempotencyKey of None \<Rightarrow> True | Some k \<Rightarrow> js_trim k = [])
      then Inl \<lparr>te_status = 0, te_message = ''Idempotency key is required for mutations'',
                te_retryable = False, te_mutationOutcomeIndeterminate = False, te_requestId = []\<rparr>
      else Inr \<lparr>rq_requestId = requestId, rq_auth = [], rq_op = op,
                rq_idempotencyKey = (case idempotencyKey of None \<Rightarrow> [] | Some k \<Rightarrow> k)\<rparr>)"

definition decodeResponse ::
    "(bytes \<Rightarrow> jsstring + 'body ApiV1Response) \<Rightarrow> bytes \<Rightarrow> TransportError + 'body ApiV1Response" where
  "decodeResponse fromBin bs =
     (case fromBin bs of
        Inr r \<Rightarrow> Inr r
      | Inl m \<Rightarrow> Inl \<lparr>te_status = 0, te_message = ''Invalid protobuf response: '' @ m,
                     te_retryable = True, te_mutationOutcomeIndeterminate = True, te_requestId = []\<rparr>)"

definition isProtobufContentType :: "jsstring option \<Rightarrow> bool" where
  "isProtobufContentType contentType =
     (case contentType of
        None \<Rightarrow> False
      | Some ct \<Rightarrow>
          let first = js_lower (js_trim (hd (split_on (\<lambda>c. c = CHR '';'') ct)))
          in first = ''application/x-protobuf'' \<or> first = ''application/protobuf'')"

definition errorFromNonProtobuf ::
    "(bytes \<Rightarrow> jsstring) \<Rightarrow> int \<Rightarrow> bytes \<Rightarrow> TransportError" where
  "errorFromNonProtobuf utf8 status bs =
     (let text = js_trim (utf8 bs);
          message =
            (if status = 429 then ''Too many requests; retry shortly''
             else if js_starts_with ''<'' text
             then ''HTTP '' @ dec_of_int status @ '' returned a web page instead of an API response''
             else if length text > 0 \<and> length text \<le> 300 \<and> \<not> js_includes [CHR 0x00] text then text
             else if status = 0 then ''Invalid protobuf response''
             else ''HTTP '' @ dec_of_int status @ '' response was not protobuf'')
      in \<lparr>te_status = status, te_message = message,
          te_retryable = (status = 429 \<or> (status \<ge> 500 \<and> status < 600)),
          te_mutationOutcomeIndeterminate = (status \<ge> 500 \<and> status < 600),
          te_requestId = []\<rparr>)"

definition decodeHttpResponse ::
    "(bytes \<Rightarrow> jsstring) \<Rightarrow> (bytes \<Rightarrow> jsstring + 'body ApiV1Response) \<Rightarrow> int \<Rightarrow> jsstring option \<Rightarrow>
     bytes \<Rightarrow> TransportError + 'body ApiV1Response" where
  "decodeHttpResponse utf8 fromBin status contentType bs =
     (let declaredProtobuf = isProtobufContentType contentType
      in if contentType \<noteq> None \<and> \<not> declaredProtobuf
         then Inl (errorFromNonProtobuf utf8 status bs)
         else (case decodeResponse fromBin bs of
                 Inr r \<Rightarrow> Inr r
               | Inl err \<Rightarrow>
                   if declaredProtobuf then Inl (err\<lparr>te_status := status\<rparr>)
                   else Inl (errorFromNonProtobuf utf8 status bs)))"

definition serverReportsIndeterminateOutcome :: "int \<Rightarrow> jsstring \<Rightarrow> bool \<Rightarrow> bool" where
  "serverReportsIndeterminateOutcome status message retryable \<longleftrightarrow>
     retryable \<and>
     (status = 409 \<or> js_includes ''same idempotency key'' message \<or>
      js_includes ''idempotency result'' message)"

section \<open>The network\<close>

datatype FetchOutcome =
    FetchRejected jsstring
  | FetchBodyRejected int jsstring
  | FetchResolved int "jsstring option" bytes

record Wire =
  wire_log :: "(jsstring \<times> bytes) list"
  wire_reply :: "nat \<Rightarrow> FetchOutcome"

definition doFetch :: "jsstring \<Rightarrow> bytes \<Rightarrow> Wire \<Rightarrow> FetchOutcome \<times> Wire" where
  "doFetch path body w = (wire_reply w (length (wire_log w)), w\<lparr>wire_log := wire_log w @ [(path, body)]\<rparr>)"

record ('op, 'body) Codec =
  cd_toBin :: "'op ApiV1Request \<Rightarrow> bytes"
  cd_fromBin :: "bytes \<Rightarrow> jsstring + 'body ApiV1Response"
  cd_utf8 :: "bytes \<Rightarrow> jsstring"

definition API_V1_PATH :: jsstring where
  "API_V1_PATH = ''/api/v1''"

definition encodeRequest :: "('op, 'body) Codec \<Rightarrow> 'op ApiV1Request \<Rightarrow> bytes" where
  "encodeRequest cd envelope = cd_toBin cd envelope"

definition decodeOutcome :: "int \<Rightarrow> 'body ApiV1Response \<Rightarrow> TransportError + 'body" where
  "decodeOutcome status decoded =
     (case rp_outcome decoded of
        OutcomeSuccess value \<Rightarrow>
          if \<not> (status \<ge> 200 \<and> status < 300)
          then Inl \<lparr>te_status = status,
                    te_message = ''Unexpected HTTP '' @ dec_of_int status @ '' with success body'',
                    te_retryable = True, te_mutationOutcomeIndeterminate = True,
                    te_requestId = rp_requestId decoded\<rparr>
          else Inr value
      | OutcomeError protoError \<Rightarrow>
          let message = (if ae_message protoError = []
                         then ''API error (code='' @ dec_of_int (ae_code protoError) @ '')''
                         else ae_message protoError)
          in Inl \<lparr>te_status = status, te_message = message, te_retryable = ae_retryable protoError,
                  te_mutationOutcomeIndeterminate =
                    serverReportsIndeterminateOutcome status message (ae_retryable protoError),
                  te_requestId = rp_requestId decoded\<rparr>
      | OutcomeNone \<Rightarrow>
          Inl \<lparr>te_status = status, te_message = ''Empty API v1 response outcome'',
               te_retryable = True, te_mutationOutcomeIndeterminate = True,
               te_requestId = rp_requestId decoded\<rparr>)"

definition handleReply ::
    "('op, 'body) Codec \<Rightarrow> jsstring \<Rightarrow> FetchOutcome \<Rightarrow> TransportError + 'body" where
  "handleReply cd requestId reply =
     (case reply of
        FetchRejected m \<Rightarrow>
          Inl \<lparr>te_status = 0, te_message = ''Network error: '' @ m, te_retryable = True,
               te_mutationOutcomeIndeterminate = True, te_requestId = requestId\<rparr>
      | FetchBodyRejected status m \<Rightarrow>
          Inl \<lparr>te_status = status, te_message = ''Failed to read response body: '' @ m,
               te_retryable = True, te_mutationOutcomeIndeterminate = True, te_requestId = requestId\<rparr>
      | FetchResolved status contentType bs \<Rightarrow>
          sum_bind (decodeHttpResponse (cd_utf8 cd) (cd_fromBin cd) status contentType bs)
            (decodeOutcome status))"

definition callEnvelope ::
    "('op, 'body) Codec \<Rightarrow> jsstring \<Rightarrow> 'op ApiV1Request \<Rightarrow> Wire \<Rightarrow> (TransportError + 'body) \<times> Wire" where
  "callEnvelope cd path envelope w =
     (let (reply, w') = doFetch path (encodeRequest cd envelope) w
      in (handleReply cd (rq_requestId envelope) reply, w'))"

section \<open>Identifiers\<close>

definition REQUEST_ID_MAX :: nat where
  "REQUEST_ID_MAX = 64"

definition newRequestId :: "bytes \<Rightarrow> jsstring \<Rightarrow> jsstring" where
  "newRequestId random prefix =
     (let n = foldl (\<lambda>n b. (push_bit 8 n) OR uint b) (0::int) random
      in take REQUEST_ID_MAX (prefix @ ''-'' @ dec_of_int n))"

definition hex_char :: "nat \<Rightarrow> char" where
  "hex_char d = ''0123456789abcdef'' ! d"

text \<open>\<open>b.toString(16).padStart(2, "0")\<close>, of a byte.\<close>

definition hex_byte :: "8 word \<Rightarrow> jsstring" where
  "hex_byte b = [hex_char (unat b div 16), hex_char (unat b mod 16)]"

definition newIdempotencyKey :: "bytes \<Rightarrow> jsstring" where
  "newIdempotencyKey random = concat (map hex_byte random)"

section \<open>Calls\<close>

definition callRead ::
    "('op, 'body) Codec \<Rightarrow> bytes \<Rightarrow> 'op \<Rightarrow> Wire \<Rightarrow> (TransportError + 'body) \<times> Wire" where
  "callRead cd random op w =
     (case buildEnvelope op (newRequestId random ''read'') None False of
        Inl e \<Rightarrow> (Inl e, w)
      | Inr envelope \<Rightarrow> callEnvelope cd API_V1_PATH envelope w)"

definition callMutationWithKeyEnvelope ::
    "('op, 'body) Codec \<Rightarrow> bytes \<Rightarrow> 'op \<Rightarrow> jsstring \<Rightarrow> Wire \<Rightarrow> (TransportError + (jsstring \<times> 'body)) \<times> Wire" where
  "callMutationWithKeyEnvelope cd random op idempotencyKey w =
     (case buildEnvelope op (newRequestId random ''mut'') (Some idempotencyKey) True of
        Inl e \<Rightarrow> (Inl e, w)
      | Inr envelope \<Rightarrow>
          let tag = (\<lambda>result. sum_bind result (\<lambda>response. Inr (rq_requestId envelope, response)))
          in (case callEnvelope cd API_V1_PATH envelope w of
                (Inr response, w1) \<Rightarrow> (tag (Inr response), w1)
              | (Inl err, w1) \<Rightarrow>
                  if te_retryable err \<and> te_mutationOutcomeIndeterminate err
                  then (let (again, w2) = callEnvelope cd API_V1_PATH envelope w1 in (tag again, w2))
                  else (Inl err, w1)))"

definition callMutationWithKey ::
    "('op, 'body) Codec \<Rightarrow> bytes \<Rightarrow> 'op \<Rightarrow> jsstring \<Rightarrow> Wire \<Rightarrow> (TransportError + 'body) \<times> Wire" where
  "callMutationWithKey cd random op idempotencyKey w =
     (case callMutationWithKeyEnvelope cd random op idempotencyKey w of
        (result, w') \<Rightarrow> (sum_bind result (\<lambda>(_, response). Inr response), w'))"

section \<open>Lemmas\<close>

lemma callEnvelope_log:
  "callEnvelope cd path envelope w = (result, w') \<Longrightarrow>
   wire_log w' = wire_log w @ [(path, cd_toBin cd envelope)] \<and> wire_reply w' = wire_reply w"
  by (auto simp: callEnvelope_def doFetch_def encodeRequest_def)

lemma callEnvelope_fst:
  "fst (callEnvelope cd path envelope w) =
     handleReply cd (rq_requestId envelope) (wire_reply w (length (wire_log w)))"
  by (simp add: callEnvelope_def doFetch_def)

lemma buildEnvelope_mutation:
  "buildEnvelope op rid (Some key) True =
     (if js_trim key = []
      then Inl \<lparr>te_status = 0, te_message = ''Idempotency key is required for mutations'',
                te_retryable = False, te_mutationOutcomeIndeterminate = False, te_requestId = []\<rparr>
      else Inr \<lparr>rq_requestId = rid, rq_auth = [], rq_op = op, rq_idempotencyKey = key\<rparr>)"
  by (simp add: buildEnvelope_def)

lemma hex_char_inj: "d < 16 \<Longrightarrow> e < 16 \<Longrightarrow> hex_char d = hex_char e \<Longrightarrow> d = e"
  by (auto simp: hex_char_def nth_eq_iff_index_eq [of "''0123456789abcdef''"])

lemma unat_byte: "unat (b :: 8 word) < 256"
  using unsigned_less [of b] by simp

lemma hex_byte_inj: "hex_byte a = hex_byte b \<Longrightarrow> a = b"
proof -
  assume "hex_byte a = hex_byte b"
  then have "hex_char (unat a div 16) = hex_char (unat b div 16)"
    "hex_char (unat a mod 16) = hex_char (unat b mod 16)" by (simp_all add: hex_byte_def)
  then have "unat a div 16 = unat b div 16" "unat a mod 16 = unat b mod 16"
    using unat_byte [of a] unat_byte [of b] by (auto intro: hex_char_inj simp: div_less_iff_less_mult)
  then have "unat a = unat b" by (metis div_mult_mod_eq)
  then show "a = b" by (simp add: word_unat_eq_iff)
qed

lemma hex_byte_shape: "length (hex_byte b) = 2" "set (hex_byte b) \<subseteq> set ''0123456789abcdef''"
proof -
  show "length (hex_byte b) = 2" by (simp add: hex_byte_def)
  have "unat b div 16 < 16" "unat b mod 16 < 16" using unat_byte [of b] by simp_all
  then have "hex_char (unat b div 16) \<in> set ''0123456789abcdef''"
    "hex_char (unat b mod 16) \<in> set ''0123456789abcdef''"
    unfolding hex_char_def by (intro nth_mem; simp)+
  then show "set (hex_byte b) \<subseteq> set ''0123456789abcdef''" by (simp add: hex_byte_def)
qed

lemma key_inj: "length xs = length ys \<Longrightarrow> newIdempotencyKey xs = newIdempotencyKey ys \<Longrightarrow> xs = ys"
  by (induction xs ys rule: list_induct2)
    (auto simp: newIdempotencyKey_def hex_byte_shape append_eq_append_conv dest: hex_byte_inj)

lemma key_shape: "length (newIdempotencyKey xs) = 2 * length xs \<and> set (newIdempotencyKey xs) \<subseteq> set ''0123456789abcdef''"
  using hex_byte_shape by (induction xs) (auto simp: newIdempotencyKey_def)

lemma untag: "sum_bind (sum_bind m (\<lambda>r. Inr (x, r))) (\<lambda>(_, y). Inr y) = m"
  by (cases m) auto

definition mutation_envelope :: "bytes \<Rightarrow> 'op \<Rightarrow> jsstring \<Rightarrow> 'op ApiV1Request" where
  "mutation_envelope random op key =
     \<lparr>rq_requestId = newRequestId random ''mut'', rq_auth = [], rq_op = op, rq_idempotencyKey = key\<rparr>"

text \<open>The failures that leave no doubt about the outcome of a mutation.\<close>

definition rejected_body :: "('op, 'body) Codec \<Rightarrow> int \<Rightarrow> jsstring option \<Rightarrow> bytes \<Rightarrow> bool" where
  "rejected_body cd status contentType bs \<longleftrightarrow>
     \<not> isProtobufContentType contentType \<and>
     (contentType \<noteq> None \<or> (\<exists>m. cd_fromBin cd bs = Inl m)) \<and> \<not> (500 \<le> status \<and> status < 600)"

definition refused_by_server :: "('op, 'body) Codec \<Rightarrow> int \<Rightarrow> jsstring option \<Rightarrow> bytes \<Rightarrow> bool" where
  "refused_by_server cd status contentType bs \<longleftrightarrow>
     (contentType = None \<or> isProtobufContentType contentType) \<and>
     (\<exists>r pe. cd_fromBin cd bs = Inr r \<and> rp_outcome r = OutcomeError pe \<and>
        \<not> serverReportsIndeterminateOutcome status
            (if ae_message pe = [] then ''API error (code='' @ dec_of_int (ae_code pe) @ '')'' else ae_message pe)
            (ae_retryable pe))"

lemmas reply_defs = handleReply_def decodeHttpResponse_def decodeResponse_def decodeOutcome_def
  errorFromNonProtobuf_def

lemma determinate_failure_iff:
  "(\<exists>e. handleReply cd rid reply = Inl e \<and> \<not> te_mutationOutcomeIndeterminate e) \<longleftrightarrow>
   (\<exists>status contentType bs. reply = FetchResolved status contentType bs \<and>
      (rejected_body cd status contentType bs \<or> refused_by_server cd status contentType bs))"
proof (cases reply)
  case (FetchResolved status contentType bs)
  show ?thesis
  proof (cases "cd_fromBin cd bs")
    case (Inl m)
    then show ?thesis
      by (auto simp: FetchResolved reply_defs rejected_body_def refused_by_server_def Let_def)
  next
    case (Inr r)
    then show ?thesis
      by (cases "rp_outcome r")
        (auto simp: FetchResolved reply_defs rejected_body_def refused_by_server_def Let_def)
  qed
qed (simp_all add: handleReply_def)

lemma success_needs_2xx:
  "handleReply cd rid reply = Inr body \<Longrightarrow>
   \<exists>status contentType bs r. reply = FetchResolved status contentType bs \<and> 200 \<le> status \<and> status < 300 \<and>
     (contentType = None \<or> isProtobufContentType contentType) \<and>
     cd_fromBin cd bs = Inr r \<and> rp_outcome r = OutcomeSuccess body"
  by (auto simp: reply_defs Let_def sum_bind_Inr split: FetchOutcome.splits sum.splits if_splits Outcome.splits)

section \<open>Properties\<close>

text \<open>C14: a mutation sends its envelope once, or twice with exactly the same bytes: nothing is sent when
  the idempotency key is blank, and a second copy is sent exactly when the first call failed in a
  way that is both retryable and outcome-indeterminate. The result is that of the last call.\<close>

theorem mutation_sends_same_bytes:
  "let (result, w') = callMutationWithKey cd random op key w;
       first = handleReply cd (newRequestId random ''mut'') (wire_reply w (length (wire_log w)));
       second = handleReply cd (newRequestId random ''mut'') (wire_reply w (length (wire_log w) + 1));
       sent = (API_V1_PATH, cd_toBin cd (mutation_envelope random op key))
   in if js_trim key = [] then wire_log w' = wire_log w \<and> (\<exists>e. result = Inl e \<and> \<not> te_retryable e)
      else case first of
             Inr body \<Rightarrow> wire_log w' = wire_log w @ [sent] \<and> result = Inr body
           | Inl e \<Rightarrow> if te_retryable e \<and> te_mutationOutcomeIndeterminate e
                      then wire_log w' = wire_log w @ [sent, sent] \<and> result = second
                      else wire_log w' = wire_log w @ [sent] \<and> result = Inl e"
  by (auto simp: callMutationWithKey_def callMutationWithKeyEnvelope_def buildEnvelope_mutation
      mutation_envelope_def callEnvelope_def doFetch_def encodeRequest_def Let_def untag
      split: sum.splits prod.splits)

text \<open>A call fails as determinate (a retry may use a new key) exactly when a body was received and
  either it was no protobuf response and the status was not 5xx, or it decoded to a server error
  that the server does not report as indeterminate; a lost request, a lost body, an undecodable
  protobuf body and an empty outcome are always indeterminate.\<close>

theorem determinate_failures:
  "(\<exists>e. fst (callEnvelope cd path env w) = Inl e \<and> \<not> te_mutationOutcomeIndeterminate e) \<longleftrightarrow>
   (\<exists>status contentType bs. wire_reply w (length (wire_log w)) = FetchResolved status contentType bs \<and>
      (rejected_body cd status contentType bs \<or> refused_by_server cd status contentType bs))"
  by (simp only: callEnvelope_fst determinate_failure_iff)

text \<open>A fresh idempotency key is the lower-case hexadecimal text of its 16 random bytes: 32 characters,
  and two keys are equal only when all their random bytes are.\<close>

theorem idempotency_key_encodes_bytes:
  assumes "length xs = 16" and "length ys = 16"
  shows "length (newIdempotencyKey xs) = 32 \<and> set (newIdempotencyKey xs) \<subseteq> set ''0123456789abcdef'' \<and>
         (newIdempotencyKey xs = newIdempotencyKey ys \<longleftrightarrow> xs = ys)"
  using key_shape [of xs] key_inj [of xs ys] assms by auto

theorem idempotency_key_encodes_bytes_witness:
  "length (newIdempotencyKey (replicate 16 171)) = 32 \<and>
   newIdempotencyKey (replicate 16 171) \<noteq> newIdempotencyKey (replicate 16 170)"
  using idempotency_key_encodes_bytes [of "replicate 16 171" "replicate 16 170"] by simp

end
