(* ===== verification/Review_Actions.thy ===== *)
theory Review_Actions
  imports Review_Refill Transport
begin

text \<open>
  \<open>lib/flow-review-actions.ts\<close>: the choices each card type offers, the building of slot lists
  from fetched pages, and the classification of failures at the review boundary. The two
  JavaScript sets the page builders keep are HOL sets; the loops are recursion on the page.
\<close>

record ReviewChoice =
  rc_id :: jsstring
  rc_label :: jsstring
  rc_grade :: int
  rc_action :: ReviewActionValue

record ReviewActions =
  ras_primary :: "ReviewChoice list"
  ras_skipGroup :: "ReviewChoice list option"

definition choice :: "jsstring \<Rightarrow> jsstring \<Rightarrow> int \<Rightarrow> ReviewActionValue \<Rightarrow> ReviewChoice" where
  "choice i l g a = \<lparr>rc_id = i, rc_label = l, rc_grade = g, rc_action = a\<rparr>"

definition reviewActionsFor :: "FlowCardInfo \<Rightarrow> ReviewActions" where
  "reviewActionsFor fcard =
     (if fc_tipcardType fcard = ''casual_tip'' \<or> fc_tipcardType fcard = ''manual_tip''
      then \<lparr>ras_primary =
              [choice ''dismiss'' ''Dismiss'' 3 ActionSkipNotInterested,
               choice ''acknowledge'' ''Acknowledge'' 3 ActionAcknowledge],
            ras_skipGroup = None\<rparr>
      else if fc_tipcardType fcard = ''repeatable_tip''
      then \<lparr>ras_primary =
              [choice ''again'' ''Again'' 1 ActionAgain,
               choice ''learned'' ''Learned'' 5 ActionLearned],
            ras_skipGroup = Some
              [choice ''known'' ''Known'' 5 ActionSkipKnown,
               choice ''not-interested'' ''Not interested'' 3 ActionSkipNotInterested,
               choice ''too-difficult'' ''Too difficult'' 1 ActionSkipTooDifficult]\<rparr>
      else \<lparr>ras_primary =
              [choice ''again'' ''Again'' 1 ActionUnspecified,
               choice ''good'' ''Good'' 3 ActionUnspecified,
               choice ''easy'' ''Easy'' 5 ActionUnspecified],
            ras_skipGroup = None\<rparr>)"

definition repeatableTopic :: "ReviewSlot \<Rightarrow> jsstring option" where
  "repeatableTopic slot =
     (if is_live slot
      then if fc_tipcardType (slot_card slot) = ''repeatable_tip''
           then Some (fc_topicName (slot_card slot)) else None
      else if ri_tipcardType (slot_reviewed slot) = ''repeatable_tip''
           then Some (ri_topicName (slot_reviewed slot)) else None)"

definition is_repeatable_card :: "FlowCardInfo \<Rightarrow> bool" where
  "is_repeatable_card fcard \<longleftrightarrow> fc_tipcardType fcard = ''repeatable_tip''"

text \<open>The loop body of \<open>slotsFromCards\<close> and of \<open>appendIdleSlots\<close>: the slots a page adds.\<close>

fun page_slots :: "bigint set \<Rightarrow> jsstring set \<Rightarrow> FlowCardInfo list \<Rightarrow> ReviewSlot list" where
  "page_slots knownIds repeatableTopics [] = []"
| "page_slots knownIds repeatableTopics (c # cards) =
     (if fc_id c \<in> knownIds then page_slots knownIds repeatableTopics cards
      else if is_repeatable_card c \<and> fc_topicName c \<in> repeatableTopics
      then page_slots knownIds repeatableTopics cards
      else SlotIdle c #
           page_slots (insert (fc_id c) knownIds)
             (if is_repeatable_card c then insert (fc_topicName c) repeatableTopics else repeatableTopics)
             cards)"

definition slotsFromCards :: "FlowCardInfo list \<Rightarrow> ReviewSlot list" where
  "slotsFromCards cards = page_slots {} {} cards"

definition known_ids :: "ReviewSlot list \<Rightarrow> bigint set" where
  "known_ids slots = set (map (\<lambda>slot. if is_live slot then fc_id (slot_card slot)
                                      else ri_reviewedCardId (slot_reviewed slot)) slots)"

definition known_topics :: "ReviewSlot list \<Rightarrow> jsstring set" where
  "known_topics slots =
     set (concat (map (\<lambda>slot. case repeatableTopic slot of None \<Rightarrow> [] | Some topicName \<Rightarrow> [topicName]) slots))"

definition appendIdleSlots :: "ReviewSlot list \<Rightarrow> FlowCardInfo list \<Rightarrow> ReviewSlot list" where
  "appendIdleSlots slots incoming = slots @ page_slots (known_ids slots) (known_topics slots) incoming"

text \<open>What a \<open>catch\<close> receives: a \<open>TransportError\<close>, another \<open>Error\<close>, or any other value (its \<open>String(value)\<close>).\<close>

datatype Thrown = ThrownTransport TransportError | ThrownError jsstring | ThrownValue jsstring

definition classifyReviewError :: "Thrown \<Rightarrow> FailureFields" where
  "classifyReviewError error =
     (case error of
        ThrownTransport e \<Rightarrow>
          \<lparr>ff_mutationOutcomeIndeterminate = te_mutationOutcomeIndeterminate e, ff_message = te_message e\<rparr>
      | ThrownError m \<Rightarrow> \<lparr>ff_mutationOutcomeIndeterminate = True, ff_message = m\<rparr>
      | ThrownValue m \<Rightarrow> \<lparr>ff_mutationOutcomeIndeterminate = True, ff_message = m\<rparr>)"

section \<open>Lemmas\<close>

lemma known_ids_slotCardId: "known_ids slots = slotCardId ` set slots"
  by (auto simp: known_ids_def slotCardId_def)

lemma repeatableTopic_Some: "repeatableTopic s = Some topic \<longleftrightarrow> repeatable_slot s \<and> slot_topic s = topic"
  by (auto simp: repeatableTopic_def repeatable_slot_def slot_topic_def)

definition stack_topics :: "ReviewSlot list \<Rightarrow> jsstring list" where
  "stack_topics slots = map slot_topic (filter repeatable_slot slots)"

lemma stack_topics_simps [simp]:
  "stack_topics [] = []"
  "stack_topics (s # slots) = (if repeatable_slot s then slot_topic s # stack_topics slots else stack_topics slots)"
  "stack_topics (xs @ ys) = stack_topics xs @ stack_topics ys"
  by (simp_all add: stack_topics_def)

lemma known_topics_stack_topics: "known_topics slots = set (stack_topics slots)"
proof (induction slots)
  case (Cons s slots)
  have "(case repeatableTopic s of None \<Rightarrow> [] | Some topicName \<Rightarrow> [topicName]) =
      (if repeatable_slot s then [slot_topic s] else [])"
    by (simp add: repeatableTopic_def repeatable_slot_def slot_topic_def)
  with Cons show ?case by (simp add: known_topics_def)
qed (simp add: known_topics_def)

text \<open>One review stack per topic: the repeatable slots have distinct topics.\<close>

definition one_stack_per_topic :: "ReviewSlot list \<Rightarrow> bool" where
  "one_stack_per_topic slots \<longleftrightarrow> distinct (stack_topics slots)"

lemma page_slots_ids:
  "distinct (map slotCardId (page_slots ids topics cards)) \<and>
   slotCardId ` set (page_slots ids topics cards) \<inter> ids = {}"
  by (induction ids topics cards rule: page_slots.induct) auto

lemma idle_stack [simp]: "repeatable_slot (SlotIdle c) = is_repeatable_card c" "slot_topic (SlotIdle c) = fc_topicName c"
  by (simp_all add: repeatable_slot_def slot_topic_def is_repeatable_card_def)

lemma page_slots_topics:
  "distinct (stack_topics (page_slots ids topics cards)) \<and>
   set (stack_topics (page_slots ids topics cards)) \<inter> topics = {}"
  by (induction ids topics cards rule: page_slots.induct) auto

lemma page_slots_idle: "s \<in> set (page_slots ids topics cards) \<Longrightarrow> \<exists>c \<in> set cards. s = SlotIdle c"
  by (induction ids topics cards rule: page_slots.induct) (auto split: if_splits)

lemma page_slots_complete:
  "\<forall>c \<in> set cards.
     fc_id c \<in> ids \<union> slotCardId ` set (page_slots ids topics cards) \<or>
     is_repeatable_card c \<and> fc_topicName c \<in> topics \<union> set (stack_topics (page_slots ids topics cards))"
  by (induction ids topics cards rule: page_slots.induct) auto

lemma append_distinct: "distinct_cards slots \<Longrightarrow> distinct_cards (appendIdleSlots slots incoming)"
  using page_slots_ids [of "known_ids slots" "known_topics slots" incoming]
  by (auto simp: distinct_cards_def appendIdleSlots_def known_ids_slotCardId)

lemma append_stacks: "one_stack_per_topic slots \<Longrightarrow> one_stack_per_topic (appendIdleSlots slots incoming)"
  using page_slots_topics [of "known_ids slots" "known_topics slots" incoming]
  by (auto simp: one_stack_per_topic_def appendIdleSlots_def known_topics_stack_topics)

lemma slotsFromCards_append: "slotsFromCards cards = appendIdleSlots [] cards"
  by (simp add: slotsFromCards_def appendIdleSlots_def known_ids_def known_topics_def)

lemma append_slots_inv: "slots_inv slots \<Longrightarrow> slots_inv (appendIdleSlots slots incoming)"
  using append_distinct [of slots incoming] page_slots_idle [of _ "known_ids slots" "known_topics slots" incoming]
  by (fastforce simp: slots_inv_def appendIdleSlots_def)

lemma slots_inv_page: "slots_inv (slotsFromCards cards)"
  unfolding slotsFromCards_append by (rule append_slots_inv) (simp add: slots_inv_def distinct_cards_def)

section \<open>Properties\<close>

text \<open>Loading a page keeps every slot on screen exactly as it is, in place, appends only idle slots of
  the page, keeps card ids distinct and one repeatable stack per topic, and leaves out a card of
  the page only when its id or its repeatable topic is represented.\<close>

theorem load_more_keeps_slots:
  assumes "distinct_cards slots" and "one_stack_per_topic slots"
  shows "let next = appendIdleSlots slots incoming
         in take (length slots) next = slots \<and>
            (\<forall>s \<in> set (drop (length slots) next). \<exists>c \<in> set incoming. s = SlotIdle c) \<and>
            distinct_cards next \<and> one_stack_per_topic next \<and>
            (\<forall>c \<in> set incoming. fc_id c \<in> slotCardId ` set next \<or>
               is_repeatable_card c \<and> fc_topicName c \<in> set (stack_topics next))"
proof -
  have "\<forall>c \<in> set incoming. fc_id c \<in> slotCardId ` set (appendIdleSlots slots incoming) \<or>
      is_repeatable_card c \<and> fc_topicName c \<in> set (stack_topics (appendIdleSlots slots incoming))"
    using page_slots_complete [of incoming "known_ids slots" "known_topics slots"]
    by (fastforce simp: appendIdleSlots_def known_ids_slotCardId known_topics_stack_topics)
  then show ?thesis
    using append_distinct [OF assms(1)] append_stacks [OF assms(2)]
    by (auto simp: Let_def appendIdleSlots_def dest: page_slots_idle)
qed

theorem load_more_keeps_slots_witness:
  "distinct_cards (appendIdleSlots [SlotIdle (sample_card 1 ''math'' ''repeatable_tip'' False)]
     [sample_card 1 ''x'' ''casual_tip'' False, sample_card 2 ''math'' ''repeatable_tip'' False,
      sample_card 3 ''art'' ''casual_tip'' False])"
proof -
  let ?slots = "[SlotIdle (sample_card 1 ''math'' ''repeatable_tip'' False)]"
  have "distinct_cards ?slots" "one_stack_per_topic ?slots"
    by (simp_all add: distinct_cards_def one_stack_per_topic_def is_repeatable_card_def)
  then show ?thesis using load_more_keeps_slots by (simp add: Let_def)
qed

inductive flow_reachable :: "ReviewSlot list \<Rightarrow> bool" where
  first_page: "flow_reachable (slotsFromCards cards)"
| next_page: "flow_reachable slots \<Longrightarrow> flow_reachable (appendIdleSlots slots incoming)"
| flow_event: "flow_reachable slots \<Longrightarrow> fresh_event slots e \<Longrightarrow> flow_reachable (review_apply slots e)"

lemma flow_reachable_inv: "flow_reachable slots \<Longrightarrow> slots_inv slots"
  by (induction rule: flow_reachable.induct) (auto intro: slots_inv_page append_slots_inv slots_inv_apply)

text \<open>Every state of the review component reached from a fetched first page, through any number of
  loaded pages and of review events that bring no card another slot shows, is well formed.\<close>

theorem flow_runs_keep_invariant:
  assumes "flow_reachable slots"
  shows "slots_inv slots"
  using flow_reachable_inv [OF assms] .

theorem flow_runs_keep_invariant_witness:
  "slots_inv (appendIdleSlots (slotsFromCards [sample_card 1 ''a'' ''casual_tip'' False]) [sample_card 2 ''b'' ''casual_tip'' True])"
  by (rule flow_runs_keep_invariant) (intro flow_reachable.intros)

text \<open>The review boundary is conservative: a failure is classified as determinate only when it is a
  transport error that the transport itself declared determinate; anything else that is thrown
  keeps the idempotency key for the retry.\<close>

theorem only_transport_is_determinate:
  "\<not> ff_mutationOutcomeIndeterminate (classifyReviewError error) \<longleftrightarrow>
   (\<exists>e. error = ThrownTransport e \<and> \<not> te_mutationOutcomeIndeterminate e)"
  by (auto simp: classifyReviewError_def split: Thrown.splits)

end
