(* ===== verification/Organization.thy ===== *)
theory Organization
  imports Review_Actions
begin

text \<open>
  \<open>lib/flow-organization.ts\<close>: the pinned section and the sorted unpinned list. The rank map of
  the saved order keeps the last position of a repeated id, as \<open>Map.set\<close> does.
\<close>

datatype FlowSortMode = SortTopic | SortDate

definition parseFlowSortMode :: "jsstring option \<Rightarrow> FlowSortMode" where
  "parseFlowSortMode value = (if value = Some ''date'' then SortDate else SortTopic)"

record SlotMetadata =
  sm_topicName :: jsstring
  sm_title :: jsstring
  sm_createdAt :: jsstring
  sm_id :: bigint
  sm_pinned :: bool

definition slotMetadata :: "ReviewSlot \<Rightarrow> SlotMetadata" where
  "slotMetadata slot =
     (if is_live slot
      then \<lparr>sm_topicName = fc_topicName (slot_card slot), sm_title = fc_title (slot_card slot),
            sm_createdAt = fc_createdAt (slot_card slot), sm_id = fc_id (slot_card slot),
            sm_pinned = fc_pinned (slot_card slot)\<rparr>
      else \<lparr>sm_topicName = ri_topicName (slot_reviewed slot), sm_title = ri_title (slot_reviewed slot),
            sm_createdAt = ri_createdAt (slot_reviewed slot),
            sm_id = ri_reviewedCardId (slot_reviewed slot),
            sm_pinned = ri_pinned (slot_reviewed slot)\<rparr>)"

definition compareBigints :: "bigint \<Rightarrow> bigint \<Rightarrow> int" where
  "compareBigints a b = (if a < b then -1 else if a > b then 1 else 0)"

definition compareStrings :: "jsstring \<Rightarrow> jsstring \<Rightarrow> int" where
  "compareStrings a b = (if a < b then -1 else if a > b then 1 else 0)"

definition compareTopic :: "SlotMetadata \<Rightarrow> SlotMetadata \<Rightarrow> int" where
  "compareTopic a b =
     (let byTopic = compareStrings (js_lower (sm_topicName a)) (js_lower (sm_topicName b))
      in if byTopic \<noteq> 0 then byTopic
         else let byTitle = compareStrings (js_lower (sm_title a)) (js_lower (sm_title b))
              in if byTitle \<noteq> 0 then byTitle else compareBigints (sm_id a) (sm_id b))"

definition compareDate :: "SlotMetadata \<Rightarrow> SlotMetadata \<Rightarrow> int" where
  "compareDate a b =
     (let byDate = compareStrings (sm_createdAt b) (sm_createdAt a)
      in if byDate \<noteq> 0 then byDate else compareBigints (sm_id b) (sm_id a))"

definition saved_rank :: "bigint list \<Rightarrow> bigint \<rightharpoonup> int" where
  "saved_rank savedPinnedOrder =
     foldl (\<lambda>rank (index, i). rank(i \<mapsto> int index)) Map.empty (enumerate 0 savedPinnedOrder)"

definition compareRank :: "(bigint \<rightharpoonup> int) \<Rightarrow> ReviewSlot \<Rightarrow> ReviewSlot \<Rightarrow> int" where
  "compareRank rank a b =
     (case (rank (sm_id (slotMetadata a)), rank (sm_id (slotMetadata b))) of
        (None, None) \<Rightarrow> 0
      | (None, Some bRank) \<Rightarrow> 1
      | (Some aRank, None) \<Rightarrow> -1
      | (Some aRank, Some bRank) \<Rightarrow> aRank - bRank)"

definition organizeFlowSlots ::
    "ReviewSlot list \<Rightarrow> FlowSortMode \<Rightarrow> bigint list option \<Rightarrow> ReviewSlot list \<times> ReviewSlot list" where
  "organizeFlowSlots slots mode savedPinnedOrder =
     (let pinned = filter (\<lambda>slot. sm_pinned (slotMetadata slot)) slots;
          unpinned = filter (\<lambda>slot. \<not> sm_pinned (slotMetadata slot)) slots;
          pinned' = (case savedPinnedOrder of
                       None \<Rightarrow> pinned
                     | Some order \<Rightarrow>
                         if order \<noteq> [] then js_sort (compareRank (saved_rank order)) pinned else pinned);
          comparator = (if mode = SortTopic then compareTopic else compareDate)
      in (pinned', js_sort (\<lambda>a b. comparator (slotMetadata a) (slotMetadata b)) unpinned))"

section \<open>The comparators are consistent\<close>

lemma compareStrings_le: "compareStrings a b \<le> 0 \<longleftrightarrow> a \<le> b"
  by (auto simp: compareStrings_def)

lemma compareStrings_zero: "compareStrings a b = 0 \<longleftrightarrow> a = b"
  by (auto simp: compareStrings_def)

lemma compareBigints_le: "compareBigints a b \<le> 0 \<longleftrightarrow> a \<le> b"
  by (auto simp: compareBigints_def)

definition lex_le :: "'a::linorder \<Rightarrow> 'a \<Rightarrow> bool \<Rightarrow> bool" where
  "lex_le x y rest \<longleftrightarrow> x < y \<or> x = y \<and> rest"

lemma compareTopic_le:
  "compareTopic a b \<le> 0 \<longleftrightarrow>
     lex_le (js_lower (sm_topicName a)) (js_lower (sm_topicName b))
       (lex_le (js_lower (sm_title a)) (js_lower (sm_title b)) (sm_id a \<le> sm_id b))"
  by (auto simp: compareTopic_def compareStrings_def compareBigints_le lex_le_def Let_def)

lemma compareDate_le:
  "compareDate a b \<le> 0 \<longleftrightarrow> lex_le (sm_createdAt b) (sm_createdAt a) (sm_id b \<le> sm_id a)"
  by (auto simp: compareDate_def compareStrings_def compareBigints_le lex_le_def Let_def)

lemma lex_le_total: "r \<or> r' \<Longrightarrow> lex_le x y r \<or> lex_le y x r'"
  unfolding lex_le_def by auto

lemma lex_le_trans:
  "lex_le x y r \<Longrightarrow> lex_le y z r' \<Longrightarrow> (r \<Longrightarrow> r' \<Longrightarrow> r'') \<Longrightarrow> lex_le x z r''"
  unfolding lex_le_def by auto

lemma lex_le_antisym: "lex_le x y r \<Longrightarrow> lex_le y x r' \<Longrightarrow> x = y \<and> r \<and> r'"
  unfolding lex_le_def by auto

lemma compareTopic_trans: "compareTopic a b \<le> 0 \<Longrightarrow> compareTopic b c \<le> 0 \<Longrightarrow> compareTopic a c \<le> 0"
  unfolding compareTopic_le
  by (erule lex_le_trans, assumption, erule lex_le_trans, assumption, simp)

lemma compareDate_trans: "compareDate a b \<le> 0 \<Longrightarrow> compareDate b c \<le> 0 \<Longrightarrow> compareDate a c \<le> 0"
  unfolding compareDate_le by (rule lex_le_trans, assumption+, simp)

lemma compareTopic_total: "compareTopic a b \<le> 0 \<or> compareTopic b a \<le> 0"
  unfolding compareTopic_le by (intro lex_le_total) auto

lemma compareDate_total: "compareDate a b \<le> 0 \<or> compareDate b a \<le> 0"
  unfolding compareDate_le by (intro lex_le_total) auto

lemma compareTopic_consistent: "consistent_cmp (\<lambda>a b. compareTopic (slotMetadata a) (slotMetadata b))"
  unfolding consistent_cmp_def using compareTopic_total compareTopic_trans by blast

lemma compareDate_consistent: "consistent_cmp (\<lambda>a b. compareDate (slotMetadata a) (slotMetadata b))"
  unfolding consistent_cmp_def using compareDate_total compareDate_trans by blast

lemma compareRank_le:
  "compareRank rank a b \<le> 0 \<longleftrightarrow>
     (case rank (sm_id (slotMetadata b)) of None \<Rightarrow> True
      | Some bRank \<Rightarrow> (case rank (sm_id (slotMetadata a)) of None \<Rightarrow> False | Some aRank \<Rightarrow> aRank \<le> bRank))"
  by (auto simp: compareRank_def split: option.splits)

lemma compareRank_consistent: "consistent_cmp (compareRank rank)"
  unfolding consistent_cmp_def compareRank_le by (auto split: option.splits)

lemma slotMetadata_id [simp]: "sm_id (slotMetadata s) = slotCardId s"
  by (simp add: slotMetadata_def slotCardId_def)

lemma slotMetadata_topic [simp]: "sm_topicName (slotMetadata s) = slot_topic s"
  by (simp add: slotMetadata_def slot_topic_def)

section \<open>Sorting is independent of the source order\<close>

lemma topic_antisym: "compareTopic a b \<le> 0 \<Longrightarrow> compareTopic b a \<le> 0 \<Longrightarrow> sm_id a = sm_id b"
  unfolding compareTopic_le by (drule (1) lex_le_antisym, elim conjE, drule (1) lex_le_antisym, simp)

lemma date_antisym: "compareDate a b \<le> 0 \<Longrightarrow> compareDate b a \<le> 0 \<Longrightarrow> sm_id a = sm_id b"
  unfolding compareDate_le by (drule (1) lex_le_antisym, simp)

lemma sort_permutation_invariant_on:
  assumes d: "distinct_cards xs" and m: "mset xs = mset ys" and c: "consistent_cmp cmp"
    and anti: "\<And>a b. a \<in> set xs \<Longrightarrow> b \<in> set xs \<Longrightarrow> cmp a b \<le> 0 \<Longrightarrow> cmp b a \<le> 0 \<Longrightarrow> slotCardId a = slotCardId b"
  shows "js_sort cmp xs = js_sort cmp ys"
proof (rule sorted_wrt_unique [where P = "\<lambda>a b. cmp a b \<le> 0"])
  show "x = y" if "x \<in> set (js_sort cmp xs)" "y \<in> set (js_sort cmp xs)" "cmp x y \<le> 0" "cmp y x \<le> 0" for x y
    using that anti d by (auto intro: distinct_cards_unique)
  show "cmp x x \<le> 0" for x using c by (auto simp: consistent_cmp_def)
qed (use m in \<open>simp_all add: sorted_js_sort [OF c]\<close>)

lemma sort_permutation_invariant:
  assumes "distinct_cards xs" and "mset xs = mset ys" and "consistent_cmp cmp"
    and "\<And>a b. cmp a b \<le> 0 \<Longrightarrow> cmp b a \<le> 0 \<Longrightarrow> slotCardId a = slotCardId b"
  shows "js_sort cmp xs = js_sort cmp ys"
  using assms(1-3) by (rule sort_permutation_invariant_on) (rule assms(4))

lemma distinct_cards_filter: "distinct_cards xs \<Longrightarrow> distinct_cards (filter p xs)"
  by (simp add: distinct_cards_def distinct_map_filter)

section \<open>Pins survive review\<close>

definition slot_pinned :: "ReviewSlot \<Rightarrow> bool" where
  "slot_pinned s = sm_pinned (slotMetadata s)"

lemma slot_pinned_simps [simp]:
  "slot_pinned (SlotIdle c) = fc_pinned c" "slot_pinned (SlotReviewing c g a) = fc_pinned c"
  "slot_pinned (SlotError c g a b m) = fc_pinned c"
  "slot_pinned (SlotCompleted ri) = ri_pinned ri" "slot_pinned (SlotAwaitingRefill tok n ri) = ri_pinned ri"
  "slot_pinned (SlotContinuing g ca st ri) = ri_pinned ri"
  "slot_pinned (SlotContinueError g ca b m ri) = ri_pinned ri"
  by (simp_all add: slot_pinned_def slotMetadata_def)

lemma review_apply_pinned: "map slot_pinned (review_apply slots e) = map slot_pinned slots"
proof (cases e)
  case (EvSuccess k g r)
  then show ?thesis
    by (cases "rs_nextCard r")
      (auto simp: reviewSuccess_def Let_def slot_simps split: option.split if_splits intro!: map_where_proj)
qed (auto simp: review_ops Let_def slot_simps split: option.split if_splits intro!: map_where_proj)

lemma set_organizeFlowSlots_pinned:
  "mset (fst (organizeFlowSlots slots mode order)) = mset (filter slot_pinned slots)"
  by (auto simp: organizeFlowSlots_def Let_def slot_pinned_def [abs_def] split: option.split)

lemma organize_unpinned:
  "snd (organizeFlowSlots slots mode order) =
     js_sort (\<lambda>a b. (if mode = SortTopic then compareTopic else compareDate) (slotMetadata a) (slotMetadata b))
       (filter (\<lambda>s. \<not> slot_pinned s) slots)"
  by (simp add: organizeFlowSlots_def Let_def slot_pinned_def [abs_def])

lemma mode_consistent:
  "consistent_cmp (\<lambda>a b. (if mode = SortTopic then compareTopic else compareDate) (slotMetadata a) (slotMetadata b))"
  using compareTopic_consistent compareDate_consistent by simp

lemma mode_antisym:
  "(if mode = SortTopic then compareTopic else compareDate) (slotMetadata a) (slotMetadata b) \<le> 0 \<Longrightarrow>
   (if mode = SortTopic then compareTopic else compareDate) (slotMetadata b) (slotMetadata a) \<le> 0 \<Longrightarrow>
   slotCardId a = slotCardId b"
  by (auto split: if_splits dest: topic_antisym date_antisym)

subsection \<open>The saved rank\<close>

lemma saved_rank_snoc: "saved_rank (ks @ [k]) = (saved_rank ks)(k \<mapsto> int (length ks))"
  by (simp add: saved_rank_def enumerate_append_eq)

lemma saved_rank_dom: "saved_rank ks k = None \<longleftrightarrow> k \<notin> set ks"
  by (induction ks rule: rev_induct) (auto simp: saved_rank_snoc, simp add: saved_rank_def)

lemma saved_rank_bound: "saved_rank ks x = Some r \<Longrightarrow> 0 \<le> r \<and> r < int (length ks)"
proof (induction ks arbitrary: x rule: rev_induct)
  case Nil
  then show ?case by (simp add: saved_rank_def)
next
  case (snoc k ks)
  then show ?case by (fastforce simp: saved_rank_snoc split: if_splits)
qed

lemma saved_rank_distinct:
  "distinct ks \<Longrightarrow> i < length ks \<Longrightarrow> saved_rank ks (ks ! i) = Some (int i)"
proof (induction ks rule: rev_induct)
  case (snoc k ks)
  then show ?case by (cases "i = length ks") (auto simp: saved_rank_snoc nth_append)
qed simp

lemma saved_rank_inj: "saved_rank ks i = Some r \<Longrightarrow> saved_rank ks j = Some r \<Longrightarrow> i = j"
proof (induction ks rule: rev_induct)
  case Nil
  then show ?case by (simp add: saved_rank_def)
next
  case (snoc k ks)
  have "saved_rank ks x \<noteq> Some (int (length ks))" for x
    using saved_rank_bound [of ks x] by auto
  with snoc show ?case by (auto simp: saved_rank_snoc split: if_splits)
qed

lemma organize_pinned_rank:
  "ks \<noteq> [] \<Longrightarrow> fst (organizeFlowSlots slots mode (Some ks)) =
     js_sort (compareRank (saved_rank ks)) (filter slot_pinned slots)"
  by (simp add: organizeFlowSlots_def Let_def slot_pinned_def [abs_def])

lemma organize_unranked_stable:
  "filter (\<lambda>s. slotCardId s \<notin> set ks) (fst (organizeFlowSlots slots mode (Some ks))) =
     filter (\<lambda>s. slotCardId s \<notin> set ks) (filter slot_pinned slots)"
proof (cases "ks = []")
  case True
  then show ?thesis by (simp add: organizeFlowSlots_def Let_def slot_pinned_def [abs_def])
next
  case False
  have "compareRank (saved_rank ks) x y \<le> 0" if "slotCardId x \<notin> set ks" "slotCardId y \<notin> set ks" for x y
    using that by (simp add: compareRank_le saved_rank_dom [THEN iffD2])
  then show ?thesis unfolding organize_pinned_rank [OF False] by (rule js_sort_stable)
qed

section \<open>Properties\<close>

text \<open>Organizing the Flow splits the slots into pinned and unpinned without losing or
  inventing one; the pinned section is ordered by the saved rank, with unranked slots behind all
  ranked ones and in source order; the unpinned section is sorted by the chosen mode.\<close>

theorem organize_partitions:
  assumes "organizeFlowSlots slots mode (Some order) = (pinned, unpinned)"
  shows "mset pinned + mset unpinned = mset slots \<and> list_all slot_pinned pinned \<and>
         list_all (\<lambda>s. \<not> slot_pinned s) unpinned \<and>
         (order \<noteq> [] \<longrightarrow> sorted_wrt (\<lambda>a b. compareRank (saved_rank order) a b \<le> 0) pinned) \<and>
         filter (\<lambda>s. slotCardId s \<notin> set order) pinned =
           filter (\<lambda>s. slotCardId s \<notin> set order) (filter slot_pinned slots) \<and>
         sorted_wrt (\<lambda>a b. (if mode = SortTopic then compareTopic else compareDate)
           (slotMetadata a) (slotMetadata b) \<le> 0) unpinned"
proof -
  have p: "pinned = fst (organizeFlowSlots slots mode (Some order))"
    and u: "unpinned = snd (organizeFlowSlots slots mode (Some order))" using assms by simp_all
  have "mset pinned = mset (filter slot_pinned slots)" unfolding p by (rule set_organizeFlowSlots_pinned)
  moreover have "mset unpinned = mset (filter (\<lambda>s. \<not> slot_pinned s) slots)"
    unfolding u organize_unpinned by simp
  moreover from calculation have "set pinned = set (filter slot_pinned slots)"
    "set unpinned = set (filter (\<lambda>s. \<not> slot_pinned s) slots)" by (metis set_mset_mset)+
  moreover have "sorted_wrt (\<lambda>a b. compareRank (saved_rank order) a b \<le> 0) pinned" if "order \<noteq> []"
    unfolding p organize_pinned_rank [OF that] by (rule sorted_js_sort [OF compareRank_consistent])
  moreover have "sorted_wrt (\<lambda>a b. (if mode = SortTopic then compareTopic else compareDate)
      (slotMetadata a) (slotMetadata b) \<le> 0) unpinned"
    unfolding u organize_unpinned by (rule sorted_js_sort [OF mode_consistent])
  ultimately show ?thesis
    using organize_unranked_stable [of order slots mode] unfolding p [symmetric]
    by (auto simp: list_all_iff multiset_partition [symmetric])
qed

theorem organize_partitions_witness:
  "let a = SlotIdle (sample_card 1 ''b'' ''casual_tip'' True); b = SlotIdle (sample_card 2 ''a'' ''casual_tip'' True);
       c = SlotIdle (sample_card 3 ''c'' ''casual_tip'' False)
   in mset [b, a] + mset [c] = mset [a, b, c]"
  using organize_partitions [of "[SlotIdle (sample_card 1 ''b'' ''casual_tip'' True),
      SlotIdle (sample_card 2 ''a'' ''casual_tip'' True), SlotIdle (sample_card 3 ''c'' ''casual_tip'' False)]"
      SortTopic "[2]"]
  by (simp add: organizeFlowSlots_def slotMetadata_def compareRank_def saved_rank_def sample_card_def Let_def)

text \<open>With distinct cards the organized lists depend only on the set of slots, not on the order in
  which they were loaded: the unpinned section always, and the pinned section as soon as the saved
  order ranks every pinned card.\<close>

theorem organize_order_independent:
  assumes "distinct_cards slots" and "mset slots = mset slots'"
    and "order \<noteq> []" and "\<forall>s \<in> set slots. slot_pinned s \<longrightarrow> slotCardId s \<in> set order"
  shows "organizeFlowSlots slots mode (Some order) = organizeFlowSlots slots' mode (Some order)"
proof (rule prod_eqI)
  show "snd (organizeFlowSlots slots mode (Some order)) = snd (organizeFlowSlots slots' mode (Some order))"
    unfolding organize_unpinned
    by (rule sort_permutation_invariant [OF _ _ mode_consistent mode_antisym])
      (simp_all add: assms distinct_cards_filter)
  have inj: "i = j" if "saved_rank order i = Some r" "saved_rank order j = Some r" for i j r
    using that by (rule saved_rank_inj)
  have "js_sort (compareRank (saved_rank order)) (filter slot_pinned slots) =
      js_sort (compareRank (saved_rank order)) (filter slot_pinned slots')"
  proof (rule sort_permutation_invariant_on [OF _ _ compareRank_consistent])
    show "slotCardId a = slotCardId b" if "a \<in> set (filter slot_pinned slots)" "b \<in> set (filter slot_pinned slots)"
      "compareRank (saved_rank order) a b \<le> 0" "compareRank (saved_rank order) b a \<le> 0" for a b
    proof -
      have "slotCardId a \<in> set order" "slotCardId b \<in> set order" using that assms(4) by auto
      then obtain r s where "saved_rank order (slotCardId a) = Some r" "saved_rank order (slotCardId b) = Some s"
        by (meson option.exhaust saved_rank_dom)
      with that(3,4) inj show ?thesis by (simp add: compareRank_le)
    qed
  qed (simp_all add: assms distinct_cards_filter)
  then show "fst (organizeFlowSlots slots mode (Some order)) = fst (organizeFlowSlots slots' mode (Some order))"
    by (simp add: organize_pinned_rank assms(3))
qed

theorem organize_order_independent_witness:
  "let a = SlotIdle (sample_card 1 ''b'' ''casual_tip'' True); b = SlotIdle (sample_card 2 ''a'' ''casual_tip'' False)
   in organizeFlowSlots [a, b] SortDate (Some [1]) = organizeFlowSlots [b, a] SortDate (Some [1])"
  unfolding Let_def
  by (rule organize_order_independent)
    (auto simp: distinct_cards_def sample_card_def)

end
