(* ===== verification/Flow_View.thy ===== *)
theory Flow_View
  imports Messages
begin

text \<open>
  The small view modules of the Flow page: \<open>lib/flow-view.ts\<close> (merging pages, the card
  projection), \<open>lib/flow-state.ts\<close> (the pagination cursor), \<open>lib/flow-layout.ts\<close> (layout
  preferences) and \<open>lib/card-content.ts\<close>. A record lookup with a fallback (\<open>map[raw] ?? raw\<close>)
  is a \<open>map_of\<close>; a raw value that names a member of \<open>Object.prototype\<close> is outside the
  protocol's vocabulary and not modelled. \<open>toLocaleLowerCase\<close> is the locale-independent one.
\<close>

section \<open>flow-view\<close>

definition mergeCardsById :: "FlowCardInfo list \<Rightarrow> FlowCardInfo list \<Rightarrow> FlowCardInfo list" where
  "mergeCardsById existing incoming =
     (let seen = set (map fc_id existing)
      in existing @ filter (\<lambda>c. fc_id c \<notin> seen) incoming)"

record FlowCardView =
  cv_id :: bigint
  cv_title :: jsstring
  cv_topicName :: jsstring
  cv_content :: jsstring
  cv_pinned :: bool
  cv_repeatCount :: int
  cv_pendingCount :: bigint
  cv_typeLabel :: jsstring
  cv_statusLabel :: jsstring
  cv_imageUrls :: "jsstring list"

definition TYPE_LABELS :: "jsstring \<rightharpoonup> jsstring" where
  "TYPE_LABELS = map_of
     [(''casual_tip'', ''Casual tip''), (''repeatable_tip'', ''Repeatable tip''),
      (''manual_tip'', ''Manual tip''), (''custom_tip'', ''Custom tip'')]"

definition STATUS_LABELS :: "jsstring \<rightharpoonup> jsstring" where
  "STATUS_LABELS = map_of
     [(''active'', ''Active''), (''pending'', ''Pending''), (''custom'', ''Custom''),
      (''learned'', ''Learned''), (''dismissed'', ''Dismissed'')]"

definition labelFrom :: "(jsstring \<rightharpoonup> jsstring) \<Rightarrow> jsstring \<Rightarrow> jsstring" where
  "labelFrom labels raw =
     (if raw = [] then ''Unspecified''
      else (case labels raw of None \<Rightarrow> raw | Some l \<Rightarrow> l))"

definition cardImageUrls :: "FlowCardInfo \<Rightarrow> jsstring list" where
  "cardImageUrls fcard =
     map (\<lambda>image. if im_downloadPath image = []
                  then ''/api/v1/tipcard-images/'' @ dec_of_int (im_id image)
                  else im_downloadPath image) (fc_images fcard)"

definition repeatableStackLayers :: "FlowCardInfo \<Rightarrow> int" where
  "repeatableStackLayers fcard =
     (if fc_tipcardType fcard \<noteq> ''repeatable_tip'' \<or> fc_pendingCount fcard \<le> 0 then 0
      else if fc_pendingCount fcard \<ge> 3 then 3 else fc_pendingCount fcard)"

definition toFlowCardView :: "FlowCardInfo \<Rightarrow> FlowCardView" where
  "toFlowCardView fcard =
     \<lparr>cv_id = fc_id fcard, cv_title = fc_title fcard, cv_topicName = fc_topicName fcard,
      cv_content = (if fc_compressedContent fcard = [] then fc_fullContent fcard
                    else fc_compressedContent fcard),
      cv_pinned = fc_pinned fcard, cv_repeatCount = fc_repeatCount fcard,
      cv_pendingCount = fc_pendingCount fcard,
      cv_typeLabel = labelFrom TYPE_LABELS (fc_tipcardType fcard),
      cv_statusLabel = labelFrom STATUS_LABELS (fc_status fcard),
      cv_imageUrls = cardImageUrls fcard\<rparr>"

definition toFlowCardViews :: "FlowCardInfo list \<Rightarrow> FlowCardView list" where
  "toFlowCardViews cards = map toFlowCardView cards"

section \<open>flow-state\<close>

datatype FlowCursor = CursorEnd | CursorMore jsstring

definition cursorFromPage :: "jsstring option \<Rightarrow> bool \<Rightarrow> js_error + FlowCursor" where
  "cursorFromPage nextPageToken hasMore =
     (if hasMore
      then (case nextPageToken of
              None \<Rightarrow> Inl (TypeError ''list_flow_cards reported more pages without a cursor'')
            | Some tok \<Rightarrow>
                if tok = [] then Inl (TypeError ''list_flow_cards reported more pages without a cursor'')
                else Inr (CursorMore tok))
      else (case nextPageToken of
              None \<Rightarrow> Inr CursorEnd
            | Some tok \<Rightarrow>
                if tok \<noteq> [] then Inl (TypeError ''list_flow_cards returned a cursor for a final page'')
                else Inr CursorEnd))"

definition loadMoreSuccess ::
    "FlowCardInfo list \<Rightarrow> FlowCardInfo list \<Rightarrow> FlowCursor \<Rightarrow> FlowCardInfo list \<times> FlowCursor" where
  "loadMoreSuccess cards pageCards cursor = (mergeCardsById cards pageCards, cursor)"

fun cursor_ok :: "FlowCursor \<Rightarrow> bool" where
  "cursor_ok CursorEnd = True"
| "cursor_ok (CursorMore tok) = (tok \<noteq> [])"

lemma cursorFromPage_ok: "cursorFromPage tok hasMore = Inr c \<Longrightarrow> cursor_ok c"
  by (auto simp: cursorFromPage_def split: if_splits option.splits)

section \<open>flow-layout\<close>

datatype FlowLayout = LayoutGrid | LayoutList

definition parseFlowLayout :: "jsstring option \<Rightarrow> FlowLayout" where
  "parseFlowLayout value = (if value = Some ''list'' then LayoutList else LayoutGrid)"

text \<open>The callers pass integers, on which \<open>Math.floor\<close> is the identity.\<close>

definition clampGridColumns :: "int \<Rightarrow> int" where
  "clampGridColumns columns =
     (let bounded = min 4 (max 1 columns)
      in if bounded \<le> 1 then 1 else if bounded = 2 then 2 else if bounded = 3 then 3 else 4)"

definition all_digits :: "jsstring \<Rightarrow> bool" where
  "all_digits s \<longleftrightarrow> s \<noteq> [] \<and> list_all is_digit s"

definition parseGridColumns :: "jsstring option \<Rightarrow> int" where
  "parseGridColumns value =
     (case value of
        None \<Rightarrow> 4
      | Some v \<Rightarrow>
          let trimmed = js_trim v
          in if \<not> all_digits trimmed then 4 else clampGridColumns (int (nat_of_dec trimmed)))"

definition gridClassesForColumns :: "int \<Rightarrow> jsstring" where
  "gridClassesForColumns columns =
     (if columns = 1 then ''grid grid-cols-1 gap-6 items-start''
      else if columns = 2 then ''grid grid-cols-1 md:grid-cols-2 gap-6 items-start''
      else if columns = 3 then ''grid grid-cols-1 md:grid-cols-2 xl:grid-cols-3 gap-6 items-start''
      else ''grid grid-cols-1 md:grid-cols-2 xl:grid-cols-3 2xl:grid-cols-4 gap-6 items-start'')"

section \<open>card-content\<close>

datatype CardContentKind = ContentNormal | ContentLlmError | ContentApiKeyMissing

definition detectCardContentKind :: "jsstring \<Rightarrow> CardContentKind" where
  "detectCardContentKind text =
     (let trimmed = js_trim text
      in if trimmed = [] then ContentNormal
         else let lower = js_lower trimmed
              in if js_includes ''api key missing'' lower then ContentApiKeyMissing
                 else if js_starts_with ''llm error:'' lower \<or>
                         js_includes (CHR 0x0A # ''llm error:'') lower \<or>
                         js_includes ''llm error: http'' lower
                 then ContentLlmError
                 else ContentNormal)"

definition cardErrorDetail :: "CardContentKind \<Rightarrow> jsstring \<Rightarrow> jsstring \<Rightarrow> jsstring" where
  "cardErrorDetail kind fullContent compressedContent =
     (if kind = ContentNormal then []
      else let primary = js_trim fullContent
           in if primary = [] then js_trim compressedContent else primary)"

definition filterTopicsByName :: "('a \<Rightarrow> jsstring) \<Rightarrow> 'a list \<Rightarrow> jsstring \<Rightarrow> 'a list" where
  "filterTopicsByName name topics query =
     (let needle = js_lower (js_trim query)
      in if needle = [] then topics
         else filter (\<lambda>topic. js_includes needle (js_lower (name topic))) topics)"

section \<open>Lemmas\<close>

lemma mergeCardsById_prefix: "take (length existing) (mergeCardsById existing incoming) = existing"
  by (simp add: mergeCardsById_def Let_def)

lemma mergeCardsById_distinct_iff:
  "distinct (map fc_id (mergeCardsById existing incoming)) \<longleftrightarrow>
   distinct (map fc_id existing) \<and>
   distinct (map fc_id (filter (\<lambda>c. fc_id c \<notin> fc_id ` set existing) incoming))"
proof -
  have "set (map fc_id existing) \<inter>
      set (map fc_id (filter (\<lambda>c. fc_id c \<notin> set (map fc_id existing)) incoming)) = {}"
    by (auto simp: image_iff)
  then show ?thesis
    unfolding mergeCardsById_def Let_def map_append distinct_append by (simp only: set_map simp_thms)
qed

lemma mergeCardsById_ids:
  "fc_id ` set (mergeCardsById existing incoming) = fc_id ` set existing \<union> fc_id ` set incoming"
  by (auto simp: mergeCardsById_def Let_def)

lemmas merge_cards_facts = mergeCardsById_prefix mergeCardsById_distinct_iff mergeCardsById_ids

lemma grid_columns_range: "parseGridColumns v \<in> {1, 2, 3, 4}"
  by (auto simp: parseGridColumns_def clampGridColumns_def Let_def split: option.splits)

section \<open>Properties\<close>

text \<open>Merging a page keeps the cards already shown as a prefix and never repeats one of them, but it
  compares an incoming card with the shown ones only: a card repeated inside the incoming page is
  kept twice, so the merged list is free of duplicates exactly when both lists were.\<close>

theorem merge_cards_dedup:
  assumes "distinct (map fc_id existing)"
  shows "take (length existing) (mergeCardsById existing incoming) = existing \<and>
         fc_id ` set (mergeCardsById existing incoming) = fc_id ` set existing \<union> fc_id ` set incoming \<and>
         (distinct (map fc_id (mergeCardsById existing incoming)) \<longleftrightarrow>
            distinct (map fc_id (filter (\<lambda>c. fc_id c \<notin> fc_id ` set existing) incoming)))"
  using assms by (simp add: merge_cards_facts)

theorem merge_cards_dedup_witness:
  "\<not> distinct (map fc_id (mergeCardsById [] [sample_card 1 ''a'' ''casual_tip'' False, sample_card 1 ''a'' ''casual_tip'' False]))"
  using merge_cards_dedup [of "[]" "[sample_card 1 ''a'' ''casual_tip'' False, sample_card 1 ''a'' ''casual_tip'' False]"]
  by simp

end
