(* ===== verification/Transmission.thy ===== *)
theory Transmission
  imports Organization "HOL-Library.Sublist"
begin

text \<open>
  \<open>lib/flow-transmission.ts\<close>: the topic picks of the Transmission layout. The selection loop runs
  over the indexed slots with its two maps as accumulators and stops at the ninth pick.
\<close>

definition TRANSMISSION_MAX_PICKS :: nat where
  "TRANSMISSION_MAX_PICKS = 9"

definition TRANSMISSION_MAX_PICKS_PER_TOPIC :: nat where
  "TRANSMISSION_MAX_PICKS_PER_TOPIC = 3"

definition slotTipcardType :: "ReviewSlot \<Rightarrow> jsstring" where
  "slotTipcardType slot =
     (if is_live slot then fc_tipcardType (slot_card slot) else ri_tipcardType (slot_reviewed slot))"

definition isActiveLiveSlot :: "ReviewSlot \<Rightarrow> bool" where
  "isActiveLiveSlot slot \<longleftrightarrow> is_live slot \<and> fc_status (slot_card slot) = ''active''"

definition isRepeatableSlot :: "ReviewSlot \<Rightarrow> bool" where
  "isRepeatableSlot slot \<longleftrightarrow> slotTipcardType slot = ''repeatable_tip''"

definition activeRepeatableTopics :: "ReviewSlot list \<Rightarrow> jsstring set" where
  "activeRepeatableTopics slots =
     set (map (\<lambda>s. sm_topicName (slotMetadata s)) (filter (\<lambda>s. isActiveLiveSlot s \<and> isRepeatableSlot s) slots))"

definition isEligibleSlot :: "ReviewSlot \<Rightarrow> jsstring set \<Rightarrow> bool" where
  "isEligibleSlot slot activeTopics \<longleftrightarrow>
     isActiveLiveSlot slot \<or>
     isRepeatableSlot slot \<and> \<not> is_live slot \<and> sm_topicName (slotMetadata slot) \<notin> activeTopics"

definition eligible_topics :: "ReviewSlot list \<Rightarrow> jsstring set" where
  "eligible_topics slots =
     set (map (\<lambda>s. sm_topicName (slotMetadata s))
       (filter (\<lambda>s. isEligibleSlot s (activeRepeatableTopics slots)) slots))"

definition per_topic_limit :: "nat \<Rightarrow> nat" where
  "per_topic_limit topicCount =
     min TRANSMISSION_MAX_PICKS_PER_TOPIC (max 1 (TRANSMISSION_MAX_PICKS div topicCount))"

definition count_of :: "(jsstring \<rightharpoonup> nat) \<Rightarrow> jsstring \<Rightarrow> nat" where
  "count_of counts topic = (case counts topic of None \<Rightarrow> 0 | Some n \<Rightarrow> n)"

fun pick_loop ::
    "jsstring set \<Rightarrow> nat \<Rightarrow> (jsstring \<rightharpoonup> nat) \<Rightarrow> (jsstring \<rightharpoonup> jsstring) \<Rightarrow> nat \<Rightarrow>
     (nat \<times> ReviewSlot) list \<Rightarrow> (nat \<times> ReviewSlot) list" where
  "pick_loop activeTopics limit counts selections picked [] = []"
| "pick_loop activeTopics limit counts selections picked ((index, slot) # rest) =
     (let topic = sm_topicName (slotMetadata slot);
          repeatable = isRepeatableSlot slot;
          count = count_of counts topic;
          cardLimit = (if repeatable then 1 else limit)
      in if \<not> isEligibleSlot slot activeTopics \<or> repeatable \<and> selections topic \<noteq> None \<or> cardLimit \<le> count
         then pick_loop activeTopics limit counts selections picked rest
         else (index, slot) #
           (if picked + 1 = TRANSMISSION_MAX_PICKS then []
            else pick_loop activeTopics limit (counts(topic \<mapsto> count + 1))
                   (if repeatable then selections(topic \<mapsto> slotIdentity slot) else selections)
                   (picked + 1) rest))"

definition pickIndexes :: "ReviewSlot list \<Rightarrow> nat list" where
  "pickIndexes slots =
     (let topicCount = eligible_topics slots
      in if card topicCount = 0 then []
         else map fst (pick_loop (activeRepeatableTopics slots) (per_topic_limit (card topicCount))
                Map.empty Map.empty 0 (enumerate 0 slots)))"

definition selectTopicPicks :: "ReviewSlot list \<Rightarrow> ReviewSlot list" where
  "selectTopicPicks slots = map (\<lambda>index. slots ! index) (pickIndexes slots)"

record TopicPickPartition =
  tp_picks :: "ReviewSlot list"
  tp_remaining :: "ReviewSlot list"

definition splitTopicPicks :: "ReviewSlot list \<Rightarrow> TopicPickPartition" where
  "splitTopicPicks slots =
     (let pickIndexSet = set (pickIndexes slots)
      in \<lparr>tp_picks = map snd (filter (\<lambda>(index, slot). index \<in> pickIndexSet) (enumerate 0 slots)),
          tp_remaining = map snd (filter (\<lambda>(index, slot). index \<notin> pickIndexSet \<and> \<not> isRepeatableSlot slot)
             (enumerate 0 slots))\<rparr>)"

section \<open>The loop\<close>

abbreviation topic_of :: "nat \<times> ReviewSlot \<Rightarrow> jsstring" where
  "topic_of p \<equiv> slot_topic (snd p)"

lemma count_of_simps [simp]:
  "count_of Map.empty topic = 0"
  "count_of (counts(topic \<mapsto> n)) topic' = (if topic' = topic then n else count_of counts topic')"
  by (simp_all add: count_of_def)

definition skipped :: "jsstring set \<Rightarrow> nat \<Rightarrow> (jsstring \<rightharpoonup> nat) \<Rightarrow> (jsstring \<rightharpoonup> jsstring) \<Rightarrow> ReviewSlot \<Rightarrow> bool" where
  "skipped A L counts sel s \<longleftrightarrow>
     \<not> isEligibleSlot s A \<or> isRepeatableSlot s \<and> sel (slot_topic s) \<noteq> None \<or>
     (if isRepeatableSlot s then 1 else L) \<le> count_of counts (slot_topic s)"

definition selection_after :: "(jsstring \<rightharpoonup> jsstring) \<Rightarrow> ReviewSlot \<Rightarrow> (jsstring \<rightharpoonup> jsstring)" where
  "selection_after sel s = (if isRepeatableSlot s then sel(slot_topic s \<mapsto> slotIdentity s) else sel)"

lemma selection_after_None:
  "selection_after sel s topic = None \<longleftrightarrow> sel topic = None \<and> \<not> (isRepeatableSlot s \<and> topic = slot_topic s)"
  by (auto simp: selection_after_def)

lemma pick_loop_Cons:
  "pick_loop A L counts sel n (p # ps) =
     (if skipped A L counts sel (snd p) then pick_loop A L counts sel n ps
      else p # (if n + 1 = TRANSMISSION_MAX_PICKS then []
                else pick_loop A L (counts(topic_of p \<mapsto> count_of counts (topic_of p) + 1))
                       (selection_after sel (snd p)) (n + 1) ps))"
  by (cases p) (auto simp: Let_def skipped_def selection_after_def)

declare pick_loop.simps(2) [simp del]
declare pick_loop_Cons [simp]

lemma pick_loop_subseq: "subseq (pick_loop A L counts sel n ps) ps"
  by (induction ps arbitrary: counts sel n) auto

lemma pick_loop_length:
  "n < TRANSMISSION_MAX_PICKS \<Longrightarrow> n + length (pick_loop A L counts sel n ps) \<le> TRANSMISSION_MAX_PICKS"
proof (induction ps arbitrary: counts sel n)
  case (Cons p ps)
  then show ?case
    using Cons.IH [of "n + 1"] by (auto simp: less_eq_Suc_le)
qed simp

lemma pick_loop_eligible: "p \<in> set (pick_loop A L counts sel n ps) \<Longrightarrow> isEligibleSlot (snd p) A"
  by (induction ps arbitrary: counts sel n) (auto simp: skipped_def split: if_splits)

lemma pick_loop_topic_count:
  "1 \<le> L \<Longrightarrow> count_of counts topic \<le> L \<Longrightarrow>
   count_of counts topic + length (filter (\<lambda>p. topic_of p = topic) (pick_loop A L counts sel n ps)) \<le> L"
proof (induction ps arbitrary: counts sel n)
  case (Cons p ps)
  show ?case
  proof (cases "skipped A L counts sel (snd p)")
    case True
    with Cons show ?thesis by simp
  next
    case False
    then have lt: "count_of counts (topic_of p) < L"
      using Cons.prems(1) by (auto simp: skipped_def split: if_splits)
    let ?counts = "counts(topic_of p \<mapsto> count_of counts (topic_of p) + 1)"
    have "count_of ?counts topic \<le> L" using lt Cons.prems by simp
    from Cons.IH [OF Cons.prems(1) this] lt Cons.prems False show ?thesis
      by (cases "topic_of p = topic") (auto simp del: fun_upd_apply)
  qed
qed simp

lemma pick_loop_repeatable:
  "length (filter (\<lambda>p. topic_of p = topic \<and> isRepeatableSlot (snd p)) (pick_loop A L counts sel n ps))
     \<le> (if sel topic = None then 1 else 0)"
proof (induction ps arbitrary: counts sel n)
  case (Cons p ps)
  show ?case
  proof (cases "skipped A L counts sel (snd p)")
    case True
    with Cons.IH show ?thesis by simp
  next
    case False
    then have "isRepeatableSlot (snd p) \<Longrightarrow> sel (topic_of p) = None" by (simp add: skipped_def)
    with Cons.IH [where sel = "selection_after sel (snd p)" and n = "n + 1"
        and counts = "counts(topic_of p \<mapsto> count_of counts (topic_of p) + 1)"] False
    show ?thesis by (auto simp: selection_after_None simp del: fun_upd_apply split: if_splits)
  qed
qed simp

text \<open>A loop that does not stop at the ninth pick serves every eligible topic.\<close>

lemma pick_loop_covers:
  assumes "1 \<le> L" and "\<And>topic. sel topic \<noteq> None \<Longrightarrow> 1 \<le> count_of counts topic"
    and "n + length (pick_loop A L counts sel n ps) < TRANSMISSION_MAX_PICKS"
    and "q \<in> set ps" and "isEligibleSlot (snd q) A"
  shows "1 \<le> count_of counts (topic_of q) \<or> topic_of q \<in> topic_of ` set (pick_loop A L counts sel n ps)"
  using assms
proof (induction ps arbitrary: counts sel n)
  case (Cons p ps)
  show ?case
  proof (cases "skipped A L counts sel (snd p)")
    case True
    have "isEligibleSlot (snd p) A \<Longrightarrow> 1 \<le> count_of counts (topic_of p)"
      using True Cons.prems(1,2) by (auto simp: skipped_def split: if_splits)
    with Cons.IH [OF Cons.prems(1,2)] Cons.prems True show ?thesis by auto
  next
    case False
    then have n: "n + 1 \<noteq> TRANSMISSION_MAX_PICKS" using Cons.prems(3) by auto
    let ?counts = "counts(topic_of p \<mapsto> count_of counts (topic_of p) + 1)"
    let ?sel = "selection_after sel (snd p)"
    have sel: "1 \<le> count_of ?counts topic" if "?sel topic \<noteq> None" for topic
      using that Cons.prems(2) [of topic] by (auto simp: selection_after_def split: if_splits)
    show ?thesis
    proof (cases "q = p")
      case True
      with False show ?thesis by simp
    next
      case q: False
      have "1 \<le> count_of ?counts (topic_of q) \<or> topic_of q \<in> topic_of ` set (pick_loop A L ?counts ?sel (n + 1) ps)"
        using Cons.IH [where counts = ?counts and sel = ?sel and n = "n + 1", OF Cons.prems(1) sel]
          Cons.prems(3-5) False n q by (simp del: fun_upd_apply)
      with False n show ?thesis by (auto split: if_splits)
    qed
  qed
qed simp

section \<open>Counting\<close>

lemma per_topic_limit_pos: "1 \<le> per_topic_limit n"
  by (simp add: per_topic_limit_def TRANSMISSION_MAX_PICKS_PER_TOPIC_def TRANSMISSION_MAX_PICKS_def)

lemma per_topic_limit_budget: "1 \<le> n \<Longrightarrow> n \<le> 9 \<Longrightarrow> n * per_topic_limit n \<le> 9"
  by (cases "n \<in> {1, 2, 3, 4, 5, 6, 7, 8, 9}")
    (auto simp: per_topic_limit_def TRANSMISSION_MAX_PICKS_PER_TOPIC_def TRANSMISSION_MAX_PICKS_def)

definition picked_pairs :: "ReviewSlot list \<Rightarrow> (nat \<times> ReviewSlot) list" where
  "picked_pairs slots = pick_loop (activeRepeatableTopics slots) (per_topic_limit (card (eligible_topics slots)))
     Map.empty Map.empty 0 (enumerate 0 slots)"

lemma picked_subseq: "subseq (picked_pairs slots) (enumerate 0 slots)"
  unfolding picked_pairs_def by (rule pick_loop_subseq)

lemma picked_in: "p \<in> set (picked_pairs slots) \<Longrightarrow> p \<in> set (enumerate 0 slots)"
  using list_emb_set [OF picked_subseq, of p slots] by auto

lemma picked_nth: "p \<in> set (picked_pairs slots) \<Longrightarrow> fst p < length slots \<and> slots ! fst p = snd p"
  by (drule picked_in) (auto simp: in_set_enumerate_eq)

lemma picked_eligible: "p \<in> set (picked_pairs slots) \<Longrightarrow> isEligibleSlot (snd p) (activeRepeatableTopics slots)"
  unfolding picked_pairs_def by (rule pick_loop_eligible)

lemma picked_topic: "p \<in> set (picked_pairs slots) \<Longrightarrow> topic_of p \<in> eligible_topics slots"
proof -
  assume p: "p \<in> set (picked_pairs slots)"
  then have "snd p \<in> set slots" using picked_nth [OF p] nth_mem by metis
  with picked_eligible [OF p] show "topic_of p \<in> eligible_topics slots"
    by (simp add: eligible_topics_def)
qed

lemma pickIndexes_pairs: "pickIndexes slots = map fst (picked_pairs slots)"
proof (cases "card (eligible_topics slots) = 0")
  case True
  then have "eligible_topics slots = {}" by (simp add: eligible_topics_def)
  then have "picked_pairs slots = []" using picked_topic [of _ slots] by (cases "picked_pairs slots") auto
  with True show ?thesis by (simp add: pickIndexes_def)
next
  case False
  then show ?thesis by (simp add: pickIndexes_def picked_pairs_def)
qed

lemma selectTopicPicks_pairs: "selectTopicPicks slots = map snd (picked_pairs slots)"
  using picked_nth [of _ slots] by (simp add: selectTopicPicks_def pickIndexes_pairs)

text \<open>A subsequence of a list with distinct keys is the filter of the list by its own keys.\<close>

lemma subseq_filter_keys: "subseq xs ys \<Longrightarrow> distinct (map f ys) \<Longrightarrow> filter (\<lambda>y. f y \<in> f ` set xs) ys = xs"
proof (induction rule: list_emb.induct)
  case (list_emb_Cons xs ys y)
  then have "f y \<notin> f ` set xs" by (auto dest: list_emb_set)
  with list_emb_Cons show ?case by simp
next
  case (list_emb_Cons2 x y xs ys)
  then have "f z \<noteq> f y" if "z \<in> set ys" for z using that by (metis distinct.simps(2) image_eqI list.simps(9) set_map)
  with list_emb_Cons2 have "filter (\<lambda>z. f z = f x \<or> f z \<in> f ` set xs) ys = filter (\<lambda>z. f z \<in> f ` set xs) ys"
    by (intro filter_cong) auto
  with list_emb_Cons2 show ?case by simp
qed simp

lemma split_picks: "tp_picks (splitTopicPicks slots) = selectTopicPicks slots"
proof -
  have "filter (\<lambda>p. fst p \<in> fst ` set (picked_pairs slots)) (enumerate 0 slots) = picked_pairs slots"
    by (rule subseq_filter_keys [OF picked_subseq]) simp
  then show ?thesis
    by (simp add: splitTopicPicks_def selectTopicPicks_pairs pickIndexes_pairs Let_def case_prod_beta')
qed

lemma mset_map_partition:
  "mset (map g (filter P xs)) + mset (map g (filter (\<lambda>x. \<not> P x) xs)) = mset (map g xs)"
  by (induction xs) auto

lemma split_remaining:
  "mset (filter (\<lambda>s. \<not> isRepeatableSlot s) (selectTopicPicks slots)) + mset (tp_remaining (splitTopicPicks slots)) =
   mset (filter (\<lambda>s. \<not> isRepeatableSlot s) slots)"
proof -
  let ?e = "enumerate 0 slots"
  let ?in = "\<lambda>p. fst p \<in> fst ` set (picked_pairs slots)"
  let ?f = "filter (\<lambda>p. \<not> isRepeatableSlot (snd p)) ?e"
  have picked: "filter ?in ?e = picked_pairs slots"
    by (rule subseq_filter_keys [OF picked_subseq]) simp
  have "filter (\<lambda>s. \<not> isRepeatableSlot s) (selectTopicPicks slots) = map snd (filter ?in ?f)"
  proof -
    have "filter ?in ?f = filter (\<lambda>p. \<not> isRepeatableSlot (snd p)) (filter ?in ?e)"
      by (simp add: conj_commute)
    then show ?thesis by (simp only: picked selectTopicPicks_pairs) (simp add: filter_map comp_def)
  qed
  moreover have "tp_remaining (splitTopicPicks slots) = map snd (filter (\<lambda>p. \<not> ?in p) ?f)"
    by (simp add: splitTopicPicks_def pickIndexes_pairs Let_def case_prod_beta' conj_commute)
  moreover have "mset (map snd (filter ?in ?f)) + mset (map snd (filter (\<lambda>p. \<not> ?in p) ?f)) = mset (map snd ?f)"
    by (rule mset_map_partition)
  moreover have "map snd ?f = filter (\<lambda>s. \<not> isRepeatableSlot s) (map snd ?e)"
    by (simp only: filter_map comp_def)
  ultimately show ?thesis by simp
qed

lemma picked_length: "length (picked_pairs slots) \<le> 9"
  using pick_loop_length [of 0 "activeRepeatableTopics slots"]
  by (simp add: picked_pairs_def TRANSMISSION_MAX_PICKS_def)

lemma picked_topic_count:
  "length (filter (\<lambda>p. topic_of p = topic) (picked_pairs slots)) \<le> per_topic_limit (card (eligible_topics slots))"
  using pick_loop_topic_count [OF per_topic_limit_pos, of Map.empty topic] by (simp add: picked_pairs_def)

lemma length_by_key:
  assumes "finite K" and "\<forall>x \<in> set xs. key x \<in> K"
  shows "length xs = (\<Sum>k\<in>K. length (filter (\<lambda>x. key x = k) xs))"
  using assms(2)
proof (induction xs)
  case (Cons x xs)
  have "(\<Sum>k\<in>K. length (filter (\<lambda>y. key y = k) (x # xs)))
      = (\<Sum>k\<in>K. (if k = key x then 1 else 0) + length (filter (\<lambda>y. key y = k) xs))"
    by (intro sum.cong) auto
  also have "\<dots> = 1 + length xs" using Cons assms(1) by (simp add: sum.distrib)
  finally show ?case by simp
qed simp

lemma picked_covers:
  assumes "card (eligible_topics slots) \<le> 9" and "topic \<in> eligible_topics slots"
  shows "topic \<in> topic_of ` set (picked_pairs slots)"
proof (rule ccontr)
  assume none: "topic \<notin> topic_of ` set (picked_pairs slots)"
  let ?T = "eligible_topics slots"
  let ?L = "per_topic_limit (card ?T)"
  have fin: "finite ?T" by (simp add: eligible_topics_def)
  obtain s where s: "s \<in> set slots" "isEligibleSlot s (activeRepeatableTopics slots)" "slot_topic s = topic"
    using assms(2) by (auto simp: eligible_topics_def)
  have "s \<in> snd ` set (enumerate 0 slots)"
    using s(1) map_snd_enumerate [of 0 slots] by (metis set_map)
  then obtain i where "(i, s) \<in> set (enumerate 0 slots)" by fastforce
  then have "\<not> length (picked_pairs slots) < 9"
    using pick_loop_covers [OF per_topic_limit_pos, of Map.empty Map.empty 0 "activeRepeatableTopics slots" _
        "enumerate 0 slots" "(i, s)"] none s
    by (auto simp: picked_pairs_def TRANSMISSION_MAX_PICKS_def)
  moreover have "length (picked_pairs slots) = (\<Sum>k\<in>?T - {topic}. length (filter (\<lambda>p. topic_of p = k) (picked_pairs slots)))"
    by (rule length_by_key) (use fin none picked_topic in auto)
  moreover have "\<dots> \<le> card (?T - {topic}) * ?L"
    using picked_topic_count [of _ slots] by (rule sum_bounded_above [where 'a = nat, simplified])
  moreover have "card (?T - {topic}) * ?L < card ?T * ?L"
    using card_Diff1_less [OF fin assms(2)] per_topic_limit_pos [of "card ?T"] by (intro mult_strict_right_mono) auto
  moreover have "card ?T * ?L \<le> 9"
    using assms fin by (intro per_topic_limit_budget) (auto simp: Suc_le_eq card_gt_0_iff)
  ultimately show False by linarith
qed

section \<open>Properties\<close>

text \<open>C25: the topic picks are at most nine eligible slots in source order, at most three (and, with more
  topics, at most nine divided by their number) of a topic and at most one repeatable stack of a topic;
  the partition shows exactly the picks, and every slot that is not repeatable is either
  picked or remains.\<close>

theorem topic_picks_balanced:
  "let picks = selectTopicPicks slots
   in subseq picks slots \<and> length picks \<le> 9 \<and>
      list_all (\<lambda>s. isEligibleSlot s (activeRepeatableTopics slots)) picks \<and>
      length (filter (\<lambda>s. slot_topic s = topic) picks) \<le> min 3 (max 1 (9 div card (eligible_topics slots))) \<and>
      length (filter (\<lambda>s. slot_topic s = topic \<and> isRepeatableSlot s) picks) \<le> 1 \<and>
      tp_picks (splitTopicPicks slots) = picks \<and>
      mset (filter (\<lambda>s. \<not> isRepeatableSlot s) picks) + mset (tp_remaining (splitTopicPicks slots)) =
        mset (filter (\<lambda>s. \<not> isRepeatableSlot s) slots)"
proof -
  have eq: "selectTopicPicks slots = map snd (picked_pairs slots)" by (rule selectTopicPicks_pairs)
  have "subseq (map snd (picked_pairs slots)) (map snd (enumerate 0 slots))"
    by (rule subseq_map [OF picked_subseq])
  then have "subseq (selectTopicPicks slots) slots" by (simp add: eq)
  moreover have "length (selectTopicPicks slots) \<le> 9" using picked_length by (simp add: eq)
  moreover have "list_all (\<lambda>s. isEligibleSlot s (activeRepeatableTopics slots)) (selectTopicPicks slots)"
    using picked_eligible by (auto simp: eq list_all_iff)
  moreover have "length (filter (\<lambda>s. slot_topic s = topic) (selectTopicPicks slots)) \<le> per_topic_limit (card (eligible_topics slots))"
    using picked_topic_count by (simp add: eq filter_map comp_def)
  moreover have "length (filter (\<lambda>s. slot_topic s = topic \<and> isRepeatableSlot s) (selectTopicPicks slots)) \<le> 1"
    using pick_loop_repeatable [of topic "activeRepeatableTopics slots" _ Map.empty Map.empty]
    by (simp add: eq filter_map comp_def picked_pairs_def)
  moreover have "mset (filter (\<lambda>s. \<not> isRepeatableSlot s) (selectTopicPicks slots)) +
      mset (tp_remaining (splitTopicPicks slots)) = mset (filter (\<lambda>s. \<not> isRepeatableSlot s) slots)"
    by (rule split_remaining)
  ultimately show ?thesis
    by (simp add: Let_def split_picks per_topic_limit_def TRANSMISSION_MAX_PICKS_PER_TOPIC_def TRANSMISSION_MAX_PICKS_def)
qed

text \<open>No topic is starved: with at most nine eligible topics, every one of them has a pick.\<close>

theorem topic_picks_cover:
  assumes "card (eligible_topics slots) \<le> 9" and "topic \<in> eligible_topics slots"
  shows "\<exists>s \<in> set (selectTopicPicks slots). slot_topic s = topic"
  using picked_covers [OF assms] by (auto simp: selectTopicPicks_pairs)

theorem topic_picks_cover_witness:
  "\<exists>s \<in> set (selectTopicPicks [SlotIdle (sample_card 1 ''a'' ''casual_tip'' False), SlotIdle (sample_card 2 ''a'' ''casual_tip'' False),
      SlotIdle (sample_card 3 ''b'' ''repeatable_tip'' False)]). slot_topic s = ''b''"
  by (rule topic_picks_cover)
    (simp_all add: eligible_topics_def isEligibleSlot_def isActiveLiveSlot_def slot_topic_def sample_card_def)

end
