(* ===== verification/Keyed_Mutation.thy ===== *)
theory Keyed_Mutation
  imports Prelude
begin

text \<open>
  The contract that the pin and the delete modules share: a mutation per card, launched with an
  attempt the caller owns, and settled by the answer to exactly that attempt. The locale names
  what a client relies on; its lemmas are proved once and hold for both modules.
\<close>

datatype ('a, 'f, 'e) mutation_event =
    Launch 'a
  | Succeed 'a
  | Fail 'a 'f
  | Elsewhere 'e

definition mutation_step ::
    "('w \<Rightarrow> 'a \<Rightarrow> 'w option) \<Rightarrow> ('w \<Rightarrow> 'a \<Rightarrow> 'w) \<Rightarrow> ('w \<Rightarrow> 'a \<Rightarrow> 'f \<Rightarrow> 'w) \<Rightarrow> ('w \<Rightarrow> 'e \<Rightarrow> 'w) \<Rightarrow>
     'w \<Rightarrow> ('a, 'f, 'e) mutation_event \<Rightarrow> 'w" where
  "mutation_step begin_with succeed fail elsewhere w e =
     (case e of
        Launch a \<Rightarrow> (case begin_with w a of None \<Rightarrow> w | Some w' \<Rightarrow> w')
      | Succeed a \<Rightarrow> succeed w a
      | Fail a f \<Rightarrow> fail w a f
      | Elsewhere x \<Rightarrow> elsewhere w x)"

text \<open>The launches of card \<open>k\<close> that went through, and the answers that settled one, over a run.\<close>

fun launches ::
    "('w \<Rightarrow> ('a, 'f, 'e) mutation_event \<Rightarrow> 'w) \<Rightarrow> ('w \<Rightarrow> 'a \<Rightarrow> 'w option) \<Rightarrow> ('a \<Rightarrow> bigint) \<Rightarrow> bigint \<Rightarrow>
     'w \<Rightarrow> ('a, 'f, 'e) mutation_event list \<Rightarrow> nat" where
  "launches step begin_with cardIdOf k w [] = 0"
| "launches step begin_with cardIdOf k w (e # es) =
     (case e of Launch a \<Rightarrow> if cardIdOf a = k \<and> begin_with w a \<noteq> None then 1 else 0 | _ \<Rightarrow> 0)
     + launches step begin_with cardIdOf k (step w e) es"

fun settlements ::
    "('w \<Rightarrow> ('a, 'f, 'e) mutation_event \<Rightarrow> 'w) \<Rightarrow> ('w \<Rightarrow> bigint \<Rightarrow> 'a option) \<Rightarrow> ('a \<Rightarrow> bigint) \<Rightarrow> bigint \<Rightarrow>
     'w \<Rightarrow> ('a, 'f, 'e) mutation_event list \<Rightarrow> nat" where
  "settlements step busy cardIdOf k w [] = 0"
| "settlements step busy cardIdOf k w (e # es) =
     (case e of
        Succeed a \<Rightarrow> if cardIdOf a = k \<and> busy w k = Some a then 1 else 0
      | Fail a f \<Rightarrow> if cardIdOf a = k \<and> busy w k = Some a then 1 else 0
      | _ \<Rightarrow> 0)
     + settlements step busy cardIdOf k (step w e) es"

definition in_flight :: "'a option \<Rightarrow> nat" where
  "in_flight b = (case b of None \<Rightarrow> 0 | Some a \<Rightarrow> 1)"

locale keyed_mutation =
  fixes cardIdOf :: "'a \<Rightarrow> bigint"
    and begin_with :: "'w \<Rightarrow> 'a \<Rightarrow> 'w option"
    and succeed :: "'w \<Rightarrow> 'a \<Rightarrow> 'w"
    and fail :: "'w \<Rightarrow> 'a \<Rightarrow> 'f \<Rightarrow> 'w"
    and elsewhere :: "'w \<Rightarrow> 'e \<Rightarrow> 'w"
    and busy :: "'w \<Rightarrow> bigint \<Rightarrow> 'a option"
  assumes begin_free: "begin_with w a = Some w' \<Longrightarrow> busy w (cardIdOf a) = None"
    and begin_busy: "begin_with w a = Some w' \<Longrightarrow> busy w' = (busy w)(cardIdOf a \<mapsto> a)"
    and succeed_busy: "busy w (cardIdOf a) = Some a \<Longrightarrow> busy (succeed w a) = (busy w)(cardIdOf a := None)"
    and succeed_stale: "busy w (cardIdOf a) \<noteq> Some a \<Longrightarrow> succeed w a = w"
    and fail_busy: "busy w (cardIdOf a) = Some a \<Longrightarrow> busy (fail w a f) = (busy w)(cardIdOf a := None)"
    and fail_stale: "busy w (cardIdOf a) \<noteq> Some a \<Longrightarrow> fail w a f = w"
    and elsewhere_busy: "busy (elsewhere w x) = busy w"
begin

abbreviation step :: "'w \<Rightarrow> ('a, 'f, 'e) mutation_event \<Rightarrow> 'w" where
  "step \<equiv> mutation_step begin_with succeed fail elsewhere"

lemma single_flight: "busy w (cardIdOf a) = Some b \<Longrightarrow> begin_with w a = None"
  using begin_free by (cases "begin_with w a") auto

lemma succeed_busy_at: "busy (succeed w a) k = (if busy w (cardIdOf a) = Some a \<and> cardIdOf a = k then None else busy w k)"
  by (cases "busy w (cardIdOf a) = Some a") (auto simp: succeed_busy succeed_stale)

lemma fail_busy_at: "busy (fail w a f) k = (if busy w (cardIdOf a) = Some a \<and> cardIdOf a = k then None else busy w k)"
  by (cases "busy w (cardIdOf a) = Some a") (auto simp: fail_busy fail_stale)

lemma step_account:
  "(case e of Launch a \<Rightarrow> if cardIdOf a = k \<and> begin_with w a \<noteq> None then 1 else 0 | _ \<Rightarrow> 0) + in_flight (busy w k) =
   (case e of
        Succeed a \<Rightarrow> if cardIdOf a = k \<and> busy w k = Some a then 1 else 0
      | Fail a f \<Rightarrow> if cardIdOf a = k \<and> busy w k = Some a then 1 else 0
      | _ \<Rightarrow> 0) + in_flight (busy (step w e) k)"
  by (cases e)
    (auto simp: mutation_step_def in_flight_def begin_busy succeed_busy_at fail_busy_at elsewhere_busy single_flight
      dest: begin_free split: option.splits)

text \<open>Every launch that went through is settled exactly once or is the one in flight.\<close>

lemma launches_settled:
  "launches step begin_with cardIdOf k w es + in_flight (busy w k) =
   settlements step busy cardIdOf k w es + in_flight (busy (foldl step w es) k)"
proof (induction es arbitrary: w)
  case (Cons e es)
  show ?case using Cons.IH [of "step w e"] step_account [of k w e] by simp
qed simp

text \<open>A card that is not addressed keeps its mutation.\<close>

lemma other_card:
  "(case e of Launch a \<Rightarrow> cardIdOf a \<noteq> k | Succeed a \<Rightarrow> cardIdOf a \<noteq> k | Fail a f \<Rightarrow> cardIdOf a \<noteq> k
    | Elsewhere x \<Rightarrow> True) \<Longrightarrow> busy (step w e) k = busy w k"
  by (cases e)
    (auto simp: mutation_step_def begin_busy succeed_busy_at fail_busy_at elsewhere_busy split: option.splits)

text \<open>After the answer to an attempt was consumed, a second answer to it changes nothing.\<close>

lemma answer_once:
  "succeed (succeed w a) a = succeed w a" "succeed (fail w a f) a = fail w a f"
  "fail (succeed w a) a f = succeed w a" "fail (fail w a f) a f' = fail w a f"
proof -
  have "busy (succeed w a) (cardIdOf a) \<noteq> Some a" "busy (fail w a f) (cardIdOf a) \<noteq> Some a" for f
    by (auto simp: succeed_busy_at fail_busy_at)
  then show "succeed (succeed w a) a = succeed w a" "succeed (fail w a f) a = fail w a f"
    "fail (succeed w a) a f = succeed w a" "fail (fail w a f) a f' = fail w a f"
    by (simp_all add: succeed_stale fail_stale)
qed

end

end
