(* ===== verification/Pin_State.thy ===== *)
theory Pin_State
  imports Review_Actions Keyed_Mutation
begin

text \<open>
  \<open>lib/flow-pin-state.ts\<close>: the pin mutation of each card. The state is a map keyed by the
  decimal text of the card id; an absent key is idle. \<open>startPin\<close> returns \<open>None\<close> for
  \<open>undefined\<close>.
\<close>

record PinAttempt =
  pa_cardId :: bigint
  pa_targetPinned :: bool
  pa_idempotencyKey :: jsstring
  pa_generation :: int

datatype PinCardState =
    PinIdle
  | PinSaving (pin_attempt: PinAttempt)
  | PinError (pin_attempt: PinAttempt) (pin_indeterminate: bool) (pin_message: jsstring)

type_synonym PinState = "PinCardState js_map"

definition EMPTY_PIN_STATE :: PinState where
  "EMPTY_PIN_STATE = []"

definition pinKey :: "bigint \<Rightarrow> jsstring" where
  "pinKey cardId = dec_of_int cardId"

definition pinCardState :: "PinState \<Rightarrow> bigint \<Rightarrow> PinCardState" where
  "pinCardState state cardId = (case map_of state (pinKey cardId) of None \<Rightarrow> PinIdle | Some s \<Rightarrow> s)"

definition live_idle :: "bigint \<Rightarrow> ReviewSlot \<Rightarrow> bool" where
  "live_idle cardId slot \<longleftrightarrow> is_SlotIdle slot \<and> fc_id (slot_card slot) = cardId"

definition findLiveIdleSlotIndex :: "ReviewSlot list \<Rightarrow> bigint \<Rightarrow> nat option" where
  "findLiveIdleSlotIndex slots cardId = find_index (live_idle cardId) slots"

definition startPin :: "ReviewSlot list \<Rightarrow> PinState \<Rightarrow> PinAttempt \<Rightarrow> PinState option" where
  "startPin slots state attempt =
     (if findLiveIdleSlotIndex slots (pa_cardId attempt) = None then None
      else case map_of state (pinKey (pa_cardId attempt)) of
             Some (PinSaving a) \<Rightarrow> None
           | _ \<Rightarrow> Some (AList.update (pinKey (pa_cardId attempt)) (PinSaving attempt) state))"

datatype PinRetryDecision =
    PinReuseAttempt PinAttempt
  | PinNeedsNewKey bigint bool int

fun pinRetryDecision :: "PinCardState \<Rightarrow> PinRetryDecision option" where
  "pinRetryDecision (PinError attempt indeterminate message) =
     Some (if indeterminate then PinReuseAttempt attempt
           else PinNeedsNewKey (pa_cardId attempt) (pa_targetPinned attempt) (pa_generation attempt + 1))"
| "pinRetryDecision _ = None"

definition setPinned :: "bool \<Rightarrow> ReviewSlot \<Rightarrow> ReviewSlot" where
  "setPinned target slot =
     (case slot of SlotIdle c \<Rightarrow> SlotIdle (c\<lparr>fc_pinned := target\<rparr>) | _ \<Rightarrow> slot)"

definition applyPinSuccess :: "ReviewSlot list \<Rightarrow> PinState \<Rightarrow> PinAttempt \<Rightarrow> ReviewSlot list \<times> PinState" where
  "applyPinSuccess slots state attempt =
     (if map_of state (pinKey (pa_cardId attempt)) \<noteq> Some (PinSaving attempt) then (slots, state)
      else (case findLiveIdleSlotIndex slots (pa_cardId attempt) of
              None \<Rightarrow> slots
            | Some index \<Rightarrow> slots[index := setPinned (pa_targetPinned attempt) (slots ! index)],
            AList.delete (pinKey (pa_cardId attempt)) state))"

definition applyPinFailure ::
    "ReviewSlot list \<Rightarrow> PinState \<Rightarrow> PinAttempt \<Rightarrow> FailureFields \<Rightarrow> ReviewSlot list \<times> PinState" where
  "applyPinFailure slots state attempt failure =
     (if map_of state (pinKey (pa_cardId attempt)) \<noteq> Some (PinSaving attempt) then (slots, state)
      else (slots, AList.update (pinKey (pa_cardId attempt))
              (PinError attempt (ff_mutationOutcomeIndeterminate failure) (ff_message failure)) state))"

section \<open>The module implements the shared contract\<close>

definition pin_saving :: "ReviewSlot list \<times> PinState \<Rightarrow> bigint \<Rightarrow> PinAttempt option" where
  "pin_saving w cardId = (case map_of (snd w) (pinKey cardId) of Some (PinSaving a) \<Rightarrow> Some a | _ \<Rightarrow> None)"

definition pin_begin :: "ReviewSlot list \<times> PinState \<Rightarrow> PinAttempt \<Rightarrow> (ReviewSlot list \<times> PinState) option" where
  "pin_begin w a = map_option (Pair (fst w)) (startPin (fst w) (snd w) a)"

definition pin_succeed :: "ReviewSlot list \<times> PinState \<Rightarrow> PinAttempt \<Rightarrow> ReviewSlot list \<times> PinState" where
  "pin_succeed w a = applyPinSuccess (fst w) (snd w) a"

definition pin_fail ::
    "ReviewSlot list \<times> PinState \<Rightarrow> PinAttempt \<Rightarrow> FailureFields \<Rightarrow> ReviewSlot list \<times> PinState" where
  "pin_fail w a f = applyPinFailure (fst w) (snd w) a f"

text \<open>Everything else on the page may replace the slots; it does not touch the pin state.\<close>

definition pin_elsewhere :: "ReviewSlot list \<times> PinState \<Rightarrow> ReviewSlot list \<Rightarrow> ReviewSlot list \<times> PinState" where
  "pin_elsewhere w slots = (slots, snd w)"

lemma pinKey_inj [simp]: "pinKey i = pinKey j \<longleftrightarrow> i = j"
  by (simp add: pinKey_def)

lemma pin_saving_some: "pin_saving w k = Some a \<longleftrightarrow> map_of (snd w) (pinKey k) = Some (PinSaving a)"
  by (auto simp: pin_saving_def split: option.splits PinCardState.splits)

lemma start_pin_some:
  "startPin slots state a = Some state' \<longleftrightarrow>
   findLiveIdleSlotIndex slots (pa_cardId a) \<noteq> None \<and>
   (\<forall>b. map_of state (pinKey (pa_cardId a)) \<noteq> Some (PinSaving b)) \<and>
   state' = AList.update (pinKey (pa_cardId a)) (PinSaving a) state"
  by (auto simp: startPin_def split: option.splits PinCardState.splits)

interpretation pin: keyed_mutation pa_cardId pin_begin pin_succeed pin_fail pin_elsewhere pin_saving
proof
  fix w w' :: "ReviewSlot list \<times> PinState" and a f
  show "pin_begin w a = Some w' \<Longrightarrow> pin_saving w (pa_cardId a) = None"
    by (auto simp: pin_begin_def start_pin_some pin_saving_def split: option.splits PinCardState.splits)
  show "pin_begin w a = Some w' \<Longrightarrow> pin_saving w' = (pin_saving w)(pa_cardId a \<mapsto> a)"
    by (auto simp: pin_begin_def start_pin_some pin_saving_def)
  show "pin_saving w (pa_cardId a) = Some a \<Longrightarrow> pin_saving (pin_succeed w a) = (pin_saving w)(pa_cardId a := None)"
    by (auto simp: pin_saving_some pin_succeed_def applyPinSuccess_def) (auto simp: pin_saving_def)
  show "pin_saving w (pa_cardId a) \<noteq> Some a \<Longrightarrow> pin_succeed w a = w"
    by (simp add: pin_saving_some pin_succeed_def applyPinSuccess_def)
  show "pin_saving w (pa_cardId a) = Some a \<Longrightarrow> pin_saving (pin_fail w a f) = (pin_saving w)(pa_cardId a := None)"
    by (auto simp: pin_saving_some pin_fail_def applyPinFailure_def) (auto simp: pin_saving_def)
  show "pin_saving w (pa_cardId a) \<noteq> Some a \<Longrightarrow> pin_fail w a f = w"
    by (simp add: pin_saving_some pin_fail_def applyPinFailure_def)
  show "pin_saving (pin_elsewhere w x) = pin_saving w" for x
    by (auto simp: pin_elsewhere_def pin_saving_def)
qed

section \<open>Effect on the slots\<close>

lemma setPinned_card [simp]: "slotCardId (setPinned b s) = slotCardId s"
  by (cases s) (simp_all add: setPinned_def)

lemma live_idle_iff: "live_idle k s \<longleftrightarrow> (\<exists>c. s = SlotIdle c \<and> fc_id c = k)"
  by (cases s) (auto simp: live_idle_def)

lemma pin_success_slots:
  "map slotCardId (fst (applyPinSuccess slots state a)) = map slotCardId slots"
proof -
  have "map slotCardId (slots[i := setPinned b (slots ! i)]) = map slotCardId slots" for i b
    by (cases "i < length slots") (simp_all add: map_update list_update_same_conv list_update_beyond)
  then show ?thesis by (simp add: applyPinSuccess_def split: option.split)
qed

lemma pin_success_distinct: "distinct_cards slots \<Longrightarrow> distinct_cards (fst (applyPinSuccess slots state a))"
  by (simp add: distinct_cards_def pin_success_slots)

end
