(* ===== verification/Pinned_Order.thy ===== *)
theory Pinned_Order
  imports Prelude
begin

text \<open>
  \<open>lib/flow-pinned-order.ts\<close>: the saved order of pinned card ids, its text form, and its
  maintenance. An operation that the source documents to return "the same input reference" when
  it does nothing returns an equal list here. \<open>BigInt\<close> of a digit string is exact, so the
  64-bit bound of the parser is the only bound.
\<close>

section \<open>Parsing and printing\<close>

definition I64_MAX :: bigint where
  "I64_MAX = 9223372036854775807"

text \<open>\<open>/^[1-9]\d*$/\<close>.\<close>

definition positive_decimal :: "jsstring \<Rightarrow> bool" where
  "positive_decimal s \<longleftrightarrow> s \<noteq> [] \<and> list_all is_digit s \<and> hd s \<noteq> CHR ''0''"

definition parsePinnedCardId :: "jsstring \<Rightarrow> bigint option" where
  "parsePinnedCardId value =
     (let trimmed = js_trim value
      in if \<not> positive_decimal trimmed then None
         else let n = int (nat_of_dec trimmed) in if n \<le> I64_MAX then Some n else None)"

text \<open>The grammar of the array body and its tokens: nothing, or pieces between commas, each a
  positive decimal surrounded by white space.\<close>

definition order_tokens :: "jsstring \<Rightarrow> jsstring list option" where
  "order_tokens inner =
     (if inner = [] then Some []
      else let pieces = map js_trim (split_on (\<lambda>c. c = CHR '','') inner)
           in if list_all positive_decimal pieces then Some pieces else None)"

fun collect_ids :: "bigint set \<Rightarrow> jsstring list \<Rightarrow> bigint list option" where
  "collect_ids seen [] = Some []"
| "collect_ids seen (tok # toks) =
     (case parsePinnedCardId tok of
        None \<Rightarrow> None
      | Some n \<Rightarrow> if n \<in> seen then None else map_option ((#) n) (collect_ids (insert n seen) toks))"

definition parsePinnedCardOrder :: "jsstring option \<Rightarrow> bigint list option" where
  "parsePinnedCardOrder value =
     (case value of
        None \<Rightarrow> None
      | Some v \<Rightarrow>
          let trimmed = js_trim v
          in if trimmed \<noteq> [] \<and> hd trimmed = CHR ''['' \<and> last trimmed = CHR '']''
             then (case order_tokens (butlast (tl trimmed)) of
                     None \<Rightarrow> None
                   | Some toks \<Rightarrow> collect_ids {} toks)
             else None)"

definition serializePinnedCardOrder :: "bigint list \<Rightarrow> jsstring" where
  "serializePinnedCardOrder order = ''['' @ js_join '','' (map dec_of_int order) @ '']''"

section \<open>Maintenance\<close>

text \<open>Both loops of \<open>normalizeCardOrder\<close> push the ids of a list that are not present yet.\<close>

fun push_absent :: "bigint set \<Rightarrow> bigint list \<Rightarrow> bigint list" where
  "push_absent present [] = []"
| "push_absent present (n # ns) =
     (if n \<in> present then push_absent present ns else n # push_absent (insert n present) ns)"

definition normalizeCardOrder :: "bigint list \<Rightarrow> bigint list \<Rightarrow> bigint list" where
  "normalizeCardOrder saved currentIds =
     (let kept = push_absent {} (filter (\<lambda>n. n \<in> set currentIds) saved)
      in kept @ push_absent (set kept) currentIds)"

definition movePinnedCard :: "bigint list \<Rightarrow> bigint \<Rightarrow> bigint \<Rightarrow> bigint list" where
  "movePinnedCard order sourceId targetId =
     (if sourceId = targetId then order
      else case (find_index ((=) sourceId) order, find_index ((=) targetId) order) of
             (Some sourceIndex, Some targetIndex) \<Rightarrow>
               let rest = remove_nth sourceIndex order
               in take targetIndex rest @ (order ! sourceIndex) # drop targetIndex rest
           | _ \<Rightarrow> order)"

definition replacePinnedCard :: "bigint list \<Rightarrow> bigint \<Rightarrow> bigint \<Rightarrow> bigint list" where
  "replacePinnedCard order oldId newId =
     (if oldId \<notin> set order \<or> newId \<in> set order then order
      else map (\<lambda>n. if n = oldId then newId else n) order)"

record PinnedCardTransfer =
  tr_from :: bigint
  tr_to :: bigint

datatype PinnedCardTransferResult = TransferApplied "bigint list" | TransferCollision

fun transfer_clash :: "bigint set \<Rightarrow> bigint set \<Rightarrow> PinnedCardTransfer list \<Rightarrow> bool" where
  "transfer_clash sources destinations [] = False"
| "transfer_clash sources destinations (transfer # rest) =
     (tr_from transfer \<in> sources \<or> tr_to transfer \<in> destinations \<or>
      transfer_clash (insert (tr_from transfer) sources) (insert (tr_to transfer) destinations) rest)"

definition active_transfers :: "bigint list \<Rightarrow> PinnedCardTransfer list \<Rightarrow> PinnedCardTransfer list" where
  "active_transfers order transfers =
     filter (\<lambda>transfer. tr_from transfer \<noteq> tr_to transfer \<and> tr_from transfer \<in> set order) transfers"

definition transferPinnedCards :: "bigint list \<Rightarrow> PinnedCardTransfer list \<Rightarrow> PinnedCardTransferResult" where
  "transferPinnedCards order transfers =
     (let active = active_transfers order transfers
      in if transfer_clash {} {} active then TransferCollision
         else if list_ex (\<lambda>transfer. tr_to transfer \<in> set order \<and> tr_to transfer \<notin> tr_from ` set active) active
         then TransferCollision
         else if active = [] then TransferApplied order
         else let replacements = map_of (rev (map (\<lambda>transfer. (tr_from transfer, tr_to transfer)) active))
              in TransferApplied
                   (map (\<lambda>n. case replacements n of None \<Rightarrow> n | Some m \<Rightarrow> m) order))"

definition setPinnedMembership :: "bigint list \<Rightarrow> bigint \<Rightarrow> bool \<Rightarrow> bigint list" where
  "setPinnedMembership order cardId pinned =
     (if pinned then (if cardId \<in> set order then order else order @ [cardId])
      else if cardId \<notin> set order then order
      else filter (\<lambda>n. n \<noteq> cardId) order)"

section \<open>Lemmas\<close>

subsection \<open>Text form\<close>

lemma dec_of_int_pos: "0 < n \<Longrightarrow> dec_of_int n = dec_of_nat (nat n)"
  by (simp add: dec_of_int_def)

lemma positive_decimal_dec: "0 < n \<Longrightarrow> positive_decimal (dec_of_int n)"
  using dec_of_nat_digits [of "nat n"] dec_of_nat_hd [of "nat n"]
  by (simp add: dec_of_int_pos positive_decimal_def list_all_iff)

lemma positive_decimal_trim: "positive_decimal s \<Longrightarrow> js_trim s = s"
  by (rule js_trim_no_space) (auto simp: positive_decimal_def list_all_iff dest: is_digit_not_special)

lemma parse_id_dec: "0 < n \<Longrightarrow> n \<le> I64_MAX \<Longrightarrow> parsePinnedCardId (dec_of_int n) = Some n"
  by (simp add: parsePinnedCardId_def Let_def positive_decimal_trim positive_decimal_dec)
    (simp add: dec_of_int_pos)

lemma nat_of_dec_ge: "nat_of_dec (d # s) \<ge> digit_val d"
  by (induction s rule: rev_induct) (auto simp: nat_of_dec_def)

lemma nat_of_dec_pos:
  assumes "positive_decimal s"
  shows "0 < nat_of_dec s"
proof -
  obtain d s' where s: "s = d # s'" using assms by (cases s) (auto simp: positive_decimal_def)
  have "0 < digit_val d" using assms by (auto simp: s positive_decimal_def is_digit_def digit_val_def)
  then show ?thesis using nat_of_dec_ge [of d s'] by (simp add: s)
qed

lemma parse_id_range: "parsePinnedCardId s = Some n \<Longrightarrow> 0 < n \<and> n \<le> I64_MAX"
  using nat_of_dec_pos [of "js_trim s"] by (auto simp: parsePinnedCardId_def Let_def split: if_splits)

lemma collect_ids_sound:
  "collect_ids seen toks = Some ns \<Longrightarrow>
   distinct ns \<and> set ns \<inter> seen = {} \<and> (\<forall>n \<in> set ns. 0 < n \<and> n \<le> I64_MAX)"
proof (induction toks arbitrary: seen ns)
  case (Cons tok toks)
  then show ?case
    using parse_id_range [of tok] by (fastforce split: option.splits if_splits)
qed simp

lemma collect_ids_dec:
  "distinct ns \<Longrightarrow> set ns \<inter> seen = {} \<Longrightarrow> \<forall>n \<in> set ns. 0 < n \<and> n \<le> I64_MAX \<Longrightarrow>
   collect_ids seen (map dec_of_int ns) = Some ns"
  by (induction ns arbitrary: seen) (auto simp: parse_id_dec)

lemma dec_no_special: "0 < n \<Longrightarrow> c \<in> set (dec_of_int n) \<Longrightarrow> is_digit c"
  using dec_of_nat_digits [of "nat n"] by (simp add: dec_of_int_pos)

lemma join_nonempty: "ws \<noteq> [] \<Longrightarrow> \<forall>w \<in> set ws. w \<noteq> [] \<Longrightarrow> js_join sep ws \<noteq> []"
  by (cases ws rule: remdups_adj.cases) auto

lemma order_tokens_join:
  assumes "\<forall>n \<in> set ns. 0 < n"
  shows "order_tokens (js_join '','' (map dec_of_int ns)) = Some (map dec_of_int ns)"
proof (cases "ns = []")
  case True
  then show ?thesis by (simp add: order_tokens_def)
next
  case False
  have pos: "positive_decimal w" if "w \<in> set (map dec_of_int ns)" for w
    using that assms by (auto intro: positive_decimal_dec)
  have "js_join '','' (map dec_of_int ns) \<noteq> []"
    by (rule join_nonempty) (use False pos in \<open>auto simp: positive_decimal_def\<close>)
  moreover have "split_on (\<lambda>c. c = CHR '','') (js_join '','' (map dec_of_int ns)) = map dec_of_int ns"
    by (rule split_on_join)
      (use False assms in \<open>auto dest!: dec_no_special is_digit_not_special\<close>)
  moreover have "map js_trim (map dec_of_int ns) = map dec_of_int ns"
    by (rule map_id_on) (use pos positive_decimal_trim in blast)
  ultimately show ?thesis using pos by (simp add: order_tokens_def Let_def list_all_iff del: map_map)
qed

lemma serialize_trim: "js_trim (serializePinnedCardOrder ns) = serializePinnedCardOrder ns"
  by (rule js_trim_fixed) (simp add: serializePinnedCardOrder_def is_js_space_def)

lemma parse_serialize:
  assumes "distinct ns" and "\<forall>n \<in> set ns. 0 < n \<and> n \<le> I64_MAX"
  shows "parsePinnedCardOrder (Some (serializePinnedCardOrder ns)) = Some ns"
proof -
  have "butlast (tl (serializePinnedCardOrder ns)) = js_join '','' (map dec_of_int ns)"
    by (simp add: serializePinnedCardOrder_def butlast_append)
  moreover have "order_tokens (js_join '','' (map dec_of_int ns)) = Some (map dec_of_int ns)"
    by (rule order_tokens_join) (use assms in auto)
  moreover have "collect_ids {} (map dec_of_int ns) = Some ns"
    by (rule collect_ids_dec) (use assms in auto)
  ultimately show ?thesis
    by (simp add: parsePinnedCardOrder_def serialize_trim Let_def)
      (simp add: serializePinnedCardOrder_def)
qed

lemma parse_sound:
  "parsePinnedCardOrder v = Some ns \<Longrightarrow> distinct ns \<and> (\<forall>n \<in> set ns. 0 < n \<and> n \<le> I64_MAX)"
  using collect_ids_sound by (fastforce simp: parsePinnedCardOrder_def Let_def split: option.splits if_splits)

subsection \<open>Maintenance\<close>

lemma push_absent_set: "set (push_absent present ns) = set ns - present"
  by (induction ns arbitrary: present) auto

lemma push_absent_distinct: "distinct (push_absent present ns)"
  by (induction ns arbitrary: present) (auto simp: push_absent_set)

lemma push_absent_id: "distinct ns \<Longrightarrow> set ns \<inter> present = {} \<Longrightarrow> push_absent present ns = ns"
  by (induction ns arbitrary: present) auto

lemma normalize_set: "set (normalizeCardOrder saved ids) = set ids"
  by (auto simp: normalizeCardOrder_def Let_def push_absent_set)

lemma normalize_distinct: "distinct (normalizeCardOrder saved ids)"
  by (auto simp: normalizeCardOrder_def Let_def push_absent_set push_absent_distinct)

lemma push_absent_distinct_filter:
  "distinct ns \<Longrightarrow> (\<And>n. n \<in> set ns \<Longrightarrow> n \<in> present \<longleftrightarrow> p n) \<Longrightarrow>
   push_absent present ns = filter (\<lambda>n. \<not> p n) ns"
proof (induction ns arbitrary: present)
  case (Cons n ns)
  have "push_absent (insert n present) ns = filter (\<lambda>n. \<not> p n) ns" if "n \<notin> present"
    by (rule Cons.IH) (use Cons.prems in auto)
  moreover have "push_absent present ns = filter (\<lambda>n. \<not> p n) ns"
    by (rule Cons.IH) (use Cons.prems in auto)
  ultimately show ?case using Cons.prems(2) [of n] by auto
qed simp

lemma normalize_of_distinct:
  assumes "distinct saved" and "distinct ids"
  shows "normalizeCardOrder saved ids =
    filter (\<lambda>n. n \<in> set ids) saved @ filter (\<lambda>n. n \<notin> set saved) ids"
proof -
  have "push_absent (set (filter (\<lambda>n. n \<in> set ids) saved)) ids = filter (\<lambda>n. n \<notin> set saved) ids"
    using assms(2) by (rule push_absent_distinct_filter) auto
  then show ?thesis using assms(1) by (simp add: normalizeCardOrder_def Let_def push_absent_id)
qed

lemma remove_nth_length: "i < length xs \<Longrightarrow> length (remove_nth i xs) = length xs - 1"
  by (simp add: remove_nth_def)

lemma remove_nth_mset: "i < length xs \<Longrightarrow> add_mset (xs ! i) (mset (remove_nth i xs)) = mset xs"
  by (metis append_take_drop_id Cons_nth_drop_Suc mset.simps(2) mset_append remove_nth_def union_mset_add_mset_right)

lemma remove1_remove_nth: "distinct xs \<Longrightarrow> i < length xs \<Longrightarrow> remove1 (xs ! i) xs = remove_nth i xs"
proof (induction xs arbitrary: i)
  case (Cons x xs)
  then show ?case by (cases i) (auto simp: remove_nth_def)
qed simp

text \<open>Where the moved id lands: at the index the target had.\<close>

definition moved_at :: "bigint list \<Rightarrow> bigint \<Rightarrow> bigint \<Rightarrow> bigint list \<Rightarrow> bool" where
  "moved_at order sourceId targetId next \<longleftrightarrow>
     (\<exists>j < length order. order ! j = targetId \<and> next ! j = sourceId) \<and>
     remove1 sourceId next = remove1 sourceId order"

lemma move_noop:
  "sourceId = targetId \<or> sourceId \<notin> set order \<or> targetId \<notin> set order \<Longrightarrow>
   movePinnedCard order sourceId targetId = order"
  using find_index_None [of "(=) sourceId" order] find_index_None [of "(=) targetId" order]
  by (auto simp: movePinnedCard_def split: option.splits)

lemma move_effect:
  assumes "distinct order" and "sourceId \<in> set order" and "targetId \<in> set order" and "sourceId \<noteq> targetId"
  shows "mset (movePinnedCard order sourceId targetId) = mset order \<and>
         moved_at order sourceId targetId (movePinnedCard order sourceId targetId)"
proof -
  obtain i where i: "find_index ((=) sourceId) order = Some i"
    using assms(2) by (cases "find_index ((=) sourceId) order") (auto simp: find_index_None)
  obtain j where j: "find_index ((=) targetId) order = Some j"
    using assms(3) by (cases "find_index ((=) targetId) order") (auto simp: find_index_None)
  have ij: "i < length order" "order ! i = sourceId" "j < length order" "order ! j = targetId"
    using find_index_Some [OF i] find_index_Some [OF j] by auto
  let ?rest = "remove_nth i order"
  let ?next = "take j ?rest @ sourceId # drop j ?rest"
  have eq: "movePinnedCard order sourceId targetId = ?next"
    using assms(4) by (simp add: movePinnedCard_def i j ij Let_def)
  have len: "j \<le> length ?rest" using ij by (simp add: remove_nth_length)
  have "mset ?next = add_mset sourceId (mset (take j ?rest @ drop j ?rest))" by (simp only: mset_append mset.simps union_mset_add_mset_right)
  then have "mset ?next = mset order" using remove_nth_mset [OF ij(1)] ij(2) by simp
  moreover have rest: "?rest = remove1 sourceId order"
    using remove1_remove_nth [OF assms(1) ij(1)] ij(2) by simp
  then have "sourceId \<notin> set ?rest" using assms(1) by simp
  then have "sourceId \<notin> set (take j ?rest)" by (meson in_set_takeD)
  then have "remove1 sourceId ?next = take j ?rest @ drop j ?rest" by (simp add: remove1_append)
  moreover have "?next ! j = sourceId" using len by (simp add: nth_append)
  ultimately show ?thesis using ij rest unfolding eq moved_at_def by auto
qed

subsection \<open>Transfers\<close>

lemma no_clash_distinct:
  "\<not> transfer_clash S D ts \<Longrightarrow>
   distinct (map tr_from ts) \<and> distinct (map tr_to ts) \<and> tr_from ` set ts \<inter> S = {} \<and> tr_to ` set ts \<inter> D = {}"
  by (induction ts arbitrary: S D) fastforce+

lemma replacement_lookup:
  assumes "distinct (map tr_from ts)"
  shows "map_of (rev (map (\<lambda>transfer. (tr_from transfer, tr_to transfer)) ts)) n = Some m \<longleftrightarrow>
    (\<exists>transfer \<in> set ts. tr_from transfer = n \<and> tr_to transfer = m)"
proof -
  have "distinct (map fst (rev (map (\<lambda>transfer. (tr_from transfer, tr_to transfer)) ts)))"
    using assms by (simp add: rev_map comp_def flip: rev_map)
  then show ?thesis by (auto simp: map_of_eq_Some_iff)
qed

definition renamed :: "PinnedCardTransfer list \<Rightarrow> bigint \<Rightarrow> bigint" where
  "renamed active n =
     (case map_of (rev (map (\<lambda>transfer. (tr_from transfer, tr_to transfer)) active)) n of
        None \<Rightarrow> n | Some m \<Rightarrow> m)"

lemma transfer_applied:
  assumes "transferPinnedCards order transfers = TransferApplied order'"
  shows "order' = map (renamed (active_transfers order transfers)) order \<and>
    \<not> transfer_clash {} {} (active_transfers order transfers) \<and>
    (\<forall>transfer \<in> set (active_transfers order transfers). tr_to transfer \<in> set order \<longrightarrow>
       tr_to transfer \<in> tr_from ` set (active_transfers order transfers))"
proof (cases "active_transfers order transfers = []")
  case True
  then show ?thesis using assms by (simp add: transferPinnedCards_def renamed_def [abs_def])
next
  case False
  then show ?thesis using assms
    by (auto simp: transferPinnedCards_def Let_def renamed_def [abs_def] list_ex_iff split: if_splits)
qed

lemma renamed_inj:
  assumes clash: "\<not> transfer_clash {} {} active"
    and free: "\<forall>transfer \<in> set active. tr_to transfer \<in> set order \<longrightarrow> tr_to transfer \<in> tr_from ` set active"
  shows "inj_on (renamed active) (set order)"
proof (rule inj_onI)
  fix m n assume mn: "m \<in> set order" "n \<in> set order" "renamed active m = renamed active n"
  have d: "distinct (map tr_from active)" "distinct (map tr_to active)"
    using no_clash_distinct [OF clash] by auto
  let ?r = "map_of (rev (map (\<lambda>transfer. (tr_from transfer, tr_to transfer)) active))"
  have none: "?r k = None \<Longrightarrow> k \<notin> tr_from ` set active" for k
    using replacement_lookup [OF d(1)] by (metis image_iff option.distinct(1))
  have inj: "tr_from x = tr_from y" if "x \<in> set active" "y \<in> set active" "tr_to x = tr_to y" for x y
    using that d(2) by (metis distinct_map inj_on_def)
  show "m = n"
  proof (cases "?r m"; cases "?r n")
    fix b assume r: "?r m = None" "?r n = Some b"
    then have "b = m" using mn(3) by (simp add: renamed_def)
    with r(2) obtain x where "x \<in> set active" "tr_to x = m"
      unfolding replacement_lookup [OF d(1)] by blast
    with free mn(1) none [OF r(1)] show ?thesis by blast
  next
    fix b assume r: "?r m = Some b" "?r n = None"
    then have "b = n" using mn(3) by (simp add: renamed_def)
    with r(1) obtain x where "x \<in> set active" "tr_to x = n"
      unfolding replacement_lookup [OF d(1)] by blast
    with free mn(2) none [OF r(2)] show ?thesis by blast
  next
    fix b c assume r: "?r m = Some b" "?r n = Some c"
    then have "b = c" using mn(3) by (simp add: renamed_def)
    obtain x where x: "x \<in> set active" "tr_from x = m" "tr_to x = b"
      using r(1) unfolding replacement_lookup [OF d(1)] by blast
    obtain y where y: "y \<in> set active" "tr_from y = n" "tr_to y = c"
      using r(2) unfolding replacement_lookup [OF d(1)] by blast
    show ?thesis using inj [OF x(1) y(1)] x y \<open>b = c\<close> by simp
  qed (use mn(3) in \<open>simp add: renamed_def\<close>)
qed

lemma transfer_distinct:
  "distinct order \<Longrightarrow> transferPinnedCards order transfers = TransferApplied order' \<Longrightarrow>
   distinct order' \<and> length order' = length order"
  by (drule transfer_applied) (auto simp: distinct_map intro: renamed_inj)

section \<open>Properties\<close>

text \<open>C24: the stored text of a pinned order reads back exactly: printing and parsing is the
  identity on a list exactly when it is duplicate-free and holds positive 64-bit ids only.\<close>

theorem pinned_order_roundtrip:
  "parsePinnedCardOrder (Some (serializePinnedCardOrder order)) = Some order \<longleftrightarrow>
     distinct order \<and> (\<forall>n \<in> set order. 0 < n \<and> n \<le> I64_MAX)"
  using parse_serialize parse_sound by blast

theorem pinned_order_roundtrip_witness:
  "parsePinnedCardOrder (Some (serializePinnedCardOrder [9223372036854775807, 3])) = Some [9223372036854775807, 3]"
  unfolding pinned_order_roundtrip by (simp add: I64_MAX_def)

text \<open>Maintenance keeps the saved order a duplicate-free list: normalizing to the ids on screen keeps
  the saved relative order and appends the new ids; a drag is a permutation that puts the source
  at the index of the target and leaves the others in order; a transfer batch is all or nothing
  and renames positions without merging two of them.\<close>

theorem pinned_order_maintenance:
  assumes "distinct order" and "distinct ids"
  shows "normalizeCardOrder order ids =
           filter (\<lambda>n. n \<in> set ids) order @ filter (\<lambda>n. n \<notin> set order) ids \<and>
         (sourceId \<in> set order \<and> targetId \<in> set order \<and> sourceId \<noteq> targetId \<longrightarrow>
            mset (movePinnedCard order sourceId targetId) = mset order \<and>
            moved_at order sourceId targetId (movePinnedCard order sourceId targetId)) \<and>
         (transferPinnedCards order transfers = TransferApplied order' \<longrightarrow>
            order' = map (renamed (active_transfers order transfers)) order \<and> distinct order') \<and>
         distinct (replacePinnedCard order sourceId targetId) \<and>
         distinct (setPinnedMembership order targetId pinned)"
proof -
  have "distinct (replacePinnedCard order sourceId targetId)"
    using assms(1) by (auto simp: replacePinnedCard_def distinct_map inj_on_def)
  moreover have "distinct (setPinnedMembership order targetId pinned)"
    using assms(1) by (auto simp: setPinnedMembership_def)
  ultimately show ?thesis
    using normalize_of_distinct [OF assms] move_effect [OF assms(1)] transfer_applied
      transfer_distinct [OF assms(1)] by blast
qed

theorem pinned_order_maintenance_witness:
  "normalizeCardOrder [3, 1, 2] [2, 4, 3] = [3, 2, 4] \<and> mset (movePinnedCard [3, 1, 2] 3 2) = mset [3, 1, 2 :: int]"
  using pinned_order_maintenance [of "[3, 1, 2]" "[2, 4, 3]" 3 2] by simp

end
