(* ===== verification/Delete_State.thy ===== *)
theory Delete_State
  imports Pin_State Pinned_Order
begin

text \<open>
  \<open>lib/flow-delete-state.ts\<close>: the delete mutation of each card. It has its own helpers in the
  source (\<open>deleteKey\<close>, a private \<open>findLiveIdleSlotIndex\<close>) with the definitions of the pin module.
\<close>

record DeleteAttempt =
  da_cardId :: bigint
  da_idempotencyKey :: jsstring
  da_generation :: int

datatype DeleteCardState =
    DeleteIdle
  | Deleting (delete_attempt: DeleteAttempt)
  | DeleteError (delete_attempt: DeleteAttempt) (delete_indeterminate: bool) (delete_message: jsstring)

type_synonym DeleteState = "DeleteCardState js_map"

definition EMPTY_DELETE_STATE :: DeleteState where
  "EMPTY_DELETE_STATE = []"

definition deleteKey :: "bigint \<Rightarrow> jsstring" where
  "deleteKey cardId = dec_of_int cardId"

definition deleteCardState :: "DeleteState \<Rightarrow> bigint \<Rightarrow> DeleteCardState" where
  "deleteCardState state cardId = (case map_of state (deleteKey cardId) of None \<Rightarrow> DeleteIdle | Some s \<Rightarrow> s)"

definition startDelete :: "ReviewSlot list \<Rightarrow> DeleteState \<Rightarrow> DeleteAttempt \<Rightarrow> DeleteState option" where
  "startDelete slots state attempt =
     (if findLiveIdleSlotIndex slots (da_cardId attempt) = None then None
      else case map_of state (deleteKey (da_cardId attempt)) of
             Some (Deleting a) \<Rightarrow> None
           | _ \<Rightarrow> Some (AList.update (deleteKey (da_cardId attempt)) (Deleting attempt) state))"

datatype DeleteRetryDecision =
    DeleteReuseAttempt DeleteAttempt
  | DeleteNeedsNewKey bigint int

fun deleteRetryDecision :: "DeleteCardState \<Rightarrow> DeleteRetryDecision option" where
  "deleteRetryDecision (DeleteError attempt indeterminate message) =
     Some (if indeterminate then DeleteReuseAttempt attempt
           else DeleteNeedsNewKey (da_cardId attempt) (da_generation attempt + 1))"
| "deleteRetryDecision _ = None"

record DeleteCommitResult =
  dc_slots :: "ReviewSlot list"
  dc_state :: DeleteState
  dc_pinnedOrder :: "bigint list"

definition applyDeleteSuccess ::
    "ReviewSlot list \<Rightarrow> DeleteState \<Rightarrow> DeleteAttempt \<Rightarrow> bigint list \<Rightarrow> DeleteCommitResult" where
  "applyDeleteSuccess slots state attempt pinnedOrder =
     (if map_of state (deleteKey (da_cardId attempt)) \<noteq> Some (Deleting attempt)
      then \<lparr>dc_slots = slots, dc_state = state, dc_pinnedOrder = pinnedOrder\<rparr>
      else \<lparr>dc_slots = (case findLiveIdleSlotIndex slots (da_cardId attempt) of
                          None \<Rightarrow> slots
                        | Some index \<Rightarrow> remove_nth index slots),
            dc_state = AList.delete (deleteKey (da_cardId attempt)) state,
            dc_pinnedOrder = (if da_cardId attempt \<in> set pinnedOrder
                              then setPinnedMembership pinnedOrder (da_cardId attempt) False
                              else pinnedOrder)\<rparr>)"

definition applyDeleteFailure ::
    "ReviewSlot list \<Rightarrow> DeleteState \<Rightarrow> DeleteAttempt \<Rightarrow> bigint list \<Rightarrow> FailureFields \<Rightarrow> DeleteCommitResult" where
  "applyDeleteFailure slots state attempt pinnedOrder failure =
     (if map_of state (deleteKey (da_cardId attempt)) \<noteq> Some (Deleting attempt)
      then \<lparr>dc_slots = slots, dc_state = state, dc_pinnedOrder = pinnedOrder\<rparr>
      else \<lparr>dc_slots = slots,
            dc_state = AList.update (deleteKey (da_cardId attempt))
              (DeleteError attempt (ff_mutationOutcomeIndeterminate failure) (ff_message failure)) state,
            dc_pinnedOrder = pinnedOrder\<rparr>)"

section \<open>The module implements the shared contract\<close>

definition deleting :: "DeleteCommitResult \<Rightarrow> bigint \<Rightarrow> DeleteAttempt option" where
  "deleting w cardId = (case map_of (dc_state w) (deleteKey cardId) of Some (Deleting a) \<Rightarrow> Some a | _ \<Rightarrow> None)"

definition delete_begin :: "DeleteCommitResult \<Rightarrow> DeleteAttempt \<Rightarrow> DeleteCommitResult option" where
  "delete_begin w a = map_option (\<lambda>st. w\<lparr>dc_state := st\<rparr>) (startDelete (dc_slots w) (dc_state w) a)"

definition delete_succeed :: "DeleteCommitResult \<Rightarrow> DeleteAttempt \<Rightarrow> DeleteCommitResult" where
  "delete_succeed w a = applyDeleteSuccess (dc_slots w) (dc_state w) a (dc_pinnedOrder w)"

definition delete_fail :: "DeleteCommitResult \<Rightarrow> DeleteAttempt \<Rightarrow> FailureFields \<Rightarrow> DeleteCommitResult" where
  "delete_fail w a f = applyDeleteFailure (dc_slots w) (dc_state w) a (dc_pinnedOrder w) f"

definition delete_elsewhere :: "DeleteCommitResult \<Rightarrow> ReviewSlot list \<times> bigint list \<Rightarrow> DeleteCommitResult" where
  "delete_elsewhere w x = w\<lparr>dc_slots := fst x, dc_pinnedOrder := snd x\<rparr>"

lemma deleteKey_inj [simp]: "deleteKey i = deleteKey j \<longleftrightarrow> i = j"
  by (simp add: deleteKey_def)

lemma deleting_some: "deleting w k = Some a \<longleftrightarrow> map_of (dc_state w) (deleteKey k) = Some (Deleting a)"
  by (auto simp: deleting_def split: option.splits DeleteCardState.splits)

lemma start_delete_some:
  "startDelete slots state a = Some state' \<longleftrightarrow>
   findLiveIdleSlotIndex slots (da_cardId a) \<noteq> None \<and>
   (\<forall>b. map_of state (deleteKey (da_cardId a)) \<noteq> Some (Deleting b)) \<and>
   state' = AList.update (deleteKey (da_cardId a)) (Deleting a) state"
  by (auto simp: startDelete_def split: option.splits DeleteCardState.splits)

interpretation del: keyed_mutation da_cardId delete_begin delete_succeed delete_fail delete_elsewhere deleting
proof
  fix w w' :: DeleteCommitResult and a f
  show "delete_begin w a = Some w' \<Longrightarrow> deleting w (da_cardId a) = None"
    by (auto simp: delete_begin_def start_delete_some deleting_def split: option.splits DeleteCardState.splits)
  show "delete_begin w a = Some w' \<Longrightarrow> deleting w' = (deleting w)(da_cardId a \<mapsto> a)"
    by (auto simp: delete_begin_def start_delete_some deleting_def)
  show "deleting w (da_cardId a) = Some a \<Longrightarrow> deleting (delete_succeed w a) = (deleting w)(da_cardId a := None)"
    by (auto simp: deleting_some delete_succeed_def applyDeleteSuccess_def) (auto simp: deleting_def)
  show "deleting w (da_cardId a) \<noteq> Some a \<Longrightarrow> delete_succeed w a = w"
    by (simp add: deleting_some delete_succeed_def applyDeleteSuccess_def)
  show "deleting w (da_cardId a) = Some a \<Longrightarrow> deleting (delete_fail w a f) = (deleting w)(da_cardId a := None)"
    by (auto simp: deleting_some delete_fail_def applyDeleteFailure_def) (auto simp: deleting_def)
  show "deleting w (da_cardId a) \<noteq> Some a \<Longrightarrow> delete_fail w a f = w"
    by (simp add: deleting_some delete_fail_def applyDeleteFailure_def)
  show "deleting (delete_elsewhere w x) = deleting w" for x
    by (auto simp: delete_elsewhere_def deleting_def)
qed

section \<open>Effect on the slots and the saved order\<close>

lemma find_live_idle:
  assumes "distinct_cards slots" and "i < length slots" and "slots ! i = SlotIdle c"
  shows "findLiveIdleSlotIndex slots (fc_id c) = Some i"
proof (cases "findLiveIdleSlotIndex slots (fc_id c)")
  case None
  then have "\<not> live_idle (fc_id c) (slots ! i)"
    using assms(2) by (auto simp: findLiveIdleSlotIndex_def find_index_None)
  then show ?thesis using assms(3) by (simp add: live_idle_iff)
next
  case (Some j)
  then have j: "j < length slots" "live_idle (fc_id c) (slots ! j)"
    by (auto simp: findLiveIdleSlotIndex_def dest: find_index_Some)
  then have "slotCardId (slots ! j) = slotCardId (slots ! i)" using assms(3) by (auto simp: live_idle_iff)
  then have "j = i" using assms(1,2) j(1) by (auto simp: distinct_cards_def distinct_conv_nth)
  with Some show ?thesis by simp
qed

lemma remove_nth_as_filter:
  assumes "distinct_cards slots" and "i < length slots"
  shows "remove_nth i slots = filter (\<lambda>s. slotCardId s \<noteq> slotCardId (slots ! i)) slots"
  using assms
proof (induction slots arbitrary: i)
  case (Cons s slots)
  show ?case
  proof (cases i)
    case 0
    have "filter (\<lambda>s'. slotCardId s' \<noteq> slotCardId s) slots = slots"
      using Cons.prems(1) unfolding filter_id_conv distinct_cards_def
      by (metis distinct.simps(2) image_eqI list.simps(9) set_map)
    with 0 show ?thesis by (simp add: remove_nth_def)
  next
    case (Suc j)
    have d: "distinct_cards slots" using Cons.prems(1) by (simp add: distinct_cards_def)
    have "slotCardId s \<noteq> slotCardId (slots ! j)"
      using Cons.prems Suc by (auto simp: distinct_cards_def)
    with Cons.IH [OF d, of j] Cons.prems(2) Suc show ?thesis by (simp add: remove_nth_def)
  qed
qed simp

lemma delete_commit:
  assumes "distinct_cards slots" and "i < length slots" and "slots ! i = SlotIdle c" and "da_cardId a = fc_id c"
    and "map_of state (deleteKey (fc_id c)) = Some (Deleting a)"
  shows "applyDeleteSuccess slots state a order =
    \<lparr>dc_slots = filter (\<lambda>s. slotCardId s \<noteq> fc_id c) slots,
     dc_state = AList.delete (deleteKey (fc_id c)) state,
     dc_pinnedOrder = filter (\<lambda>n. n \<noteq> fc_id c) order\<rparr>"
proof -
  have "filter (\<lambda>n. n \<noteq> fc_id c) order = order" if "fc_id c \<notin> set order"
    using that by (auto simp: filter_id_conv)
  then show ?thesis
    using find_live_idle [OF assms(1-3)] remove_nth_as_filter [OF assms(1,2)] assms(3-5)
    by (auto simp: applyDeleteSuccess_def setPinnedMembership_def)
qed

section \<open>Properties\<close>

text \<open>C20: a delete runs at most once: over any sequence of clicks, answers (late, repeated or of unknown
  attempts) and other changes of the page, the launches of a card that went through equal the
  answers that settled one, up to the single request that may still be in flight; the same
  holds for pins.\<close>

theorem mutations_single_flight:
  "launches (mutation_step delete_begin delete_succeed delete_fail delete_elsewhere) delete_begin da_cardId k w es
     + in_flight (deleting w k) =
   settlements (mutation_step delete_begin delete_succeed delete_fail delete_elsewhere) deleting da_cardId k w es
     + in_flight (deleting (foldl (mutation_step delete_begin delete_succeed delete_fail delete_elsewhere) w es) k) \<and>
   launches (mutation_step pin_begin pin_succeed pin_fail pin_elsewhere) pin_begin pa_cardId k v ps
     + in_flight (pin_saving v k) =
   settlements (mutation_step pin_begin pin_succeed pin_fail pin_elsewhere) pin_saving pa_cardId k v ps
     + in_flight (pin_saving (foldl (mutation_step pin_begin pin_succeed pin_fail pin_elsewhere) v ps) k)"
  by (intro conjI del.launches_settled pin.launches_settled)

text \<open>The answer to a delete in flight removes exactly the slot of its card, drops exactly that id from
  the saved order and clears the entry; the answer to any other attempt, and every failure,
  leaves the slots and the order as they are.\<close>

theorem delete_commits_exactly:
  assumes "distinct_cards slots" and "i < length slots" and "slots ! i = SlotIdle c"
    and "da_cardId a = fc_id c" and "map_of state (deleteKey (fc_id c)) = Some (Deleting a)"
  shows "applyDeleteSuccess slots state a order =
           \<lparr>dc_slots = filter (\<lambda>s. slotCardId s \<noteq> fc_id c) slots,
            dc_state = AList.delete (deleteKey (fc_id c)) state,
            dc_pinnedOrder = filter (\<lambda>n. n \<noteq> fc_id c) order\<rparr> \<and>
         (a' \<noteq> a \<and> da_cardId a' = fc_id c \<longrightarrow>
            applyDeleteSuccess slots state a' order =
              \<lparr>dc_slots = slots, dc_state = state, dc_pinnedOrder = order\<rparr>) \<and>
         dc_slots (applyDeleteFailure slots state b order f) = slots \<and>
         dc_pinnedOrder (applyDeleteFailure slots state b order f) = order"
  using delete_commit [where state = state, OF assms] assms(5)
  by (simp add: applyDeleteFailure_def) (simp add: applyDeleteSuccess_def)

theorem delete_commits_exactly_witness:
  "dc_slots (applyDeleteSuccess [SlotIdle (sample_card 1 ''a'' ''casual_tip'' False), SlotIdle (sample_card 2 ''b'' ''casual_tip'' True)]
      [(deleteKey 2, Deleting \<lparr>da_cardId = 2, da_idempotencyKey = ''k'', da_generation = 1\<rparr>)]
      \<lparr>da_cardId = 2, da_idempotencyKey = ''k'', da_generation = 1\<rparr> [2, 5]) =
   [SlotIdle (sample_card 1 ''a'' ''casual_tip'' False)]"
  using delete_commits_exactly [of "[SlotIdle (sample_card 1 ''a'' ''casual_tip'' False), SlotIdle (sample_card 2 ''b'' ''casual_tip'' True)]"
      1 "sample_card 2 ''b'' ''casual_tip'' True" "\<lparr>da_cardId = 2, da_idempotencyKey = ''k'', da_generation = 1\<rparr>"
      "[(deleteKey 2, Deleting \<lparr>da_cardId = 2, da_idempotencyKey = ''k'', da_generation = 1\<rparr>)]" "[2, 5]"]
  by (simp add: distinct_cards_def)

end
