(* ===== verification/Add_Integration.thy ===== *)
theory Add_Integration
  imports Organization Delete_State
begin

text \<open>
  \<open>lib/flow-add-integration.ts\<close>: created cards into the slots. The loop over the batch is a fold with
  its mutable locals as a record.

  One point of the source needs care. The line \<open>transfers.length = 0\<close> runs before the spread that
  refills \<open>transfers\<close> from \<open>proposedTransfers\<close>. When the replaced card is pinned, \<open>proposedTransfers\<close> is
  a new array and survives; when it is not, \<open>proposedTransfers\<close> is \<open>transfers\<close> itself, so the array has
  been emptied by then and stays empty. The model has the same two cases.
\<close>

record AddIntegrationResult =
  ai_slots :: "ReviewSlot list"
  ai_pinnedOrder :: "bigint list"
  ai_needsReconciliation :: bool
  ai_deferredCardIds :: "bigint list"

record IntegrationLocals =
  il_next :: "ReviewSlot list"
  il_seenIds :: "bigint set"
  il_seenTopics :: "jsstring set"
  il_transfers :: "PinnedCardTransfer list"
  il_deferred :: "bigint list"
  il_needs :: bool

definition isActive :: "FlowCardInfo \<Rightarrow> bool" where
  "isActive c \<longleftrightarrow> fc_status c = ''active''"

definition isCasualOrManual :: "FlowCardInfo \<Rightarrow> bool" where
  "isCasualOrManual c \<longleftrightarrow> fc_tipcardType c = ''casual_tip'' \<or> fc_tipcardType c = ''manual_tip''"

definition sameSlotId :: "ReviewSlot \<Rightarrow> bigint \<Rightarrow> bool" where
  "sameSlotId slot cardId \<longleftrightarrow> sm_id (slotMetadata slot) = cardId"

definition repeatableTopicIndex :: "ReviewSlot list \<Rightarrow> jsstring \<Rightarrow> nat option" where
  "repeatableTopicIndex slots topicName =
     find_index (\<lambda>slot. is_live slot \<and> is_repeatable_card (slot_card slot) \<and>
                        fc_topicName (slot_card slot) = topicName) slots"

definition defer_card :: "bigint \<Rightarrow> IntegrationLocals \<Rightarrow> IntegrationLocals" where
  "defer_card cardId l =
     l\<lparr>il_deferred := (if cardId \<in> set (il_deferred l) then il_deferred l else il_deferred l @ [cardId]),
       il_needs := True\<rparr>"

text \<open>The repeatable part of the loop body, after the topic was claimed.\<close>

definition replace_stack ::
    "bigint list \<Rightarrow> bigint set \<Rightarrow> FlowCardInfo \<Rightarrow> nat \<Rightarrow> IntegrationLocals \<Rightarrow> IntegrationLocals" where
  "replace_stack pinnedOrder busyIds c previousIndex l =
     (let previous = il_next l ! previousIndex
      in if \<not> is_SlotIdle previous \<or> \<not> isActive (slot_card previous) then defer_card (fc_id c) l
         else if fc_id (slot_card previous) \<in> busyIds \<or> fc_id c \<in> busyIds then defer_card (fc_id c) l
         else let wasPinned = fc_pinned (slot_card previous);
                  proposedTransfers =
                    (if wasPinned
                     then il_transfers l @ [\<lparr>tr_from = fc_id (slot_card previous), tr_to = fc_id c\<rparr>]
                     else il_transfers l)
              in case transferPinnedCards pinnedOrder proposedTransfers of
                   TransferCollision \<Rightarrow> defer_card (fc_id c) l
                 | TransferApplied order \<Rightarrow>
                     l\<lparr>il_transfers := (if wasPinned then proposedTransfers else []),
                       il_next := (il_next l)[previousIndex := SlotIdle (c\<lparr>fc_pinned := wasPinned\<rparr>)]\<rparr>)"

definition integrate_card ::
    "bigint list \<Rightarrow> bigint set \<Rightarrow> IntegrationLocals \<Rightarrow> FlowCardInfo \<Rightarrow> IntegrationLocals" where
  "integrate_card pinnedOrder busyIds l0 c =
     (if fc_id c \<in> il_seenIds l0 then l0
      else let l = l0\<lparr>il_seenIds := insert (fc_id c) (il_seenIds l0)\<rparr>
           in if \<not> isActive c then defer_card (fc_id c) l
              else case find_index (\<lambda>slot. sameSlotId slot (fc_id c)) (il_next l) of
                     Some sameIdIndex \<Rightarrow>
                       if is_SlotIdle (il_next l ! sameIdIndex) \<and> fc_id c \<notin> busyIds
                       then l\<lparr>il_next := (il_next l)[sameIdIndex := SlotIdle c]\<rparr>
                       else defer_card (fc_id c) l
                   | None \<Rightarrow>
                       if isCasualOrManual c then l\<lparr>il_next := il_next l @ [SlotIdle c]\<rparr>
                       else if \<not> is_repeatable_card c then defer_card (fc_id c) l
                       else let l1 = l\<lparr>il_needs := True\<rparr>
                            in if fc_topicName c \<in> il_seenTopics l1 then defer_card (fc_id c) l1
                               else let l2 = l1\<lparr>il_seenTopics := insert (fc_topicName c) (il_seenTopics l1)\<rparr>
                                    in case repeatableTopicIndex (il_next l2) (fc_topicName c) of
                                         None \<Rightarrow> l2\<lparr>il_next := il_next l2 @ [SlotIdle c]\<rparr>
                                       | Some previousIndex \<Rightarrow>
                                           replace_stack pinnedOrder busyIds c previousIndex l2)"

definition integrateCreatedCards ::
    "ReviewSlot list \<Rightarrow> FlowCardInfo list \<Rightarrow> bigint list \<Rightarrow> bigint list \<Rightarrow> AddIntegrationResult" where
  "integrateCreatedCards slots cards pinnedOrder busyCardIds =
     (let l = foldl (integrate_card pinnedOrder (set busyCardIds))
                \<lparr>il_next = slots, il_seenIds = {}, il_seenTopics = {}, il_transfers = [],
                 il_deferred = [], il_needs = False\<rparr> cards
      in \<lparr>ai_slots = il_next l,
          ai_pinnedOrder = (case transferPinnedCards pinnedOrder (il_transfers l) of
                              TransferApplied order \<Rightarrow> order | TransferCollision \<Rightarrow> pinnedOrder),
          ai_needsReconciliation = il_needs l,
          ai_deferredCardIds = il_deferred l\<rparr>)"

text \<open>\<open>byId.set\<close> keeps the last card of an id.\<close>

definition cards_by_id :: "FlowCardInfo list \<Rightarrow> bigint \<rightharpoonup> FlowCardInfo" where
  "cards_by_id cards = foldl (\<lambda>byId c. byId(fc_id c \<mapsto> c)) Map.empty cards"

fun push_unrepresented :: "bigint set \<Rightarrow> FlowCardInfo list \<Rightarrow> ReviewSlot list" where
  "push_unrepresented representedIds [] = []"
| "push_unrepresented representedIds (c # cards) =
     (if fc_id c \<in> representedIds then push_unrepresented representedIds cards
      else SlotIdle c # push_unrepresented (insert (fc_id c) representedIds) cards)"

definition reconcile_slot :: "FlowCardInfo list \<Rightarrow> ReviewSlot \<Rightarrow> ReviewSlot" where
  "reconcile_slot cards slot =
     (if \<not> is_SlotIdle slot then slot
      else case cards_by_id cards (fc_id (slot_card slot)) of None \<Rightarrow> slot | Some c \<Rightarrow> SlotIdle c)"

definition mergeReconciledCards :: "ReviewSlot list \<Rightarrow> FlowCardInfo list \<Rightarrow> ReviewSlot list" where
  "mergeReconciledCards slots cards =
     (let next = map (reconcile_slot cards) slots
      in next @ push_unrepresented (set (map (\<lambda>slot. sm_id (slotMetadata slot)) next)) cards)"

section \<open>Ownership\<close>

text \<open>A slot is owned when a review, pin or delete request works on it, or when it is a placeholder.\<close>

definition owned :: "bigint set \<Rightarrow> ReviewSlot \<Rightarrow> bool" where
  "owned busyIds s \<longleftrightarrow> \<not> is_SlotIdle s \<or> slotCardId s \<in> busyIds"

definition keeps_owned :: "bigint set \<Rightarrow> ReviewSlot list \<Rightarrow> ReviewSlot list \<Rightarrow> bool" where
  "keeps_owned busyIds xs ys \<longleftrightarrow>
     length xs \<le> length ys \<and> (\<forall>i < length xs. owned busyIds (xs ! i) \<longrightarrow> ys ! i = xs ! i)"

lemma keeps_owned_refl [simp]: "keeps_owned B xs xs"
  by (simp add: keeps_owned_def)

lemma keeps_owned_trans: "keeps_owned B xs ys \<Longrightarrow> keeps_owned B ys zs \<Longrightarrow> keeps_owned B xs zs"
  by (auto simp: keeps_owned_def)

lemma keeps_owned_append [simp]: "keeps_owned B xs (xs @ ys)"
  by (simp add: keeps_owned_def nth_append)

lemma keeps_owned_update:
  "\<not> owned B (xs ! i) \<Longrightarrow> keeps_owned B xs (xs[i := s])"
  unfolding keeps_owned_def by (metis length_list_update nth_list_update_neq order_refl)

lemma defer_next [simp]: "il_next (defer_card k l) = il_next l"
  by (simp add: defer_card_def)

lemma idle_owned: "is_SlotIdle s \<Longrightarrow> owned B s \<longleftrightarrow> fc_id (slot_card s) \<in> B"
  by (cases s) (auto simp: owned_def)

lemma find_sameSlotId: "find_index (\<lambda>slot. sameSlotId slot k) slots = Some i \<Longrightarrow> i < length slots \<and> slotCardId (slots ! i) = k"
  by (drule find_index_Some) (simp add: sameSlotId_def)

lemma find_sameSlotId_None: "find_index (\<lambda>slot. sameSlotId slot k) slots = None \<longleftrightarrow> k \<notin> slotCardId ` set slots"
  by (auto simp: find_index_None sameSlotId_def)

lemma replace_stack_next:
  "il_next (replace_stack order B c i l) = il_next l \<or>
   (is_SlotIdle (il_next l ! i) \<and> \<not> owned B (il_next l ! i) \<and>
    il_next (replace_stack order B c i l) = (il_next l)[i := SlotIdle (c\<lparr>fc_pinned := fc_pinned (slot_card (il_next l ! i))\<rparr>)])"
  by (simp add: replace_stack_def Let_def idle_owned split: PinnedCardTransferResult.split)

text \<open>One step of the loop: nothing, a refresh in place, an append, or a replacement.\<close>

definition slot_edit :: "bigint set \<Rightarrow> FlowCardInfo \<Rightarrow> ReviewSlot list \<Rightarrow> ReviewSlot list \<Rightarrow> bool" where
  "slot_edit B c xs ys \<longleftrightarrow>
     ys = xs \<or>
     (\<exists>i p. i < length xs \<and> is_SlotIdle (xs ! i) \<and> \<not> owned B (xs ! i) \<and>
        ys = xs[i := SlotIdle (c\<lparr>fc_pinned := p\<rparr>)] \<and>
        (slotCardId (xs ! i) = fc_id c \<or> fc_id c \<notin> slotCardId ` set xs)) \<or>
     ys = xs @ [SlotIdle c] \<and> fc_id c \<notin> slotCardId ` set xs"

lemma slot_edit_same: "slot_edit B c xs xs"
  by (simp add: slot_edit_def)

lemma slot_edit_write:
  "i < length xs \<Longrightarrow> is_SlotIdle (xs ! i) \<Longrightarrow> \<not> owned B (xs ! i) \<Longrightarrow>
   slotCardId (xs ! i) = fc_id c \<or> fc_id c \<notin> slotCardId ` set xs \<Longrightarrow>
   slot_edit B c xs (xs[i := SlotIdle (c\<lparr>fc_pinned := p\<rparr>)])"
  unfolding slot_edit_def by blast

lemma slot_edit_append: "fc_id c \<notin> slotCardId ` set xs \<Longrightarrow> slot_edit B c xs (xs @ [SlotIdle c])"
  by (simp add: slot_edit_def)

lemma integrate_card_next: "slot_edit B c (il_next l) (il_next (integrate_card order B l c))"
proof -
  let ?find = "find_index (\<lambda>slot. sameSlotId slot (fc_id c)) (il_next l)"
  show ?thesis
  proof (cases "fc_id c \<in> il_seenIds l \<or> \<not> isActive c")
    case True
    then show ?thesis by (auto simp: integrate_card_def Let_def slot_edit_same)
  next
    case fresh: False
    show ?thesis
    proof (cases ?find)
      case (Some i)
      have i: "i < length (il_next l)" "slotCardId (il_next l ! i) = fc_id c"
        using find_sameSlotId [OF Some] by auto
      show ?thesis
      proof (cases "is_SlotIdle (il_next l ! i) \<and> fc_id c \<notin> B")
        case True
        have "\<not> owned B (il_next l ! i)" using True i(2) by (simp add: owned_def)
        then have "slot_edit B c (il_next l) ((il_next l)[i := SlotIdle (c\<lparr>fc_pinned := fc_pinned c\<rparr>)])"
          using True i by (intro slot_edit_write) auto
        then show ?thesis using fresh Some True by (simp add: integrate_card_def Let_def)
      next
        case False
        then show ?thesis using fresh Some by (auto simp: integrate_card_def Let_def slot_edit_same)
      qed
    next
      case None
      then have new: "fc_id c \<notin> slotCardId ` set (il_next l)" by (simp add: find_sameSlotId_None)
      show ?thesis
      proof (cases "isCasualOrManual c \<or> \<not> is_repeatable_card c \<or> fc_topicName c \<in> il_seenTopics l \<or>
          repeatableTopicIndex (il_next l) (fc_topicName c) = None")
        case True
        then show ?thesis using fresh None new
          by (auto simp: integrate_card_def Let_def slot_edit_same slot_edit_append)
      next
        case False
        then obtain i where i: "repeatableTopicIndex (il_next l) (fc_topicName c) = Some i" by auto
        then have len: "i < length (il_next l)" by (auto simp: repeatableTopicIndex_def dest: find_index_Some)
        let ?l = "l\<lparr>il_seenIds := insert (fc_id c) (il_seenIds l), il_needs := True,
          il_seenTopics := insert (fc_topicName c) (il_seenTopics l)\<rparr>"
        have eq: "integrate_card order B l c = replace_stack order B c i ?l"
          using fresh None False i by (simp add: integrate_card_def Let_def)
        consider "il_next (replace_stack order B c i ?l) = il_next l"
          | "is_SlotIdle (il_next l ! i)" "\<not> owned B (il_next l ! i)"
            "il_next (replace_stack order B c i ?l) = (il_next l)[i := SlotIdle (c\<lparr>fc_pinned := fc_pinned (slot_card (il_next l ! i))\<rparr>)]"
          using replace_stack_next [of order B c i ?l] by auto
        then show ?thesis
        proof cases
          case 1
          then show ?thesis by (simp add: eq slot_edit_same)
        next
          case 2
          then show ?thesis unfolding eq by (simp add: slot_edit_write len new)
        qed
      qed
    qed
  qed
qed

lemma slot_edit_keeps: "slot_edit B c xs ys \<Longrightarrow> keeps_owned B xs ys"
  by (auto simp: slot_edit_def keeps_owned_update)

lemma slot_edit_ids:
  assumes "slot_edit B c xs ys" and "distinct_cards xs"
  shows "distinct_cards ys \<and> set ys \<subseteq> set xs \<union> {SlotIdle (c\<lparr>fc_pinned := p\<rparr>) |p. True} "
  using assms(1) unfolding slot_edit_def
proof (elim disjE exE conjE)
  fix i p assume i: "i < length xs" "ys = xs[i := SlotIdle (c\<lparr>fc_pinned := p\<rparr>)]"
    and k: "slotCardId (xs ! i) = fc_id c"
  have "map slotCardId ys = map slotCardId xs"
    using i k by (simp add: map_update) (metis list_update_id nth_map)
  then show ?thesis using assms(2) i set_update_subset_insert [of xs i] by (auto simp: distinct_cards_def)
next
  fix i p assume i: "i < length xs" "ys = xs[i := SlotIdle (c\<lparr>fc_pinned := p\<rparr>)]"
    and k: "fc_id c \<notin> slotCardId ` set xs"
  have "map slotCardId ys = (map slotCardId xs)[i := fc_id c]" by (simp add: i(2) map_update)
  moreover have "distinct ((map slotCardId xs)[i := fc_id c])"
    using assms(2) k by (intro distinct_list_update) (auto simp: distinct_cards_def)
  ultimately show ?thesis using i set_update_subset_insert [of xs i] by (auto simp: distinct_cards_def)
next
  assume "ys = xs @ [SlotIdle c]" "fc_id c \<notin> slotCardId ` set xs"
  moreover have "SlotIdle c \<in> {SlotIdle (c\<lparr>fc_pinned := p\<rparr>) |p. True}"
    by (rule CollectI, rule exI [of _ "fc_pinned c"]) simp
  ultimately show ?thesis using assms(2) by (auto simp: distinct_cards_def)
qed (use assms(2) in auto)

lemma slot_edit_ok: "slot_edit B c xs ys \<Longrightarrow> slots_inv xs \<Longrightarrow> slots_inv ys"
  using slot_edit_ids [of B c xs ys] unfolding slots_inv_def by fastforce

lemma integrate_fold:
  "keeps_owned B (il_next l) (il_next (foldl (integrate_card order B) l cards)) \<and>
   (slots_inv (il_next l) \<longrightarrow> slots_inv (il_next (foldl (integrate_card order B) l cards)))"
proof (induction cards arbitrary: l)
  case (Cons c cards)
  have "slot_edit B c (il_next l) (il_next (integrate_card order B l c))" by (rule integrate_card_next)
  with Cons.IH [of "integrate_card order B l c"] show ?case
    using keeps_owned_trans slot_edit_keeps slot_edit_ok by fastforce
qed simp

subsection \<open>Reconciliation\<close>

lemma cards_by_id_snoc: "cards_by_id (cards @ [c]) = (cards_by_id cards)(fc_id c \<mapsto> c)"
  by (simp add: cards_by_id_def)

lemma cards_by_id_Some: "cards_by_id cards k = Some c \<Longrightarrow> fc_id c = k \<and> c \<in> set cards"
  by (induction cards arbitrary: c rule: rev_induct)
    (auto simp: cards_by_id_snoc split: if_splits, auto simp: cards_by_id_def)

lemma reconcile_slot_id [simp]: "slotCardId (reconcile_slot cards s) = slotCardId s"
  by (cases s) (auto simp: reconcile_slot_def dest!: cards_by_id_Some split: option.split)

lemma reconcile_slot_ok: "slot_ok s \<Longrightarrow> slot_ok (reconcile_slot cards s)"
  by (auto simp: reconcile_slot_def split: option.split)

lemma push_unrepresented_ids:
  "distinct (map slotCardId (push_unrepresented ids cards)) \<and>
   slotCardId ` set (push_unrepresented ids cards) = fc_id ` set cards - ids \<and>
   (\<forall>s \<in> set (push_unrepresented ids cards). slot_ok s)"
  by (induction ids cards rule: push_unrepresented.induct) auto

lemma mergeReconciled_eq:
  "mergeReconciledCards slots cards =
     map (reconcile_slot cards) slots @ push_unrepresented (slotCardId ` set slots) cards"
  by (simp add: mergeReconciledCards_def Let_def image_image)

lemma reconcile_inv: "slots_inv slots \<Longrightarrow> slots_inv (mergeReconciledCards slots cards)"
  using push_unrepresented_ids [of "slotCardId ` set slots" cards]
  by (auto simp: slots_inv_def distinct_cards_def mergeReconciled_eq comp_def reconcile_slot_ok)

section \<open>Properties\<close>

text \<open>C23: adding cards respects ownership: integrating a created batch, and the quiet reconciliation after it,
  leave every slot in place that a review, a pin or a delete works on and every placeholder
  (reconciliation: every slot that is not idle), never remove a slot, and keep the invariant.\<close>

theorem add_respects_owners:
  assumes "slots_inv slots"
  shows "let next = ai_slots (integrateCreatedCards slots cards order busy)
         in keeps_owned (set busy) slots next \<and> slots_inv next \<and>
            keeps_owned {} slots (map (reconcile_slot page) slots) \<and>
            take (length slots) (mergeReconciledCards slots page) = map (reconcile_slot page) slots \<and>
            slots_inv (mergeReconciledCards slots page)"
proof -
  have "keeps_owned {} slots (map (reconcile_slot page) slots)"
    by (auto simp: keeps_owned_def owned_def reconcile_slot_def)
  then show ?thesis
    using integrate_fold [of "set busy" "\<lparr>il_next = slots, il_seenIds = {}, il_seenTopics = {}, il_transfers = [],
                 il_deferred = [], il_needs = False\<rparr>" order cards] assms reconcile_inv [OF assms, of page]
    by (simp add: Let_def integrateCreatedCards_def mergeReconciled_eq)
qed

theorem add_respects_owners_witness:
  "keeps_owned {1} [SlotIdle (sample_card 1 ''a'' ''casual_tip'' False)]
     (ai_slots (integrateCreatedCards [SlotIdle (sample_card 1 ''a'' ''casual_tip'' False)]
        [sample_card 1 ''b'' ''casual_tip'' True, sample_card 2 ''b'' ''casual_tip'' True] [] [1]))"
  using add_respects_owners [of "[SlotIdle (sample_card 1 ''a'' ''casual_tip'' False)]"
      "[sample_card 1 ''b'' ''casual_tip'' True, sample_card 2 ''b'' ''casual_tip'' True]" "[]" "[1]" "[]"]
  by (simp add: slots_inv_def distinct_cards_def Let_def)

section \<open>A lost transfer\<close>

text \<open>
  Two replacements in one batch, the first of a pinned card, the second of an unpinned one: the second
  clears the transfer of the first, and the saved order keeps the id of the card that is gone.
  In the other order of the batch the transfer is kept.
\<close>

lemma later_replacement_loses_transfer:
  "let slots = [SlotIdle (sample_card 1 ''math'' ''repeatable_tip'' True), SlotIdle (sample_card 2 ''art'' ''repeatable_tip'' False)];
       newMath = sample_card 11 ''math'' ''repeatable_tip'' False; newArt = sample_card 12 ''art'' ''repeatable_tip'' False;
       batch = integrateCreatedCards slots [newMath, newArt] [1] [];
       swapped = integrateCreatedCards slots [newArt, newMath] [1] []
   in map slotCardId (ai_slots batch) = [11, 12] \<and> ai_pinnedOrder batch = [1] \<and>
      map slotCardId (ai_slots swapped) = [11, 12] \<and> ai_pinnedOrder swapped = [11]"
  by code_simp

end
