(* ===== verification/Json.thy ===== *)
theory Json
  imports Complex_Main Prelude
begin

text \<open>
  The part of JavaScript's \<open>JSON\<close> the client uses for its stored texts and plain HTTP bodies. An object is its
  list of own properties in order; a number is its exact value (\<open>JInf\<close> what overflows a double, the
  rounding of the others is left out); a string holds code units below 256. \<open>JSON.stringify\<close>
  is only ever applied to integers, so \<open>json_text\<close> prints those; the round trip is
  stated for the values that hold nothing else.
\<close>

datatype json =
    JNull
  | JBool bool
  | JNum rat
  | JInf bool
  | JStr jsstring
  | JArr "json list"
  | JObj "(jsstring \<times> json) list"

text \<open>\<open>value.key\<close> of a parsed object: \<open>None\<close> is \<open>undefined\<close>.\<close>

definition json_field :: "(jsstring \<times> json) list \<Rightarrow> jsstring \<Rightarrow> json option" where
  "json_field fields key = map_of fields key"

text \<open>A repeated property keeps its first place and takes its last value.\<close>

definition own_properties :: "(jsstring \<times> json) list \<Rightarrow> (jsstring \<times> json) list" where
  "own_properties fields = foldl (\<lambda>obj (key, j). AList.update key j obj) [] fields"

section \<open>Printing\<close>

definition hex_char :: "nat \<Rightarrow> char" where
  "hex_char d = ''0123456789abcdef'' ! d"

definition json_escape :: "char \<Rightarrow> jsstring" where
  "json_escape c =
     (let n = (of_char c :: nat)
      in if n = 34 then [CHR 0x5C, CHR 0x22]
         else if n = 92 then [CHR 0x5C, CHR 0x5C]
         else if n = 8 then [CHR 0x5C, CHR ''b'']
         else if n = 9 then [CHR 0x5C, CHR ''t'']
         else if n = 10 then [CHR 0x5C, CHR ''n'']
         else if n = 12 then [CHR 0x5C, CHR ''f'']
         else if n = 13 then [CHR 0x5C, CHR ''r'']
         else if n < 32 then [CHR 0x5C, CHR ''u'', CHR ''0'', CHR ''0'', hex_char (n div 16), hex_char (n mod 16)]
         else [c])"

definition json_quote :: "jsstring \<Rightarrow> jsstring" where
  "json_quote s = CHR 0x22 # concat (map json_escape s) @ [CHR 0x22]"

fun json_text :: "json \<Rightarrow> jsstring" where
  "json_text JNull = ''null''"
| "json_text (JBool b) = (if b then ''true'' else ''false'')"
| "json_text (JNum r) = dec_of_int \<lfloor>r\<rfloor>"
| "json_text (JInf neg) = ''null''"
| "json_text (JStr s) = json_quote s"
| "json_text (JArr js) = CHR ''['' # js_join '','' (map json_text js) @ '']''"
| "json_text (JObj fields) =
     CHR ''{'' # js_join '','' (map (\<lambda>(key, j). json_quote key @ CHR '':'' # json_text j) fields) @ ''}''"

section \<open>Parsing\<close>

definition is_json_space :: "char \<Rightarrow> bool" where
  "is_json_space c \<longleftrightarrow> (of_char c :: nat) \<in> {9, 10, 13, 32}"

definition skip_space :: "jsstring \<Rightarrow> jsstring" where
  "skip_space s = dropWhile is_json_space s"

definition hex_val :: "char \<Rightarrow> nat option" where
  "hex_val c =
     (let n = (of_char c :: nat)
      in if 48 \<le> n \<and> n \<le> 57 then Some (n - 48)
         else if 97 \<le> n \<and> n \<le> 102 then Some (n - 87)
         else if 65 \<le> n \<and> n \<le> 70 then Some (n - 55)
         else None)"

text \<open>Four hexadecimal digits; a code unit above 255 has no \<open>char\<close> here.\<close>

definition hex_unit :: "jsstring \<Rightarrow> char option" where
  "hex_unit digits =
     (if length digits = 4 \<and> list_all (\<lambda>c. hex_val c \<noteq> None) digits
      then let n = foldl (\<lambda>acc c. 16 * acc + the (hex_val c)) 0 digits in if n < 256 then Some (char_of n) else None
      else None)"

text \<open>The rest of the text behind one given character.\<close>

definition eat :: "char \<Rightarrow> jsstring \<Rightarrow> jsstring option" where
  "eat c s = (case s of [] \<Rightarrow> None | d # t \<Rightarrow> if d = c then Some t else None)"

definition escape_char :: "char \<Rightarrow> char option" where
  "escape_char c =
     (if c \<in> {CHR 0x22, CHR 0x5C, CHR ''/''} then Some c
      else map_of [(CHR ''b'', char_of (8 :: nat)), (CHR ''t'', char_of (9 :: nat)), (CHR ''n'', char_of (10 :: nat)),
                   (CHR ''f'', char_of (12 :: nat)), (CHR ''r'', char_of (13 :: nat))] c)"

text \<open>The characters up to the closing quote, and what follows it.\<close>

function parse_chars :: "jsstring \<Rightarrow> (jsstring \<times> jsstring) option" where
  "parse_chars [] = None"
| "parse_chars (c # s) =
     (if c = CHR 0x22 then Some ([], s)
      else if c = CHR 0x5C
      then (case s of
              [] \<Rightarrow> None
            | e # s' \<Rightarrow>
                if e = CHR ''u''
                then (case hex_unit (take 4 s') of
                        None \<Rightarrow> None
                      | Some u \<Rightarrow> map_option (apfst ((#) u)) (parse_chars (drop 4 s')))
                else (case escape_char e of
                        None \<Rightarrow> None
                      | Some d \<Rightarrow> map_option (apfst ((#) d)) (parse_chars s')))
      else if (of_char c :: nat) < 32 then None
      else map_option (apfst ((#) c)) (parse_chars s))"
  by pat_completeness auto
termination by (relation "measure length") auto

definition scale10 :: "rat \<Rightarrow> int \<Rightarrow> rat" where
  "scale10 r e = (if 0 \<le> e then r * 10 ^ nat e else r / 10 ^ nat (- e))"

definition number_value :: "bool \<Rightarrow> rat \<Rightarrow> json" where
  "number_value neg r =
     (if r \<ge> 2 ^ 1024 - 2 ^ 970 then JInf neg else JNum (if neg then - r else r))"

text \<open>An exponent part, when there is one.\<close>

definition parse_exponent :: "jsstring \<Rightarrow> (int \<times> jsstring) option" where
  "parse_exponent s =
     (case s of
        [] \<Rightarrow> Some (0, s)
      | c # s' \<Rightarrow>
          if c \<noteq> CHR ''e'' \<and> c \<noteq> CHR ''E'' then Some (0, s)
          else let (sign, s'') = (case (eat CHR ''-'' s', eat CHR ''+'' s') of
                     (Some t, _) \<Rightarrow> (-1, t) | (None, Some t) \<Rightarrow> (1, t) | (None, None) \<Rightarrow> (1, s'));
                   digits = takeWhile is_digit s''
               in if digits = [] then None else Some (sign * int (nat_of_dec digits), dropWhile is_digit s''))"

definition parse_fraction :: "jsstring \<Rightarrow> (jsstring \<times> jsstring) option" where
  "parse_fraction s =
     (case s of
        [] \<Rightarrow> Some ([], s)
      | c # s' \<Rightarrow>
          if c \<noteq> CHR ''.'' then Some ([], s)
          else let digits = takeWhile is_digit s'
               in if digits = [] then None else Some (digits, dropWhile is_digit s'))"

definition parse_unsigned :: "bool \<Rightarrow> jsstring \<Rightarrow> (json \<times> jsstring) option" where
  "parse_unsigned neg s =
     (let digits = (if eat CHR ''0'' s \<noteq> None then ''0'' else takeWhile is_digit s)
      in if digits = [] then None
         else case parse_fraction (drop (length digits) s) of
                None \<Rightarrow> None
              | Some (decimals, s1) \<Rightarrow>
                  (case parse_exponent s1 of
                     None \<Rightarrow> None
                   | Some (e, s2) \<Rightarrow>
                       Some (number_value neg (scale10 (of_nat (nat_of_dec (digits @ decimals))) (e - int (length decimals))), s2)))"

definition parse_number :: "jsstring \<Rightarrow> (json \<times> jsstring) option" where
  "parse_number s = (case eat CHR ''-'' s of Some t \<Rightarrow> parse_unsigned True t | None \<Rightarrow> parse_unsigned False s)"

definition parse_word :: "jsstring \<Rightarrow> json \<Rightarrow> jsstring \<Rightarrow> (json \<times> jsstring) option" where
  "parse_word w j s = (if js_starts_with w s then Some (j, drop (length w) s) else None)"

text \<open>A quoted property name and its colon.\<close>

definition parse_key :: "jsstring \<Rightarrow> (jsstring \<times> jsstring) option" where
  "parse_key s =
     (case eat CHR 0x22 (skip_space s) of
        None \<Rightarrow> None
      | Some t \<Rightarrow>
          (case parse_chars t of
             None \<Rightarrow> None
           | Some (key, t1) \<Rightarrow> map_option (Pair key) (eat CHR '':'' (skip_space t1))))"

text \<open>
  A value, the elements of an array after \<open>[\<close>, and the properties of an object after \<open>{\<close>: the first
  argument bounds the nesting of calls. Every call reads a character first, so the length of the text is enough.
\<close>

fun parse_value :: "nat \<Rightarrow> jsstring \<Rightarrow> (json \<times> jsstring) option"
  and parse_elements :: "nat \<Rightarrow> jsstring \<Rightarrow> (json list \<times> jsstring) option"
  and parse_fields :: "nat \<Rightarrow> jsstring \<Rightarrow> ((jsstring \<times> json) list \<times> jsstring) option" where
  "parse_value 0 s = None"
| "parse_value (Suc n) s =
     (case skip_space s of
        [] \<Rightarrow> None
      | c # t \<Rightarrow>
          if c = CHR ''n'' then parse_word ''null'' JNull (c # t)
          else if c = CHR ''t'' then parse_word ''true'' (JBool True) (c # t)
          else if c = CHR ''f'' then parse_word ''false'' (JBool False) (c # t)
          else if c = CHR 0x22 then map_option (apfst JStr) (parse_chars t)
          else if c = CHR ''['' then
            (case eat CHR '']'' (skip_space t) of
               Some t' \<Rightarrow> Some (JArr [], t')
             | None \<Rightarrow> map_option (apfst JArr) (parse_elements n t))
          else if c = CHR ''{'' then
            (case eat CHR ''}'' (skip_space t) of
               Some t' \<Rightarrow> Some (JObj [], t')
             | None \<Rightarrow> map_option (apfst (\<lambda>fields. JObj (own_properties fields))) (parse_fields n t))
          else parse_number (c # t))"
| "parse_elements 0 s = None"
| "parse_elements (Suc n) s =
     (case parse_value n s of
        None \<Rightarrow> None
      | Some (j, t) \<Rightarrow>
          (case (eat CHR '','' (skip_space t), eat CHR '']'' (skip_space t)) of
             (Some t', _) \<Rightarrow> map_option (apfst ((#) j)) (parse_elements n t')
           | (None, Some t') \<Rightarrow> Some ([j], t')
           | (None, None) \<Rightarrow> None))"
| "parse_fields 0 s = None"
| "parse_fields (Suc n) s =
     (case parse_key s of
        None \<Rightarrow> None
      | Some (key, t) \<Rightarrow>
          (case parse_value n t of
             None \<Rightarrow> None
           | Some (j, t1) \<Rightarrow>
               (case (eat CHR '','' (skip_space t1), eat CHR ''}'' (skip_space t1)) of
                  (Some t2, _) \<Rightarrow> map_option (apfst ((#) (key, j))) (parse_fields n t2)
                | (None, Some t2) \<Rightarrow> Some ([(key, j)], t2)
                | (None, None) \<Rightarrow> None)))"

definition json_parse :: "jsstring \<Rightarrow> json option" where
  "json_parse s =
     (case parse_value (Suc (length s)) s of
        Some (j, rest) \<Rightarrow> if skip_space rest = [] then Some j else None
      | None \<Rightarrow> None)"

section \<open>Round trip\<close>

fun printable :: "json \<Rightarrow> bool" where
  "printable (JNum r) = (r \<in> \<int> \<and> \<bar>r\<bar> < 2 ^ 53)"
| "printable (JInf neg) = False"
| "printable (JArr js) = list_all printable js"
| "printable (JObj fields) = (distinct (map fst fields) \<and> list_all (\<lambda>(key, j). printable j) fields)"
| "printable j = True"

text \<open>What may follow a printed value: nothing, or a separator.\<close>

definition ends_value :: "jsstring \<Rightarrow> bool" where
  "ends_value rest \<longleftrightarrow> rest = [] \<or> hd rest \<in> {CHR '','', CHR '']'', CHR ''}''}"

lemma ends_value_simps [simp]:
  "ends_value []" "ends_value (c # s) \<longleftrightarrow> c \<in> {CHR '','', CHR '']'', CHR ''}''}"
  by (simp_all add: ends_value_def)

lemma skip_space_Cons [simp]: "\<not> is_json_space c \<Longrightarrow> skip_space (c # s) = c # s"
  by (simp add: skip_space_def)

lemma not_spaces [simp]:
  "\<not> is_json_space CHR '',''" "\<not> is_json_space CHR '']''" "\<not> is_json_space CHR ''}''" "\<not> is_json_space CHR '':''"
  "\<not> is_json_space CHR 0x22" "\<not> is_json_space CHR ''[''" "\<not> is_json_space CHR ''{''" "\<not> is_json_space CHR ''-''"
  "\<not> is_json_space CHR ''n''" "\<not> is_json_space CHR ''t''" "\<not> is_json_space CHR ''f''"
  by (simp_all add: is_json_space_def)

lemma digit_not_json: "is_digit c \<Longrightarrow> \<not> is_json_space c \<and> c \<notin> {CHR '']'', CHR ''}'', CHR ''n'', CHR ''t'', CHR ''f'', CHR 0x22, CHR ''['', CHR ''{'', CHR ''-''}"
  by (auto simp: is_digit_def is_json_space_def)

lemma hex_units: "list_all (\<lambda>n. hex_unit [CHR ''0'', CHR ''0'', hex_char (n div 16), hex_char (n mod 16)] = Some (char_of n)) [0..<32]"
  by code_simp

lemma hex_unit_small: "n < 32 \<Longrightarrow> hex_unit [CHR ''0'', CHR ''0'', hex_char (n div 16), hex_char (n mod 16)] = Some (char_of n)"
  using hex_units by (simp add: list_all_iff)

lemma char_codes:
  "char_of (34 :: nat) = CHR 0x22" "char_of (92 :: nat) = CHR 0x5C" "char_of (8 :: nat) = CHR 0x08"
  "char_of (9 :: nat) = CHR 0x09" "char_of (10 :: nat) = CHR 0x0A" "char_of (12 :: nat) = CHR 0x0C"
  "char_of (13 :: nat) = CHR 0x0D"
  by code_simp+

lemma parse_escape: "parse_chars (json_escape c @ t) = map_option (apfst ((#) c)) (parse_chars t)"
proof -
  define n where "n = (of_char c :: nat)"
  have c: "c = char_of n" by (simp add: n_def)
  consider "n = 34" | "n = 92" | "n = 8" | "n = 9" | "n = 10" | "n = 12" | "n = 13"
    | "n < 32" "n \<notin> {8, 9, 10, 12, 13}" | "32 \<le> n" "n \<noteq> 34" "n \<noteq> 92"
    by fastforce
  then show ?thesis
  proof cases
    case 8
    then have "json_escape c = [CHR 0x5C, CHR ''u'', CHR ''0'', CHR ''0'', hex_char (n div 16), hex_char (n mod 16)]"
      by (auto simp: json_escape_def Let_def n_def [symmetric])
    with hex_unit_small [OF 8(1)] show ?thesis by (simp add: c)
  next
    case 9
    then have "c \<noteq> CHR 0x22" "c \<noteq> CHR 0x5C" by (auto simp: n_def)
    with 9 show ?thesis by (auto simp: json_escape_def Let_def n_def [symmetric])
  qed (simp_all add: c json_escape_def Let_def escape_char_def char_codes)
qed

lemma parse_quoted: "parse_chars (concat (map json_escape s) @ CHR 0x22 # rest) = Some (s, rest)"
  by (induction s) (simp_all add: parse_escape del: parse_chars.simps(2), simp)

lemma takeWhile_digits:
  "\<forall>c \<in> set ds. is_digit c \<Longrightarrow> rest = [] \<or> \<not> is_digit (hd rest) \<Longrightarrow> takeWhile is_digit (ds @ rest) = ds"
  by (cases rest) (auto simp: takeWhile_append)

lemma ends_not_digit: "ends_value rest \<Longrightarrow> rest = [] \<or> \<not> is_digit (hd rest)"
  by (auto simp: ends_value_def is_digit_def)

lemma parse_digits:
  assumes "ends_value rest" and "n < 2 ^ 53"
  shows "parse_unsigned neg (dec_of_nat n @ rest) = Some (JNum (if neg then - of_nat n else of_nat n), rest)"
proof -
  have tw: "takeWhile is_digit (dec_of_nat n @ rest) = dec_of_nat n"
    using dec_of_nat_digits ends_not_digit [OF assms(1)] by (intro takeWhile_digits)
  have zero: "dec_of_nat 0 = ''0''" by (subst dec_of_nat.simps) (simp add: digit_char_def)
  have digits: "(if eat CHR ''0'' (dec_of_nat n @ rest) \<noteq> None then ''0'' else takeWhile is_digit (dec_of_nat n @ rest)) = dec_of_nat n"
  proof (cases "n = 0")
    case False
    then obtain c t where "dec_of_nat n = c # t" "c \<noteq> CHR ''0''"
      using dec_of_nat_hd [of n] by (cases "dec_of_nat n") auto
    with tw show ?thesis by (simp add: eat_def)
  qed (simp add: zero eat_def)
  have "(of_nat n :: rat) < 2 ^ 53" using assms(2) by (metis of_nat_less_iff of_nat_numeral of_nat_power)
  also have "(2 :: rat) ^ 53 \<le> 2 ^ 1024 - 2 ^ 970" by simp
  finally have "number_value neg (of_nat n) = JNum (if neg then - of_nat n else of_nat n)"
    by (simp add: number_value_def)
  moreover have "parse_fraction rest = Some ([], rest)" "parse_exponent rest = Some (0, rest)"
    using assms(1) by (auto simp: parse_fraction_def parse_exponent_def ends_value_def split: list.split)
  ultimately show ?thesis
    unfolding parse_unsigned_def Let_def digits by (simp add: scale10_def)
qed

lemma parse_int:
  assumes "ends_value rest" and "r \<in> \<int>" and "\<bar>r\<bar> < 2 ^ 53"
  shows "parse_number (dec_of_int \<lfloor>r\<rfloor> @ rest) = Some (JNum r, rest)"
proof -
  obtain i where r: "r = of_int i" using assms(2) by (auto elim: Ints_cases)
  have "of_int \<bar>i\<bar> < (2 ^ 53 :: rat)" using assms(3) r by simp
  then have small: "nat \<bar>i\<bar> < 2 ^ 53" by (metis of_int_less_iff of_int_numeral of_int_power nat_less_eq_zless nat_numeral nat_power_eq abs_ge_zero zero_le_numeral)
  show ?thesis
  proof (cases "i < 0")
    case True
    with small have n: "nat (- i) < 2 ^ 53" by simp
    have "of_nat (nat (- i)) = (- of_int i :: rat)" using True by simp
    with parse_digits [OF assms(1) n, of True] True r show ?thesis by (simp add: parse_number_def dec_of_int_def eat_def)
  next
    case False
    with small have n: "nat i < 2 ^ 53" by simp
    have "eat CHR ''-'' (dec_of_nat (nat i) @ rest) = None"
      using dec_of_nat_nonempty [of "nat i"] dec_of_nat_not_minus [of "nat i"] by (cases "dec_of_nat (nat i)") (auto simp: eat_def)
    moreover have "of_nat (nat i) = (of_int i :: rat)" using False by simp
    ultimately show ?thesis using parse_digits [OF assms(1) n, of False] False r by (simp add: parse_number_def dec_of_int_def)
  qed
qed

lemma text_head:
  "\<exists>c t. json_text j = c # t \<and> \<not> is_json_space c \<and> c \<noteq> CHR '']'' \<and> c \<noteq> CHR ''}''"
proof (cases j)
  case (JNum r)
  obtain c t where n: "dec_of_nat (nat \<bar>\<lfloor>r\<rfloor>\<bar>) = c # t" using dec_of_nat_nonempty by (metis neq_Nil_conv)
  then have "is_digit c" using dec_of_nat_digits [of "nat \<bar>\<lfloor>r\<rfloor>\<bar>"] by simp
  from digit_not_json [OF this] n JNum show ?thesis by (auto simp: dec_of_int_def)
qed (auto simp: json_quote_def)

lemma skip_text [simp]: "skip_space (json_text j @ s) = json_text j @ s"
  using text_head [of j] by auto

lemma eat_text [simp]: "eat CHR '']'' (json_text j @ s) = None" "eat CHR ''}'' (json_text j @ s) = None"
  using text_head [of j] by (auto simp: eat_def)

lemma eat_simps [simp]: "eat c (c # s) = Some s" "d \<noteq> c \<Longrightarrow> eat c (d # s) = None" "eat c [] = None"
  by (simp_all add: eat_def)

lemma quote_append [simp]: "json_quote s @ t = CHR 0x22 # concat (map json_escape s) @ CHR 0x22 # t"
  by (simp add: json_quote_def)

lemma parse_key_quoted: "parse_key (json_quote key @ CHR '':'' # t) = Some (key, t)"
  by (simp add: parse_key_def parse_quoted)

text \<open>How deep the calls go for a printed value.\<close>

fun json_depth :: "json \<Rightarrow> nat" where
  "json_depth (JArr js) = Suc (sum_list (map (\<lambda>j. Suc (json_depth j)) js))"
| "json_depth (JObj fields) = Suc (sum_list (map (\<lambda>(key, j). Suc (json_depth j)) fields))"
| "json_depth _ = 1"

definition reads_back :: "json \<Rightarrow> bool" where
  "reads_back j \<longleftrightarrow> (\<forall>n rest. json_depth j \<le> n \<longrightarrow> ends_value rest \<longrightarrow> parse_value n (json_text j @ rest) = Some (j, rest))"

lemma js_join_Cons: "js_join sep (w # ws) = w @ (if ws = [] then [] else sep @ js_join sep ws)"
  by (cases ws) simp_all

lemma elements_back:
  "js \<noteq> [] \<Longrightarrow> \<forall>j \<in> set js. reads_back j \<Longrightarrow> sum_list (map (\<lambda>j. Suc (json_depth j)) js) \<le> n \<Longrightarrow>
   parse_elements n (js_join '','' (map json_text js) @ CHR '']'' # rest) = Some (js, rest)"
proof (induction js arbitrary: n)
  case (Cons j js)
  then obtain m where n: "n = Suc m" "json_depth j \<le> m" by (cases n) auto
  then have first: "ends_value s \<Longrightarrow> parse_value m (json_text j @ s) = Some (j, s)" for s
    using Cons.prems(2) by (simp add: reads_back_def)
  show ?case
  proof (cases "js = []")
    case False
    then have "parse_elements m (js_join '','' (map json_text js) @ CHR '']'' # rest) = Some (js, rest)"
      using Cons n by auto
    with False n first show ?thesis by (simp add: js_join_Cons)
  qed (use n first in simp)
qed simp

lemma fields_back:
  "fields \<noteq> [] \<Longrightarrow> \<forall>(key, j) \<in> set fields. reads_back j \<Longrightarrow> sum_list (map (\<lambda>(key, j). Suc (json_depth j)) fields) \<le> n \<Longrightarrow>
   parse_fields n (js_join '','' (map (\<lambda>(key, j). json_quote key @ CHR '':'' # json_text j) fields) @ CHR ''}'' # rest) =
     Some (fields, rest)"
proof (induction fields arbitrary: n)
  case (Cons field fields)
  obtain key j where f: "field = (key, j)" by (cases field)
  then obtain m where n: "n = Suc m" "json_depth j \<le> m" using Cons.prems by (cases n) auto
  then have first: "ends_value s \<Longrightarrow> parse_value m (json_text j @ s) = Some (j, s)" for s
    using Cons.prems(2) f by (simp add: reads_back_def)
  show ?case
  proof (cases "fields = []")
    case False
    then have "parse_fields m (js_join '','' (map (\<lambda>(key, j). json_quote key @ CHR '':'' # json_text j) fields) @ CHR ''}'' # rest) = Some (fields, rest)"
      using Cons n f by auto
    with False n f first parse_key_quoted show ?thesis by (simp add: js_join_Cons del: quote_append)
  qed (use n f first parse_key_quoted in \<open>simp del: quote_append\<close>)
qed simp

lemma own_properties_distinct: "distinct (map fst fields) \<Longrightarrow> own_properties fields = fields"
proof -
  have absent: "k \<notin> fst ` set obj \<Longrightarrow> AList.update k j obj = obj @ [(k, j)]" for k j and obj :: "(jsstring \<times> json) list"
    by (induction obj) auto
  have "distinct (map fst (obj @ fields)) \<Longrightarrow> foldl (\<lambda>obj (key, j). AList.update key j obj) obj fields = obj @ fields" for obj
    by (induction fields arbitrary: obj) (auto simp: absent)
  then show "distinct (map fst fields) \<Longrightarrow> own_properties fields = fields" by (simp add: own_properties_def)
qed

lemma dec_of_nat_head: "\<exists>c t. dec_of_nat n = c # t \<and> is_digit c"
  using dec_of_nat_nonempty [of n] dec_of_nat_digits [of n] by (cases "dec_of_nat n") auto

lemma dec_of_int_head: "\<exists>c t. dec_of_int i = c # t \<and> (is_digit c \<or> c = CHR ''-'')"
  using dec_of_nat_head by (simp add: dec_of_int_def) blast

lemma printable_reads_back: "printable j \<Longrightarrow> reads_back j"
proof (induction j)
  case (JNum r)
  obtain c t where h: "dec_of_int \<lfloor>r\<rfloor> = c # t" "is_digit c \<or> c = CHR ''-''"
    using dec_of_int_head by blast
  then have c: "c \<notin> {CHR ''n'', CHR ''t'', CHR ''f'', CHR 0x22, CHR ''['', CHR ''{''}" "\<not> is_json_space c"
    using digit_not_json by auto
  have number: "ends_value rest \<Longrightarrow> parse_number (c # t @ rest) = Some (JNum r, rest)" for rest
    using parse_int [of rest r] JNum h(1) by simp
  show ?case
    unfolding reads_back_def
  proof (intro allI impI)
    fix n rest assume "json_depth (JNum r) \<le> n" "ends_value rest"
    moreover from this obtain m where "n = Suc m" by (cases n) auto
    ultimately show "parse_value n (json_text (JNum r) @ rest) = Some (JNum r, rest)"
      using number [of rest] c h(1) by simp
  qed
next
  case (JArr js)
  show ?case
    unfolding reads_back_def
  proof (intro allI impI)
    fix n rest assume n: "json_depth (JArr js) \<le> n"
    then obtain m where m: "n = Suc m" "sum_list (map (\<lambda>j. Suc (json_depth j)) js) \<le> m" by (cases n) auto
    show "parse_value n (json_text (JArr js) @ rest) = Some (JArr js, rest)"
    proof (cases js)
      case (Cons j js')
      have "\<forall>j \<in> set js. reads_back j" using JArr by (simp add: list_all_iff)
      from elements_back [OF _ this m(2), of rest] Cons m(1) show ?thesis by (simp add: js_join_Cons)
    qed (simp add: m(1))
  qed
next
  case (JObj fields)
  show ?case
    unfolding reads_back_def
  proof (intro allI impI)
    fix n rest assume n: "json_depth (JObj fields) \<le> n"
    then obtain m where m: "n = Suc m" "sum_list (map (\<lambda>(key, j). Suc (json_depth j)) fields) \<le> m" by (cases n) auto
    show "parse_value n (json_text (JObj fields) @ rest) = Some (JObj fields, rest)"
    proof (cases fields)
      case (Cons field fields')
      have "\<forall>(key, j) \<in> set fields. reads_back j" using JObj by (fastforce simp: list_all_iff)
      from fields_back [OF _ this m(2), of rest] Cons m(1) JObj.prems show ?thesis
        by (cases field) (simp add: js_join_Cons own_properties_distinct)
    qed (simp add: m(1) own_properties_distinct)
  qed
qed (auto simp: reads_back_def Suc_le_eq gr0_conv_Suc parse_word_def js_starts_with_def parse_quoted)

lemma length_join: "sum_list (map length ws) + length ws \<le> Suc (length (js_join '','' ws))"
  by (induction "'',''" ws rule: js_join.induct) auto

lemma json_depth_text: "json_depth j \<le> length (json_text j)"
proof (induction j)
  case (JArr js)
  have "sum_list (map (\<lambda>j. Suc (json_depth j)) js) \<le> sum_list (map length (map json_text js)) + length js"
    using sum_list_mono [of js "\<lambda>j. Suc (json_depth j)" "\<lambda>j. Suc (length (json_text j))"] JArr
    by (simp add: comp_def sum_list_Suc)
  with length_join [of "map json_text js"] show ?case by simp
next
  case (JObj fields)
  let ?ws = "map (\<lambda>(key, j). json_quote key @ CHR '':'' # json_text j) fields"
  have "Suc (json_depth (snd f)) \<le> Suc (length (json_quote (fst f) @ CHR '':'' # json_text (snd f)))" if "f \<in> set fields" for f
    using JObj [of f "snd f"] that by (cases f) auto
  then have "sum_list (map (\<lambda>(key, j). Suc (json_depth j)) fields) \<le> sum_list (map length ?ws) + length ?ws"
    using sum_list_mono [of fields "\<lambda>f. Suc (json_depth (snd f))" "\<lambda>f. Suc (length (json_quote (fst f) @ CHR '':'' # json_text (snd f)))"]
    by (simp add: comp_def sum_list_Suc case_prod_beta')
  with length_join [of ?ws] show ?case by simp
qed (auto simp: json_quote_def dec_of_int_def Suc_le_eq)

lemma json_round_trip:
  assumes "printable j"
  shows "json_parse (json_text j) = Some j"
proof -
  have "parse_value (Suc (length (json_text j))) (json_text j @ []) = Some (j, [])"
    using printable_reads_back [OF assms] json_depth_text [of j] unfolding reads_back_def
    by (metis ends_value_simps(1) le_SucI)
  then show ?thesis by (simp add: json_parse_def skip_space_def del: parse_value.simps)
qed

section \<open>The bound on the calls is enough\<close>

lemma parse_chars_shorter: "parse_chars s = Some (w, t) \<Longrightarrow> length t < length s"
proof (induction s arbitrary: w rule: parse_chars.induct)
  case (2 c s)
  show ?case
  proof (cases "c = CHR 0x5C")
    case True
    with 2 show ?thesis
      by (auto split: list.splits if_splits option.splits) (fastforce dest: 2(1) 2(2) simp: less_Suc_eq)+
  next
    case False
    with 2 show ?thesis by (fastforce split: if_splits)
  qed
qed simp

lemma eat_shorter: "eat c s = Some t \<Longrightarrow> length t < length s"
  by (auto simp: eat_def split: list.splits if_splits)

lemma skip_shorter: "length (skip_space s) \<le> length s"
  by (simp add: skip_space_def length_dropWhile_le)

lemma drop_digits: "length (dropWhile is_digit s) \<le> length s"
  by (rule length_dropWhile_le)

lemma exponent_shorter: "parse_exponent s = Some (e, t) \<Longrightarrow> length t \<le> length s"
  using drop_digits
  by (auto simp: parse_exponent_def Let_def split: list.splits if_splits option.splits prod.splits dest!: eat_shorter)
     (meson le_trans less_imp_le le_SucI)+

lemma fraction_shorter: "parse_fraction s = Some (w, t) \<Longrightarrow> length t \<le> length s"
  using drop_digits by (auto simp: parse_fraction_def Let_def intro: le_SucI split: list.splits if_splits)

lemma unsigned_shorter: "parse_unsigned neg s = Some (j, t) \<Longrightarrow> length t < length s"
proof -
  assume p: "parse_unsigned neg s = Some (j, t)"
  define ds where "ds = (if eat CHR ''0'' s \<noteq> None then ''0'' else takeWhile is_digit s)"
  from p obtain w s1 e where ds: "ds \<noteq> []" and s1: "parse_fraction (drop (length ds) s) = Some (w, s1)"
    and t: "parse_exponent s1 = Some (e, t)"
    by (auto simp: parse_unsigned_def Let_def ds_def split: if_splits option.splits prod.splits)
  have "s \<noteq> []" using ds by (auto simp: ds_def split: if_splits)
  with fraction_shorter [OF s1] exponent_shorter [OF t] ds show ?thesis by (cases ds; cases s) auto
qed

lemma number_shorter: "parse_number s = Some (j, t) \<Longrightarrow> length t < length s"
  by (auto simp: parse_number_def split: option.splits dest!: unsigned_shorter eat_shorter)

lemma word_shorter: "parse_word w j s = Some (k, t) \<Longrightarrow> w \<noteq> [] \<Longrightarrow> length t < length s"
  by (cases s) (auto simp: parse_word_def js_starts_with_def split: if_splits)

lemma key_shorter: "parse_key s = Some (key, t) \<Longrightarrow> length t < length s"
proof -
  assume "parse_key s = Some (key, t)"
  then obtain t0 t1 where "eat CHR 0x22 (skip_space s) = Some t0" "parse_chars t0 = Some (key, t1)"
    "eat CHR '':'' (skip_space t1) = Some t"
    by (auto simp: parse_key_def split: option.splits)
  then show ?thesis using skip_shorter [of s] skip_shorter [of t1] by (fastforce dest!: eat_shorter parse_chars_shorter)
qed

lemma parse_shorter:
  "parse_value n s = Some (j, t) \<Longrightarrow> length t < length s"
  "parse_elements n s = Some (js, t) \<Longrightarrow> length t < length s"
  "parse_fields n s = Some (fields, t) \<Longrightarrow> length t < length s"
proof (induction n arbitrary: s j js fields t)
  case (Suc n)
  {
    case 1
    then obtain c u where u: "skip_space s = c # u" by (auto split: list.splits)
    then have "length u < length s" using skip_shorter [of s] by simp
    moreover have "length t < length (c # u)"
      using 1 u Suc skip_shorter [of u]
      by (auto split: if_splits option.splits dest!: word_shorter number_shorter parse_chars_shorter eat_shorter
          intro: less_SucI)
    ultimately show ?case using u skip_shorter [of s] by simp
  next
    case 2
    then obtain j' t' where v: "parse_value n s = Some (j', t')" by (auto split: option.splits)
    from Suc(1) [OF v] have "length t' < length s" .
    with 2 v Suc(2) skip_shorter [of t'] show ?case
      by (fastforce split: option.splits dest!: eat_shorter)
  next
    case 3
    then obtain key u j' t' where v: "parse_key s = Some (key, u)" "parse_value n u = Some (j', t')"
      by (auto split: option.splits)
    from Suc(1) [OF v(2)] key_shorter [OF v(1)] have "length t' < length s" by simp
    with 3 v Suc(3) skip_shorter [of t'] show ?case
      by (fastforce split: option.splits dest!: eat_shorter)
  }
qed simp_all

text \<open>A text that parses with some bound parses the same with any bound of at least the characters read.\<close>

lemma parse_enough:
  "parse_value n s = Some (j, t) \<Longrightarrow> length s - length t \<le> m \<Longrightarrow> parse_value m s = Some (j, t)"
  "parse_elements n s = Some (js, t) \<Longrightarrow> length s - length t \<le> m \<Longrightarrow> parse_elements m s = Some (js, t)"
  "parse_fields n s = Some (fields, t) \<Longrightarrow> length s - length t \<le> m \<Longrightarrow> parse_fields m s = Some (fields, t)"
proof (induction n arbitrary: s j js fields t m)
  case (Suc n)
  {
    case 1
    obtain m' where m: "m = Suc m'" using 1 parse_shorter(1) [OF 1(1)] by (cases m) auto
    obtain c u where u: "skip_space s = c # u" using 1 by (auto split: list.splits)
    then have "length u < length s" using skip_shorter [of s] by simp
    then have le: "length u - length t \<le> m'" using 1 m by simp
    show ?case
    proof (cases "c = CHR ''['' \<or> c = CHR ''{''")
      case True
      with 1 u m le show ?thesis
        by (auto split: option.splits dest!: Suc(2) [OF _ le] Suc(3) [OF _ le])
    qed (use 1 u m in auto)
  next
    case 2
    obtain m' where m: "m = Suc m'" using 2 parse_shorter(2) [OF 2(1)] by (cases m) auto
    obtain j' t' where v: "parse_value n s = Some (j', t')" using 2 by (auto split: option.splits)
    have "(\<exists>u js'. eat CHR '','' (skip_space t') = Some u \<and> parse_elements n u = Some (js', t)) \<or> eat CHR '']'' (skip_space t') = Some t"
      using 2(1) v by (auto split: option.splits)
    then have "length t < length t'"
      using skip_shorter [of t'] eat_shorter [of _ "skip_space t'"] parse_shorter(2) [of n] by (meson less_le_trans less_trans)
    with parse_shorter(1) [OF v] have sep: "length t < length t'" "length t' < length s" by simp_all
    with 2 m have "parse_value m' s = Some (j', t')" by (intro Suc(1) [OF v]) simp
    moreover have "parse_elements m' u = Some (js', t)" if "eat CHR '','' (skip_space t') = Some u" "parse_elements n u = Some (js', t)" for u js'
      using that 2 m sep skip_shorter [of t'] eat_shorter [OF that(1)] by (intro Suc(2) [OF that(2)]) simp
    ultimately show ?case using 2 v m by (auto split: option.splits)
  next
    case 3
    obtain m' where m: "m = Suc m'" using 3 parse_shorter(3) [OF 3(1)] by (cases m) auto
    obtain key u j' t' where v: "parse_key s = Some (key, u)" "parse_value n u = Some (j', t')"
      using 3 by (auto split: option.splits)
    have "(\<exists>w fs'. eat CHR '','' (skip_space t') = Some w \<and> parse_fields n w = Some (fs', t)) \<or> eat CHR ''}'' (skip_space t') = Some t"
      using 3(1) v by (auto split: option.splits)
    then have "length t < length t'"
      using skip_shorter [of t'] eat_shorter [of _ "skip_space t'"] parse_shorter(3) [of n] by (meson less_le_trans less_trans)
    with parse_shorter(1) [OF v(2)] key_shorter [OF v(1)]
    have sep: "length t < length t'" "length t' < length u" "length u < length s" by simp_all
    with 3 m have "parse_value m' u = Some (j', t')" by (intro Suc(1) [OF v(2)]) simp
    moreover have "parse_fields m' w = Some (fs', t)" if "eat CHR '','' (skip_space t') = Some w" "parse_fields n w = Some (fs', t)" for w fs'
      using that 3 m sep skip_shorter [of t'] eat_shorter [OF that(1)] by (intro Suc(3) [OF that(2)]) simp
    ultimately show ?case using 3 v m by (auto split: option.splits)
  }
qed simp_all

lemma json_parse_complete:
  "json_parse s = Some j \<longleftrightarrow> (\<exists>n rest. parse_value n s = Some (j, rest) \<and> skip_space rest = [])"
proof
  assume "\<exists>n rest. parse_value n s = Some (j, rest) \<and> skip_space rest = []"
  then obtain n rest where "parse_value n s = Some (j, rest)" "skip_space rest = []" by blast
  then show "json_parse s = Some j"
    using parse_enough(1) [of n s j rest "Suc (length s)"] by (simp add: json_parse_def del: parse_value.simps)
qed (auto simp: json_parse_def simp del: parse_value.simps split: option.splits prod.splits if_splits)

end
