(* ===== verification/Add_Form.thy ===== *)
theory Add_Form
  imports Messages
begin

text \<open>
  \<open>lib/flow-add-form.ts\<close> and \<open>lib/flow-add-images.ts\<close>: the add-card payload, its wire request, and the
  image selection and compression rules. A file is its type, its size and an opaque content; the
  browser seams \<open>ImageDeps\<close> and the floating-point \<open>fitWithin\<close> are parameters, and a file size is
  the non-negative integer that the browser reports.
\<close>

section \<open>The payload\<close>

datatype AddCardKind = KindCasual | KindRepeatable | KindManual

definition STORED_KIND_VALUES :: "jsstring \<rightharpoonup> AddCardKind" where
  "STORED_KIND_VALUES = map_of
     [(''casual_tip'', KindCasual), (''repeatable_tip'', KindRepeatable), (''manual_tip'', KindManual)]"

definition parseStoredCardKind :: "jsstring option \<Rightarrow> AddCardKind" where
  "parseStoredCardKind raw =
     (case raw of
        None \<Rightarrow> KindCasual
      | Some v \<Rightarrow> (case STORED_KIND_VALUES v of None \<Rightarrow> KindCasual | Some k \<Rightarrow> k))"

fun tipcardTypeFor :: "AddCardKind \<Rightarrow> TipcardTypeValue" where
  "tipcardTypeFor KindCasual = TypeCasual"
| "tipcardTypeFor KindRepeatable = TypeRepeatable"
| "tipcardTypeFor KindManual = TypeManual"

definition parseAddCardKind :: "jsstring \<Rightarrow> AddCardKind" where
  "parseAddCardKind raw =
     (if raw = ''repeatable'' then KindRepeatable else if raw = ''manual'' then KindManual else KindCasual)"

definition parseTopicsCsv :: "jsstring \<Rightarrow> jsstring list" where
  "parseTopicsCsv topics = filter (\<lambda>topic. topic \<noteq> []) (map js_trim (split_on (\<lambda>c. c = CHR '','') topics))"

definition REPEATABLE_COUNT :: int where
  "REPEATABLE_COUNT = 5"

text \<open>The payload without its key is the type the retry decision returns (\<open>Omit\<close>).\<close>

record AddTipsContent =
  ap_kind :: AddCardKind
  ap_topics :: "jsstring list"
  ap_manualContent :: jsstring
  ap_manualImageData :: "jsstring list"

record AddTipsPayload = AddTipsContent +
  ap_idempotencyKey :: jsstring

definition with_key :: "AddTipsContent \<Rightarrow> jsstring \<Rightarrow> AddTipsPayload" where
  "with_key content key =
     \<lparr>ap_kind = ap_kind content, ap_topics = ap_topics content, ap_manualContent = ap_manualContent content,
      ap_manualImageData = ap_manualImageData content, ap_idempotencyKey = key\<rparr>"

definition without_key :: "AddTipsPayload \<Rightarrow> AddTipsContent" where
  "without_key payload =
     \<lparr>ap_kind = ap_kind payload, ap_topics = ap_topics payload, ap_manualContent = ap_manualContent payload,
      ap_manualImageData = ap_manualImageData payload\<rparr>"

lemma with_key_simps [simp]:
  "ap_idempotencyKey (with_key content key) = key" "without_key (with_key content key) = content"
  "ap_kind (with_key content key) = ap_kind content" "ap_topics (with_key content key) = ap_topics content"
  "ap_manualContent (with_key content key) = ap_manualContent content"
  "ap_manualImageData (with_key content key) = ap_manualImageData content"
  by (simp_all add: with_key_def without_key_def)

lemma without_key_simps [simp]:
  "ap_kind (without_key p) = ap_kind p" "ap_topics (without_key p) = ap_topics p"
  "ap_manualContent (without_key p) = ap_manualContent p"
  "ap_manualImageData (without_key p) = ap_manualImageData p"
  by (simp_all add: without_key_def)

definition buildTipsRequest :: "AddTipsPayload \<Rightarrow> js_error + TipsRequestV1" where
  "buildTipsRequest payload =
     (if js_trim (ap_idempotencyKey payload) = []
      then Inl (AddValidationError ''add requires a non-empty idempotency key'')
      else let topics = filter (\<lambda>topic. topic \<noteq> []) (map js_trim (ap_topics payload))
           in if topics = [] then Inl (AddValidationError ''Add at least one topic.'')
              else let isManual = (ap_kind payload = KindManual)
                   in if isManual \<and> js_trim (ap_manualContent payload) = []
                      then Inl (AddValidationError ''Manual cards need content.'')
                      else Inr \<lparr>tr_count = (if ap_kind payload = KindRepeatable then REPEATABLE_COUNT else 0),
                                tr_topics = topics,
                                tr_tipcardType = tipcardTypeFor (ap_kind payload),
                                tr_excludeCardIds = [],
                                tr_manualContent = (if isManual then ap_manualContent payload else []),
                                tr_manualCompressedContent = [],
                                tr_manualImageData = (if isManual then ap_manualImageData payload else [])\<rparr>)"

section \<open>Images\<close>

definition MAX_IMAGE_BYTES :: int where
  "MAX_IMAGE_BYTES = 10 * 1024 * 1024"

definition SKIP_IF_SMALLER_BYTES :: int where
  "SKIP_IF_SMALLER_BYTES = 200 * 1024"

definition MAX_EDGE_PX :: int where
  "MAX_EDGE_PX = 2048"

definition MAX_MANUAL_IMAGES :: nat where
  "MAX_MANUAL_IMAGES = 4"

definition isAllowedImageType :: "jsstring \<Rightarrow> bool" where
  "isAllowedImageType mime \<longleftrightarrow> mime \<in> {''image/png'', ''image/jpeg'', ''image/webp'', ''image/gif''}"

record ImageFile =
  if_type :: jsstring
  if_size :: int
  if_content :: jsstring

datatype ImageSelectionResult = SelectionOk "ImageFile list" | SelectionRejected jsstring

fun select_each :: "ImageFile list \<Rightarrow> jsstring option" where
  "select_each [] = None"
| "select_each (file # files) =
     (if \<not> isAllowedImageType (if_type file)
      then Some ''Unsupported image type. Use PNG, JPEG, WebP, or GIF files only.''
      else if if_size file < 0 \<or> if_size file > MAX_IMAGE_BYTES
      then Some ''Each image must be 10 MiB or smaller.''
      else select_each files)"

definition selectImages :: "ImageFile list \<Rightarrow> nat \<Rightarrow> ImageSelectionResult" where
  "selectImages candidates currentCount =
     (if candidates = [] then SelectionRejected ''No files selected.''
      else case select_each candidates of
             Some reason \<Rightarrow> SelectionRejected reason
           | None \<Rightarrow>
               if currentCount + length candidates > MAX_MANUAL_IMAGES
               then SelectionRejected ''At most 4 images per card.''
               else SelectionOk candidates)"

text \<open>
  \<open>Math.round\<close> rounds halves up. The source computes \<open>maxEdge / longest\<close> and the product in doubles; here
  the quotient is exact.
\<close>

definition round_quotient :: "int \<Rightarrow> int \<Rightarrow> int" where
  "round_quotient a b = (2 * a + b) div (2 * b)"

definition fitWithin :: "int \<Rightarrow> int \<Rightarrow> int \<Rightarrow> int \<times> int" where
  "fitWithin width height maxEdge =
     (if width \<le> 0 \<or> height \<le> 0 then (width, height)
      else let longest = max width height
           in if longest \<le> maxEdge then (width, height)
              else (max 1 (round_quotient (width * maxEdge) longest), max 1 (round_quotient (height * maxEdge) longest)))"

definition validateImageFile :: "ImageFile \<Rightarrow> js_error + unit" where
  "validateImageFile file =
     (if \<not> isAllowedImageType (if_type file)
      then Inl (TypeError ''Unsupported image type. Use PNG, JPEG, WebP, or GIF files only.'')
      else if if_size file < 0 \<or> if_size file > MAX_IMAGE_BYTES
      then Inl (TypeError ''Each image must be 10 MiB or smaller.'')
      else Inr ())"

definition validateImageFiles :: "ImageFile list \<Rightarrow> int \<Rightarrow> js_error + unit" where
  "validateImageFiles files currentCount =
     (if files = [] then Inl (TypeError ''No files selected.'')
      else sum_bind (map_result validateImageFile files) (\<lambda>_.
             if currentCount < 0 \<or> currentCount + int (length files) > int MAX_MANUAL_IMAGES
             then Inl (TypeError ''At most 4 images per card.'')
             else Inr ()))"

record ImageDeps =
  id_readAsDataUrl :: "ImageFile \<Rightarrow> js_error + jsstring"
  id_loadImage :: "jsstring \<Rightarrow> js_error + int \<times> int"
  id_drawAndEncode :: "jsstring \<Rightarrow> int \<Rightarrow> int \<Rightarrow> jsstring \<Rightarrow> js_error + jsstring"

text \<open>\<open>drawAndEncode\<close> followed by the check of the data URL's type.\<close>

definition encode_as :: "ImageDeps \<Rightarrow> jsstring \<Rightarrow> int \<times> int \<Rightarrow> jsstring \<Rightarrow> jsstring \<Rightarrow> js_error + jsstring" where
  "encode_as deps original dims mime failure =
     sum_bind (id_drawAndEncode deps original (fst dims) (snd dims) mime) (\<lambda>url.
       if js_starts_with (''data:'' @ mime) url then Inr url else Inl (PlainError failure))"

definition compressFileToDataUrl :: "ImageDeps \<Rightarrow> ImageFile \<Rightarrow> js_error + jsstring" where
  "compressFileToDataUrl deps file =
     sum_bind (validateImageFile file) (\<lambda>_.
       if if_size file \<le> SKIP_IF_SMALLER_BYTES \<or> if_type file = ''image/gif''
       then id_readAsDataUrl deps file
       else sum_bind (id_readAsDataUrl deps file) (\<lambda>original.
         case id_loadImage deps original of
           Inl e \<Rightarrow> Inr original
         | Inr natural \<Rightarrow>
             (let dims = fitWithin (fst natural) (snd natural) MAX_EDGE_PX
              in case encode_as deps original dims ''image/webp'' ''WebP encoding unsupported'' of
                   Inr webp \<Rightarrow> Inr webp
                 | Inl e \<Rightarrow>
                     (case encode_as deps original dims ''image/jpeg'' ''JPEG encoding unsupported'' of
                        Inr jpeg \<Rightarrow> Inr jpeg
                      | Inl e \<Rightarrow> Inr original))))"

definition compressFilesToDataUrls :: "ImageDeps \<Rightarrow> ImageFile list \<Rightarrow> js_error + jsstring list" where
  "compressFilesToDataUrls deps files =
     sum_bind (validateImageFiles files 0) (\<lambda>_. map_result (compressFileToDataUrl deps) files)"

section \<open>Lemmas\<close>

lemma build_ok:
  "buildTipsRequest p = Inr r \<longleftrightarrow>
   js_trim (ap_idempotencyKey p) \<noteq> [] \<and> filter (\<lambda>topic. topic \<noteq> []) (map js_trim (ap_topics p)) \<noteq> [] \<and>
   (ap_kind p = KindManual \<longrightarrow> js_trim (ap_manualContent p) \<noteq> []) \<and>
   r = \<lparr>tr_count = (if ap_kind p = KindRepeatable then 5 else 0),
        tr_topics = filter (\<lambda>topic. topic \<noteq> []) (map js_trim (ap_topics p)),
        tr_tipcardType = tipcardTypeFor (ap_kind p), tr_excludeCardIds = [],
        tr_manualContent = (if ap_kind p = KindManual then ap_manualContent p else []),
        tr_manualCompressedContent = [],
        tr_manualImageData = (if ap_kind p = KindManual then ap_manualImageData p else [])\<rparr>"
  by (auto simp: buildTipsRequest_def Let_def REPEATABLE_COUNT_def)

lemma csv_clean: "topic \<in> set (parseTopicsCsv s) \<Longrightarrow> topic \<noteq> [] \<and> js_trim topic = topic \<and> CHR '','' \<notin> set topic"
  using set_js_trim split_on_pieces [of "\<lambda>c. c = CHR '',''" s]
  by (fastforce simp: parseTopicsCsv_def)

lemma map_result_all_Inr: "(\<exists>ys. map_result f xs = Inr ys) \<longleftrightarrow> (\<forall>x \<in> set xs. \<exists>y. f x = Inr y)"
proof (induction xs)
  case (Cons x xs)
  then show ?case by (cases "f x"; cases "map_result f xs") auto
qed simp

lemma validate_file_ok:
  "validateImageFile file = Inr u \<longleftrightarrow>
   isAllowedImageType (if_type file) \<and> 0 \<le> if_size file \<and> if_size file \<le> MAX_IMAGE_BYTES"
  by (auto simp: validateImageFile_def)

lemma select_each_None:
  "select_each files = None \<longleftrightarrow> (\<forall>file \<in> set files. validateImageFile file = Inr ())"
  by (induction files) (auto simp: validateImageFile_def)

lemma encode_as_typed: "encode_as deps original dims mime failure = Inr url \<Longrightarrow> js_starts_with (''data:'' @ mime) url"
  by (auto simp: encode_as_def sum_bind_Inr split: if_splits)

lemma round_quotient_near:
  assumes "0 < b"
  shows "\<bar>2 * (round_quotient a b * b - a)\<bar> \<le> b"
proof -
  have "2 * b * round_quotient a b + (2 * a + b) mod (2 * b) = 2 * a + b"
    unfolding round_quotient_def by (rule mult_div_mod_eq)
  moreover have "0 \<le> (2 * a + b) mod (2 * b)" "(2 * a + b) mod (2 * b) < 2 * b" using assms by simp_all
  ultimately show ?thesis by (simp add: algebra_simps abs_le_iff)
qed

lemma round_quotient_exact: "0 < b \<Longrightarrow> round_quotient (b * m) b = m"
proof -
  assume b: "0 < b"
  have "2 * (b * m) + b = b + m * (2 * b)" by simp
  then have "round_quotient (b * m) b = (b + m * (2 * b)) div (2 * b)" unfolding round_quotient_def by (rule arg_cong)
  also have "\<dots> = m + b div (2 * b)" using b by (intro div_mult_self1) simp
  also have "b div (2 * b) = 0" using b by (simp add: div_pos_pos_trivial)
  finally show ?thesis by simp
qed

lemma round_quotient_mono: "0 < b \<Longrightarrow> a \<le> a' \<Longrightarrow> round_quotient a b \<le> round_quotient a' b"
  by (simp add: round_quotient_def zdiv_mono1)

lemma fit_scaled:
  assumes "0 < x" and "x \<le> longest" and "1 \<le> edge"
  shows "max 1 (round_quotient (x * edge) longest) \<le> edge"
    and "x = longest \<Longrightarrow> max 1 (round_quotient (x * edge) longest) = edge"
proof -
  have "round_quotient (x * edge) longest \<le> round_quotient (longest * edge) longest"
    by (rule round_quotient_mono) (use assms in \<open>auto intro: mult_right_mono\<close>)
  then show "max 1 (round_quotient (x * edge) longest) \<le> edge"
    using round_quotient_exact [of longest edge] assms by simp
  show "max 1 (round_quotient (x * edge) longest) = edge" if "x = longest"
    using round_quotient_exact [of longest edge] assms that by simp
qed

section \<open>Properties\<close>

text \<open>A request is built exactly when the key is not blank, some topic is not blank and a manual card
  has content; the topics the form captured from its comma-separated text go on the wire unchanged,
  a repeatable request asks for five cards, and only a manual one carries content and images.\<close>

theorem tips_request_from_form:
  assumes "ap_topics p = parseTopicsCsv text"
  shows "buildTipsRequest p =
    (if js_trim (ap_idempotencyKey p) = [] then Inl (AddValidationError ''add requires a non-empty idempotency key'')
     else if \<forall>w \<in> set (split_on (\<lambda>c. c = CHR '','') text). js_trim w = [] then Inl (AddValidationError ''Add at least one topic.'')
     else if ap_kind p = KindManual \<and> js_trim (ap_manualContent p) = []
     then Inl (AddValidationError ''Manual cards need content.'')
     else Inr \<lparr>tr_count = (if ap_kind p = KindRepeatable then 5 else 0), tr_topics = ap_topics p,
               tr_tipcardType = tipcardTypeFor (ap_kind p), tr_excludeCardIds = [],
               tr_manualContent = (if ap_kind p = KindManual then ap_manualContent p else []),
               tr_manualCompressedContent = [],
               tr_manualImageData = (if ap_kind p = KindManual then ap_manualImageData p else [])\<rparr>)"
proof -
  have "map js_trim (ap_topics p) = ap_topics p"
    by (rule map_id_on) (use assms csv_clean in auto)
  moreover have "filter (\<lambda>topic. topic \<noteq> []) (ap_topics p) = ap_topics p"
    using assms csv_clean by (auto simp: filter_id_conv)
  moreover have "ap_topics p = [] \<longleftrightarrow> (\<forall>w \<in> set (split_on (\<lambda>c. c = CHR '','') text). js_trim w = [])"
    by (auto simp: assms parseTopicsCsv_def filter_empty_conv)
  ultimately show ?thesis by (simp add: buildTipsRequest_def Let_def REPEATABLE_COUNT_def)
qed

theorem tips_request_from_form_witness:
  "\<exists>r. buildTipsRequest \<lparr>ap_kind = KindRepeatable, ap_topics = parseTopicsCsv '' a,, b '', ap_manualContent = [],
     ap_manualImageData = [], ap_idempotencyKey = ''k''\<rparr> = Inr r \<and> tr_topics r = [''a'', ''b''] \<and> tr_count r = 5"
  using tips_request_from_form [of "\<lparr>ap_kind = KindRepeatable, ap_topics = parseTopicsCsv '' a,, b '', ap_manualContent = [],
     ap_manualImageData = [], ap_idempotencyKey = ''k''\<rparr>" "'' a,, b ''"]
  by (simp add: parseTopicsCsv_def js_trim_def js_trim_start_def js_trim_end_def is_js_space_def)

text \<open>Compressing a batch either rejects it before any file is read, or it yields one data URL per file,
  in order: the untouched file when it is small, a GIF, or whenever decoding or both encodings fail,
  and otherwise a URL of the type that was asked for; the only other failure is a failed read.\<close>

theorem compression_falls_back:
  assumes "validateImageFiles files 0 = Inr ()"
    and "\<And>file. file \<in> set files \<Longrightarrow> id_readAsDataUrl deps file = Inr (url file)"
  shows "\<exists>urls. compressFilesToDataUrls deps files = Inr urls \<and> length urls = length files \<and>
           (\<forall>i < length files.
              urls ! i = url (files ! i) \<or>
              SKIP_IF_SMALLER_BYTES < if_size (files ! i) \<and> if_type (files ! i) \<noteq> ''image/gif'' \<and>
              (js_starts_with ''data:image/webp'' (urls ! i) \<or> js_starts_with ''data:image/jpeg'' (urls ! i)))"
proof -
  have valid: "validateImageFile x = Inr ()" if "x \<in> set files" for x
  proof -
    have "\<exists>us. map_result validateImageFile files = Inr us"
      using assms(1) by (cases "map_result validateImageFile files") (auto simp: validateImageFiles_def split: if_splits)
    then show ?thesis using that by (auto simp: map_result_all_Inr)
  qed
  have each: "\<exists>u. compressFileToDataUrl deps x = Inr u \<and>
      (u = url x \<or> SKIP_IF_SMALLER_BYTES < if_size x \<and> if_type x \<noteq> ''image/gif'' \<and>
       (js_starts_with ''data:image/webp'' u \<or> js_starts_with ''data:image/jpeg'' u))" if "x \<in> set files" for x
    using valid [OF that] assms(2) [OF that]
    by (auto simp: compressFileToDataUrl_def Let_def split: sum.split dest!: encode_as_typed)
  then obtain urls where urls: "map_result (compressFileToDataUrl deps) files = Inr urls"
    using map_result_all_Inr [of "compressFileToDataUrl deps" files] by blast
  have "compressFilesToDataUrls deps files = Inr urls"
    using assms(1) urls by (simp add: compressFilesToDataUrls_def)
  moreover have "length urls = length files" "\<forall>i < length files. compressFileToDataUrl deps (files ! i) = Inr (urls ! i)"
    using map_result_Inr [OF urls] by auto
  ultimately show ?thesis using each by (metis nth_mem sum.inject(2))
qed

theorem compression_falls_back_witness:
  "\<exists>urls. compressFilesToDataUrls
      \<lparr>id_readAsDataUrl = (\<lambda>f. Inr (if_content f)), id_loadImage = (\<lambda>s. Inl (PlainError ''decode failed'')),
       id_drawAndEncode = (\<lambda>s w h m. Inr s)\<rparr>
      [\<lparr>if_type = ''image/png'', if_size = 300000, if_content = ''x''\<rparr>] = Inr urls \<and> length urls = 1"
proof -
  let ?f = "\<lparr>if_type = ''image/png'', if_size = 300000, if_content = ''x''\<rparr>"
  have "validateImageFiles [?f] 0 = Inr ()"
    by (simp add: validateImageFiles_def validateImageFile_def isAllowedImageType_def MAX_IMAGE_BYTES_def
        MAX_MANUAL_IMAGES_def)
  from compression_falls_back [OF this, of "\<lparr>id_readAsDataUrl = (\<lambda>f. Inr (if_content f)),
      id_loadImage = (\<lambda>s. Inl (PlainError ''decode failed'')), id_drawAndEncode = (\<lambda>s w h m. Inr s)\<rparr>" if_content]
  show ?thesis by fastforce
qed

text \<open>Downscaling fits: an image with a positive size keeps it when its longest edge is within the
  bound; otherwise the longest edge becomes exactly the bound, no edge drops below one pixel, and
  each edge is its exact proportional length rounded by at most half a pixel, or one pixel.\<close>

theorem fit_within_bound:
  assumes "0 < w" and "0 < h" and "1 \<le> edge"
  shows "if max w h \<le> edge then fitWithin w h edge = (w, h)
         else case fitWithin w h edge of (w', h') \<Rightarrow>
           max w' h' = edge \<and> 1 \<le> w' \<and> 1 \<le> h' \<and>
           (w' = 1 \<or> \<bar>2 * (w' * max w h - w * edge)\<bar> \<le> max w h) \<and>
           (h' = 1 \<or> \<bar>2 * (h' * max w h - h * edge)\<bar> \<le> max w h)"
proof (cases "max w h \<le> edge")
  case True
  then show ?thesis using assms by (simp add: fitWithin_def Let_def)
next
  case False
  have L: "0 < max w h" "w \<le> max w h" "h \<le> max w h" using assms by simp_all
  note near = round_quotient_near [OF L(1)]
  have "max (max 1 (round_quotient (w * edge) (max w h))) (max 1 (round_quotient (h * edge) (max w h))) = edge"
    using fit_scaled [OF assms(1) L(2) assms(3)] fit_scaled [OF assms(2) L(3) assms(3)] by (cases "w \<le> h") (auto simp: max_def)
  moreover have "max 1 (round_quotient x (max w h)) = 1 \<or> \<bar>2 * (max 1 (round_quotient x (max w h)) * max w h - x)\<bar> \<le> max w h" for x
    using near [of x] by (cases "1 \<le> round_quotient x (max w h)") (simp_all add: max_absorb2 max_absorb1)
  moreover have "fitWithin w h edge = (max 1 (round_quotient (w * edge) (max w h)), max 1 (round_quotient (h * edge) (max w h)))"
    using False assms unfolding fitWithin_def Let_def by (simp only: not_le if_False if_not_P) auto
  ultimately show ?thesis unfolding if_not_P [OF False] by simp
qed

theorem fit_within_bound_witness: "fitWithin 4096 3 2048 = (2048, 2) \<and> max (2048 :: int) 2 = 2048"
proof -
  have "fitWithin 4096 3 2048 = (2048, 2)" by code_simp
  then show ?thesis using fit_within_bound [of 4096 3 2048] by simp
qed

end
