(* ===== verification/Add_State.thy ===== *)
theory Add_State
  imports Add_Form Review_State
begin

text \<open>
  \<open>lib/flow-add-state.ts\<close>: the lifecycle of the add form. The source compares attempts, payloads,
  created-id arrays and runs by reference, so each of these objects carries its identity
  (\<open>_ref\<close>, a number given when the object is created).
\<close>

record AddAttempt =
  aa_ref :: nat
  aa_payloadRef :: nat
  aa_payload :: AddTipsPayload
  aa_submissionGeneration :: int

record AddResolutionRun =
  ar_ref :: nat
  ar_attempt :: AddAttempt
  ar_createdIdsRef :: nat
  ar_createdIds :: "bigint list"
  ar_resolutionGeneration :: int

datatype AddLifecycle =
    AddIdle
  | AddSubmitting (add_attempt: AddAttempt)
  | AddResolving (add_run: AddResolutionRun)
  | AddMutationError (add_attempt: AddAttempt) (add_message: jsstring) (add_indeterminate: bool)
  | AddResolutionError (add_run: AddResolutionRun) (add_message: jsstring)

definition sameAttempt :: "AddAttempt \<Rightarrow> AddAttempt \<Rightarrow> bool" where
  "sameAttempt left right \<longleftrightarrow>
     aa_ref left = aa_ref right \<or>
     aa_submissionGeneration left = aa_submissionGeneration right \<and>
     aa_payloadRef left = aa_payloadRef right \<and>
     ap_idempotencyKey (aa_payload left) = ap_idempotencyKey (aa_payload right)"

definition sameResolutionRun :: "AddResolutionRun \<Rightarrow> AddResolutionRun \<Rightarrow> bool" where
  "sameResolutionRun left right \<longleftrightarrow>
     ar_ref left = ar_ref right \<or>
     ar_resolutionGeneration left = ar_resolutionGeneration right \<and>
     sameAttempt (ar_attempt left) (ar_attempt right) \<and>
     ar_createdIdsRef left = ar_createdIdsRef right"

definition sameSemanticPayload :: "AddTipsPayload \<Rightarrow> AddTipsPayload \<Rightarrow> bool" where
  "sameSemanticPayload left right \<longleftrightarrow>
     ap_kind left = ap_kind right \<and> ap_manualContent left = ap_manualContent right \<and>
     ap_topics left = ap_topics right \<and> ap_manualImageData left = ap_manualImageData right"

definition canStartAdd :: "AddLifecycle \<Rightarrow> bool" where
  "canStartAdd state \<longleftrightarrow> state = AddIdle"

definition startAdd :: "AddLifecycle \<Rightarrow> AddAttempt \<Rightarrow> AddLifecycle" where
  "startAdd state attempt = (if canStartAdd state then AddSubmitting attempt else state)"

definition addFailed :: "AddLifecycle \<Rightarrow> AddAttempt \<Rightarrow> FailureFields \<Rightarrow> AddLifecycle" where
  "addFailed state attempt failure =
     (case state of
        AddSubmitting current \<Rightarrow>
          if \<not> sameAttempt current attempt then state
          else AddMutationError current (ff_message failure) (ff_mutationOutcomeIndeterminate failure)
      | _ \<Rightarrow> state)"

definition addMutationSucceeded :: "AddLifecycle \<Rightarrow> AddAttempt \<Rightarrow> AddResolutionRun \<Rightarrow> AddLifecycle" where
  "addMutationSucceeded state attempt run =
     (case state of
        AddSubmitting current \<Rightarrow>
          if \<not> sameAttempt current attempt \<or> \<not> sameAttempt (ar_attempt run) attempt then state
          else AddResolving run
      | _ \<Rightarrow> state)"

definition resolveSettled :: "AddLifecycle \<Rightarrow> AddResolutionRun \<Rightarrow> AddLifecycle" where
  "resolveSettled state run =
     (case state of AddResolving current \<Rightarrow> if sameResolutionRun current run then AddIdle else state | _ \<Rightarrow> state)"

definition resolveFailed :: "AddLifecycle \<Rightarrow> AddResolutionRun \<Rightarrow> jsstring \<Rightarrow> AddLifecycle" where
  "resolveFailed state run message =
     (case state of
        AddResolving current \<Rightarrow> if sameResolutionRun current run then AddResolutionError current message else state
      | _ \<Rightarrow> state)"

datatype AddRetryDecision =
    AddReuseAttempt AddAttempt
  | AddNeedsFreshAttempt AddTipsContent int

fun addRetryDecision :: "AddLifecycle \<Rightarrow> AddRetryDecision option" where
  "addRetryDecision (AddMutationError attempt message indeterminate) =
     Some (if indeterminate then AddReuseAttempt attempt
           else AddNeedsFreshAttempt (without_key (aa_payload attempt)) (aa_submissionGeneration attempt + 1))"
| "addRetryDecision _ = None"

definition validFreshAttempt :: "AddAttempt \<Rightarrow> AddAttempt \<Rightarrow> bool" where
  "validFreshAttempt previous attempt \<longleftrightarrow>
     aa_submissionGeneration attempt = aa_submissionGeneration previous + 1 \<and>
     js_trim (ap_idempotencyKey (aa_payload attempt)) \<noteq> [] \<and>
     ap_idempotencyKey (aa_payload attempt) \<noteq> ap_idempotencyKey (aa_payload previous) \<and>
     sameSemanticPayload (aa_payload attempt) (aa_payload previous)"

definition startMutationRetry :: "AddLifecycle \<Rightarrow> AddAttempt \<Rightarrow> AddLifecycle" where
  "startMutationRetry state attempt =
     (case state of
        AddMutationError current message indeterminate \<Rightarrow>
          if indeterminate
          then (if sameAttempt current attempt then AddSubmitting current else state)
          else (if validFreshAttempt current attempt then AddSubmitting attempt else state)
      | _ \<Rightarrow> state)"

text \<open>The decision is the run to launch, \<open>None\<close> for \<open>undefined\<close>; the run is a new object.\<close>

fun resolutionRetryDecision :: "nat \<Rightarrow> AddLifecycle \<Rightarrow> int \<Rightarrow> AddResolutionRun option" where
  "resolutionRetryDecision ref (AddResolutionError run message) nextResolutionGeneration =
     (if nextResolutionGeneration \<noteq> ar_resolutionGeneration run + 1 then None
      else Some \<lparr>ar_ref = ref, ar_attempt = ar_attempt run, ar_createdIdsRef = ar_createdIdsRef run,
                 ar_createdIds = ar_createdIds run, ar_resolutionGeneration = nextResolutionGeneration\<rparr>)"
| "resolutionRetryDecision ref _ nextResolutionGeneration = None"

definition startResolutionRetry :: "AddLifecycle \<Rightarrow> AddResolutionRun \<Rightarrow> AddLifecycle" where
  "startResolutionRetry state next =
     (case state of
        AddResolutionError run message \<Rightarrow>
          if sameAttempt (ar_attempt next) (ar_attempt run) \<and>
             ar_createdIdsRef next = ar_createdIdsRef run \<and>
             ar_resolutionGeneration next = ar_resolutionGeneration run + 1
          then AddResolving next else state
      | _ \<Rightarrow> state)"

section \<open>Lemmas\<close>

lemma sameAttempt_refl [simp]: "sameAttempt a a"
  by (simp add: sameAttempt_def)

lemma sameAttempt_sym: "sameAttempt a b \<longleftrightarrow> sameAttempt b a"
  by (auto simp: sameAttempt_def)

lemma sameRun_refl [simp]: "sameResolutionRun r r"
  by (simp add: sameResolutionRun_def)

lemmas add_ops = startAdd_def canStartAdd_def addFailed_def addMutationSucceeded_def resolveSettled_def
  resolveFailed_def startMutationRetry_def startResolutionRetry_def

end
