(* ===== verification/Refresh_Merge.thy ===== *)
theory Refresh_Merge
  imports Review_Actions Flow_View
begin

text \<open>
  \<open>lib/flow-refresh-merge.ts\<close>: the silent refresh of the first page. The source compares slots by
  reference, so an entry of the next list carries the position of the slot object it reuses
  (\<open>None\<close> for an object created here), and the result says whether it is the array of the input.
\<close>

record FlowRefreshMergeInput =
  fm_currentSlots :: "ReviewSlot list"
  fm_freshPageCards :: "FlowCardInfo list"
  fm_inputCursor :: FlowCursor
  fm_mutationsInFlight :: bool

record FlowRefreshMergeResult =
  fm_slots :: "ReviewSlot list"
  fm_sameArray :: bool
  fm_cursor :: FlowCursor

text \<open>The second loop over the fresh page: each id of \<open>freshIds\<close> is emitted once.\<close>

fun emit_fresh :: "bigint set \<Rightarrow> FlowCardInfo list \<Rightarrow> FlowCardInfo list" where
  "emit_fresh freshIds [] = []"
| "emit_fresh freshIds (c # cards) =
     (if fc_id c \<in> freshIds then c # emit_fresh (freshIds - {fc_id c}) cards
      else emit_fresh freshIds cards)"

definition prior_order :: "ReviewSlot list \<Rightarrow> bigint set \<Rightarrow> (nat \<times> ReviewSlot) list" where
  "prior_order currentSlots freshIds = filter (\<lambda>(i, slot). slotCardId slot \<notin> freshIds) (enumerate 0 currentSlots)"

definition mergeFlowRefresh :: "FlowRefreshMergeInput \<Rightarrow> FlowRefreshMergeResult" where
  "mergeFlowRefresh input =
     (let currentSlots = fm_currentSlots input;
          freshPageCards = fm_freshPageCards input;
          cursor = fm_inputCursor input
      in if fm_mutationsInFlight input \<or> freshPageCards = []
         then \<lparr>fm_slots = currentSlots, fm_sameArray = True, fm_cursor = cursor\<rparr>
         else let freshIds = set (map fc_id freshPageCards);
                  nextSlots =
                    map (\<lambda>c. (None, SlotIdle c)) (emit_fresh freshIds freshPageCards) @
                    map (\<lambda>(i, slot). (Some i, slot)) (prior_order currentSlots freshIds)
              in if length nextSlots = length currentSlots \<and>
                    list_all (\<lambda>(index, entry). fst entry = Some index) (enumerate 0 nextSlots)
                 then \<lparr>fm_slots = currentSlots, fm_sameArray = True, fm_cursor = cursor\<rparr>
                 else \<lparr>fm_slots = map snd nextSlots, fm_sameArray = False, fm_cursor = cursor\<rparr>)"

section \<open>Lemmas\<close>

lemma emit_fresh_filter: "distinct (map fc_id cards) \<Longrightarrow> emit_fresh ids cards = filter (\<lambda>c. fc_id c \<in> ids) cards"
proof (induction cards arbitrary: ids)
  case (Cons c cards)
  have "filter (\<lambda>d. fc_id d \<in> ids - {fc_id c}) cards = filter (\<lambda>d. fc_id d \<in> ids) cards"
    by (intro filter_cong) (use Cons.prems in \<open>auto dest: not_in_image\<close>)
  with Cons show ?case by simp
qed simp

lemma emit_fresh_ids:
  "distinct (map fc_id (emit_fresh ids cards)) \<and> fc_id ` set (emit_fresh ids cards) = fc_id ` set cards \<inter> ids \<and>
   set (emit_fresh ids cards) \<subseteq> set cards"
  by (induction ids cards rule: emit_fresh.induct) auto

text \<open>The first card of each id wins.\<close>

lemma emit_fresh_first:
  "emit_fresh ids cards = emit_fresh ids (c # cards) \<or> fc_id c \<in> ids"
  by simp

lemma prior_order_slots: "map snd (prior_order slots ids) = filter (\<lambda>s. slotCardId s \<notin> ids) slots"
proof -
  have "map snd (filter (\<lambda>p. slotCardId (snd p) \<notin> ids) (enumerate n slots)) = filter (\<lambda>s. slotCardId s \<notin> ids) slots" for n
    by (induction slots arbitrary: n) auto
  then show ?thesis by (simp add: prior_order_def case_prod_beta')
qed

lemma emit_fresh_nonempty: "cards \<noteq> [] \<Longrightarrow> emit_fresh (set (map fc_id cards)) cards \<noteq> []"
  by (cases cards) auto

lemma merge_result:
  assumes "\<not> fm_mutationsInFlight input" and "fm_freshPageCards input \<noteq> []"
  shows "mergeFlowRefresh input =
    \<lparr>fm_slots = map SlotIdle (emit_fresh (fc_id ` set (fm_freshPageCards input)) (fm_freshPageCards input)) @
       filter (\<lambda>s. slotCardId s \<notin> fc_id ` set (fm_freshPageCards input)) (fm_currentSlots input),
     fm_sameArray = False, fm_cursor = fm_inputCursor input\<rparr>"
proof -
  let ?ids = "set (map fc_id (fm_freshPageCards input))"
  let ?next = "map (\<lambda>c. (None, SlotIdle c)) (emit_fresh ?ids (fm_freshPageCards input)) @
    map (\<lambda>(i, slot). (Some i, slot)) (prior_order (fm_currentSlots input) ?ids)"
  obtain c rest where "emit_fresh ?ids (fm_freshPageCards input) = c # rest"
    using emit_fresh_nonempty [OF assms(2)] by (cases "emit_fresh ?ids (fm_freshPageCards input)") auto
  then have "\<not> list_all (\<lambda>(index, entry). fst entry = Some index) (enumerate 0 ?next)" by simp
  moreover have "map snd ?next = map SlotIdle (emit_fresh ?ids (fm_freshPageCards input)) @
      filter (\<lambda>s. slotCardId s \<notin> ?ids) (fm_currentSlots input)"
    using prior_order_slots [of "fm_currentSlots input" ?ids] by (simp add: comp_def case_prod_beta')
  ultimately show ?thesis
    using assms by (simp add: mergeFlowRefresh_def Let_def del: set_map) (simp add: image_iff)
qed

lemma merge_skipped:
  "fm_mutationsInFlight input \<or> fm_freshPageCards input = [] \<Longrightarrow>
   mergeFlowRefresh input = \<lparr>fm_slots = fm_currentSlots input, fm_sameArray = True, fm_cursor = fm_inputCursor input\<rparr>"
  by (simp add: mergeFlowRefresh_def)

lemma merge_distinct:
  "distinct_cards (fm_currentSlots input) \<Longrightarrow> distinct_cards (fm_slots (mergeFlowRefresh input))"
proof (cases "fm_mutationsInFlight input \<or> fm_freshPageCards input = []")
  case False
  assume "distinct_cards (fm_currentSlots input)"
  then show ?thesis
    using False emit_fresh_ids [of "fc_id ` set (fm_freshPageCards input)" "fm_freshPageCards input"]
    by (auto simp: merge_result distinct_cards_def comp_def distinct_map_filter dest: not_in_image)
qed (simp add: merge_skipped)

lemma merge_slots_inv: "slots_inv (fm_currentSlots input) \<Longrightarrow> slots_inv (fm_slots (mergeFlowRefresh input))"
proof (cases "fm_mutationsInFlight input \<or> fm_freshPageCards input = []")
  case False
  assume "slots_inv (fm_currentSlots input)"
  then show ?thesis
    using False merge_distinct [of input] by (auto simp: slots_inv_def merge_result)
qed (simp add: merge_skipped)

section \<open>Properties\<close>

text \<open>A silent refresh that is not skipped shows every card of the fresh page once, at its fresh position
  and as a new idle slot, and behind them, in their order, exactly the current slots whose card
  the page does not bring; the result keeps the invariant. It is never the input array, so the
  comparison that should return it "when nothing changed" never succeeds.\<close>

theorem refresh_merges:
  assumes "slots_inv (fm_currentSlots input)"
  shows "slots_inv (fm_slots (mergeFlowRefresh input)) \<and>
         (if fm_mutationsInFlight input \<or> fm_freshPageCards input = []
          then mergeFlowRefresh input =
            \<lparr>fm_slots = fm_currentSlots input, fm_sameArray = True, fm_cursor = fm_inputCursor input\<rparr>
          else \<not> fm_sameArray (mergeFlowRefresh input) \<and>
            (\<exists>fresh. fm_slots (mergeFlowRefresh input) = map SlotIdle fresh @
               filter (\<lambda>s. slotCardId s \<notin> fc_id ` set (fm_freshPageCards input)) (fm_currentSlots input) \<and>
             distinct (map fc_id fresh) \<and> set fresh \<subseteq> set (fm_freshPageCards input) \<and>
             fc_id ` set fresh = fc_id ` set (fm_freshPageCards input) \<and>
             (distinct (map fc_id (fm_freshPageCards input)) \<longrightarrow> fresh = fm_freshPageCards input)))"
proof (cases "fm_mutationsInFlight input \<or> fm_freshPageCards input = []")
  case True
  then show ?thesis using merge_slots_inv [OF assms] by (simp add: merge_skipped)
next
  case False
  let ?cards = "fm_freshPageCards input"
  let ?fresh = "emit_fresh (fc_id ` set ?cards) ?cards"
  have "distinct (map fc_id ?cards) \<Longrightarrow> ?fresh = ?cards"
    by (simp add: emit_fresh_filter filter_id_conv)
  then show ?thesis
    using merge_slots_inv [OF assms] emit_fresh_ids [of "fc_id ` set ?cards" ?cards] False
    by (auto simp: merge_result)
qed

theorem refresh_merges_witness:
  "\<not> fm_sameArray (mergeFlowRefresh
     \<lparr>fm_currentSlots = [SlotIdle (sample_card 1 ''a'' ''casual_tip'' False)],
      fm_freshPageCards = [sample_card 1 ''a'' ''casual_tip'' False], fm_inputCursor = CursorEnd,
      fm_mutationsInFlight = False\<rparr>)"
  using refresh_merges [of "\<lparr>fm_currentSlots = [SlotIdle (sample_card 1 ''a'' ''casual_tip'' False)],
      fm_freshPageCards = [sample_card 1 ''a'' ''casual_tip'' False], fm_inputCursor = CursorEnd,
      fm_mutationsInFlight = False\<rparr>"]
  by (simp add: slots_inv_def distinct_cards_def)

section \<open>A refresh can show two stacks of a topic\<close>

text \<open>
  Loading a page drops a card of a repeatable topic that is already on screen; the refresh does
  not. When the server has moved on to another card of the topic, both the old and the new
  card are shown, under the same visual key.
\<close>

lemma refresh_duplicates_stack:
  "let current = [SlotIdle (sample_card 1 ''math'' ''repeatable_tip'' False)];
       merged = fm_slots (mergeFlowRefresh
         \<lparr>fm_currentSlots = current, fm_freshPageCards = [sample_card 2 ''math'' ''repeatable_tip'' False],
          fm_inputCursor = CursorEnd, fm_mutationsInFlight = False\<rparr>)
   in one_stack_per_topic current \<and> \<not> one_stack_per_topic merged \<and> \<not> distinct (map flowSlotKey merged)"
proof -
  let ?old = "sample_card 1 ''math'' ''repeatable_tip'' False" and ?new = "sample_card 2 ''math'' ''repeatable_tip'' False"
  have merged: "fm_slots (mergeFlowRefresh \<lparr>fm_currentSlots = [SlotIdle ?old], fm_freshPageCards = [?new],
      fm_inputCursor = CursorEnd, fm_mutationsInFlight = False\<rparr>) = [SlotIdle ?new, SlotIdle ?old]"
    by (simp add: merge_result)
  show ?thesis unfolding Let_def merged
    by (simp add: one_stack_per_topic_def is_repeatable_card_def flowSlotKey_def)
qed

end
