(* ===== verification/Flow_Page.thy ===== *)
theory Flow_Page
  imports Json Add_State Refresh_Merge Delete_State Organization
begin

text \<open>
  The Flow page's shared state (\<open>components/flow/Flow.tsx\<close>) and its pager
  (\<open>components/flow/use-flow-pager.ts\<close>). The page keeps its state twice: the ref every handler reads
  (\<open>stateRef.current\<close>, \<open>fp_ref\<close>) and the React state that is rendered (\<open>fp_view\<close>). \<open>apply\<close> writes both,
  \<open>setStateOnly\<close> is the component's plain \<open>setState\<close> and writes the second only. An asynchronous
  handler is split at its \<open>await\<close>: launching it is one operation, its answer another.
\<close>

datatype FlowState =
    FlowInitialLoading
  | FlowReady (fs_slots: "ReviewSlot list") (fs_cursor: FlowCursor) (fs_revalidating: bool)
  | FlowLoadingMore (fs_slots: "ReviewSlot list") (fs_pageToken: jsstring)
  | FlowLoadError (fs_slots: "ReviewSlot list") (fs_pageToken: jsstring) (fs_message: jsstring)
  | FlowEmpty
  | FlowError (fs_message: jsstring)

record SavedFlowPage =
  sv_savedAt :: rat
  sv_cards :: "FlowCardInfo list"
  sv_cursor :: FlowCursor

record FlowCardsPage =
  pg_cards :: "FlowCardInfo list"
  pg_cursor :: FlowCursor

record FlowPage =
  fp_ref :: FlowState
  fp_view :: FlowState
  fp_mounted :: bool
  fp_pinnedOrder :: "bigint list"
  fp_pins :: PinState
  fp_deletes :: DeleteState
  fp_add :: AddLifecycle
  fp_addGeneration :: int
  fp_addInFlight :: bool
  fp_addedNotice :: bool
  fp_pagerGeneration :: int
  fp_pagerInFlight :: bool
  fp_snapshot :: "SavedFlowPage option"
  fp_nextRef :: nat

section \<open>Shared state\<close>

fun slotsStateOf :: "FlowState \<Rightarrow> ReviewSlot list option" where
  "slotsStateOf (FlowReady slots cursor revalidating) = Some slots"
| "slotsStateOf (FlowLoadingMore slots pageToken) = Some slots"
| "slotsStateOf (FlowLoadError slots pageToken message) = Some slots"
| "slotsStateOf _ = None"

text \<open>\<open>{ ...state, slots }\<close>.\<close>

fun with_slots :: "FlowState \<Rightarrow> ReviewSlot list \<Rightarrow> FlowState" where
  "with_slots (FlowReady slots cursor revalidating) next = FlowReady next cursor revalidating"
| "with_slots (FlowLoadingMore slots pageToken) next = FlowLoadingMore next pageToken"
| "with_slots (FlowLoadError slots pageToken message) next = FlowLoadError next pageToken message"
| "with_slots state next = state"

definition apply_state :: "FlowPage \<Rightarrow> FlowState \<Rightarrow> FlowPage" where
  "apply_state page next = page\<lparr>fp_ref := next, fp_view := next\<rparr>"

definition setStateOnly :: "FlowPage \<Rightarrow> FlowState \<Rightarrow> FlowPage" where
  "setStateOnly page next = page\<lparr>fp_view := next\<rparr>"

definition getState :: "FlowPage \<Rightarrow> FlowState" where
  "getState page = fp_ref page"

text \<open>\<open>produce\<close> commits unless the callback returns the current state object (\<open>None\<close>).\<close>

definition produce_state :: "FlowPage \<Rightarrow> (FlowState \<Rightarrow> FlowState option) \<Rightarrow> FlowPage" where
  "produce_state page f =
     (case f (fp_ref page) of None \<Rightarrow> page | Some next \<Rightarrow> apply_state page next)"

definition applyPinnedOrder :: "FlowPage \<Rightarrow> bigint list \<Rightarrow> FlowPage" where
  "applyPinnedOrder page next = page\<lparr>fp_pinnedOrder := next\<rparr>"

definition pinIdle :: "FlowPage \<Rightarrow> bigint \<Rightarrow> bool" where
  "pinIdle page cardId \<longleftrightarrow> pinCardState (fp_pins page) cardId = PinIdle"

definition busyCardIds :: "FlowPage \<Rightarrow> bigint list" where
  "busyCardIds page =
     map (\<lambda>s. pa_cardId (pin_attempt s)) (filter is_PinSaving (map snd (fp_pins page))) @
     map (\<lambda>s. da_cardId (delete_attempt s)) (filter is_Deleting (map snd (fp_deletes page)))"

definition mutationsInFlight :: "FlowPage \<Rightarrow> bool" where
  "mutationsInFlight page \<longleftrightarrow>
     fp_addInFlight page \<or>
     list_ex (\<lambda>s. s \<noteq> PinIdle) (map snd (fp_pins page)) \<or>
     list_ex (\<lambda>s. s \<noteq> DeleteIdle) (map snd (fp_deletes page)) \<or>
     (case slotsStateOf (fp_ref page) of
        None \<Rightarrow> False
      | Some slots \<Rightarrow> list_ex (\<lambda>slot. is_SlotReviewing slot \<or> is_SlotContinuing slot) slots)"

text \<open>
  A drop in the pinned section, with the order it returns. \<open>normalizeCardOrder\<close> builds a new array, so
  the comparison with the current order's reference never holds.
\<close>

definition onPinnedDrop :: "FlowPage \<Rightarrow> bigint \<Rightarrow> bigint \<Rightarrow> FlowPage \<times> bigint list option" where
  "onPinnedDrop page sourceId targetId =
     (case slotsStateOf (fp_ref page) of
        None \<Rightarrow> (page, None)
      | Some slots \<Rightarrow>
          let pinnedIds = map (\<lambda>slot. sm_id (slotMetadata slot)) (filter (\<lambda>slot. sm_pinned (slotMetadata slot)) slots);
              base = normalizeCardOrder (fp_pinnedOrder page) pinnedIds;
              next = movePinnedCard base sourceId targetId
          in (applyPinnedOrder page next, Some next))"

text \<open>The effect that follows every change of the rendered slots.\<close>

definition reconcilePinnedOrder :: "FlowPage \<Rightarrow> FlowPage" where
  "reconcilePinnedOrder page =
     (case fp_view page of
        FlowInitialLoading \<Rightarrow> page
      | FlowError message \<Rightarrow> page
      | state \<Rightarrow>
          let trackedSlots = (case slotsStateOf state of None \<Rightarrow> [] | Some slots \<Rightarrow> slots);
              previous = fp_pinnedOrder page;
              pinnedIds = map (\<lambda>slot. sm_id (slotMetadata slot)) (filter (\<lambda>slot. sm_pinned (slotMetadata slot)) trackedSlots);
              removed = filter (\<lambda>n. n \<notin> set pinnedIds) previous;
              added = filter (\<lambda>n. n \<notin> set previous) pinnedIds;
              next = (if length removed = 1 \<and> length added = 1
                      then replacePinnedCard previous (hd removed) (hd added) else previous)
          in applyPinnedOrder page (normalizeCardOrder next pinnedIds))"

section \<open>The pager\<close>

definition FLOW_PAGE_SIZE :: nat where
  "FLOW_PAGE_SIZE = 48"

definition saveReadySnapshot :: "int \<Rightarrow> FlowPage \<Rightarrow> ReviewSlot list \<Rightarrow> FlowCursor \<Rightarrow> FlowPage" where
  "saveReadySnapshot now page slots cursor =
     (let cards = take FLOW_PAGE_SIZE (map slot_card (filter is_live slots))
      in if cards = [] then page
         else page\<lparr>fp_snapshot := Some \<lparr>sv_savedAt = of_int now, sv_cards = cards, sv_cursor = cursor\<rparr>\<rparr>)"

definition integrateFreshPage :: "int \<Rightarrow> FlowPage \<Rightarrow> FlowCardsPage \<Rightarrow> FlowPage" where
  "integrateFreshPage now page fetched =
     (if pg_cards fetched = []
      then (case getState page of
              FlowInitialLoading \<Rightarrow> apply_state page FlowEmpty
            | FlowError message \<Rightarrow> apply_state page FlowEmpty
            | _ \<Rightarrow> page)
      else case slotsStateOf (getState page) of
             Some slots \<Rightarrow>
               let merged = mergeFlowRefresh
                     \<lparr>fm_currentSlots = slots, fm_freshPageCards = pg_cards fetched,
                      fm_inputCursor = pg_cursor fetched, fm_mutationsInFlight = mutationsInFlight page\<rparr>;
                   page' = (if \<not> fm_sameArray merged
                            then apply_state page (FlowReady (fm_slots merged) (fm_cursor merged) False) else page)
               in saveReadySnapshot now page' (fm_slots merged) (fm_cursor merged)
           | None \<Rightarrow>
               let slots = slotsFromCards (pg_cards fetched)
               in saveReadySnapshot now (apply_state page (FlowReady slots (pg_cursor fetched) False))
                    slots (pg_cursor fetched))"

text \<open>Launching returns the generation of the request that goes out, \<open>None\<close> when none does.\<close>

definition pager_launch :: "FlowPage \<Rightarrow> FlowPage \<times> int" where
  "pager_launch page =
     (let generation = fp_pagerGeneration page + 1
      in (page\<lparr>fp_pagerInFlight := True, fp_pagerGeneration := generation\<rparr>, generation))"

definition loadInitial :: "FlowPage \<Rightarrow> FlowPage \<times> int option" where
  "loadInitial page =
     (if fp_pagerInFlight page then (page, None)
      else let (page', generation) = pager_launch page in (page', Some generation))"

definition loadInitialResolved :: "int \<Rightarrow> FlowPage \<Rightarrow> int \<Rightarrow> FlowCardsPage \<Rightarrow> FlowPage" where
  "loadInitialResolved now page generation fetched =
     (if fp_pagerGeneration page \<noteq> generation then page
      else (integrateFreshPage now page fetched)\<lparr>fp_pagerInFlight := False\<rparr>)"

definition loadInitialRejected :: "FlowPage \<Rightarrow> int \<Rightarrow> jsstring \<Rightarrow> FlowPage" where
  "loadInitialRejected page generation message =
     (if fp_pagerGeneration page \<noteq> generation then page
      else (if getState page = FlowInitialLoading then apply_state page (FlowError message) else page)
             \<lparr>fp_pagerInFlight := False\<rparr>)"

definition loadMoreFrom :: "FlowPage \<Rightarrow> ReviewSlot list \<Rightarrow> jsstring \<Rightarrow> FlowPage \<times> (int \<times> jsstring) option" where
  "loadMoreFrom page slots pageToken =
     (if fp_pagerInFlight page then (page, None)
      else let (page', generation) = pager_launch page
           in (setStateOnly page' (FlowLoadingMore slots pageToken), Some (generation, pageToken)))"

definition loadMore :: "FlowPage \<Rightarrow> FlowPage \<times> (int \<times> jsstring) option" where
  "loadMore page =
     (case fp_ref page of
        FlowReady slots (CursorMore pageToken) revalidating \<Rightarrow> loadMoreFrom page slots pageToken
      | _ \<Rightarrow> (page, None))"

text \<open>The retry button of the error footer takes its arguments from the rendered state.\<close>

definition loadMoreRetry :: "FlowPage \<Rightarrow> FlowPage \<times> (int \<times> jsstring) option" where
  "loadMoreRetry page =
     (case fp_view page of
        FlowLoadError slots pageToken message \<Rightarrow> loadMoreFrom page slots pageToken
      | _ \<Rightarrow> (page, None))"

definition loadMoreResolved :: "int \<Rightarrow> FlowPage \<Rightarrow> int \<Rightarrow> jsstring \<Rightarrow> FlowCardsPage \<Rightarrow> FlowPage" where
  "loadMoreResolved now page generation pageToken fetched =
     (if fp_pagerGeneration page \<noteq> generation then page
      else (case getState page of
              FlowLoadingMore slots currentToken \<Rightarrow>
                if currentToken \<noteq> pageToken then page
                else let nextSlots = appendIdleSlots slots (pg_cards fetched)
                     in saveReadySnapshot now (apply_state page (FlowReady nextSlots (pg_cursor fetched) False))
                          (take FLOW_PAGE_SIZE nextSlots) (pg_cursor fetched)
            | _ \<Rightarrow> page)\<lparr>fp_pagerInFlight := False\<rparr>)"

definition loadMoreRejected :: "FlowPage \<Rightarrow> int \<Rightarrow> jsstring \<Rightarrow> jsstring \<Rightarrow> FlowPage" where
  "loadMoreRejected page generation pageToken message =
     (if fp_pagerGeneration page \<noteq> generation then page
      else (case getState page of
              FlowLoadingMore slots currentToken \<Rightarrow>
                if currentToken \<noteq> pageToken then page
                else apply_state page (FlowLoadError slots pageToken message)
            | _ \<Rightarrow> page)\<lparr>fp_pagerInFlight := False\<rparr>)"

text \<open>The first state: the session snapshot when it has cards.\<close>

definition seedFromSnapshot :: "SavedFlowPage option \<Rightarrow> FlowState option" where
  "seedFromSnapshot saved =
     (case saved of
        None \<Rightarrow> None
      | Some page \<Rightarrow> if sv_cards page = [] then None
                      else Some (FlowReady (slotsFromCards (sv_cards page)) (sv_cursor page) True))"

definition initial_page :: "SavedFlowPage option \<Rightarrow> bigint list option \<Rightarrow> FlowPage" where
  "initial_page saved storedOrder =
     (let state = (case seedFromSnapshot saved of None \<Rightarrow> FlowInitialLoading | Some s \<Rightarrow> s)
      in \<lparr>fp_ref = state, fp_view = state, fp_mounted = True,
          fp_pinnedOrder = (case storedOrder of None \<Rightarrow> [] | Some order \<Rightarrow> order),
          fp_pins = EMPTY_PIN_STATE, fp_deletes = EMPTY_DELETE_STATE,
          fp_add = AddIdle, fp_addGeneration = 0, fp_addInFlight = False, fp_addedNotice = False,
          fp_pagerGeneration = 0, fp_pagerInFlight = False, fp_snapshot = saved, fp_nextRef = 0\<rparr>)"

end
