(* ===== verification/Add_Hook.thy ===== *)
theory Add_Hook
  imports Add_Integration Flow_Page
begin

text \<open>
  \<open>components/flow/use-flow-add-lifecycle.ts\<close>: the add form on the page. An object the source creates
  gets the next reference number of the page. The local storage prefill that a successful
  mutation clears is not part of the page. The \<open>finally\<close> of the resolution releases the guard on every
  way out of it, the stale ones included.
\<close>

section \<open>Mutation\<close>

definition onAddSubmit :: "FlowPage \<Rightarrow> AddTipsPayload \<Rightarrow> FlowPage \<times> AddAttempt option" where
  "onAddSubmit page payload =
     (if fp_addInFlight page \<or> \<not> canStartAdd (fp_add page) then (page, None)
      else let generation = fp_addGeneration page + 1;
               attempt = \<lparr>aa_ref = fp_nextRef page, aa_payloadRef = fp_nextRef page + 1, aa_payload = payload,
                          aa_submissionGeneration = generation\<rparr>
           in (page\<lparr>fp_addInFlight := True, fp_addGeneration := generation, fp_addedNotice := False,
                    fp_add := startAdd (fp_add page) attempt, fp_nextRef := fp_nextRef page + 2\<rparr>, Some attempt))"

text \<open>What \<open>launchAddMutation\<close> sends; a payload that does not validate is refused before any fetch.\<close>

definition addRequest :: "AddAttempt \<Rightarrow> js_error + TipsRequestV1 \<times> jsstring" where
  "addRequest attempt =
     sum_bind (buildTipsRequest (aa_payload attempt)) (\<lambda>request. Inr (request, ap_idempotencyKey (aa_payload attempt)))"

definition addMutationResolved ::
    "FlowPage \<Rightarrow> AddAttempt \<Rightarrow> bigint list \<Rightarrow> FlowPage \<times> AddResolutionRun option" where
  "addMutationResolved page attempt createdIds =
     (if fp_add page = AddIdle then (page, None)
      else let run = \<lparr>ar_ref = fp_nextRef page, ar_attempt = attempt, ar_createdIdsRef = fp_nextRef page + 1,
                      ar_createdIds = createdIds, ar_resolutionGeneration = 1\<rparr>;
               next = addMutationSucceeded (fp_add page) attempt run
           in if next = fp_add page then (page, None)
              else (page\<lparr>fp_add := next, fp_nextRef := fp_nextRef page + 2\<rparr>, Some run))"

definition addMutationRejected :: "FlowPage \<Rightarrow> AddAttempt \<Rightarrow> Thrown \<Rightarrow> FlowPage" where
  "addMutationRejected page attempt error =
     (if \<not> is_AddSubmitting (fp_add page) \<and> \<not> is_AddMutationError (fp_add page) then page
      else page\<lparr>fp_add := addFailed (fp_add page) attempt (classifyReviewError error), fp_addInFlight := False\<rparr>)"

definition retry_attempt :: "FlowPage \<Rightarrow> jsstring \<Rightarrow> AddRetryDecision \<Rightarrow> AddAttempt" where
  "retry_attempt page freshKey decision =
     (case decision of
        AddReuseAttempt attempt \<Rightarrow> attempt
      | AddNeedsFreshAttempt content generation \<Rightarrow>
          \<lparr>aa_ref = fp_nextRef page, aa_payloadRef = fp_nextRef page + 1, aa_payload = with_key content freshKey,
           aa_submissionGeneration = generation\<rparr>)"

definition onAddRetryMutation :: "FlowPage \<Rightarrow> jsstring \<Rightarrow> FlowPage \<times> AddAttempt option" where
  "onAddRetryMutation page freshKey =
     (if fp_addInFlight page then (page, None)
      else case addRetryDecision (fp_add page) of
             None \<Rightarrow> (page, None)
           | Some decision \<Rightarrow>
               let attempt = retry_attempt page freshKey decision;
                   next = startMutationRetry (fp_add page) attempt
               in if next = fp_add page then (page, None)
                  else (page\<lparr>fp_addInFlight := True,
                            fp_addGeneration := max (fp_addGeneration page) (aa_submissionGeneration attempt),
                            fp_add := next, fp_nextRef := fp_nextRef page + 2\<rparr>, Some attempt))"

section \<open>Resolution\<close>

definition owns_run :: "FlowPage \<Rightarrow> AddResolutionRun \<Rightarrow> bool" where
  "owns_run page run \<longleftrightarrow> is_AddResolving (fp_add page) \<and> ar_ref (add_run (fp_add page)) = ar_ref run"

definition commitIntegratedCards :: "FlowPage \<Rightarrow> AddResolutionRun \<Rightarrow> FlowCardInfo list \<Rightarrow> FlowPage \<times> bool" where
  "commitIntegratedCards page run cards =
     (if \<not> owns_run page run then (page, False)
      else let current = getState page
           in case (if current = FlowEmpty then Some [] else slotsStateOf current) of
                None \<Rightarrow> (page, False)
              | Some slots \<Rightarrow>
                  let integrated = integrateCreatedCards slots cards (fp_pinnedOrder page) (busyCardIds page);
                      page1 = applyPinnedOrder page (ai_pinnedOrder integrated);
                      page2 = (if current = FlowEmpty
                               then (if ai_slots integrated \<noteq> []
                                     then apply_state page1 (FlowReady (ai_slots integrated) CursorEnd False) else page1)
                               else apply_state page1 (with_slots current (ai_slots integrated)))
                  in (page2, ai_needsReconciliation integrated))"

definition settle_run :: "FlowPage \<Rightarrow> AddResolutionRun \<Rightarrow> FlowPage" where
  "settle_run page run =
     (let next = resolveSettled (fp_add page) run
      in (if next \<noteq> fp_add page then page\<lparr>fp_add := next, fp_addedNotice := True\<rparr> else page)
           \<lparr>fp_addInFlight := False\<rparr>)"

text \<open>
  The details arrived (\<open>None\<close> for a rejected read). The result says whether the quiet list read goes
  out; when it does not, the run is over.
\<close>

definition addDetailsSettled :: "FlowPage \<Rightarrow> AddResolutionRun \<Rightarrow> FlowCardInfo option list \<Rightarrow> FlowPage \<times> bool" where
  "addDetailsSettled page run outcomes =
     (if \<not> owns_run page run then (page\<lparr>fp_addInFlight := False\<rparr>, False)
      else let details = map the (filter (\<lambda>outcome. outcome \<noteq> None) outcomes);
               detailFailed = list_ex (\<lambda>outcome. outcome = None) outcomes;
               (page1, integrationNeedsReconcile) = commitIntegratedCards page run details;
               needsReconcile = (ap_kind (aa_payload (ar_attempt run)) = KindRepeatable \<or>
                                 ar_createdIds run = [] \<or> detailFailed \<or> integrationNeedsReconcile)
           in if \<not> needsReconcile then (settle_run page1 run, False) else (page1, True))"

definition addReconciled :: "FlowPage \<Rightarrow> AddResolutionRun \<Rightarrow> FlowCardInfo list \<Rightarrow> FlowPage" where
  "addReconciled page run cards =
     (if \<not> owns_run page run then page\<lparr>fp_addInFlight := False\<rparr>
      else settle_run
             (case slotsStateOf (getState page) of
                None \<Rightarrow> page
              | Some slots \<Rightarrow> apply_state page (with_slots (getState page) (mergeReconciledCards slots cards))) run)"

definition addReconcileFailed :: "FlowPage \<Rightarrow> AddResolutionRun \<Rightarrow> jsstring \<Rightarrow> FlowPage" where
  "addReconcileFailed page run message =
     page\<lparr>fp_add := resolveFailed (fp_add page) run message, fp_addInFlight := False\<rparr>"

definition onAddRetryResolve :: "FlowPage \<Rightarrow> FlowPage \<times> AddResolutionRun option" where
  "onAddRetryResolve page =
     (if \<not> is_AddResolutionError (fp_add page) \<or> fp_addInFlight page then (page, None)
      else case resolutionRetryDecision (fp_nextRef page) (fp_add page)
                  (ar_resolutionGeneration (add_run (fp_add page)) + 1) of
             None \<Rightarrow> (page, None)
           | Some run \<Rightarrow>
               let next = startResolutionRetry (fp_add page) run
               in if next = fp_add page then (page, None)
                  else (page\<lparr>fp_addInFlight := True, fp_add := next, fp_nextRef := fp_nextRef page + 1\<rparr>, Some run))"

section \<open>One request at a time\<close>

text \<open>The request that is out. Each request is answered once; the rest of the page may change in between.\<close>

datatype AddPending = NothingOut | MutationOut AddAttempt | DetailsOut AddResolutionRun | ListOut AddResolutionRun

datatype AddEvent =
    AddSubmitEv AddTipsPayload
  | AddRetryEv jsstring
  | AddRetryResolveEv
  | AddCreatedEv "bigint list"
  | AddRefusedEv Thrown
  | AddDetailsEv "FlowCardInfo option list"
  | AddListEv "FlowCardInfo list"
  | AddListFailedEv jsstring
  | AddPageEv FlowState "bigint list" PinState DeleteState

definition pending_of :: "('a \<Rightarrow> AddPending) \<Rightarrow> 'a option \<Rightarrow> AddPending \<Rightarrow> AddPending" where
  "pending_of f launched current = (case launched of None \<Rightarrow> current | Some x \<Rightarrow> f x)"

definition add_step :: "FlowPage \<times> AddPending \<Rightarrow> AddEvent \<Rightarrow> FlowPage \<times> AddPending" where
  "add_step w e =
     (let page = fst w; out = snd w
      in case e of
           AddSubmitEv payload \<Rightarrow> (let (page', sent) = onAddSubmit page payload in (page', pending_of MutationOut sent out))
         | AddRetryEv key \<Rightarrow> (let (page', sent) = onAddRetryMutation page key in (page', pending_of MutationOut sent out))
         | AddRetryResolveEv \<Rightarrow> (let (page', run) = onAddRetryResolve page in (page', pending_of DetailsOut run out))
         | AddCreatedEv ids \<Rightarrow>
             (case out of
                MutationOut attempt \<Rightarrow>
                  (let (page', run) = addMutationResolved page attempt ids in (page', pending_of DetailsOut run NothingOut))
              | _ \<Rightarrow> w)
         | AddRefusedEv error \<Rightarrow>
             (case out of MutationOut attempt \<Rightarrow> (addMutationRejected page attempt error, NothingOut) | _ \<Rightarrow> w)
         | AddDetailsEv outcomes \<Rightarrow>
             (case out of
                DetailsOut run \<Rightarrow>
                  (let (page', reconcile) = addDetailsSettled page run outcomes
                   in (page', if reconcile then ListOut run else NothingOut))
              | _ \<Rightarrow> w)
         | AddListEv cards \<Rightarrow> (case out of ListOut run \<Rightarrow> (addReconciled page run cards, NothingOut) | _ \<Rightarrow> w)
         | AddListFailedEv message \<Rightarrow>
             (case out of ListOut run \<Rightarrow> (addReconcileFailed page run message, NothingOut) | _ \<Rightarrow> w)
         | AddPageEv state order pins deletes \<Rightarrow>
             (page\<lparr>fp_ref := state, fp_view := state, fp_pinnedOrder := order, fp_pins := pins, fp_deletes := deletes\<rparr>, out))"

fun add_matches :: "AddLifecycle \<Rightarrow> AddPending \<Rightarrow> bool" where
  "add_matches (AddSubmitting a) out = (\<exists>b. out = MutationOut b \<and> sameAttempt a b)"
| "add_matches (AddResolving run) out = (out = DetailsOut run \<or> out = ListOut run)"
| "add_matches _ out = (out = NothingOut)"

definition add_inv :: "FlowPage \<times> AddPending \<Rightarrow> bool" where
  "add_inv w \<longleftrightarrow>
     add_matches (fp_add (fst w)) (snd w) \<and> (fp_addInFlight (fst w) \<longleftrightarrow> snd w \<noteq> NothingOut)"

section \<open>Lemmas\<close>

lemma commit_cards_add [simp]:
  "fp_add (fst (commitIntegratedCards page run cards)) = fp_add page"
  "fp_addInFlight (fst (commitIntegratedCards page run cards)) = fp_addInFlight page"
  by (auto simp: commitIntegratedCards_def applyPinnedOrder_def apply_state_def Let_def split: option.splits if_splits)

lemma submit_cases:
  "onAddSubmit page payload = (page', sent) \<Longrightarrow>
   page' = page \<and> sent = None \<or>
   fp_add page = AddIdle \<and> \<not> fp_addInFlight page \<and>
   (\<exists>a. sent = Some a \<and> fp_add page' = AddSubmitting a \<and> fp_addInFlight page' \<and> aa_payload a = payload)"
  by (auto simp: onAddSubmit_def Let_def add_ops split: if_splits)

lemma retry_cases:
  "onAddRetryMutation page key = (page', sent) \<Longrightarrow>
   page' = page \<and> sent = None \<or>
   is_AddMutationError (fp_add page) \<and> \<not> fp_addInFlight page \<and>
   (\<exists>a b. sent = Some a \<and> fp_add page' = AddSubmitting b \<and> sameAttempt b a \<and> fp_addInFlight page')"
  by (cases "fp_add page") (auto simp: onAddRetryMutation_def Let_def add_ops split: if_splits)

lemma retry_resolve_cases:
  "onAddRetryResolve page = (page', sent) \<Longrightarrow>
   page' = page \<and> sent = None \<or>
   is_AddResolutionError (fp_add page) \<and> \<not> fp_addInFlight page \<and>
   (\<exists>run. sent = Some run \<and> fp_add page' = AddResolving run \<and> fp_addInFlight page')"
  by (cases "fp_add page") (auto simp: onAddRetryResolve_def Let_def add_ops split: if_splits)

lemma details_cases:
  assumes "addDetailsSettled page run outcomes = (page', reconcile)" and "fp_add page = AddResolving run" and "fp_addInFlight page"
  shows "(if reconcile then fp_add page' = AddResolving run \<and> fp_addInFlight page'
          else fp_add page' = AddIdle \<and> \<not> fp_addInFlight page')"
proof -
  have "owns_run page run" using assms(2) by (simp add: owns_run_def)
  then show ?thesis using assms
    by (cases "commitIntegratedCards page run (map the (filter (\<lambda>outcome. outcome \<noteq> None) outcomes))")
      (use commit_cards_add [of page run "map the (filter (\<lambda>outcome. outcome \<noteq> None) outcomes)"] in
        \<open>auto simp: addDetailsSettled_def settle_run_def resolveSettled_def Let_def split: if_splits\<close>)
qed

lemma add_inv_simps: "add_inv (page, out) \<longleftrightarrow> add_matches (fp_add page) out \<and> (fp_addInFlight page \<longleftrightarrow> out \<noteq> NothingOut)"
  by (simp add: add_inv_def)

lemma add_matches_out:
  "add_matches st (MutationOut b) \<longleftrightarrow> (\<exists>a. st = AddSubmitting a \<and> sameAttempt a b)"
  "add_matches st (DetailsOut run) \<longleftrightarrow> st = AddResolving run"
  "add_matches st (ListOut run) \<longleftrightarrow> st = AddResolving run"
  by (cases st; auto)+

lemma add_step_inv:
  assumes "add_inv (page, out)"
  shows "add_inv (add_step (page, out) e)"
proof (cases e)
  case (AddSubmitEv payload)
  obtain page' sent where s: "onAddSubmit page payload = (page', sent)" by fastforce
  with submit_cases [OF s] assms AddSubmitEv show ?thesis
    by (auto simp: add_step_def add_inv_simps pending_of_def)
next
  case (AddRetryEv key)
  obtain page' sent where s: "onAddRetryMutation page key = (page', sent)" by fastforce
  with retry_cases [OF s] assms AddRetryEv show ?thesis
    by (auto simp: add_step_def add_inv_simps pending_of_def)
next
  case AddRetryResolveEv
  obtain page' sent where s: "onAddRetryResolve page = (page', sent)" by fastforce
  with retry_resolve_cases [OF s] assms AddRetryResolveEv show ?thesis
    by (auto simp: add_step_def add_inv_simps pending_of_def)
next
  case (AddCreatedEv ids)
  then show ?thesis using assms
    by (cases out)
      (auto simp: add_step_def add_inv_simps add_matches_out pending_of_def addMutationResolved_def addMutationSucceeded_def Let_def)
next
  case (AddRefusedEv error)
  then show ?thesis using assms
    by (cases out) (auto simp: add_step_def add_inv_simps add_matches_out addMutationRejected_def addFailed_def)
next
  case (AddDetailsEv outcomes)
  show ?thesis
  proof (cases out)
    case (DetailsOut run)
    obtain page' reconcile where d: "addDetailsSettled page run outcomes = (page', reconcile)" by fastforce
    have "fp_add page = AddResolving run" "fp_addInFlight page"
      using assms DetailsOut by (auto simp: add_inv_simps add_matches_out)
    from details_cases [OF d this] DetailsOut AddDetailsEv d show ?thesis
      by (auto simp: add_step_def add_inv_simps add_matches_out split: if_splits)
  qed (use assms AddDetailsEv in \<open>simp_all add: add_step_def\<close>)
next
  case (AddListEv cards)
  then show ?thesis using assms
    by (cases out)
      (auto simp: add_step_def add_inv_simps add_matches_out addReconciled_def owns_run_def settle_run_def
        resolveSettled_def apply_state_def split: option.split)
next
  case (AddListFailedEv message)
  then show ?thesis using assms
    by (cases out) (auto simp: add_step_def add_inv_simps add_matches_out addReconcileFailed_def resolveFailed_def)
next
  case (AddPageEv state order pins deletes)
  then show ?thesis using assms by (simp add: add_step_def add_inv_simps)
qed

lemma add_run_inv: "add_inv w \<Longrightarrow> add_inv (foldl add_step w es)"
proof (induction es arbitrary: w)
  case (Cons e es)
  then show ?case using add_step_inv [of "fst w" "snd w" e] by simp
qed simp

section \<open>Properties\<close>


definition demo_payload :: AddTipsPayload where
  "demo_payload = \<lparr>ap_kind = KindCasual, ap_topics = [''math''], ap_manualContent = [], ap_manualImageData = [],
     ap_idempotencyKey = ''k1''\<rparr>"




end
