(* ===== verification/Mutation_Hooks.thy ===== *)
theory Mutation_Hooks
  imports Flow_Page
begin

text \<open>
  \<open>components/flow/use-flow-pin-mutations.ts\<close>: the pin and delete handlers on the page. A launcher is
  the request it sends (the attempt) and the two handlers of its answer; a fresh idempotency key is
  an argument. The source recognises a stale answer by the unchanged state reference; a state that
  does change differs in value, too, since the entry of a saving card is removed or overwritten.
\<close>

section \<open>Pin\<close>

definition pinResolved :: "FlowPage \<Rightarrow> PinAttempt \<Rightarrow> FlowPage" where
  "pinResolved page attempt =
     (if \<not> fp_mounted page then page
      else case slotsStateOf (getState page) of
             None \<Rightarrow> page
           | Some slots \<Rightarrow>
               let (nextSlots, nextState) = applyPinSuccess slots (fp_pins page) attempt
               in if nextState = fp_pins page then page
                  else (produce_state page (\<lambda>state. Some (with_slots state nextSlots)))\<lparr>fp_pins := nextState\<rparr>)"

definition pinRejected :: "FlowPage \<Rightarrow> PinAttempt \<Rightarrow> Thrown \<Rightarrow> FlowPage" where
  "pinRejected page attempt error =
     (if \<not> fp_mounted page then page
      else case slotsStateOf (getState page) of
             None \<Rightarrow> page
           | Some slots \<Rightarrow>
               let (nextSlots, nextState) = applyPinFailure slots (fp_pins page) attempt (classifyReviewError error)
               in if nextState = fp_pins page then page
                  else (produce_state page (\<lambda>state. Some (with_slots state nextSlots)))\<lparr>fp_pins := nextState\<rparr>)"

definition beginPin :: "FlowPage \<Rightarrow> PinAttempt \<Rightarrow> FlowPage \<times> PinAttempt option" where
  "beginPin page attempt =
     (case slotsStateOf (getState page) of
        None \<Rightarrow> (page, None)
      | Some slots \<Rightarrow>
          (case startPin slots (fp_pins page) attempt of
             None \<Rightarrow> (page, None)
           | Some started \<Rightarrow> (page\<lparr>fp_pins := started\<rparr>, Some attempt)))"

definition onPinToggle :: "FlowPage \<Rightarrow> bigint \<Rightarrow> bool \<Rightarrow> jsstring \<Rightarrow> FlowPage \<times> PinAttempt option" where
  "onPinToggle page cardId targetPinned freshKey =
     (let previous = pinCardState (fp_pins page) cardId
      in beginPin page
           \<lparr>pa_cardId = cardId, pa_targetPinned = targetPinned, pa_idempotencyKey = freshKey,
            pa_generation = (if previous = PinIdle then 1 else pa_generation (pin_attempt previous) + 1)\<rparr>)"

definition onPinRetry :: "FlowPage \<Rightarrow> bigint \<Rightarrow> jsstring \<Rightarrow> FlowPage \<times> PinAttempt option" where
  "onPinRetry page cardId freshKey =
     (case pinRetryDecision (pinCardState (fp_pins page) cardId) of
        None \<Rightarrow> (page, None)
      | Some (PinReuseAttempt attempt) \<Rightarrow> beginPin page attempt
      | Some (PinNeedsNewKey decidedCard targetPinned generation) \<Rightarrow>
          beginPin page
            \<lparr>pa_cardId = decidedCard, pa_targetPinned = targetPinned, pa_idempotencyKey = freshKey,
             pa_generation = generation\<rparr>)"

section \<open>Delete\<close>

definition deleteResolved :: "FlowPage \<Rightarrow> DeleteAttempt \<Rightarrow> FlowPage" where
  "deleteResolved page attempt =
     (if \<not> fp_mounted page then page
      else case slotsStateOf (getState page) of
             None \<Rightarrow> page
           | Some slots \<Rightarrow>
               let committed = applyDeleteSuccess slots (fp_deletes page) attempt (fp_pinnedOrder page)
               in if dc_state committed = fp_deletes page then page
                  else produce_state
                         (applyPinnedOrder (page\<lparr>fp_deletes := dc_state committed\<rparr>) (dc_pinnedOrder committed))
                         (\<lambda>next. if slotsStateOf next = None then None
                                 else if dc_slots committed = [] then Some FlowEmpty
                                 else Some (with_slots next (dc_slots committed))))"

definition deleteRejected :: "FlowPage \<Rightarrow> DeleteAttempt \<Rightarrow> Thrown \<Rightarrow> FlowPage" where
  "deleteRejected page attempt error =
     (if \<not> fp_mounted page then page
      else case slotsStateOf (getState page) of
             None \<Rightarrow> page
           | Some slots \<Rightarrow>
               let committed = applyDeleteFailure slots (fp_deletes page) attempt (fp_pinnedOrder page)
                                 (classifyReviewError error)
               in if dc_state committed = fp_deletes page then page
                  else page\<lparr>fp_deletes := dc_state committed\<rparr>)"

definition beginDelete :: "FlowPage \<Rightarrow> DeleteAttempt \<Rightarrow> FlowPage \<times> DeleteAttempt option" where
  "beginDelete page attempt =
     (case slotsStateOf (getState page) of
        None \<Rightarrow> (page, None)
      | Some slots \<Rightarrow>
          (case startDelete slots (fp_deletes page) attempt of
             None \<Rightarrow> (page, None)
           | Some started \<Rightarrow> (page\<lparr>fp_deletes := started\<rparr>, Some attempt)))"

definition onDeleteConfirm :: "FlowPage \<Rightarrow> bigint \<Rightarrow> jsstring \<Rightarrow> FlowPage \<times> DeleteAttempt option" where
  "onDeleteConfirm page cardId freshKey =
     (let previous = deleteCardState (fp_deletes page) cardId
      in beginDelete page
           \<lparr>da_cardId = cardId, da_idempotencyKey = freshKey,
            da_generation = (if previous = DeleteIdle then 1 else da_generation (delete_attempt previous) + 1)\<rparr>)"

definition onDeleteRetry :: "FlowPage \<Rightarrow> bigint \<Rightarrow> jsstring \<Rightarrow> FlowPage \<times> DeleteAttempt option" where
  "onDeleteRetry page cardId freshKey =
     (case deleteRetryDecision (deleteCardState (fp_deletes page) cardId) of
        None \<Rightarrow> (page, None)
      | Some (DeleteReuseAttempt attempt) \<Rightarrow> beginDelete page attempt
      | Some (DeleteNeedsNewKey decidedCard generation) \<Rightarrow>
          beginDelete page
            \<lparr>da_cardId = decidedCard, da_idempotencyKey = freshKey, da_generation = generation\<rparr>)"

section \<open>Lemmas\<close>

lemma slotsStateOf_with_slots [simp]: "slotsStateOf st = Some slots \<Longrightarrow> slotsStateOf (with_slots st next) = Some next"
  by (cases st) auto

lemma begin_pin_cases:
  "beginPin page a = (page', sent) \<Longrightarrow>
   sent = None \<and> page' = page \<or>
   sent = Some a \<and> page' = page\<lparr>fp_pins := AList.update (pinKey (pa_cardId a)) (PinSaving a) (fp_pins page)\<rparr> \<and>
   (\<exists>slots. slotsStateOf (fp_ref page) = Some slots \<and> findLiveIdleSlotIndex slots (pa_cardId a) \<noteq> None)"
  by (auto simp: beginPin_def getState_def start_pin_some split: option.splits)

lemma live_idle_found:
  "distinct_cards slots \<Longrightarrow> i < length slots \<Longrightarrow> slots ! i = SlotIdle c \<Longrightarrow> findLiveIdleSlotIndex slots (fc_id c) \<noteq> None"
  by (simp add: find_live_idle)

lemma pin_cleared: "map_of st k = Some v \<Longrightarrow> AList.delete k st \<noteq> st"
  by (metis delete_conv' fun_upd_same option.distinct(1))

lemma pin_overwritten: "map_of st k = Some v \<Longrightarrow> v \<noteq> v' \<Longrightarrow> AList.update k v' st \<noteq> st"
  by (metis fun_upd_same option.inject update_conv')

lemma begin_pin_busy:
  "map_of (fp_pins page) (pinKey (pa_cardId a)) = Some (PinSaving b) \<Longrightarrow> beginPin page a = (page, None)"
  by (auto simp: beginPin_def startPin_def split: option.split)

lemma begin_pin_start:
  "slotsStateOf (fp_ref page) = Some slots \<Longrightarrow> findLiveIdleSlotIndex slots (pa_cardId a) = Some i \<Longrightarrow>
   (\<And>b. map_of (fp_pins page) (pinKey (pa_cardId a)) \<noteq> Some (PinSaving b)) \<Longrightarrow>
   beginPin page a = (page\<lparr>fp_pins := AList.update (pinKey (pa_cardId a)) (PinSaving a) (fp_pins page)\<rparr>, Some a)"
  by (simp add: beginPin_def getState_def
      start_pin_some [of slots "fp_pins page" a, THEN iffD2, OF conjI, OF _ conjI, OF _ _ refl])

lemma pin_resolved_current:
  "fp_mounted page \<Longrightarrow> slotsStateOf (fp_ref page) = Some slots \<Longrightarrow>
   map_of (fp_pins page) (pinKey (pa_cardId a)) = Some (PinSaving a) \<Longrightarrow>
   findLiveIdleSlotIndex slots (pa_cardId a) = Some i \<Longrightarrow>
   pinResolved page a = (apply_state page (with_slots (fp_ref page)
       (slots[i := setPinned (pa_targetPinned a) (slots ! i)])))
     \<lparr>fp_pins := AList.delete (pinKey (pa_cardId a)) (fp_pins page)\<rparr>"
  using pin_cleared [of "fp_pins page" "pinKey (pa_cardId a)"]
  by (simp add: pinResolved_def getState_def applyPinSuccess_def produce_state_def)

lemma pin_rejected_current:
  "fp_mounted page \<Longrightarrow> slotsStateOf (fp_ref page) = Some slots \<Longrightarrow>
   map_of (fp_pins page) (pinKey (pa_cardId a)) = Some (PinSaving a) \<Longrightarrow> f = classifyReviewError error \<Longrightarrow>
   pinRejected page a error = (apply_state page (with_slots (fp_ref page) slots))
     \<lparr>fp_pins := AList.update (pinKey (pa_cardId a))
        (PinError a (ff_mutationOutcomeIndeterminate f) (ff_message f)) (fp_pins page)\<rparr>"
  using pin_overwritten [of "fp_pins page" "pinKey (pa_cardId a)" "PinSaving a"]
  by (simp add: pinRejected_def getState_def applyPinFailure_def produce_state_def)

lemma pin_answer_stale:
  assumes "map_of (fp_pins page) (pinKey (pa_cardId a)) \<noteq> Some (PinSaving a)"
  shows "pinResolved page a = page" "pinRejected page a error = page"
  using assms by (auto simp: pinResolved_def pinRejected_def applyPinSuccess_def applyPinFailure_def split: option.split)

section \<open>Properties\<close>

text \<open>The life of a pin click: on a live idle card it sends one request and a second click sends none;
  the answer sets exactly the card's pin flag and frees the card; after a failure the retry sends
  the very same attempt when the outcome is indeterminate, and otherwise the same card and target
  under the new key and the next generation, so that a late answer to the first request no
  longer does anything.\<close>

theorem pin_click_life:
  assumes "fp_mounted page" and "slotsStateOf (fp_ref page) = Some slots" and "distinct_cards slots"
    and "i < length slots" and "slots ! i = SlotIdle c" and "fp_pins page = []"
    and "onPinToggle page (fc_id c) target key = (page1, sent)"
    and "pinRejected page1 a error = page2" and "onPinRetry page2 (fc_id c) key' = (page3, resent)"
    and "a = \<lparr>pa_cardId = fc_id c, pa_targetPinned = target, pa_idempotencyKey = key, pa_generation = 1\<rparr>"
  shows "sent = Some a \<and> snd (onPinToggle page1 (fc_id c) target' key'') = None \<and>
         slotsStateOf (fp_ref (pinResolved page1 a)) = Some (slots[i := SlotIdle (c\<lparr>fc_pinned := target\<rparr>)]) \<and>
         fp_pins (pinResolved page1 a) = [] \<and>
         (if ff_mutationOutcomeIndeterminate (classifyReviewError error) then resent = Some a
          else resent = Some (a\<lparr>pa_idempotencyKey := key', pa_generation := 2\<rparr>) \<and>
               pinResolved page3 a = page3 \<and> pinRejected page3 a error' = page3)"
proof -
  let ?a' = "a\<lparr>pa_idempotencyKey := key', pa_generation := 2\<rparr>"
  let ?f = "classifyReviewError error"
  let ?err = "PinError a (ff_mutationOutcomeIndeterminate ?f) (ff_message ?f)"
  have a: "pa_cardId a = fc_id c" "pa_targetPinned a = target" "pa_generation a = 1" using assms(10) by simp_all
  have idx: "findLiveIdleSlotIndex slots (fc_id c) = Some i" by (rule find_live_idle [OF assms(3-5)])
  have "onPinToggle page (fc_id c) target key = beginPin page a"
    using assms(6,10) by (simp add: onPinToggle_def pinCardState_def Let_def)
  also have "\<dots> = (page\<lparr>fp_pins := [(pinKey (fc_id c), PinSaving a)]\<rparr>, Some a)"
    using begin_pin_start [OF assms(2)] idx a assms(6) by simp
  finally have p1: "page1 = page\<lparr>fp_pins := [(pinKey (fc_id c), PinSaving a)]\<rparr>" "sent = Some a"
    using assms(7) by simp_all
  have again: "snd (onPinToggle page1 (fc_id c) target' key'') = None"
    unfolding onPinToggle_def Let_def by (subst begin_pin_busy) (simp_all add: p1)
  have ok: "slotsStateOf (fp_ref (pinResolved page1 a)) = Some (slots[i := SlotIdle (c\<lparr>fc_pinned := target\<rparr>)])"
      "fp_pins (pinResolved page1 a) = []"
    using pin_resolved_current [of page1 slots a i] assms(1,2,5) idx a
    by (simp_all add: p1 apply_state_def setPinned_def)
  have p2: "page2 = (apply_state page1 (with_slots (fp_ref page1) slots))\<lparr>fp_pins := [(pinKey (fc_id c), ?err)]\<rparr>"
    using pin_rejected_current [of page1 slots a ?f error] assms(1,2,8) a by (simp add: p1)
  have at2: "slotsStateOf (fp_ref page2) = Some slots" "fp_pins page2 = [(pinKey (fc_id c), ?err)]"
    using assms(2) by (simp_all add: p2 p1 apply_state_def)
  have retry: "onPinRetry page2 (fc_id c) key' =
      (if ff_mutationOutcomeIndeterminate ?f then beginPin page2 a else beginPin page2 ?a')"
    using a by (simp add: onPinRetry_def pinCardState_def at2 assms(10))
  have "beginPin page2 b = (page2\<lparr>fp_pins := [(pinKey (fc_id c), PinSaving b)]\<rparr>, Some b)" if "pa_cardId b = fc_id c" for b
    using begin_pin_start [OF at2(1), of b i] idx that at2(2) by simp
  then have resent: "if ff_mutationOutcomeIndeterminate ?f then resent = Some a
      else resent = Some ?a' \<and> page3 = page2\<lparr>fp_pins := [(pinKey (fc_id c), PinSaving ?a')]\<rparr>"
    using assms(9) retry a by (simp split: if_splits)
  have "?a' \<noteq> a" using a by (metis PinAttempt.select_convs(4) PinAttempt.surjective PinAttempt.update_convs(4) numeral_eq_one_iff semiring_norm(85))
  then have late: "pinResolved page3 a = page3 \<and> pinRejected page3 a error' = page3"
    if "page3 = page2\<lparr>fp_pins := [(pinKey (fc_id c), PinSaving ?a')]\<rparr>"
    using that a pin_answer_stale [of page3 a] by simp
  show ?thesis using p1(2) again ok resent late by (simp split: if_splits)
qed

definition demo_page :: FlowPage where
  "demo_page = initial_page (Some \<lparr>sv_savedAt = 0, sv_cards = [sample_card 7 ''math'' ''casual_tip'' False], sv_cursor = CursorEnd\<rparr>) None"

lemma demo_page_simps [simp]:
  "fp_mounted demo_page" "fp_ref demo_page = FlowReady [SlotIdle (sample_card 7 ''math'' ''casual_tip'' False)] CursorEnd True"
  "fp_pins demo_page = []"
  by (simp_all add: demo_page_def initial_page_def seedFromSnapshot_def slotsFromCards_def is_repeatable_card_def
      EMPTY_PIN_STATE_def Let_def)

theorem pin_click_life_witness:
  "let a = \<lparr>pa_cardId = 7, pa_targetPinned = True, pa_idempotencyKey = ''k1'', pa_generation = 1\<rparr>;
       failed = pinRejected (fst (onPinToggle demo_page 7 True ''k1'')) a (ThrownError ''offline'')
   in snd (onPinRetry failed 7 ''k2'') = Some a"
proof -
  let ?a = "\<lparr>pa_cardId = 7, pa_targetPinned = True, pa_idempotencyKey = ''k1'', pa_generation = 1\<rparr>"
  let ?c = "sample_card 7 ''math'' ''casual_tip'' False"
  obtain page1 sent where 1: "onPinToggle demo_page 7 True ''k1'' = (page1, sent)" by fastforce
  obtain page3 resent where 2: "onPinRetry (pinRejected page1 ?a (ThrownError ''offline'')) 7 ''k2'' = (page3, resent)"
    by fastforce
  have 1: "onPinToggle demo_page (fc_id ?c) True ''k1'' = (page1, sent)" using 1 by simp
  have 2: "onPinRetry (pinRejected page1 ?a (ThrownError ''offline'')) (fc_id ?c) ''k2'' = (page3, resent)" using 2 by simp
  have a: "?a = \<lparr>pa_cardId = fc_id ?c, pa_targetPinned = True, pa_idempotencyKey = ''k1'', pa_generation = 1\<rparr>" by simp
  have slots: "slotsStateOf (fp_ref demo_page) = Some [SlotIdle ?c]" "distinct_cards [SlotIdle ?c]"
    "0 < length [SlotIdle ?c]" "[SlotIdle ?c] ! 0 = SlotIdle ?c" by (simp_all add: distinct_cards_def)
  have "ff_mutationOutcomeIndeterminate (classifyReviewError (ThrownError ''offline''))" by (simp add: classifyReviewError_def)
  with pin_click_life [OF demo_page_simps(1) slots demo_page_simps(3) 1 refl 2 a]
  have "resent = Some ?a" by (simp only: if_True) 
  then show ?thesis using 1 2 by (simp add: Let_def)
qed

end
