(* ===== verification/Review_Hooks.thy ===== *)
theory Review_Hooks
  imports Mutation_Hooks
begin

text \<open>
  \<open>components/flow/use-flow-review-lifecycle.ts\<close> and the refill polling effect of \<open>Flow.tsx\<close>: the review
  and Continue handlers on the page. A launch is the request with the generation its answer must
  match; the answers are separate operations. The source recognises a refused transition by the
  unchanged slots array; a transition that happens changes the kind of a slot or its counter, so
  the lists differ in value, too.
\<close>

definition REFILL_POLL_DELAY_MS :: int where
  "REFILL_POLL_DELAY_MS = 2000"

definition REFILL_MAX_ATTEMPTS :: int where
  "REFILL_MAX_ATTEMPTS = 4"

text \<open>\<open>if (next === current.slots) return; apply({ ...current, slots: next })\<close>.\<close>

definition commit_slots :: "FlowPage \<Rightarrow> (ReviewSlot list \<Rightarrow> ReviewSlot list) \<Rightarrow> FlowPage" where
  "commit_slots page f =
     (case slotsStateOf (getState page) of
        None \<Rightarrow> page
      | Some slots \<Rightarrow>
          if f slots = slots then page
          else apply_state page (with_slots (getState page) (f slots)))"

section \<open>Review\<close>

record ReviewLaunch =
  rl_cardId :: bigint
  rl_attempt :: ReviewAttempt
  rl_generation :: int
  rl_swipe :: bool

definition launchReview :: "ReviewSlot list \<Rightarrow> bigint \<Rightarrow> ReviewAttempt \<Rightarrow> ReviewLaunch option" where
  "launchReview started cardId attempt =
     (case find (reviewing_card cardId) started of
        None \<Rightarrow> None
      | Some target \<Rightarrow>
          Some \<lparr>rl_cardId = cardId, rl_attempt = attempt, rl_generation = slot_generation target,
                rl_swipe = (fc_tipcardType (slot_card target) = ''repeatable_tip'')\<rparr>)"

text \<open>After the swipe delay of a repeatable card the request goes out only while still mounted.\<close>

definition reviewRequest :: "FlowPage \<Rightarrow> ReviewLaunch \<Rightarrow> ReviewLaunch option" where
  "reviewRequest page launch = (if rl_swipe launch \<and> \<not> fp_mounted page then None else Some launch)"

definition reviewResolved :: "FlowPage \<Rightarrow> ReviewLaunch \<Rightarrow> bigint \<Rightarrow> ReviewSuccessFields \<Rightarrow> FlowPage" where
  "reviewResolved page launch reviewedCardId outcome =
     (if \<not> fp_mounted page then page
      else commit_slots page (\<lambda>slots. reviewSuccess slots reviewedCardId (rl_generation launch) outcome))"

definition reviewRejected :: "FlowPage \<Rightarrow> ReviewLaunch \<Rightarrow> Thrown \<Rightarrow> FlowPage" where
  "reviewRejected page launch error =
     (if \<not> fp_mounted page then page
      else commit_slots page (\<lambda>slots. reviewFailure slots (rl_cardId launch) (rl_generation launch) (classifyReviewError error)))"

definition beginReview :: "FlowPage \<Rightarrow> ReviewSlot list \<Rightarrow> bigint \<Rightarrow> ReviewAttempt \<Rightarrow> FlowPage \<times> ReviewLaunch option" where
  "beginReview page slots cardId attempt =
     (let started = startReview slots cardId attempt
      in if started = slots then (page, None)
         else (apply_state page (with_slots (getState page) started), launchReview started cardId attempt))"

definition onReview :: "FlowPage \<Rightarrow> bigint \<Rightarrow> ReviewChoice \<Rightarrow> jsstring \<Rightarrow> FlowPage \<times> ReviewLaunch option" where
  "onReview page cardId chosen freshKey =
     (if \<not> pinIdle page cardId then (page, None)
      else case slotsStateOf (getState page) of
             None \<Rightarrow> (page, None)
           | Some slots \<Rightarrow>
               beginReview page slots cardId
                 \<lparr>ra_grade = rc_grade chosen, ra_action = rc_action chosen, ra_idempotencyKey = freshKey\<rparr>)"

definition onRetry :: "FlowPage \<Rightarrow> bigint \<Rightarrow> jsstring \<Rightarrow> FlowPage \<times> ReviewLaunch option" where
  "onRetry page cardId freshKey =
     (if \<not> pinIdle page cardId then (page, None)
      else case slotsStateOf (getState page) of
             None \<Rightarrow> (page, None)
           | Some slots \<Rightarrow>
               (case find (\<lambda>slot. is_SlotError slot \<and> fc_id (slot_card slot) = cardId) slots of
                  None \<Rightarrow> (page, None)
                | Some errored \<Rightarrow>
                    (case retryDecision errored of
                       Inl e \<Rightarrow> (page, None)
                     | Inr (ReuseAttempt attempt generation) \<Rightarrow> beginReview page slots cardId attempt
                     | Inr (NeedsNewKey grade action generation) \<Rightarrow>
                         beginReview page slots cardId
                           \<lparr>ra_grade = grade, ra_action = action, ra_idempotencyKey = freshKey\<rparr>)))"

section \<open>Continue\<close>

record ContinueLaunch =
  cl_reviewedCardId :: bigint
  cl_attempt :: ContinueAttempt
  cl_generation :: int

definition is_continuing :: "bigint \<Rightarrow> ReviewSlot \<Rightarrow> bool" where
  "is_continuing reviewedCardId s \<longleftrightarrow> is_SlotContinuing s \<and> ri_reviewedCardId (slot_reviewed s) = reviewedCardId"

definition launchContinue :: "ReviewSlot list \<Rightarrow> bigint \<Rightarrow> ContinueAttempt \<Rightarrow> ContinueLaunch option" where
  "launchContinue started reviewedCardId attempt =
     (case find (is_continuing reviewedCardId) started of
        None \<Rightarrow> None
      | Some target \<Rightarrow>
          Some \<lparr>cl_reviewedCardId = reviewedCardId, cl_attempt = attempt, cl_generation = slot_generation target\<rparr>)"

text \<open>Both calls succeeded: the mutation, and the read of the card it prepared.\<close>

definition continueResolved :: "FlowPage \<Rightarrow> ContinueLaunch \<Rightarrow> FlowCardInfo \<Rightarrow> int \<Rightarrow> FlowPage" where
  "continueResolved page launch detailCard pendingCount =
     (if \<not> fp_mounted page then page
      else commit_slots page (\<lambda>slots.
             continueSuccess slots (cl_reviewedCardId launch) (cl_generation launch) detailCard pendingCount))"

text \<open>A failure after the mutation returned is forced to be indeterminate.\<close>

definition continueRejected :: "FlowPage \<Rightarrow> ContinueLaunch \<Rightarrow> bool \<Rightarrow> Thrown \<Rightarrow> FlowPage" where
  "continueRejected page launch mutationReturned error =
     (if \<not> fp_mounted page then page
      else let classified = classifyReviewError error;
               failure = (if mutationReturned then classified\<lparr>ff_mutationOutcomeIndeterminate := True\<rparr> else classified)
           in commit_slots page (\<lambda>slots. continueFailure slots (cl_reviewedCardId launch) (cl_generation launch) failure))"

definition continue_attempt :: "ReviewSlot \<Rightarrow> jsstring \<Rightarrow> ContinueAttempt option" where
  "continue_attempt slot freshKey =
     (if is_SlotContinueError slot
      then (case continueRetryDecision slot of
              Inl e \<Rightarrow> None
            | Inr (ReuseContinueAttempt attempt generation) \<Rightarrow> Some attempt
            | Inr (ContinueNeedsNewKey topicName generation) \<Rightarrow>
                Some \<lparr>ca_topicName = topicName, ca_idempotencyKey = freshKey\<rparr>)
      else Some \<lparr>ca_topicName = ri_topicName (slot_reviewed slot), ca_idempotencyKey = freshKey\<rparr>)"

definition onContinue :: "int \<Rightarrow> FlowPage \<Rightarrow> bigint \<Rightarrow> jsstring \<Rightarrow> FlowPage \<times> ContinueLaunch option" where
  "onContinue now page reviewedCardId freshKey =
     (case slotsStateOf (getState page) of
        None \<Rightarrow> (page, None)
      | Some slots \<Rightarrow>
          (case find (continuable reviewedCardId) slots of
             None \<Rightarrow> (page, None)
           | Some slot \<Rightarrow>
               (case continue_attempt slot freshKey of
                  None \<Rightarrow> (page, None)
                | Some attempt \<Rightarrow>
                    let started = startContinue now slots reviewedCardId attempt
                    in if started = slots then (page, None)
                       else (apply_state page (with_slots (getState page) started),
                             launchContinue started reviewedCardId attempt))))"

section \<open>Refill polling\<close>

definition refill_candidate :: "ReviewSlot \<Rightarrow> FlowCardInfo list \<Rightarrow> FlowCardInfo option" where
  "refill_candidate slot cards =
     find (\<lambda>c. fc_topicName c = ri_topicName (slot_reviewed slot) \<and> fc_tipcardType c = ''repeatable_tip'' \<and>
               fc_status c = ''active'' \<and> fc_id c \<noteq> ri_reviewedCardId (slot_reviewed slot)) cards"

text \<open>The answer of one poll for the awaiting slot the timer was set for; \<open>None\<close> is a failed read.\<close>

definition refillPolled :: "FlowPage \<Rightarrow> ReviewSlot \<Rightarrow> bool \<Rightarrow> FlowCardInfo list option \<Rightarrow> FlowPage" where
  "refillPolled page slot cancelled answer =
     (if cancelled \<or> \<not> fp_mounted page then page
      else let reviewedCardId = ri_reviewedCardId (slot_reviewed slot); token = slot_refillToken slot
           in case answer of
                None \<Rightarrow> commit_slots page (\<lambda>slots. refillPollMiss slots reviewedCardId token REFILL_MAX_ATTEMPTS)
              | Some cards \<Rightarrow>
                  (case slotsStateOf (getState page) of
                     None \<Rightarrow> page
                   | Some slots \<Rightarrow>
                       if find (awaiting reviewedCardId token) slots = None then page
                       else commit_slots page (\<lambda>slots.
                              case refill_candidate slot cards of
                                Some candidate \<Rightarrow> refillPollFound slots reviewedCardId token candidate
                              | None \<Rightarrow> refillPollMiss slots reviewedCardId token REFILL_MAX_ATTEMPTS)))"

end
