(* ===== verification/Read_Cache.thy ===== *)
theory Read_Cache
  imports Prelude
begin

text \<open>
  \<open>lib/api-v1/cache.ts\<close>: the read-through TTL cache. The module-level map is \<open>rc_cache\<close>; a
  promise is its number; \<open>rc_flights\<close> holds, for each producer still running, the key and
  \<open>ttlMs\<close> its \<open>then\<close> handlers close over. A read, the settlement of a producer and an
  invalidation are the events; \<open>now\<close> is \<open>Date.now()\<close> at the event.
\<close>

datatype 'v CachedValue = CachePending nat | CacheDone 'v

record 'v CacheEntry =
  ce_cached :: "'v CachedValue"
  ce_expiresAt :: int

record 'v CacheState =
  rc_cache :: "jsstring \<rightharpoonup> 'v CacheEntry"
  rc_flights :: "nat \<rightharpoonup> jsstring \<times> int"
  rc_next :: nat

datatype 'v ReadResult = ReadValue 'v | ReadJoined nat | ReadLaunched nat

definition READ_CACHE_DEFAULT_TTL_MS :: int where
  "READ_CACHE_DEFAULT_TTL_MS = 30000"

definition MAX_SAFE_INTEGER :: int where
  "MAX_SAFE_INTEGER = 9007199254740991"

definition empty_cache :: "'v CacheState" where
  "empty_cache = \<lparr>rc_cache = Map.empty, rc_flights = Map.empty, rc_next = 0\<rparr>"

text \<open>\<open>params\<close> are already converted to text, as \<open>join\<close> converts them.\<close>

definition readCacheKey :: "jsstring \<Rightarrow> jsstring list \<Rightarrow> jsstring" where
  "readCacheKey op params = js_join '':'' (op # params)"

definition withReadCache ::
    "'v CacheState \<Rightarrow> jsstring \<Rightarrow> int \<Rightarrow> int \<Rightarrow> 'v ReadResult \<times> 'v CacheState" where
  "withReadCache st key ttlMs now =
     (let launch =
        (ReadLaunched (rc_next st),
         st\<lparr>rc_cache := (rc_cache st)(key \<mapsto> \<lparr>ce_cached = CachePending (rc_next st), ce_expiresAt = MAX_SAFE_INTEGER\<rparr>),
            rc_flights := (rc_flights st)(rc_next st \<mapsto> (key, ttlMs)),
            rc_next := rc_next st + 1\<rparr>)
      in case rc_cache st key of
           Some hit \<Rightarrow>
             if ce_expiresAt hit > now
             then (case ce_cached hit of CacheDone v \<Rightarrow> (ReadValue v, st) | CachePending p \<Rightarrow> (ReadJoined p, st))
             else launch
         | None \<Rightarrow> launch)"

text \<open>The two handlers passed to \<open>producer().then\<close>, run when promise \<open>p\<close> settles at \<open>now\<close>.\<close>

definition producerSettled :: "'v CacheState \<Rightarrow> nat \<Rightarrow> 'v \<Rightarrow> int \<Rightarrow> 'v CacheState" where
  "producerSettled st p v now =
     (case rc_flights st p of
        None \<Rightarrow> st
      | Some (key, ttlMs) \<Rightarrow>
          st\<lparr>rc_cache := (rc_cache st)(key \<mapsto> \<lparr>ce_cached = CacheDone v, ce_expiresAt = now + ttlMs\<rparr>),
             rc_flights := (rc_flights st)(p := None)\<rparr>)"

definition producerFailed :: "'v CacheState \<Rightarrow> nat \<Rightarrow> 'v CacheState" where
  "producerFailed st p =
     (case rc_flights st p of
        None \<Rightarrow> st
      | Some (key, ttlMs) \<Rightarrow>
          let st' = st\<lparr>rc_flights := (rc_flights st)(p := None)\<rparr>
          in (case rc_cache st key of
                Some current \<Rightarrow>
                  (case ce_cached current of
                     CachePending q \<Rightarrow> if q = p then st'\<lparr>rc_cache := (rc_cache st)(key := None)\<rparr> else st'
                   | CacheDone v \<Rightarrow> st')
              | None \<Rightarrow> st'))"

definition invalidateReadCache :: "'v CacheState \<Rightarrow> jsstring option \<Rightarrow> 'v CacheState" where
  "invalidateReadCache st prefix =
     (case prefix of
        None \<Rightarrow> st\<lparr>rc_cache := Map.empty\<rparr>
      | Some pre \<Rightarrow> st\<lparr>rc_cache := (\<lambda>key. if js_starts_with pre key then None else rc_cache st key)\<rparr>)"

section \<open>Runs\<close>

datatype 'v CacheEvent =
    EvRead jsstring int int
  | EvSettled nat 'v int
  | EvFailed nat
  | EvInvalidate "jsstring option"

fun cache_apply :: "'v CacheState \<Rightarrow> 'v CacheEvent \<Rightarrow> 'v CacheState" where
  "cache_apply st (EvRead key ttl now) = snd (withReadCache st key ttl now)"
| "cache_apply st (EvSettled p v now) = producerSettled st p v now"
| "cache_apply st (EvFailed p) = producerFailed st p"
| "cache_apply st (EvInvalidate prefix) = invalidateReadCache st prefix"

text \<open>
  Every pending entry is backed by a running producer for the same key, never expires on
  its own, and promise numbers are not reused.
\<close>

definition cache_inv :: "'v CacheState \<Rightarrow> bool" where
  "cache_inv st \<longleftrightarrow>
     (\<forall>key e p. rc_cache st key = Some e \<longrightarrow> ce_cached e = CachePending p \<longrightarrow>
        ce_expiresAt e = MAX_SAFE_INTEGER \<and> (\<exists>ttl. rc_flights st p = Some (key, ttl))) \<and>
     (\<forall>p f. rc_flights st p = Some f \<longrightarrow> p < rc_next st)"

lemma cache_invD:
  "cache_inv st \<Longrightarrow> rc_cache st key = Some e \<Longrightarrow> ce_cached e = CachePending p \<Longrightarrow>
     ce_expiresAt e = MAX_SAFE_INTEGER \<and> (\<exists>ttl. rc_flights st p = Some (key, ttl))"
  "cache_inv st \<Longrightarrow> rc_flights st p = Some f \<Longrightarrow> p < rc_next st"
  by (auto simp: cache_inv_def)

lemma cache_invI:
  assumes "\<And>key e p. rc_cache st key = Some e \<Longrightarrow> ce_cached e = CachePending p \<Longrightarrow>
     ce_expiresAt e = MAX_SAFE_INTEGER \<and> (\<exists>ttl. rc_flights st p = Some (key, ttl))"
    and "\<And>p f. rc_flights st p = Some f \<Longrightarrow> p < rc_next st"
  shows "cache_inv st"
  using assms by (auto simp: cache_inv_def)

lemma cache_inv_empty: "cache_inv empty_cache"
  by (simp add: cache_inv_def empty_cache_def)

lemma pending_not_next:
  "cache_inv st \<Longrightarrow> rc_cache st key = Some e \<Longrightarrow> ce_cached e = CachePending p \<Longrightarrow> p \<noteq> rc_next st"
  using cache_invD by fastforce

lemma cache_inv_launch:
  assumes inv: "cache_inv st"
  shows "cache_inv (st\<lparr>rc_cache := (rc_cache st)(key \<mapsto> \<lparr>ce_cached = CachePending (rc_next st), ce_expiresAt = MAX_SAFE_INTEGER\<rparr>),
            rc_flights := (rc_flights st)(rc_next st \<mapsto> (key, ttlMs)), rc_next := rc_next st + 1\<rparr>)"
proof (rule cache_invI, goal_cases)
  case (1 k e p)
  then show ?case
    using cache_invD(1) [OF inv, of k e p] pending_not_next [OF inv, of k e p] by (auto split: if_splits)
next
  case (2 p f)
  then show ?case using cache_invD(2) [OF inv, of p f] by (auto split: if_splits)
qed

lemma withReadCache_state:
  "snd (withReadCache st key ttlMs now) = st \<or>
   snd (withReadCache st key ttlMs now) =
     st\<lparr>rc_cache := (rc_cache st)(key \<mapsto> \<lparr>ce_cached = CachePending (rc_next st), ce_expiresAt = MAX_SAFE_INTEGER\<rparr>),
        rc_flights := (rc_flights st)(rc_next st \<mapsto> (key, ttlMs)), rc_next := rc_next st + 1\<rparr>"
  by (simp add: withReadCache_def Let_def split: option.splits CachedValue.splits)

lemma cache_inv_read: "cache_inv st \<Longrightarrow> cache_inv (snd (withReadCache st key ttl now))"
  using withReadCache_state [of st key ttl now] cache_inv_launch [of st key ttl] by metis

lemma cache_inv_settled:
  assumes inv: "cache_inv st"
  shows "cache_inv (producerSettled st p v now)"
proof (cases "rc_flights st p")
  case None
  with inv show ?thesis by (simp add: producerSettled_def)
next
  case (Some f)
  obtain key ttl where f: "f = (key, ttl)" by fastforce
  show ?thesis
  proof (rule cache_invI, goal_cases)
    case (1 k e q)
    then show ?case using cache_invD(1) [OF inv, of k e q] Some f
      by (cases "k = key") (auto simp: producerSettled_def)
  next
    case (2 q g)
    then show ?case using cache_invD(2) [OF inv, of q g] Some f
      by (cases "q = p") (auto simp: producerSettled_def)
  qed
qed

lemma cache_inv_failed:
  assumes inv: "cache_inv st"
  shows "cache_inv (producerFailed st p)"
proof (cases "rc_flights st p")
  case None
  with inv show ?thesis by (simp add: producerFailed_def)
next
  case (Some f)
  obtain key ttl where f: "f = (key, ttl)" by fastforce
  show ?thesis
  proof (rule cache_invI, goal_cases)
    case (1 k e q)
    then show ?case using cache_invD(1) [OF inv, of k e q] Some f
      by (cases "q = p")
        (auto simp: producerFailed_def Let_def split: option.splits CachedValue.splits if_splits)
  next
    case (2 q g)
    then show ?case using cache_invD(2) [OF inv, of q g] Some f
      by (cases "q = p")
        (auto simp: producerFailed_def Let_def split: option.splits CachedValue.splits if_splits)
  qed
qed

lemma cache_inv_invalidate: "cache_inv st \<Longrightarrow> cache_inv (invalidateReadCache st prefix)"
  by (auto simp: cache_inv_def invalidateReadCache_def split: option.splits if_splits)

lemma cache_inv_apply: "cache_inv st \<Longrightarrow> cache_inv (cache_apply st e)"
  by (cases e) (simp_all add: cache_inv_read cache_inv_settled cache_inv_failed cache_inv_invalidate)

lemma cache_inv_run: "cache_inv st \<Longrightarrow> cache_inv (foldl cache_apply st es)"
  by (induction es arbitrary: st) (simp_all add: cache_inv_apply)

lemma read_pending:
  "cache_inv st \<Longrightarrow> rc_cache st key = Some e \<Longrightarrow> ce_cached e = CachePending p \<Longrightarrow> now < MAX_SAFE_INTEGER \<Longrightarrow>
   withReadCache st key ttl now = (ReadJoined p, st)"
  using cache_invD(1) by (fastforce simp: withReadCache_def Let_def)

section \<open>Properties\<close>

text \<open>Reads share one producer: in any state the cache can reach, a read that launched a producer
  makes every later read of the key, up to the settlement, join that promise and launch nothing;
  once it settles, reads are served its value for exactly \<open>ttl\<close> milliseconds and the next one
  launches again.\<close>

theorem reads_share_producer:
  assumes "withReadCache (foldl cache_apply empty_cache es) key ttl now = (ReadLaunched p, st)"
    and "now' < MAX_SAFE_INTEGER"
  shows "withReadCache st key ttl' now' = (ReadJoined p, st) \<and>
         (let done = producerSettled st p v settled
          in fst (withReadCache done key ttl' later) =
               (if later < settled + ttl then ReadValue v else ReadLaunched (rc_next done)))"
proof -
  let ?s = "foldl cache_apply empty_cache es"
  have p: "p = rc_next ?s"
    and st: "st = ?s\<lparr>rc_cache := (rc_cache ?s)(key \<mapsto> \<lparr>ce_cached = CachePending p, ce_expiresAt = MAX_SAFE_INTEGER\<rparr>),
        rc_flights := (rc_flights ?s)(p \<mapsto> (key, ttl)), rc_next := p + 1\<rparr>"
    using assms(1) by (auto simp: withReadCache_def Let_def split: option.splits if_splits CachedValue.splits)
  have "cache_inv st" unfolding st p by (rule cache_inv_launch) (rule cache_inv_run [OF cache_inv_empty])
  then have "withReadCache st key ttl' now' = (ReadJoined p, st)"
    by (rule read_pending) (use st assms(2) in auto)
  moreover have "rc_flights st p = Some (key, ttl)" by (simp add: st)
  ultimately show ?thesis by (simp add: producerSettled_def withReadCache_def Let_def)
qed

theorem reads_share_producer_witness:
  "withReadCache (snd (withReadCache (empty_cache :: nat CacheState) ''op:1'' 100 5)) ''op:1'' 100 6 =
     (ReadJoined 0, snd (withReadCache (empty_cache :: nat CacheState) ''op:1'' 100 5))"
proof -
  have "withReadCache (foldl cache_apply (empty_cache :: nat CacheState) []) ''op:1'' 100 5 =
      (ReadLaunched 0, snd (withReadCache (empty_cache :: nat CacheState) ''op:1'' 100 5))"
    by (simp add: withReadCache_def empty_cache_def)
  from reads_share_producer [OF this, of 6] show ?thesis by (simp add: MAX_SAFE_INTEGER_def)
qed

text \<open>A failed producer never surfaces stale data: it evicts exactly its own pending entry; a newer
  entry under the key, pending or settled, and every other key are untouched.\<close>

theorem failed_producer_evicts_own_entry:
  "rc_cache (producerFailed st p) =
     (\<lambda>k. if (\<exists>ttl. rc_flights st p = Some (k, ttl)) \<and>
             (\<exists>e. rc_cache st k = Some e \<and> ce_cached e = CachePending p)
          then None else rc_cache st k)"
  by (auto simp: producerFailed_def Let_def fun_eq_iff split: option.splits CachedValue.splits prod.splits)

text \<open>C15: an invalidation does not reach a read in flight: a read launched before the cache is cleared
  still stores its value when it settles, and the reads that follow are served that value, read
  before the mutation that cleared the cache, until its time to live is over.\<close>

theorem invalidated_read_resurrects:
  assumes "withReadCache st key ttl now = (ReadLaunched p, st')" and "later < settled + ttl"
  shows "let cleared = invalidateReadCache st' None
         in rc_cache cleared key = None \<and>
            fst (withReadCache (producerSettled cleared p v settled) key ttl' later) = ReadValue v"
proof -
  have "rc_flights st' p = Some (key, ttl)"
    using assms(1) by (auto simp: withReadCache_def Let_def split: option.splits if_splits CachedValue.splits)
  with assms(2) show ?thesis
    by (simp add: invalidateReadCache_def producerSettled_def withReadCache_def Let_def)
qed

theorem invalidated_read_resurrects_witness:
  "fst (withReadCache (producerSettled (invalidateReadCache (snd (withReadCache empty_cache ''listFlowCards'' 30000 0)) None)
     0 (7::nat) 50) ''listFlowCards'' 30000 60) = ReadValue 7"
proof -
  have "withReadCache (empty_cache :: nat CacheState) ''listFlowCards'' 30000 0 =
      (ReadLaunched 0, snd (withReadCache (empty_cache :: nat CacheState) ''listFlowCards'' 30000 0))"
    by (simp add: withReadCache_def empty_cache_def)
  from invalidated_read_resurrects [OF this, of 60 50 7 30000] show ?thesis by (simp add: Let_def)
qed

end
