(* ===== verification/Flow_Machine.thy ===== *)
theory Flow_Machine
  imports Add_Hook Review_Hooks Review_Refill Read_Cache
begin

text \<open>
  The Flow page as one machine: \<open>page_step\<close> has a rule per handler and per answer, so a run interleaves
  reviews, Continue, refill polls, pins, deletes, adds, drags and loads in any order. The invariant
  is that of the slot list, and what is known of the ref.
\<close>

abbreviation page_slots_inv :: "FlowPage \<Rightarrow> bool" where
  "page_slots_inv page \<equiv> (\<forall>slots. slotsStateOf (fp_ref page) = Some slots \<longrightarrow> slots_inv slots)"

text \<open>The server's promise on the card of an answer, when slots are shown.\<close>

definition fresh_on :: "FlowPage \<Rightarrow> ReviewEvent \<Rightarrow> bool" where
  "fresh_on page e \<longleftrightarrow> (\<forall>slots. slotsStateOf (fp_ref page) = Some slots \<longrightarrow> fresh_event slots e)"

inductive page_step :: "FlowPage \<Rightarrow> FlowPage \<Rightarrow> bool" where
  pin_toggle: "page_step page (fst (onPinToggle page k target key))"
| pin_retry: "page_step page (fst (onPinRetry page k key))"
| pin_ok: "page_step page (pinResolved page pa)"
| pin_failed: "page_step page (pinRejected page pa error)"
| delete_confirm: "page_step page (fst (onDeleteConfirm page k key))"
| delete_retry: "page_step page (fst (onDeleteRetry page k key))"
| delete_ok: "page_step page (deleteResolved page da)"
| delete_failed: "page_step page (deleteRejected page da error)"
| review: "page_step page (fst (onReview page k chosen key))"
| review_retry: "page_step page (fst (onRetry page k key))"
| review_ok: "fresh_on page (EvSuccess k (rl_generation launch) r) \<Longrightarrow> page_step page (reviewResolved page launch k r)"
| review_failed: "page_step page (reviewRejected page launch error)"
| continue: "page_step page (fst (onContinue now page k key))"
| continue_ok: "fresh_on page (EvContinueSuccess (cl_reviewedCardId cl) (cl_generation cl) c n) \<Longrightarrow>
    page_step page (continueResolved page cl c n)"
| continue_failed: "page_step page (continueRejected page cl returned error)"
| refill: "(\<And>cards c. answer = Some cards \<Longrightarrow> refill_candidate slot cards = Some c \<Longrightarrow>
      fresh_on page (EvRefillFound (ri_reviewedCardId (slot_reviewed slot)) (slot_refillToken slot) c)) \<Longrightarrow>
    page_step page (refillPolled page slot cancelled answer)"
| add: "page_step page (fst (add_step (page, out) e))" if "\<nexists>state order pins deletes. e = AddPageEv state order pins deletes"
| load: "page_step page (fst (loadInitial page))"
| load_ok: "page_step page (loadInitialResolved now page g fetched)"
| load_failed: "page_step page (loadInitialRejected page g message)"
| more: "page_step page (fst (loadMore page))"
| more_retry: "page_step page (fst (loadMoreRetry page))"
| more_ok: "page_step page (loadMoreResolved now page g tok fetched)"
| more_failed: "page_step page (loadMoreRejected page g tok message)"
| drop: "page_step page (fst (onPinnedDrop page source target_id))"
| reconcile: "page_step page (reconcilePinnedOrder page)"
| unmount: "page_step page (page\<lparr>fp_mounted := False\<rparr>)"

inductive page_reachable :: "FlowPage \<Rightarrow> bool" where
  initial: "page_reachable (initial_page saved order)"
| step: "page_reachable page \<Longrightarrow> page_step page page' \<Longrightarrow> page_reachable page'"

section \<open>What a commit does to the ref\<close>

text \<open>
  \<open>ref_step\<close>: the ref keeps its state, or its slots are replaced by well-formed ones, or it becomes
  a ready, empty or error state; in no case does it enter one of the two pagination states.
\<close>

definition paginating :: "FlowState \<Rightarrow> bool" where
  "paginating st \<longleftrightarrow> is_FlowLoadingMore st \<or> is_FlowLoadError st"

definition state_inv :: "FlowState \<Rightarrow> bool" where
  "state_inv st \<longleftrightarrow> \<not> paginating st \<and> (\<forall>slots. slotsStateOf st = Some slots \<longrightarrow> slots_inv slots)"

lemma state_inv_simps [simp]:
  "state_inv FlowInitialLoading" "state_inv FlowEmpty" "state_inv (FlowError m)"
  "state_inv (FlowReady slots cursor b) \<longleftrightarrow> slots_inv slots"
  "\<not> state_inv (FlowLoadingMore slots tok)" "\<not> state_inv (FlowLoadError slots tok m)"
  by (auto simp: state_inv_def paginating_def)

lemma state_inv_with_slots: "state_inv st \<Longrightarrow> slots_inv next \<Longrightarrow> state_inv (with_slots st next)"
  by (cases st) auto

lemma state_inv_slots: "state_inv st \<Longrightarrow> slotsStateOf st = Some slots \<Longrightarrow> slots_inv slots"
  by (simp add: state_inv_def)

lemma ref_apply [simp]: "fp_ref (apply_state page st) = st"
  by (simp add: apply_state_def)

lemma ref_order [simp]: "fp_ref (applyPinnedOrder page order) = fp_ref page"
  by (simp add: applyPinnedOrder_def)

lemma ref_snapshot [simp]: "fp_ref (saveReadySnapshot now page slots cursor) = fp_ref page"
  by (simp add: saveReadySnapshot_def Let_def)

lemma commit_slots_inv:
  assumes "state_inv (fp_ref page)"
    and "\<And>slots. slotsStateOf (fp_ref page) = Some slots \<Longrightarrow> slots_inv slots \<Longrightarrow> slots_inv (f slots)"
  shows "state_inv (fp_ref (commit_slots page f))"
  using assms state_inv_slots [OF assms(1)]
  by (auto simp: commit_slots_def getState_def intro: state_inv_with_slots split: option.split)

lemma review_commit_inv:
  assumes "state_inv (fp_ref page)" and "fresh_on page e"
  shows "state_inv (fp_ref (commit_slots page (\<lambda>slots. review_apply slots e)))"
  using assms by (intro commit_slots_inv) (auto simp: fresh_on_def intro: slots_inv_apply)

text \<open>An event that delivers no card is always fresh.\<close>

lemma fresh_on_plain: "delivered e = None \<Longrightarrow> fresh_on page e"
  by (simp add: fresh_on_def fresh_event_def)

lemmas review_commits = review_commit_inv [where e = "EvStart _ _", simplified]
  review_commit_inv [where e = "EvSuccess _ _ _", simplified] review_commit_inv [where e = "EvFailure _ _ _", simplified]
  review_commit_inv [where e = "EvRefillFound _ _ _", simplified] review_commit_inv [where e = "EvRefillMiss _ _ _", simplified]
  review_commit_inv [where e = "EvStartContinue _ _ _", simplified] review_commit_inv [where e = "EvContinueSuccess _ _ _ _", simplified]
  review_commit_inv [where e = "EvContinueFailure _ _ _", simplified]

section \<open>Handler by handler\<close>

lemma start_review_inv: "slots_inv slots \<Longrightarrow> slots_inv (startReview slots k a)"
  using slots_inv_apply [of slots "EvStart k a"] by (simp add: fresh_event_def)

lemma start_continue_inv: "slots_inv slots \<Longrightarrow> slots_inv (startContinue now slots k a)"
  using slots_inv_apply [of slots "EvStartContinue now k a"] by (simp add: fresh_event_def)

lemma begin_review_inv:
  "state_inv (fp_ref page) \<Longrightarrow> slotsStateOf (fp_ref page) = Some slots \<Longrightarrow>
   state_inv (fp_ref (fst (beginReview page slots k a)))"
  by (auto simp: beginReview_def Let_def getState_def intro: state_inv_with_slots start_review_inv state_inv_slots)

lemma on_review_inv: "state_inv (fp_ref page) \<Longrightarrow> state_inv (fp_ref (fst (onReview page k chosen key)))"
  by (auto simp: onReview_def getState_def intro: begin_review_inv split: option.split)

lemma on_retry_inv: "state_inv (fp_ref page) \<Longrightarrow> state_inv (fp_ref (fst (onRetry page k key)))"
  by (auto simp: onRetry_def getState_def intro: begin_review_inv split: option.split sum.split RetryDecision.split)

lemma on_continue_inv: "state_inv (fp_ref page) \<Longrightarrow> state_inv (fp_ref (fst (onContinue now page k key)))"
  by (auto simp: onContinue_def getState_def Let_def split: option.split
      intro: state_inv_with_slots start_continue_inv state_inv_slots)

lemma set_pinned_ok: "slot_ok s \<Longrightarrow> slot_ok (setPinned b s)"
  by (cases s) (auto simp: setPinned_def)

lemma pin_success_inv: "slots_inv slots \<Longrightarrow> slots_inv (fst (applyPinSuccess slots st a))"
proof -
  assume inv: "slots_inv slots"
  have "slot_ok s" if "s \<in> set (slots[i := setPinned b (slots ! i)])" for s i b
  proof (cases "i < length slots")
    case True
    then have "slot_ok (setPinned b (slots ! i))" using inv by (intro set_pinned_ok) (simp add: slots_inv_def)
    with that inv set_update_subset_insert [of slots i "setPinned b (slots ! i)"] show ?thesis
      by (auto simp: slots_inv_def)
  qed (use that inv in \<open>simp add: slots_inv_def list_update_beyond\<close>)
  then show ?thesis
    using inv pin_success_distinct [of slots st a]
    by (auto simp: slots_inv_def applyPinSuccess_def split: option.split)
qed

lemma pin_failure_slots [simp]: "fst (applyPinFailure slots st a f) = slots"
  by (simp add: applyPinFailure_def)

lemma pin_resolved_inv: "state_inv (fp_ref page) \<Longrightarrow> state_inv (fp_ref (pinResolved page a))"
proof -
  assume inv: "state_inv (fp_ref page)"
  have "state_inv (with_slots (fp_ref page) (fst (applyPinSuccess slots (fp_pins page) a)))"
    if "slotsStateOf (fp_ref page) = Some slots" for slots
    using inv that by (intro state_inv_with_slots pin_success_inv) (auto intro: state_inv_slots)
  with inv show ?thesis
    by (auto simp: pinResolved_def getState_def produce_state_def case_prod_beta' Let_def split: option.split)
qed

lemma pin_rejected_inv: "state_inv (fp_ref page) \<Longrightarrow> state_inv (fp_ref (pinRejected page a error))"
  by (auto simp: pinRejected_def getState_def produce_state_def case_prod_beta' Let_def
      intro: state_inv_with_slots state_inv_slots split: option.split)

lemma begin_pin_ref [simp]: "fp_ref (fst (beginPin page a)) = fp_ref page"
  by (simp add: beginPin_def split: option.split)

lemma begin_delete_ref [simp]: "fp_ref (fst (beginDelete page a)) = fp_ref page"
  by (simp add: beginDelete_def split: option.split)

lemma click_refs [simp]:
  "fp_ref (fst (onPinToggle page k target key)) = fp_ref page"
  "fp_ref (fst (onPinRetry page k key)) = fp_ref page"
  "fp_ref (fst (onDeleteConfirm page k key)) = fp_ref page"
  "fp_ref (fst (onDeleteRetry page k key)) = fp_ref page"
  by (simp_all add: onPinToggle_def onPinRetry_def onDeleteConfirm_def onDeleteRetry_def Let_def
      split: option.split PinRetryDecision.split DeleteRetryDecision.split)

lemma remove_nth_inv: "slots_inv slots \<Longrightarrow> slots_inv (remove_nth i slots)"
proof -
  assume inv: "slots_inv slots"
  have "map slotCardId (remove_nth i slots) = remove_nth i (map slotCardId slots)"
    by (simp add: remove_nth_def take_map drop_map)
  moreover have "distinct (remove_nth i xs)" if "distinct xs" for xs :: "bigint list"
    using that set_take_disj_set_drop_if_distinct [of xs i "Suc i"] by (simp add: remove_nth_def)
  moreover have "set (remove_nth i slots) \<subseteq> set slots"
    by (auto simp: remove_nth_def dest: in_set_takeD in_set_dropD)
  ultimately show ?thesis using inv by (auto simp: slots_inv_def distinct_cards_def)
qed

lemma delete_slots_inv: "slots_inv slots \<Longrightarrow> slots_inv (dc_slots (applyDeleteSuccess slots st a order))"
  by (simp add: applyDeleteSuccess_def remove_nth_inv split: option.split)

lemma delete_resolved_inv: "state_inv (fp_ref page) \<Longrightarrow> state_inv (fp_ref (deleteResolved page a))"
proof -
  assume inv: "state_inv (fp_ref page)"
  have "state_inv (with_slots (fp_ref page) (dc_slots (applyDeleteSuccess slots (fp_deletes page) a (fp_pinnedOrder page))))"
    if "slotsStateOf (fp_ref page) = Some slots" for slots
    using inv that by (intro state_inv_with_slots delete_slots_inv) (auto intro: state_inv_slots)
  with inv show ?thesis
    by (auto simp: deleteResolved_def getState_def produce_state_def applyPinnedOrder_def Let_def split: option.split)
qed

lemma delete_rejected_ref [simp]: "fp_ref (deleteRejected page a error) = fp_ref page"
  by (simp add: deleteRejected_def Let_def split: option.split)

lemma refill_polled_inv:
  assumes "state_inv (fp_ref page)"
    and "\<And>cards c. answer = Some cards \<Longrightarrow> refill_candidate slot cards = Some c \<Longrightarrow>
      fresh_on page (EvRefillFound (ri_reviewedCardId (slot_reviewed slot)) (slot_refillToken slot) c)"
  shows "state_inv (fp_ref (refillPolled page slot cancelled answer))"
proof (cases "case answer of None \<Rightarrow> None | Some cards \<Rightarrow> refill_candidate slot cards")
  case None
  then show ?thesis
    using assms(1) review_commits(5) [of page] fresh_on_plain [of "EvRefillMiss _ _ _" page]
    by (auto simp: refillPolled_def Let_def getState_def split: option.splits)
next
  case (Some c)
  then show ?thesis
    using assms review_commits(4) [of page]
    by (auto simp: refillPolled_def Let_def getState_def split: option.splits)
qed

lemma integrated_inv: "slots_inv slots \<Longrightarrow> slots_inv (ai_slots (integrateCreatedCards slots cards order busy))"
  using integrate_fold [of "set busy" "\<lparr>il_next = slots, il_seenIds = {}, il_seenTopics = {}, il_transfers = [],
                 il_deferred = [], il_needs = False\<rparr>" order cards]
  by (simp add: integrateCreatedCards_def Let_def)

lemma slots_inv_Nil [simp]: "slots_inv []"
  by (simp add: slots_inv_def distinct_cards_def)

lemma commit_cards_inv: "state_inv (fp_ref page) \<Longrightarrow> state_inv (fp_ref (fst (commitIntegratedCards page run cards)))"
  using state_inv_slots [of "fp_ref page"]
  by (auto simp: commitIntegratedCards_def getState_def Let_def split: option.split
      intro!: state_inv_with_slots integrated_inv)

lemma settle_ref [simp]: "fp_ref (settle_run page run) = fp_ref page"
  by (simp add: settle_run_def Let_def)

lemma details_inv: "state_inv (fp_ref page) \<Longrightarrow> state_inv (fp_ref (fst (addDetailsSettled page run outcomes)))"
  using commit_cards_inv [of page run]
  by (auto simp: addDetailsSettled_def case_prod_beta' Let_def)

lemma reconciled_inv: "state_inv (fp_ref page) \<Longrightarrow> state_inv (fp_ref (addReconciled page run cards))"
  by (auto simp: addReconciled_def getState_def split: option.split
      intro: state_inv_with_slots reconcile_inv state_inv_slots)

lemma add_refs [simp]:
  "fp_ref (fst (onAddSubmit page payload)) = fp_ref page" "fp_ref (fst (onAddRetryMutation page key)) = fp_ref page"
  "fp_ref (fst (onAddRetryResolve page)) = fp_ref page" "fp_ref (fst (addMutationResolved page a ids)) = fp_ref page"
  "fp_ref (addMutationRejected page a error) = fp_ref page" "fp_ref (addReconcileFailed page run msg) = fp_ref page"
  by (simp_all add: onAddSubmit_def onAddRetryMutation_def onAddRetryResolve_def addMutationResolved_def
      addMutationRejected_def addReconcileFailed_def Let_def split: option.split)

lemma add_step_ref_inv:
  "state_inv (fp_ref page) \<Longrightarrow> \<nexists>state order pins deletes. e = AddPageEv state order pins deletes \<Longrightarrow>
   state_inv (fp_ref (fst (add_step (page, out) e)))"
  by (cases e; cases out) (auto simp: add_step_def case_prod_beta' Let_def details_inv reconciled_inv)

lemma fresh_page_inv: "state_inv (fp_ref page) \<Longrightarrow> state_inv (fp_ref (integrateFreshPage now page fetched))"
  using state_inv_slots [of "fp_ref page"] slots_inv_page
  by (auto simp: integrateFreshPage_def getState_def Let_def split: option.split FlowState.split intro!: merge_slots_inv)

lemma pager_refs:
  "fp_ref (fst (loadInitial page)) = fp_ref page" "fp_ref (fst (loadMoreFrom page slots tok)) = fp_ref page"
  "fp_ref (fst (loadMore page)) = fp_ref page" "fp_ref (fst (loadMoreRetry page)) = fp_ref page"
  by (simp_all add: loadInitial_def loadMoreFrom_def loadMore_def loadMoreRetry_def pager_launch_def setStateOnly_def
      Let_def split: FlowState.split FlowCursor.split)

text \<open>Since the ref is never in a pagination state, the answer of a page request finds nothing to commit.\<close>

lemma more_answers_ref:
  assumes "\<not> paginating (fp_ref page)"
  shows "fp_ref (loadMoreResolved now page g tok fetched) = fp_ref page"
    "fp_ref (loadMoreRejected page g tok message) = fp_ref page"
    "fp_view (loadMoreResolved now page g tok fetched) = fp_view page"
    "fp_view (loadMoreRejected page g tok message) = fp_view page"
  using assms by (cases "fp_ref page"; simp add: loadMoreResolved_def loadMoreRejected_def getState_def paginating_def)+

lemma order_refs [simp]:
  "fp_ref (fst (onPinnedDrop page i j)) = fp_ref page" "fp_ref (reconcilePinnedOrder page) = fp_ref page"
  by (simp_all add: onPinnedDrop_def reconcilePinnedOrder_def Let_def split: option.split FlowState.split)

lemma page_step_inv: "page_step page page' \<Longrightarrow> state_inv (fp_ref page) \<Longrightarrow> state_inv (fp_ref page')"
proof (induction rule: page_step.induct)
  case (review_ok page k launch r)
  then show ?case using review_commits(2) [of page] by (simp add: reviewResolved_def)
next
  case (review_failed page launch error)
  then show ?case using review_commits(3) [of page] fresh_on_plain [of "EvFailure _ _ _" page]
    by (simp add: reviewRejected_def)
next
  case (continue_ok page cl c n)
  then show ?case using review_commits(7) [of page] by (simp add: continueResolved_def)
next
  case (continue_failed page cl returned error)
  then show ?case using review_commits(8) [of page] fresh_on_plain [of "EvContinueFailure _ _ _" page]
    by (simp add: continueRejected_def Let_def)
next
  case (refill answer slot page cancelled)
  show ?case by (rule refill_polled_inv [OF refill.prems refill.hyps])
next
  case (load_ok page now g fetched)
  then show ?case using fresh_page_inv [of page now fetched] by (simp add: loadInitialResolved_def)
next
  case (load_failed page g message)
  then show ?case by (simp add: loadInitialRejected_def)
next
  case (more_ok page now g tok fetched)
  then show ?case using more_answers_ref(1) [of page now g tok fetched] by (simp add: state_inv_def)
next
  case (more_failed page g tok message)
  then show ?case using more_answers_ref(2) [of page g tok message] by (simp add: state_inv_def)
qed (simp_all add: pager_refs pin_resolved_inv pin_rejected_inv delete_resolved_inv on_review_inv on_retry_inv
    on_continue_inv add_step_ref_inv)

lemma initial_inv: "state_inv (fp_ref (initial_page saved order))"
  using slots_inv_page by (auto simp: initial_page_def seedFromSnapshot_def Let_def split: option.split)

lemma page_reachable_inv: "page_reachable page \<Longrightarrow> state_inv (fp_ref page)"
  by (induction rule: page_reachable.induct) (auto intro: initial_inv page_step_inv)

section \<open>Polls over the page\<close>

lemma poll_miss_slots:
  assumes "fp_mounted page" and "slotsStateOf (fp_ref page) = Some slots" and "refill_candidate slot cards = None"
  shows "slotsStateOf (fp_ref (refillPolled page slot False (Some cards))) =
           Some (refillPollMiss slots (ri_reviewedCardId (slot_reviewed slot)) (slot_refillToken slot) REFILL_MAX_ATTEMPTS)"
    and "fp_mounted (refillPolled page slot False (Some cards))"
  using assms
  by (cases "fp_ref page"; force simp: refillPolled_def Let_def getState_def commit_slots_def apply_state_def
        refillPollMiss_def findAwaitingRefill_def)+

lemma polls_miss_slots:
  assumes "fp_mounted page" and "slotsStateOf (fp_ref page) = Some slots" and "refill_candidate slot cards = None"
  shows "slotsStateOf (fp_ref (((\<lambda>p. refillPolled p slot False (Some cards)) ^^ n) page)) =
           Some (poll_misses (ri_reviewedCardId (slot_reviewed slot)) (slot_refillToken slot) REFILL_MAX_ATTEMPTS n slots) \<and>
         fp_mounted (((\<lambda>p. refillPolled p slot False (Some cards)) ^^ n) page)"
proof (induction n)
  case 0
  then show ?case using assms by (simp add: poll_misses_def)
next
  case (Suc n)
  then show ?case using poll_miss_slots [OF _ _ assms(3)] by (simp add: poll_misses_Suc)
qed

section \<open>Properties\<close>


definition sample_page :: FlowPage where
  "sample_page = initial_page (Some \<lparr>sv_savedAt = 0, sv_cards = [sample_card 7 ''math'' ''repeatable_tip'' True,
     sample_card 8 ''art'' ''casual_tip'' False], sv_cursor = CursorMore ''t''\<rparr>) None"

definition learned_choice :: ReviewChoice where
  "learned_choice = choice ''learned'' ''Learned'' 5 ActionLearned"

lemma sample_page_ref: "fp_ref sample_page = FlowReady [SlotIdle (sample_card 7 ''math'' ''repeatable_tip'' True),
     SlotIdle (sample_card 8 ''art'' ''casual_tip'' False)] (CursorMore ''t'') True"
  by code_simp

lemma sample_page_reachable: "page_reachable sample_page"
  unfolding sample_page_def by (rule page_reachable.initial)


text \<open>C17: a page requested with Load more is lost: the launch renders the loading footer but does not
  write the ref, so the answer, success or failure, commits nothing: the ref keeps its slots and
  cursor and the view keeps showing the loading footer with the old slots.\<close>

theorem load_more_is_lost:
  assumes "fp_ref page = FlowReady slots (CursorMore tok) revalidating" and "\<not> fp_pagerInFlight page"
  shows "let (page', launched) = loadMore page
         in launched = Some (fp_pagerGeneration page + 1, tok) \<and>
            fp_ref (loadMoreResolved now page' (fp_pagerGeneration page + 1) tok fetched) = fp_ref page \<and>
            fp_view (loadMoreResolved now page' (fp_pagerGeneration page + 1) tok fetched) = FlowLoadingMore slots tok \<and>
            fp_ref (loadMoreRejected page' (fp_pagerGeneration page + 1) tok message) = fp_ref page \<and>
            fp_view (loadMoreRejected page' (fp_pagerGeneration page + 1) tok message) = FlowLoadingMore slots tok"
  using assms
  by (simp add: loadMore_def loadMoreFrom_def pager_launch_def setStateOnly_def loadMoreResolved_def
      loadMoreRejected_def getState_def Let_def)

theorem load_more_is_lost_witness:
  "fp_view (loadMoreResolved 5 (fst (loadMore sample_page)) 1 ''t''
     \<lparr>pg_cards = [sample_card 9 ''art'' ''casual_tip'' False], pg_cursor = CursorEnd\<rparr>) =
   FlowLoadingMore (fs_slots (fp_ref sample_page)) ''t''"
proof -
  have "\<not> fp_pagerInFlight sample_page" "fp_pagerGeneration sample_page = 0" by code_simp+
  then show ?thesis using load_more_is_lost [OF sample_page_ref] by (simp add: case_prod_beta' Let_def sample_page_ref)
qed


definition stuck_page :: "ReviewSlot \<Rightarrow> FlowPage" where
  "stuck_page slot = sample_page\<lparr>fp_ref := FlowReady [slot] CursorEnd False\<rparr>"

lemma stuck_page_ref [simp]: "fp_ref (stuck_page slot) = FlowReady [slot] CursorEnd False" "fp_mounted (stuck_page slot)"
  by (simp_all add: stuck_page_def sample_page_def initial_page_def seedFromSnapshot_def Let_def)

abbreviation math_identity :: ReviewedSlotIdentity where
  "math_identity \<equiv> reviewed_identity 7 (sample_card 7 ''math'' ''repeatable_tip'' True)"




end
