(* ===== verification/Latest_Request.thy ===== *)
theory Latest_Request
  imports Prelude
begin

text \<open>
  The contract of a view that shows the answer of its latest request only. The state waits for at
  most one request; every request carries the generation it was claimed under; an answer to any
  other request changes nothing. \<open>gone_for_good\<close> is what the views rely on: a request that is no
  longer waited for never matters again.
\<close>

locale latest_request =
  fixes gen :: "'s \<Rightarrow> int"
    and waiting :: "'s \<Rightarrow> 'r option"
    and claimed :: "'r \<Rightarrow> int"
    and answers :: "'e \<Rightarrow> 'r option"
    and step :: "'s \<Rightarrow> 'e \<Rightarrow> 's"
  assumes gen_grows: "gen s \<le> gen (step s e)"
    and waiting_claimed: "waiting s = Some r \<Longrightarrow> claimed r = gen s"
    and stale_answer: "answers e = Some r \<Longrightarrow> waiting s \<noteq> Some r \<Longrightarrow> step s e = s"
    and answer_settles: "answers e = Some r \<Longrightarrow> waiting s = Some r \<Longrightarrow> waiting (step s e) = None"
    and request_is_new: "waiting (step s e) = Some r \<Longrightarrow> waiting s = Some r \<or> gen s < claimed r"
begin

lemma gen_run: "gen s \<le> gen (foldl step s es)"
proof (induction es arbitrary: s)
  case (Cons e es)
  show ?case using gen_grows [of s e] Cons [of "step s e"] by simp
qed simp

lemma not_again: "claimed r \<le> gen s \<Longrightarrow> waiting s \<noteq> Some r \<Longrightarrow> waiting (foldl step s es) \<noteq> Some r"
proof (induction es arbitrary: s)
  case (Cons e es)
  have "waiting (step s e) \<noteq> Some r" using request_is_new [of s e r] Cons.prems by auto
  with Cons.IH [of "step s e"] gen_grows [of s e] Cons.prems(1) show ?case by simp
qed simp

lemma gone_for_good:
  assumes "waiting s = Some r" and "waiting (foldl step s es) \<noteq> Some r" and "answers e = Some r"
  shows "step (foldl step s (es @ fs)) e = foldl step s (es @ fs)"
proof -
  have "claimed r \<le> gen (foldl step s es)" using waiting_claimed [OF assms(1)] gen_run [of s es] by simp
  from not_again [OF this assms(2), of fs] show ?thesis by (intro stale_answer [OF assms(3)]) simp
qed

lemma settled_once:
  assumes "waiting s = Some r" and "answers e = Some r" and "answers e' = Some r"
  shows "step (foldl step (step s e) fs) e' = foldl step (step s e) fs"
  using gone_for_good [of s r "[e]" e' fs] assms answer_settles [OF assms(2,1)] by simp

end

end
