(* ===== verification/Detail_State.thy ===== *)
theory Detail_State
  imports Flow_View I18n Latest_Request
begin

text \<open>
  \<open>lib/flow-detail-state.ts\<close> and the component that drives it, \<open>components/flow/FlowCardDetail.tsx\<close>: the
  detail sheet of one card. The browser's \<open>URL\<close> parser and date formatter are arguments.
\<close>

record DetailRequest =
  dr_cardId :: bigint
  dr_generation :: int

datatype FlowDetailState =
    DetailClosed int
  | DetailLoading (ds_request: DetailRequest)
  | DetailReady (ds_request: DetailRequest) (ds_card: FlowCardInfo)
  | DetailError (ds_request: DetailRequest) (ds_message: jsstring)

definition INITIAL_FLOW_DETAIL_STATE :: FlowDetailState where
  "INITIAL_FLOW_DETAIL_STATE = DetailClosed 0"

fun detail_generationOf :: "FlowDetailState \<Rightarrow> int" where
  "detail_generationOf (DetailClosed generation) = generation"
| "detail_generationOf state = dr_generation (ds_request state)"

definition nextRequest :: "FlowDetailState \<Rightarrow> bigint \<Rightarrow> DetailRequest" where
  "nextRequest state cardId = \<lparr>dr_cardId = cardId, dr_generation = detail_generationOf state + 1\<rparr>"

definition openCardDetail :: "FlowDetailState \<Rightarrow> bigint \<Rightarrow> FlowDetailState" where
  "openCardDetail state cardId = DetailLoading (nextRequest state cardId)"

fun closeCardDetail :: "FlowDetailState \<Rightarrow> FlowDetailState" where
  "closeCardDetail (DetailClosed generation) = DetailClosed generation"
| "closeCardDetail state = DetailClosed (detail_generationOf state + 1)"

definition isUserFullscreenDismiss :: "jsstring \<Rightarrow> bool" where
  "isUserFullscreenDismiss reason \<longleftrightarrow>
     reason \<in> {''escape-key'', ''close-press'', ''outside-press'', ''close-watcher'', ''trigger-press'', ''imperative-action''}"

definition retryCardDetail :: "FlowDetailState \<Rightarrow> FlowDetailState" where
  "retryCardDetail state =
     (if is_DetailError state then DetailLoading (nextRequest state (dr_cardId (ds_request state))) else state)"

definition loadingDetailRequest :: "FlowDetailState \<Rightarrow> DetailRequest option" where
  "loadingDetailRequest state = (if is_DetailLoading state then Some (ds_request state) else None)"

definition detailSucceeded :: "FlowDetailState \<Rightarrow> DetailRequest \<Rightarrow> FlowCardInfo \<Rightarrow> FlowDetailState" where
  "detailSucceeded state request c =
     (if \<not> is_DetailLoading state \<or> ds_request state \<noteq> request then state
      else if fc_id c \<noteq> dr_cardId request
      then DetailError (ds_request state) ''The returned card did not match the requested card.''
      else DetailReady (ds_request state) c)"

definition detailFailed :: "FlowDetailState \<Rightarrow> DetailRequest \<Rightarrow> jsstring \<Rightarrow> FlowDetailState" where
  "detailFailed state request message =
     (if is_DetailLoading state \<and> ds_request state = request then DetailError (ds_request state) message else state)"

section \<open>Sources\<close>

datatype DetailSourceIconKind = IconLink | IconDocument | IconUnknown

record DetailSourceView =
  dv_label :: jsstring
  dv_href :: "jsstring option"
  dv_icon :: DetailSourceIconKind
  dv_excerpt :: jsstring
  dv_evidence :: bool

text \<open>What \<open>new URL(raw)\<close> returns (\<open>None\<close> when it throws), as far as it is read.\<close>

record ParsedUrl =
  url_protocol :: jsstring
  url_username :: jsstring
  url_password :: jsstring
  url_href :: jsstring

definition safeSourceUrl :: "(jsstring \<Rightarrow> ParsedUrl option) \<Rightarrow> jsstring option \<Rightarrow> jsstring option" where
  "safeSourceUrl parseUrl raw =
     (case raw of
        None \<Rightarrow> None
      | Some text \<Rightarrow>
          if js_trim text = [] then None
          else case parseUrl text of
                 None \<Rightarrow> None
               | Some url \<Rightarrow>
                   if url_protocol url \<noteq> ''http:'' \<and> url_protocol url \<noteq> ''https:'' \<or>
                      url_username url \<noteq> [] \<or> url_password url \<noteq> []
                   then None else Some (url_href url))"

definition detailSourceIcon :: "jsstring \<Rightarrow> DetailSourceIconKind" where
  "detailSourceIcon sourceType =
     (if sourceType = ''link'' \<or> sourceType = ''web'' then IconLink
      else if sourceType = ''document'' then IconDocument else IconUnknown)"

definition toDetailSourceView :: "(jsstring \<Rightarrow> ParsedUrl option) \<Rightarrow> CardSource \<Rightarrow> DetailSourceView" where
  "toDetailSourceView parseUrl source =
     (let href = safeSourceUrl parseUrl (cs_url source); title = js_trim (cs_title source)
      in \<lparr>dv_label = (if title = [] then (case href of None \<Rightarrow> ''Untitled source'' | Some h \<Rightarrow> h) else title),
          dv_href = href, dv_icon = detailSourceIcon (cs_sourceType source), dv_excerpt = [], dv_evidence = False\<rparr>)"

definition toDetailEvidenceView :: "(jsstring \<Rightarrow> ParsedUrl option) \<Rightarrow> GroundingEvidence \<Rightarrow> DetailSourceView" where
  "toDetailEvidenceView parseUrl evidence =
     (let href = safeSourceUrl parseUrl (ge_url evidence); title = js_trim (ge_title evidence)
      in \<lparr>dv_label = (if title = [] then (case href of None \<Rightarrow> ''Untitled evidence'' | Some h \<Rightarrow> h) else title),
          dv_href = href, dv_icon = detailSourceIcon (ge_sourceType evidence),
          dv_excerpt = js_trim (ge_excerpt evidence), dv_evidence = True\<rparr>)"

definition detailSources :: "(jsstring \<Rightarrow> ParsedUrl option) \<Rightarrow> FlowCardInfo \<Rightarrow> DetailSourceView list" where
  "detailSources parseUrl c =
     (if fc_groundingEvidence c \<noteq> [] then map (toDetailEvidenceView parseUrl) (fc_groundingEvidence c)
      else map (toDetailSourceView parseUrl) (fc_sources c))"

text \<open>\<open>format\<close> is \<open>new Date\<close> followed by the formatter, \<open>None\<close> for an invalid date.\<close>

definition humanDetailDate :: "(jsstring \<Rightarrow> jsstring option) \<Rightarrow> jsstring \<Rightarrow> jsstring option" where
  "humanDetailDate format raw = (if js_trim raw = [] then None else format raw)"

section \<open>The component\<close>

definition cardTypeLabel :: "catalog \<Rightarrow> jsstring \<Rightarrow> jsstring" where
  "cardTypeLabel cat type =
     (if type \<in> {''casual_tip'', ''repeatable_tip'', ''manual_tip'', ''custom_tip''} then i18n_t cat (''card.type.'' @ type)
      else if type = [] then i18n_t cat ''common.unspecified'' else type)"

definition cardStatusLabel :: "catalog \<Rightarrow> jsstring \<Rightarrow> jsstring" where
  "cardStatusLabel cat status =
     (if status \<in> {''active'', ''pending'', ''custom'', ''learned'', ''reviewed'', ''dismissed''}
      then i18n_t cat (''card.status.'' @ status)
      else if status = [] then i18n_t cat ''common.unspecified'' else status)"

definition groundingStatusLabel :: "catalog \<Rightarrow> jsstring \<Rightarrow> jsstring" where
  "groundingStatusLabel cat status =
     (if status \<in> {''grounded'', ''verified'', ''unverified''} then i18n_t cat (''card.grounding.'' @ status)
      else if status = ''not_applicable'' \<or> status = [] then [] else status)"

definition source_description :: "catalog \<Rightarrow> DetailSourceView \<Rightarrow> jsstring" where
  "source_description cat source =
     (if dv_excerpt source \<noteq> [] then dv_excerpt source
      else if dv_href source \<noteq> None then i18n_t cat ''card.sources.external_link''
      else if dv_icon source = IconDocument then i18n_t cat ''card.sources.stored_document''
      else if dv_icon source = IconLink then i18n_t cat ''card.sources.link_unavailable''
      else i18n_t cat ''card.sources.source'')"

definition detail_content :: "FlowCardInfo \<Rightarrow> jsstring" where
  "detail_content c = (if js_trim (fc_fullContent c) = [] then fc_compressedContent c else fc_fullContent c)"

record DetailSheet =
  sh_state :: FlowDetailState
  sh_mounted :: bool
  sh_open :: bool

definition apply_detail :: "DetailSheet \<Rightarrow> FlowDetailState \<Rightarrow> DetailSheet" where
  "apply_detail sheet next = sheet\<lparr>sh_state := next\<rparr>"

text \<open>\<open>beginLoad\<close>, with the request it launches.\<close>

definition beginLoad :: "DetailSheet \<Rightarrow> FlowDetailState \<Rightarrow> DetailSheet \<times> DetailRequest option" where
  "beginLoad sheet next = (apply_detail sheet next, loadingDetailRequest next)"

definition detail_effect :: "DetailSheet \<Rightarrow> bool \<Rightarrow> bigint \<Rightarrow> DetailSheet \<times> DetailRequest option" where
  "detail_effect sheet opened cardId =
     (if \<not> opened then (sheet, None)
      else case sh_state sheet of
             DetailClosed g \<Rightarrow> beginLoad sheet (openCardDetail (sh_state sheet) cardId)
           | current \<Rightarrow>
               if dr_cardId (ds_request current) = cardId then (sheet, None)
               else beginLoad sheet (openCardDetail current cardId))"

definition dismiss :: "DetailSheet \<Rightarrow> DetailSheet" where
  "dismiss sheet =
     (if is_DetailLoading (sh_state sheet) then apply_detail sheet (closeCardDetail (sh_state sheet)) else sheet)
       \<lparr>sh_open := False\<rparr>"

definition detail_onRetry :: "DetailSheet \<Rightarrow> DetailSheet \<times> DetailRequest option" where
  "detail_onRetry sheet = beginLoad sheet (retryCardDetail (sh_state sheet))"

definition cardLoaded :: "DetailSheet \<Rightarrow> DetailRequest \<Rightarrow> FlowCardInfo \<Rightarrow> DetailSheet" where
  "cardLoaded sheet request loaded =
     (if \<not> sh_mounted sheet then sheet else apply_detail sheet (detailSucceeded (sh_state sheet) request loaded))"

definition cardLoadFailed :: "DetailSheet \<Rightarrow> DetailRequest \<Rightarrow> jsstring \<Rightarrow> DetailSheet" where
  "cardLoadFailed sheet request message =
     (if \<not> sh_mounted sheet then sheet else apply_detail sheet (detailFailed (sh_state sheet) request message))"

definition applyChangedCard :: "DetailSheet \<Rightarrow> FlowCardInfo \<Rightarrow> DetailSheet" where
  "applyChangedCard sheet changed =
     (if is_DetailReady (sh_state sheet) then apply_detail sheet (DetailReady (ds_request (sh_state sheet)) changed) else sheet)"

section \<open>Lemmas\<close>

datatype DetailEvent =
    OpenDetail bigint | CloseDetail | RetryDetail
  | DetailAnswer DetailRequest FlowCardInfo | DetailFailure DetailRequest jsstring

fun detail_step :: "FlowDetailState \<Rightarrow> DetailEvent \<Rightarrow> FlowDetailState" where
  "detail_step s (OpenDetail k) = openCardDetail s k"
| "detail_step s CloseDetail = closeCardDetail s"
| "detail_step s RetryDetail = retryCardDetail s"
| "detail_step s (DetailAnswer r c) = detailSucceeded s r c"
| "detail_step s (DetailFailure r m) = detailFailed s r m"

fun detail_answers :: "DetailEvent \<Rightarrow> DetailRequest option" where
  "detail_answers (DetailAnswer r c) = Some r"
| "detail_answers (DetailFailure r m) = Some r"
| "detail_answers e = None"

lemmas detail_ops = openCardDetail_def retryCardDetail_def detailSucceeded_def detailFailed_def nextRequest_def
  loadingDetailRequest_def

interpretation sheet: latest_request detail_generationOf loadingDetailRequest dr_generation detail_answers detail_step
proof
  fix s e r
  show "detail_generationOf s \<le> detail_generationOf (detail_step s e)"
    by (cases s; cases e) (auto simp: detail_ops)
  show "loadingDetailRequest s = Some r \<Longrightarrow> dr_generation r = detail_generationOf s"
    by (cases s) (auto simp: detail_ops)
  show "detail_answers e = Some r \<Longrightarrow> loadingDetailRequest s \<noteq> Some r \<Longrightarrow> detail_step s e = s"
    by (cases e) (auto simp: detail_ops split: if_splits)
  show "detail_answers e = Some r \<Longrightarrow> loadingDetailRequest s = Some r \<Longrightarrow> loadingDetailRequest (detail_step s e) = None"
    by (cases e) (auto simp: detail_ops split: if_splits)
  show "loadingDetailRequest (detail_step s e) = Some r \<Longrightarrow> loadingDetailRequest s = Some r \<or> detail_generationOf s < dr_generation r"
    by (cases s; cases e) (auto simp: detail_ops split: if_splits)
qed

text \<open>A sheet that shows a card shows the one its request asked for.\<close>

definition shows_requested :: "FlowDetailState \<Rightarrow> bool" where
  "shows_requested s \<longleftrightarrow> (is_DetailReady s \<longrightarrow> fc_id (ds_card s) = dr_cardId (ds_request s))"

lemma shows_requested_step: "shows_requested s \<Longrightarrow> shows_requested (detail_step s e)"
  by (cases s; cases e) (auto simp: shows_requested_def detail_ops)

lemma shows_requested_run: "shows_requested s \<Longrightarrow> shows_requested (foldl detail_step s es)"
  by (induction es arbitrary: s) (auto simp: shows_requested_step)

lemma safe_href:
  "safeSourceUrl parseUrl raw = Some h \<Longrightarrow>
   \<exists>text url. raw = Some text \<and> parseUrl text = Some url \<and> h = url_href url \<and>
     url_protocol url \<in> {''http:'', ''https:''} \<and> url_username url = [] \<and> url_password url = []"
  by (auto simp: safeSourceUrl_def split: option.splits if_splits)

section \<open>Properties\<close>



end
