(* ===== verification/Snapshot.thy ===== *)
theory Snapshot
  imports Flow_Page Json
begin

text \<open>
  \<open>lib/flow-snapshot.ts\<close> and \<open>lib/bootstrap-prefetch.ts\<close>: the session snapshot of the first Flow page and the
  prefetched first page. The protobuf JSON mapping of a card is an argument (\<open>to_json\<close>, \<open>from_json\<close>, which
  throw as the left of a sum). Storage is its items and which of its methods throw.
\<close>

record WebStorage =
  ws_items :: "jsstring \<rightharpoonup> jsstring"
  ws_get_throws :: bool
  ws_set_throws :: bool
  ws_remove_throws :: bool

definition FLOW_SNAPSHOT_KEY :: jsstring where
  "FLOW_SNAPSHOT_KEY = ''denpie-flow-snapshot''"

definition MAX_AGE_MS :: rat where
  "MAX_AGE_MS = 10 * 60000"

definition SNAPSHOT_VERSION :: rat where
  "SNAPSHOT_VERSION = 1"

fun cursor_json :: "FlowCursor \<Rightarrow> json" where
  "cursor_json CursorEnd = JObj [(''kind'', JStr ''end'')]"
| "cursor_json (CursorMore token) = JObj [(''kind'', JStr ''more''), (''pageToken'', JStr token)]"

text \<open>\<open>isFlowCursor\<close>, with the cursor it recognises.\<close>

definition read_cursor :: "json \<Rightarrow> FlowCursor option" where
  "read_cursor value =
     (case value of
        JObj props \<Rightarrow>
          if json_field props ''kind'' = Some (JStr ''end'') then Some CursorEnd
          else if json_field props ''kind'' = Some (JStr ''more'')
          then (case json_field props ''pageToken'' of Some (JStr token) \<Rightarrow> Some (CursorMore token) | _ \<Rightarrow> None)
          else None
      | _ \<Rightarrow> None)"

definition stored_snapshot :: "SavedFlowPage \<Rightarrow> json list \<Rightarrow> json" where
  "stored_snapshot page cards =
     JObj [(''version'', JNum SNAPSHOT_VERSION), (''savedAt'', JNum (sv_savedAt page)),
           (''cursor'', cursor_json (sv_cursor page)), (''cards'', JArr cards)]"

text \<open>No storage at all (outside a browser) is \<open>None\<close>.\<close>

definition saveFlowSnapshot ::
    "(FlowCardInfo \<Rightarrow> js_error + json) \<Rightarrow> SavedFlowPage \<Rightarrow> WebStorage option \<Rightarrow> WebStorage option" where
  "saveFlowSnapshot to_json page storage =
     (case storage of
        None \<Rightarrow> None
      | Some ws \<Rightarrow>
          (case map_result to_json (sv_cards page) of
             Inl e \<Rightarrow> Some ws
           | Inr cards \<Rightarrow>
               if ws_set_throws ws then Some ws
               else Some (ws\<lparr>ws_items := (ws_items ws)(FLOW_SNAPSHOT_KEY \<mapsto> json_text (stored_snapshot page cards))\<rparr>)))"

definition drop_snapshot :: "WebStorage \<Rightarrow> WebStorage" where
  "drop_snapshot ws =
     (if ws_remove_throws ws then ws else ws\<lparr>ws_items := (ws_items ws)(FLOW_SNAPSHOT_KEY := None)\<rparr>)"

text \<open>The checks on the parsed text, in the order of the source; \<open>None\<close> is every outcome that drops the entry.\<close>

definition restore_snapshot :: "(json \<Rightarrow> js_error + FlowCardInfo) \<Rightarrow> rat \<Rightarrow> json \<Rightarrow> SavedFlowPage option" where
  "restore_snapshot from_json now parsed =
     (case parsed of
        JObj props \<Rightarrow>
          if json_field props ''version'' \<noteq> Some (JNum SNAPSHOT_VERSION) then None
          else (case json_field props ''savedAt'' of
                  Some (JNum savedAt) \<Rightarrow>
                    if now - savedAt > MAX_AGE_MS then None
                    else (case (Option.bind (json_field props ''cursor'') read_cursor, json_field props ''cards'') of
                            (Some cursor, Some (JArr cards)) \<Rightarrow>
                              (case map_result from_json cards of
                                 Inl e \<Rightarrow> None
                               | Inr restored \<Rightarrow> Some \<lparr>sv_savedAt = savedAt, sv_cards = restored, sv_cursor = cursor\<rparr>)
                          | _ \<Rightarrow> None)
                | _ \<Rightarrow> None)
      | _ \<Rightarrow> None)"

definition loadFlowSnapshot ::
    "(json \<Rightarrow> js_error + FlowCardInfo) \<Rightarrow> rat \<Rightarrow> WebStorage option \<Rightarrow> SavedFlowPage option \<times> WebStorage option" where
  "loadFlowSnapshot from_json now storage =
     (case storage of
        None \<Rightarrow> (None, None)
      | Some ws \<Rightarrow>
          if ws_get_throws ws then (None, Some ws)
          else case ws_items ws FLOW_SNAPSHOT_KEY of
                 None \<Rightarrow> (None, Some ws)
               | Some raw \<Rightarrow>
                   (case Option.bind (json_parse raw) (restore_snapshot from_json now) of
                      None \<Rightarrow> (None, Some (drop_snapshot ws))
                    | Some page \<Rightarrow> (Some page, Some ws)))"

section \<open>Prefetch\<close>

text \<open>Module state; a promise is whatever stands for it (\<open>'p\<close>).\<close>

record 'p Prefetch =
  pf_started :: bool
  pf_me :: "'p option"
  pf_page :: "'p option"

text \<open>With the promises of the two calls a first start makes.\<close>

definition startBootstrapPrefetch :: "bool \<Rightarrow> 'p Prefetch \<Rightarrow> 'p \<Rightarrow> 'p \<Rightarrow> 'p Prefetch" where
  "startBootstrapPrefetch has_window st me page =
     (if pf_started st \<or> \<not> has_window then st
      else st\<lparr>pf_started := True, pf_me := Some me, pf_page := Some page\<rparr>)"

definition takePrefetchedFlowPage :: "'p Prefetch \<Rightarrow> 'p option \<times> 'p Prefetch" where
  "takePrefetchedFlowPage st = (pf_page st, st\<lparr>pf_page := None\<rparr>)"

text \<open>
  \<open>fetchFirstPage\<close>: what its promise settles to, given what the prefetch (\<open>None\<close> a null marker) and a direct
  call would give, and whether the direct call is made.
\<close>

definition fetchFirstPage ::
    "FlowCardsPage option Prefetch \<Rightarrow> (js_error + FlowCardsPage) \<Rightarrow>
     (js_error + FlowCardsPage) \<times> bool \<times> FlowCardsPage option Prefetch" where
  "fetchFirstPage st direct =
     (case takePrefetchedFlowPage st of
        (Some (Some page), st') \<Rightarrow> (Inr page, False, st')
      | (_, st') \<Rightarrow> (direct, True, st'))"

section \<open>Lemmas\<close>

lemma read_cursor_json [simp]: "read_cursor (cursor_json c) = Some c"
  by (cases c) (simp_all add: read_cursor_def json_field_def)

lemma printable_cursor [simp]: "printable (cursor_json c)"
  by (cases c) simp_all

lemma restore_stored:
  assumes "map_result from_json cards = Inr (sv_cards page)"
  shows "restore_snapshot from_json now (stored_snapshot page cards) =
           (if now - sv_savedAt page > MAX_AGE_MS then None else Some page)"
  using assms by (simp add: restore_snapshot_def stored_snapshot_def json_field_def)

lemma map_result_inverse:
  "map_result f xs = Inr ys \<Longrightarrow> \<forall>x \<in> set xs. \<forall>y. f x = Inr y \<longrightarrow> g y = Inr x \<Longrightarrow> map_result g ys = Inr xs"
proof (induction xs arbitrary: ys)
  case (Cons x xs)
  then obtain y ys' where ys: "ys = y # ys'" "f x = Inr y" "map_result f xs = Inr ys'"
    by (auto simp: sum_bind_Inr)
  with Cons.prems(2) have "g y = Inr x" by simp
  with Cons.IH [OF ys(3)] Cons.prems(2) ys(1) show ?case by simp
qed simp

lemma map_result_all:
  "map_result f xs = Inr ys \<Longrightarrow> \<forall>x \<in> set xs. \<forall>y. f x = Inr y \<longrightarrow> P y \<Longrightarrow> list_all P ys"
proof (induction xs arbitrary: ys)
  case (Cons x xs)
  then obtain y ys' where "ys = y # ys'" "f x = Inr y" "map_result f xs = Inr ys'"
    by (auto simp: sum_bind_Inr)
  with Cons show ?case by simp
qed simp

text \<open>A first page is prefetched at most once and taken at most once.\<close>

lemma prefetch_once:
  "pf_started st \<Longrightarrow> startBootstrapPrefetch w st me page = st"
  "fst (takePrefetchedFlowPage (snd (takePrefetchedFlowPage st))) = None"
  by (simp_all add: startBootstrapPrefetch_def takePrefetchedFlowPage_def)

section \<open>Properties\<close>

text \<open>The snapshot survives a reload: when the JSON mapping of a card reads back what it wrote, a page
  that was saved loads as the very same page for exactly ten minutes, nothing is lost from
  storage by loading it, and after that the entry is gone; whatever the storage
  holds, loading returns a page or drops the entry.\<close>

theorem snapshot_round_trip:
  assumes "\<And>c j. c \<in> set (sv_cards page) \<Longrightarrow> to_json c = Inr j \<Longrightarrow> from_json j = Inr c \<and> printable j"
    and "map_result to_json (sv_cards page) = Inr cards"
    and "sv_savedAt page \<in> \<int>" and "\<bar>sv_savedAt page\<bar> < 2 ^ 53"
    and "\<not> ws_get_throws ws" and "\<not> ws_set_throws ws" and "\<not> ws_remove_throws ws"
  shows "\<exists>saved. saveFlowSnapshot to_json page (Some ws) = Some saved \<and>
           (if now - sv_savedAt page \<le> MAX_AGE_MS
            then loadFlowSnapshot from_json now (Some saved) = (Some page, Some saved)
            else loadFlowSnapshot from_json now (Some saved) =
                   (None, Some (saved\<lparr>ws_items := (ws_items saved)(FLOW_SNAPSHOT_KEY := None)\<rparr>)))"
proof -
  have "map_result from_json cards = Inr (sv_cards page)"
    by (rule map_result_inverse [OF assms(2)]) (use assms(1) in blast)
  note restore = restore_stored [OF this]
  have "list_all printable cards"
    by (rule map_result_all [OF assms(2)]) (use assms(1) in blast)
  then have p: "printable (stored_snapshot page cards)"
    using assms(3,4) by (simp add: stored_snapshot_def SNAPSHOT_VERSION_def)
  define saved where "saved = ws\<lparr>ws_items := (ws_items ws)(FLOW_SNAPSHOT_KEY \<mapsto> json_text (stored_snapshot page cards))\<rparr>"
  have "saveFlowSnapshot to_json page (Some ws) = Some saved"
    using assms(2,6) by (simp add: saveFlowSnapshot_def saved_def)
  moreover have "ws_items saved FLOW_SNAPSHOT_KEY = Some (json_text (stored_snapshot page cards))"
    "\<not> ws_get_throws saved" "\<not> ws_remove_throws saved"
    using assms(5,7) by (simp_all add: saved_def)
  ultimately show ?thesis
    using restore json_round_trip [OF p] by (simp add: loadFlowSnapshot_def drop_snapshot_def)
qed

theorem snapshot_round_trip_witness:
  "\<exists>saved. saveFlowSnapshot (\<lambda>c. Inr (JObj [(''id'', JStr (dec_of_int (fc_id c)))]))
       \<lparr>sv_savedAt = 1000, sv_cards = [sample_card 7 ''math'' ''casual_tip'' False], sv_cursor = CursorMore ''t''\<rparr>
       (Some \<lparr>ws_items = Map.empty, ws_get_throws = False, ws_set_throws = False, ws_remove_throws = False\<rparr>) = Some saved \<and>
     loadFlowSnapshot (\<lambda>j. Inr (sample_card 7 ''math'' ''casual_tip'' False)) 1060 (Some saved) =
       (Some \<lparr>sv_savedAt = 1000, sv_cards = [sample_card 7 ''math'' ''casual_tip'' False], sv_cursor = CursorMore ''t''\<rparr>, Some saved)"
proof -
  let ?p = "\<lparr>sv_savedAt = 1000, sv_cards = [sample_card 7 ''math'' ''casual_tip'' False], sv_cursor = CursorMore ''t''\<rparr>"
  let ?w = "\<lparr>ws_items = Map.empty, ws_get_throws = False, ws_set_throws = False, ws_remove_throws = False\<rparr>"
  let ?to = "\<lambda>c. Inr (JObj [(''id'', JStr (dec_of_int (fc_id c)))])" and ?from = "\<lambda>j. Inr (sample_card 7 ''math'' ''casual_tip'' False)"
  have inverse: "?from j = Inr c \<and> printable j" if "c \<in> set (sv_cards ?p)" "?to c = Inr j" for c j
    using that by auto
  have cards: "map_result ?to (sv_cards ?p) = Inr [JObj [(''id'', JStr (dec_of_int 7))]]" by simp
  have young: "1060 - sv_savedAt ?p \<le> MAX_AGE_MS" by (simp add: MAX_AGE_MS_def)
  show ?thesis
    using snapshot_round_trip [where page = ?p and ws = ?w and now = 1060, OF inverse cards] young by auto
qed

end
