(* ===== verification/Http_Session.thy ===== *)
theory Http_Session
  imports Json
begin

text \<open>
  \<open>lib/dashboard-session.ts\<close>: the JSON calls of the dashboard, and what every plain HTTP module shares. A call
  takes the \<open>fetch\<close> function as an argument: a request to a reply, or to what it raises. A reply is
  its status with what \<open>text()\<close> and \<open>json()\<close> settle to.
\<close>

datatype Raised = RaisedError js_error | RaisedValue

fun js_message :: "js_error \<Rightarrow> jsstring" where
  "js_message (TypeError m) = m"
| "js_message (PlainError m) = m"
| "js_message (AddValidationError m) = m"

record HttpRequest =
  rq_method :: jsstring
  rq_url :: jsstring
  rq_headers :: "(jsstring \<times> jsstring) list"
  rq_json :: "json option"

record HttpReply =
  hr_status :: int
  hr_text :: "Raised + jsstring"
  hr_json :: "Raised + json"

type_synonym fetcher = "HttpRequest \<Rightarrow> Raised + HttpReply"

definition hr_ok :: "HttpReply \<Rightarrow> bool" where
  "hr_ok r \<longleftrightarrow> 200 \<le> hr_status r \<and> hr_status r \<le> 299"

text \<open>A synchronous \<open>throw\<close> inside an asynchronous function.\<close>

definition lift_error :: "js_error + 'a \<Rightarrow> Raised + 'a" where
  "lift_error r = (case r of Inl e \<Rightarrow> Inl (RaisedError e) | Inr a \<Rightarrow> Inr a)"

lemma lift_error_simps [simp]: "lift_error (Inl e) = Inl (RaisedError e)" "lift_error (Inr a) = Inr a"
  by (simp_all add: lift_error_def)

section \<open>\<open>encodeURIComponent\<close>\<close>

definition uri_unreserved :: "char \<Rightarrow> bool" where
  "uri_unreserved c \<longleftrightarrow>
     c \<in> set ''ABCDEFGHIJKLMNOPQRSTUVWXYZabcdefghijklmnopqrstuvwxyz0123456789-_.!~*()'' \<or> c = CHR 0x27"

definition percent_byte :: "nat \<Rightarrow> jsstring" where
  "percent_byte n = [CHR ''%'', ''0123456789ABCDEF'' ! (n div 16), ''0123456789ABCDEF'' ! (n mod 16)]"

definition uri_escape :: "char \<Rightarrow> jsstring" where
  "uri_escape c =
     (let n = (of_char c :: nat)
      in if uri_unreserved c then [c]
         else if n < 128 then percent_byte n
         else percent_byte (192 + n div 64) @ percent_byte (128 + n mod 64))"

definition encodeURIComponent :: "jsstring \<Rightarrow> jsstring" where
  "encodeURIComponent s = concat (map uri_escape s)"

section \<open>Parsers\<close>

text \<open>A field of a record is \<open>None\<close> when it is \<open>undefined\<close>.\<close>

definition asString :: "json option \<Rightarrow> jsstring \<Rightarrow> js_error + jsstring" where
  "asString value field =
     (case value of Some (JStr s) \<Rightarrow> Inr s | _ \<Rightarrow> Inl (TypeError (field @ '' is not a string'')))"

definition asStringOrNull :: "json option \<Rightarrow> jsstring \<Rightarrow> js_error + jsstring option" where
  "asStringOrNull value field =
     (if value = Some JNull then Inr None else sum_bind (asString value field) (\<lambda>s. Inr (Some s)))"

definition asNumber :: "json option \<Rightarrow> jsstring \<Rightarrow> js_error + rat" where
  "asNumber value field =
     (case value of Some (JNum r) \<Rightarrow> Inr r | _ \<Rightarrow> Inl (TypeError (field @ '' is not a number'')))"

definition asBoolean :: "json option \<Rightarrow> jsstring \<Rightarrow> js_error + bool" where
  "asBoolean value field =
     (case value of Some (JBool b) \<Rightarrow> Inr b | _ \<Rightarrow> Inl (TypeError (field @ '' is not a boolean'')))"

text \<open>\<open>isRecord\<close> guards every parser: the properties of an object, or the given error.\<close>

definition record_of :: "jsstring \<Rightarrow> json \<Rightarrow> js_error + (jsstring \<times> json) list" where
  "record_of message value = (case value of JObj props \<Rightarrow> Inr props | _ \<Rightarrow> Inl (TypeError message))"

record AdminUser =
  au_id :: jsstring
  au_username :: jsstring
  au_role :: jsstring
  au_displayName :: "jsstring option"
  au_createdAt :: jsstring

record TokenSpend =
  ts_daily :: rat
  ts_monthly :: rat
  ts_total :: rat

record AutoupdateStatus =
  us_phase :: jsstring
  us_message :: jsstring
  us_targetSha :: jsstring
  us_updatedAt :: jsstring

record AutoupdateTrigger =
  ut_message :: jsstring
  ut_restarting :: bool
  ut_updating :: bool
  ut_targetSha :: "jsstring option"
  ut_buildSha :: jsstring

definition parseAdminUser :: "json \<Rightarrow> js_error + AdminUser" where
  "parseAdminUser value =
     sum_bind (record_of ''user is not an object'' value) (\<lambda>props.
     sum_bind (asString (json_field props ''id'') ''id'') (\<lambda>i.
     sum_bind (asString (json_field props ''username'') ''username'') (\<lambda>name.
     sum_bind (asString (json_field props ''role'') ''role'') (\<lambda>role.
     sum_bind (asStringOrNull (json_field props ''display_name'') ''display_name'') (\<lambda>display.
     sum_bind (asString (json_field props ''created_at'') ''created_at'') (\<lambda>created.
       Inr \<lparr>au_id = i, au_username = name, au_role = role, au_displayName = display, au_createdAt = created\<rparr>))))))"

definition parseAdminUsers :: "json \<Rightarrow> js_error + AdminUser list" where
  "parseAdminUsers value =
     (case value of JArr js \<Rightarrow> map_result parseAdminUser js | _ \<Rightarrow> Inl (TypeError ''users is not an array''))"

definition parseTokenSpend :: "json \<Rightarrow> js_error + TokenSpend" where
  "parseTokenSpend value =
     sum_bind (record_of ''token spend is not an object'' value) (\<lambda>props.
     sum_bind (asNumber (json_field props ''daily'') ''daily'') (\<lambda>daily.
     sum_bind (asNumber (json_field props ''monthly'') ''monthly'') (\<lambda>monthly.
     sum_bind (asNumber (json_field props ''total'') ''total'') (\<lambda>total.
       Inr \<lparr>ts_daily = daily, ts_monthly = monthly, ts_total = total\<rparr>))))"

definition parseAutoupdateStatus :: "json \<Rightarrow> js_error + AutoupdateStatus" where
  "parseAutoupdateStatus value =
     sum_bind (record_of ''autoupdate status is not an object'' value) (\<lambda>props.
     sum_bind (asString (json_field props ''phase'') ''phase'') (\<lambda>phase.
     sum_bind (asString (json_field props ''message'') ''message'') (\<lambda>message.
     sum_bind (asString (json_field props ''target_sha'') ''target_sha'') (\<lambda>target.
     sum_bind (asString (json_field props ''updated_at'') ''updated_at'') (\<lambda>updated.
       Inr \<lparr>us_phase = phase, us_message = message, us_targetSha = target, us_updatedAt = updated\<rparr>)))))"

definition isAutoupdateActive :: "AutoupdateStatus \<Rightarrow> bool" where
  "isAutoupdateActive status \<longleftrightarrow>
     us_phase status \<in> {''starting'', ''queued'', ''checking'', ''preparing'', ''pulling'', ''cloning'',
                        ''compiling'', ''installing'', ''restarting'', ''running''}"

definition isEmptyAutoupdateStatus :: "AutoupdateStatus \<Rightarrow> bool" where
  "isEmptyAutoupdateStatus status \<longleftrightarrow>
     us_phase status = ''unknown'' \<and> us_message status = [] \<and> us_updatedAt status = []"

definition parseAutoupdateTrigger :: "json \<Rightarrow> js_error + AutoupdateTrigger" where
  "parseAutoupdateTrigger value =
     sum_bind (record_of ''autoupdate result is not an object'' value) (\<lambda>props.
     let target = json_field props ''target_sha''
     in sum_bind (asString (json_field props ''message'') ''message'') (\<lambda>message.
        sum_bind (asBoolean (json_field props ''restarting'') ''restarting'') (\<lambda>restarting.
        sum_bind (asBoolean (json_field props ''updating'') ''updating'') (\<lambda>updating.
        sum_bind (if target = Some JNull \<or> target = None then Inr None
                  else sum_bind (asString target ''target_sha'') (\<lambda>s. Inr (Some s))) (\<lambda>sha.
        sum_bind (asString (json_field props ''build_sha'') ''build_sha'') (\<lambda>build.
          Inr \<lparr>ut_message = message, ut_restarting = restarting, ut_updating = updating,
               ut_targetSha = sha, ut_buildSha = build\<rparr>))))))"

section \<open>Calls\<close>

definition readJson :: "HttpReply \<Rightarrow> jsstring \<Rightarrow> Raised + json" where
  "readJson reply fallback =
     sum_bind (hr_text reply) (\<lambda>body.
       if \<not> hr_ok reply then Inl (RaisedError (PlainError (if js_trim body = [] then fallback else body)))
       else if js_trim body = [] then Inr JNull
       else case json_parse body of
              None \<Rightarrow> Inl (RaisedError (PlainError fallback))
            | Some j \<Rightarrow> Inr j)"

definition session_request :: "jsstring \<Rightarrow> jsstring \<Rightarrow> json option \<Rightarrow> HttpRequest" where
  "session_request verb url body =
     \<lparr>rq_method = verb, rq_url = url,
      rq_headers = (''accept'', ''application/json'') # (if body = None then [] else [(''content-type'', ''application/json'')]),
      rq_json = body\<rparr>"

definition session_call ::
    "fetcher \<Rightarrow> HttpRequest \<Rightarrow> jsstring \<Rightarrow> (json \<Rightarrow> js_error + 'a) \<Rightarrow> Raised + 'a" where
  "session_call fetch request what parse =
     sum_bind (fetch request) (\<lambda>reply.
     sum_bind (readJson reply (what @ '' failed with status '' @ dec_of_int (hr_status reply))) (\<lambda>j.
       lift_error (parse j)))"

definition listAdminUsers :: "fetcher \<Rightarrow> Raised + AdminUser list" where
  "listAdminUsers fetch = session_call fetch (session_request ''GET'' ''/admin/users'' None) ''List users'' parseAdminUsers"

definition text_or_null :: "jsstring option \<Rightarrow> json" where
  "text_or_null value = (case value of None \<Rightarrow> JNull | Some s \<Rightarrow> JStr s)"

definition createAdminUser ::
    "fetcher \<Rightarrow> jsstring \<Rightarrow> jsstring \<Rightarrow> jsstring \<Rightarrow> jsstring \<Rightarrow> Raised + AdminUser" where
  "createAdminUser fetch username password role displayName =
     session_call fetch
       (session_request ''POST'' ''/admin/users'' (Some (JObj
          [(''username'', JStr username), (''password'', JStr password), (''role'', JStr role),
           (''display_name'', if js_trim displayName = [] then JNull else JStr (js_trim displayName))])))
       ''Create user'' parseAdminUser"

definition updateAdminUser ::
    "fetcher \<Rightarrow> jsstring \<Rightarrow> jsstring option \<Rightarrow> jsstring option \<Rightarrow> Raised + AdminUser" where
  "updateAdminUser fetch i role password =
     session_call fetch
       (session_request ''PATCH'' (''/admin/users/'' @ encodeURIComponent i) (Some (JObj
          [(''role'', text_or_null role),
           (''password'', if password = None \<or> password = Some [] then JNull else text_or_null password)])))
       ''Update user'' parseAdminUser"

definition deleteAdminUser :: "fetcher \<Rightarrow> jsstring \<Rightarrow> Raised + unit" where
  "deleteAdminUser fetch i =
     session_call fetch (session_request ''DELETE'' (''/admin/users/'' @ encodeURIComponent i) None)
       ''Delete user'' (\<lambda>j. Inr ())"

definition fetchTokenSpend :: "fetcher \<Rightarrow> Raised + TokenSpend" where
  "fetchTokenSpend fetch =
     session_call fetch (session_request ''GET'' ''/admin/token-spend'' None) ''Token spend'' parseTokenSpend"

definition fetchAutoupdateStatus :: "fetcher \<Rightarrow> Raised + AutoupdateStatus option" where
  "fetchAutoupdateStatus fetch =
     sum_bind (session_call fetch (session_request ''GET'' ''/admin/autoupdate/status'' None)
                 ''Autoupdate status'' parseAutoupdateStatus) (\<lambda>status.
       Inr (if isEmptyAutoupdateStatus status then None else Some status))"

definition triggerAutoupdate :: "fetcher \<Rightarrow> Raised + AutoupdateTrigger" where
  "triggerAutoupdate fetch =
     session_call fetch (session_request ''POST'' ''/admin/autoupdate'' None) ''Autoupdate check'' parseAutoupdateTrigger"

section \<open>Lemmas\<close>

text \<open>An encoded identifier stays inside its path segment.\<close>

lemma percent_chars: "n < 256 \<Longrightarrow> \<forall>c \<in> set (percent_byte n). uri_unreserved c \<or> c = CHR ''%''"
proof -
  have "uri_unreserved (''0123456789ABCDEF'' ! k)" if "k < 16" for k
  proof -
    have "list_all (\<lambda>k. uri_unreserved (''0123456789ABCDEF'' ! k)) [0..<16]" by code_simp
    with that show ?thesis by (simp add: list_all_iff)
  qed
  then show "n < 256 \<Longrightarrow> ?thesis" by (simp add: percent_byte_def)
qed

lemma uri_segment: "c \<in> set (encodeURIComponent s) \<Longrightarrow> uri_unreserved c \<or> c = CHR ''%''"
proof -
  assume "c \<in> set (encodeURIComponent s)"
  then obtain d where d: "c \<in> set (uri_escape d)" by (auto simp: encodeURIComponent_def)
  have n: "(of_char d :: nat) < 256" by (rule of_char_bound)
  then have "192 + of_char d div 64 < (256 :: nat)" by linarith
  moreover have "128 + of_char d mod 64 < (256 :: nat)" using mod_less_divisor [of 64 "of_char d :: nat"] by linarith
  ultimately show ?thesis
    using d percent_chars [OF n] percent_chars [of "192 + of_char d div 64"] percent_chars [of "128 + of_char d mod 64"]
    by (auto simp: uri_escape_def Let_def split: if_splits)
qed

lemma uri_no_separator: "CHR ''/'' \<notin> set (encodeURIComponent s) \<and> CHR ''?'' \<notin> set (encodeURIComponent s) \<and> CHR ''#'' \<notin> set (encodeURIComponent s)"
  using uri_segment by (fastforce simp: uri_unreserved_def)

lemma lift_error_Inr: "lift_error r = Inr a \<longleftrightarrow> r = Inr a"
  by (cases r) simp_all

lemma readJson_Inr:
  "readJson reply fallback = Inr j \<longleftrightarrow>
   hr_ok reply \<and> (\<exists>body. hr_text reply = Inr body \<and> (if js_trim body = [] then j = JNull else json_parse body = Some j))"
  by (cases "hr_text reply") (auto simp: readJson_def split: option.splits)

lemma session_call_ok:
  "session_call fetch request what parse = Inr a \<longleftrightarrow>
   (\<exists>reply j. fetch request = Inr reply \<and> hr_ok reply \<and> parse j = Inr a \<and>
      (\<exists>body. hr_text reply = Inr body \<and> (if js_trim body = [] then j = JNull else json_parse body = Some j)))"
  unfolding session_call_def sum_bind_Inr readJson_Inr lift_error_Inr by blast

text \<open>A failed reply raises its own text when it has one.\<close>

lemma session_call_refused:
  "fetch request = Inr reply \<Longrightarrow> \<not> hr_ok reply \<Longrightarrow> hr_text reply = Inr body \<Longrightarrow>
   session_call fetch request what parse =
     Inl (RaisedError (PlainError (if js_trim body = [] then what @ '' failed with status '' @ dec_of_int (hr_status reply) else body)))"
  by (simp add: session_call_def readJson_def)

lemma asString_Inr [simp]: "asString v f = Inr s \<longleftrightarrow> v = Some (JStr s)"
  by (auto simp: asString_def split: option.splits json.splits)

lemma asNumber_Inr [simp]: "asNumber v f = Inr r \<longleftrightarrow> v = Some (JNum r)"
  by (auto simp: asNumber_def split: option.splits json.splits)

lemma asBoolean_Inr [simp]: "asBoolean v f = Inr b \<longleftrightarrow> v = Some (JBool b)"
  by (auto simp: asBoolean_def split: option.splits json.splits)

lemma asStringOrNull_Inr [simp]: "asStringOrNull v f = Inr s \<longleftrightarrow> v = Some (text_or_null s)"
  by (cases s) (auto simp: asStringOrNull_def text_or_null_def sum_bind_Inr)

lemma record_of_Inr [simp]: "record_of m v = Inr props \<longleftrightarrow> v = JObj props"
  by (auto simp: record_of_def split: json.splits)

text \<open>A user parses exactly when its five fields have the right types, whatever else the object holds.\<close>

lemma admin_user_fields:
  "parseAdminUser j = Inr u \<longleftrightarrow>
   (\<exists>props. j = JObj props \<and> json_field props ''id'' = Some (JStr (au_id u)) \<and>
      json_field props ''username'' = Some (JStr (au_username u)) \<and> json_field props ''role'' = Some (JStr (au_role u)) \<and>
      json_field props ''display_name'' = Some (text_or_null (au_displayName u)) \<and>
      json_field props ''created_at'' = Some (JStr (au_createdAt u)))"
  by (cases u) (auto simp: parseAdminUser_def sum_bind_Inr)

end
