(* ===== verification/Icon_Picker.thy ===== *)
theory Icon_Picker
  imports Http_Session Latest_Request
begin

text \<open>
  \<open>lib/topic-icon-picker.ts\<close> and its use by the topics panel of \<open>components/pages/GroundingPage.tsx\<close>: the dialog that
  suggests icons for a topic and sets the one picked.
\<close>

record IconPickerTopic =
  ip_id :: bigint
  ip_name :: jsstring
  ip_iconId :: jsstring
  ip_topicColor :: jsstring

record IconPickerRequest =
  ir_topicId :: bigint
  ir_generation :: int

datatype IconPickerState =
    PickerClosed int
  | PickerSuggesting (ps_topic: IconPickerTopic) (ps_request: IconPickerRequest) (ps_excluded: "jsstring list")
  | PickerReady (ps_topic: IconPickerTopic) (ps_request: IconPickerRequest) (ps_suggestions: "jsstring list")
      (ps_error: "jsstring option")
  | PickerEmpty (ps_topic: IconPickerTopic) (ps_request: IconPickerRequest)
  | PickerSuggestError (ps_topic: IconPickerTopic) (ps_request: IconPickerRequest) (ps_message: jsstring)
  | PickerPicking (ps_topic: IconPickerTopic) (ps_request: IconPickerRequest) (ps_suggestions: "jsstring list")
      (ps_iconId: jsstring)

definition INITIAL_ICON_PICKER_STATE :: IconPickerState where
  "INITIAL_ICON_PICKER_STATE = PickerClosed 0"

fun picker_generationOf :: "IconPickerState \<Rightarrow> int" where
  "picker_generationOf (PickerClosed generation) = generation"
| "picker_generationOf state = ir_generation (ps_request state)"

definition iconShortName :: "jsstring \<Rightarrow> jsstring" where
  "iconShortName icon = map (\<lambda>c. if c = CHR ''-'' then CHR '' '' else c) (last (split_on (\<lambda>c. c = CHR '':'') icon))"

definition js_max_safe :: int where
  "js_max_safe = 2 ^ 53 - 1"

definition jsonTopicId :: "bigint \<Rightarrow> js_error + int" where
  "jsonTopicId i =
     (if i \<le> 0 then Inl (TypeError (''topic id must be positive, got '' @ dec_of_int i))
      else if i > js_max_safe then Inl (TypeError ''topic id exceeds JSON integer range'')
      else Inr i)"

definition suggested_icon :: "json \<Rightarrow> js_error + jsstring" where
  "suggested_icon icon =
     (case icon of
        JStr s \<Rightarrow> if js_trim s = [] then Inl (TypeError ''Suggest icons returned an invalid icon id'') else Inr s
      | _ \<Rightarrow> Inl (TypeError ''Suggest icons returned an invalid icon id''))"

definition parseSuggestedIcons :: "json \<Rightarrow> js_error + jsstring list" where
  "parseSuggestedIcons value =
     (case value of
        JObj props \<Rightarrow>
          (case json_field props ''icons'' of
             Some (JArr icons) \<Rightarrow> map_result suggested_icon icons
           | _ \<Rightarrow> Inl (TypeError ''Suggest icons returned invalid JSON''))
      | _ \<Rightarrow> Inl (TypeError ''Suggest icons returned invalid JSON''))"

definition parseSetTopicIcon :: "json \<Rightarrow> js_error + jsstring" where
  "parseSetTopicIcon value =
     (case value of
        JObj props \<Rightarrow>
          (case json_field props ''icon_id'' of
             Some (JStr s) \<Rightarrow> if js_trim s = [] then Inl (TypeError ''Set topic icon returned invalid JSON'') else Inr s
           | _ \<Rightarrow> Inl (TypeError ''Set topic icon returned invalid JSON''))
      | _ \<Rightarrow> Inl (TypeError ''Set topic icon returned invalid JSON''))"

section \<open>Transitions\<close>

definition openIconPicker :: "IconPickerState \<Rightarrow> IconPickerTopic \<Rightarrow> IconPickerState" where
  "openIconPicker state topic =
     PickerSuggesting topic \<lparr>ir_topicId = ip_id topic, ir_generation = picker_generationOf state + 1\<rparr> []"

fun closeIconPicker :: "IconPickerState \<Rightarrow> IconPickerState" where
  "closeIconPicker (PickerClosed generation) = PickerClosed generation"
| "closeIconPicker state = PickerClosed (picker_generationOf state + 1)"

definition rerollIconPicker :: "IconPickerState \<Rightarrow> IconPickerState" where
  "rerollIconPicker state =
     (if \<not> is_PickerReady state \<and> \<not> is_PickerEmpty state \<and> \<not> is_PickerSuggestError state then state
      else PickerSuggesting (ps_topic state)
             \<lparr>ir_topicId = ip_id (ps_topic state), ir_generation = picker_generationOf state + 1\<rparr>
             (if is_PickerReady state then ps_suggestions state else []))"

definition suggestionsReceived :: "IconPickerState \<Rightarrow> IconPickerRequest \<Rightarrow> jsstring list \<Rightarrow> IconPickerState" where
  "suggestionsReceived state request icons =
     (if \<not> is_PickerSuggesting state \<or> ps_request state \<noteq> request then state
      else if icons = [] then PickerEmpty (ps_topic state) request
      else PickerReady (ps_topic state) request icons None)"

definition suggestionsFailed :: "IconPickerState \<Rightarrow> IconPickerRequest \<Rightarrow> jsstring \<Rightarrow> IconPickerState" where
  "suggestionsFailed state request message =
     (if \<not> is_PickerSuggesting state \<or> ps_request state \<noteq> request then state
      else PickerSuggestError (ps_topic state) request message)"

definition startPickingIcon :: "IconPickerState \<Rightarrow> jsstring \<Rightarrow> IconPickerState" where
  "startPickingIcon state iconId =
     (if \<not> is_PickerReady state \<or> js_trim iconId = [] then state
      else PickerPicking (ps_topic state) (ps_request state) (ps_suggestions state) iconId)"

definition pickSucceeded :: "IconPickerState \<Rightarrow> IconPickerRequest \<Rightarrow> IconPickerState" where
  "pickSucceeded state request =
     (if \<not> is_PickerPicking state \<or> ps_request state \<noteq> request then state
      else PickerClosed (ir_generation request + 1))"

definition pickFailed :: "IconPickerState \<Rightarrow> IconPickerRequest \<Rightarrow> jsstring \<Rightarrow> IconPickerState" where
  "pickFailed state request message =
     (if \<not> is_PickerPicking state \<or> ps_request state \<noteq> request then state
      else PickerReady (ps_topic state) (ps_request state) (ps_suggestions state) (Some message))"

definition applyTopicIcon :: "IconPickerTopic list \<Rightarrow> bigint \<Rightarrow> jsstring \<Rightarrow> IconPickerTopic list" where
  "applyTopicIcon topics topicId iconId = map_where (\<lambda>t. ip_id t = topicId) (\<lambda>t. t\<lparr>ip_iconId := iconId\<rparr>) topics"

section \<open>Calls\<close>

definition readErrorMessage :: "HttpReply \<Rightarrow> Raised + jsstring" where
  "readErrorMessage reply =
     sum_bind (hr_text reply) (\<lambda>body.
       Inr (if js_trim body = [] then ''Request failed with status '' @ dec_of_int (hr_status reply) else js_trim body))"

definition icon_request :: "jsstring \<Rightarrow> json \<Rightarrow> HttpRequest" where
  "icon_request url body =
     \<lparr>rq_method = ''POST'', rq_url = url,
      rq_headers = [(''accept'', ''application/json''), (''content-type'', ''application/json'')], rq_json = Some body\<rparr>"

definition icon_call :: "fetcher \<Rightarrow> HttpRequest \<Rightarrow> (json \<Rightarrow> js_error + 'a) \<Rightarrow> Raised + 'a" where
  "icon_call fetch request parse =
     sum_bind (fetch request) (\<lambda>reply.
       if \<not> hr_ok reply
       then sum_bind (readErrorMessage reply) (\<lambda>m. Inl (RaisedError (PlainError m)))
       else sum_bind (hr_json reply) (\<lambda>j. lift_error (parse j)))"

definition suggestTopicIcons :: "fetcher \<Rightarrow> bigint \<Rightarrow> jsstring list \<Rightarrow> Raised + jsstring list" where
  "suggestTopicIcons fetch i excludedIcons =
     sum_bind (lift_error (jsonTopicId i)) (\<lambda>n.
       icon_call fetch (icon_request ''/app/topics/suggest-icons''
         (JObj [(''id'', JNum (of_int n)), (''excluded_icons'', JArr (map JStr excludedIcons))])) parseSuggestedIcons)"

definition setTopicIcon :: "fetcher \<Rightarrow> bigint \<Rightarrow> jsstring \<Rightarrow> Raised + jsstring" where
  "setTopicIcon fetch i iconId =
     sum_bind (lift_error (jsonTopicId i)) (\<lambda>n.
       icon_call fetch (icon_request ''/app/topics/set-icon''
         (JObj [(''id'', JNum (of_int n)), (''icon_id'', JStr iconId)])) parseSetTopicIcon)"

section \<open>The panel\<close>

definition picker_suggestions :: "IconPickerState \<Rightarrow> jsstring list" where
  "picker_suggestions picker = (if is_PickerReady picker \<or> is_PickerPicking picker then ps_suggestions picker else [])"

definition picker_error :: "IconPickerState \<Rightarrow> jsstring option" where
  "picker_error picker =
     (if is_PickerSuggestError picker then Some (ps_message picker)
      else if is_PickerReady picker then ps_error picker else None)"

text \<open>The request the effect sends for a suggesting picker, with the icons it excludes.\<close>

definition suggest_effect :: "IconPickerState \<Rightarrow> (IconPickerRequest \<times> jsstring list) option" where
  "suggest_effect picker = (if is_PickerSuggesting picker then Some (ps_request picker, ps_excluded picker) else None)"

definition onPick :: "IconPickerState \<Rightarrow> jsstring \<Rightarrow> IconPickerState \<times> (IconPickerRequest \<times> bigint \<times> jsstring) option" where
  "onPick picker iconId =
     (let next = startPickingIcon picker iconId
      in (next, if is_PickerPicking next then Some (ps_request next, ip_id (ps_topic next), iconId) else None))"

text \<open>The answer of \<open>setTopicIcon\<close>: the dialog and the topics of the page. The icon is applied even when
  the dialog was closed meanwhile.\<close>

definition iconApplied ::
    "IconPickerState \<Rightarrow> IconPickerTopic list \<Rightarrow> IconPickerRequest \<Rightarrow> bigint \<Rightarrow> jsstring \<Rightarrow> IconPickerState \<times> IconPickerTopic list" where
  "iconApplied picker topics request topicId applied =
     (pickSucceeded picker request, applyTopicIcon topics topicId applied)"

section \<open>Lemmas\<close>

datatype PickerEvent =
    OpenPicker IconPickerTopic | ClosePicker | RerollPicker | PickIcon jsstring
  | Suggestions IconPickerRequest "jsstring list" | SuggestFailure IconPickerRequest jsstring
  | Picked IconPickerRequest | PickFailure IconPickerRequest jsstring

fun picker_step :: "IconPickerState \<Rightarrow> PickerEvent \<Rightarrow> IconPickerState" where
  "picker_step s (OpenPicker topic) = openIconPicker s topic"
| "picker_step s ClosePicker = closeIconPicker s"
| "picker_step s RerollPicker = rerollIconPicker s"
| "picker_step s (PickIcon icon) = startPickingIcon s icon"
| "picker_step s (Suggestions r icons) = suggestionsReceived s r icons"
| "picker_step s (SuggestFailure r m) = suggestionsFailed s r m"
| "picker_step s (Picked r) = pickSucceeded s r"
| "picker_step s (PickFailure r m) = pickFailed s r m"

definition suggesting_request :: "IconPickerState \<Rightarrow> IconPickerRequest option" where
  "suggesting_request s = (if is_PickerSuggesting s then Some (ps_request s) else None)"

fun suggestion_answers :: "PickerEvent \<Rightarrow> IconPickerRequest option" where
  "suggestion_answers (Suggestions r icons) = Some r"
| "suggestion_answers (SuggestFailure r m) = Some r"
| "suggestion_answers e = None"

lemmas picker_ops = openIconPicker_def rerollIconPicker_def suggestionsReceived_def suggestionsFailed_def
  startPickingIcon_def pickSucceeded_def pickFailed_def suggesting_request_def

interpretation picker: latest_request picker_generationOf suggesting_request ir_generation suggestion_answers picker_step
proof
  fix s e r
  show "picker_generationOf s \<le> picker_generationOf (picker_step s e)"
    by (cases s; cases e) (auto simp: picker_ops)
  show "suggesting_request s = Some r \<Longrightarrow> ir_generation r = picker_generationOf s"
    by (cases s) (auto simp: picker_ops)
  show "suggestion_answers e = Some r \<Longrightarrow> suggesting_request s \<noteq> Some r \<Longrightarrow> picker_step s e = s"
    by (cases e) (auto simp: picker_ops split: if_splits)
  show "suggestion_answers e = Some r \<Longrightarrow> suggesting_request s = Some r \<Longrightarrow> suggesting_request (picker_step s e) = None"
    by (cases e) (auto simp: picker_ops split: if_splits)
  show "suggesting_request (picker_step s e) = Some r \<Longrightarrow> suggesting_request s = Some r \<or> picker_generationOf s < ir_generation r"
    by (cases s; cases e) (auto simp: picker_ops split: if_splits)
qed

text \<open>The request on show is always for the topic on show.\<close>

definition picker_ok :: "IconPickerState \<Rightarrow> bool" where
  "picker_ok s \<longleftrightarrow> (case s of
     PickerClosed g \<Rightarrow> True
   | PickerReady t r icons e \<Rightarrow> ir_topicId r = ip_id t \<and> icons \<noteq> []
   | PickerPicking t r icons i \<Rightarrow> ir_topicId r = ip_id t \<and> icons \<noteq> [] \<and> js_trim i \<noteq> []
   | _ \<Rightarrow> ir_topicId (ps_request s) = ip_id (ps_topic s))"

lemma picker_ok_step: "picker_ok s \<Longrightarrow> picker_ok (picker_step s e)"
  by (cases s; cases e) (auto simp: picker_ok_def picker_ops)

lemma picker_ok_run: "picker_ok s \<Longrightarrow> picker_ok (foldl picker_step s es)"
  by (induction es arbitrary: s) (auto simp: picker_ok_step)

lemma suggested_icons_nonblank: "parseSuggestedIcons j = Inr icons \<Longrightarrow> \<forall>i \<in> set icons. js_trim i \<noteq> []"
proof -
  assume "parseSuggestedIcons j = Inr icons"
  then obtain js where js: "map_result suggested_icon js = Inr icons"
    by (auto simp: parseSuggestedIcons_def split: json.splits option.splits)
  have "suggested_icon x = Inr y \<Longrightarrow> js_trim y \<noteq> []" for x y
    by (auto simp: suggested_icon_def split: json.splits if_splits)
  with map_result_Inr [OF js] show ?thesis by (metis in_set_conv_nth)
qed

lemma json_topic_exact: "jsonTopicId i = Inr n \<longleftrightarrow> n = i \<and> 1 \<le> i \<and> i \<le> js_max_safe"
  by (auto simp: jsonTopicId_def)

section \<open>Properties\<close>

text \<open>The icon picker is sound over every run of its events: the request in its state is always for the
  topic on show, a ready dialog has icons to pick, a suggestion answer that is no longer waited
  for never changes anything again, and a pick leaves the dialog either by its own
  answer or by closing it.\<close>

theorem icon_picker_runs:
  assumes "suggesting_request (foldl picker_step INITIAL_ICON_PICKER_STATE es) = Some r"
    and "suggesting_request (foldl picker_step INITIAL_ICON_PICKER_STATE (es @ fs)) \<noteq> Some r"
  shows "let s = foldl picker_step INITIAL_ICON_PICKER_STATE (es @ fs @ gs)
         in picker_ok s \<and> suggestionsReceived s r icons = s \<and> suggestionsFailed s r m = s \<and>
            (is_PickerPicking s \<longrightarrow> (\<forall>icon. fst (onPick s icon) = s) \<and>
               pickSucceeded s (ps_request s) = PickerClosed (picker_generationOf s + 1) \<and>
               pickFailed s (ps_request s) m = PickerReady (ps_topic s) (ps_request s) (ps_suggestions s) (Some m))"
proof -
  note gone = picker.gone_for_good [of "foldl picker_step INITIAL_ICON_PICKER_STATE es" r fs _ gs, OF assms(1)]
  have "picker_ok (foldl picker_step INITIAL_ICON_PICKER_STATE (es @ fs @ gs))"
    by (intro picker_ok_run) (simp add: picker_ok_def INITIAL_ICON_PICKER_STATE_def)
  moreover have "is_PickerPicking s \<Longrightarrow> fst (onPick s icon) = s" for s icon
    by (cases s) (auto simp: onPick_def startPickingIcon_def Let_def)
  moreover have "is_PickerPicking s \<Longrightarrow> pickSucceeded s (ps_request s) = PickerClosed (picker_generationOf s + 1) \<and>
      pickFailed s (ps_request s) m = PickerReady (ps_topic s) (ps_request s) (ps_suggestions s) (Some m)" for s
    by (cases s) (auto simp: picker_ops)
  ultimately show ?thesis
    using gone [of "Suggestions r icons"] gone [of "SuggestFailure r m"] assms(2) by (simp add: Let_def)
qed

theorem icon_picker_runs_witness:
  "let topic = \<lparr>ip_id = 3, ip_name = ''math'', ip_iconId = [], ip_topicColor = []\<rparr>;
       s = foldl picker_step INITIAL_ICON_PICKER_STATE [OpenPicker topic, ClosePicker, OpenPicker topic]
   in suggestionsReceived s \<lparr>ir_topicId = 3, ir_generation = 1\<rparr> [''a:b''] = s \<and> is_PickerSuggesting s"
proof -
  let ?t = "\<lparr>ip_id = 3, ip_name = ''math'', ip_iconId = [], ip_topicColor = []\<rparr>"
  have w: "suggesting_request (foldl picker_step INITIAL_ICON_PICKER_STATE [OpenPicker ?t]) = Some \<lparr>ir_topicId = 3, ir_generation = 1\<rparr>"
    "suggesting_request (foldl picker_step INITIAL_ICON_PICKER_STATE ([OpenPicker ?t] @ [ClosePicker])) \<noteq> Some \<lparr>ir_topicId = 3, ir_generation = 1\<rparr>"
    "is_PickerSuggesting (foldl picker_step INITIAL_ICON_PICKER_STATE [OpenPicker ?t, ClosePicker, OpenPicker ?t])"
    by (simp_all add: picker_ops INITIAL_ICON_PICKER_STATE_def)
  then show ?thesis using icon_picker_runs [OF w(1,2), of "[OpenPicker ?t]" "[''a:b'']"] by (simp add: Let_def)
qed

end
