(* ===== verification/WebAuthn.thy ===== *)
theory WebAuthn
  imports Http_Session "HOL-Library.Word"
begin

text \<open>
  \<open>lib/webauthn-client.ts\<close>: the passkey boundary. Binary fields travel as unpadded base64url text and are bytes
  (\<open>8 word\<close>) inside. \<open>btoa\<close> and \<open>atob\<close> are those of the web platform; the browser's credential objects are
  values of \<open>browser_value\<close>.
\<close>

type_synonym buffer = "8 word list"

section \<open>\<open>btoa\<close> and \<open>atob\<close>\<close>

definition b64_alphabet :: jsstring where
  "b64_alphabet = ''ABCDEFGHIJKLMNOPQRSTUVWXYZabcdefghijklmnopqrstuvwxyz0123456789+/''"

definition b64_char :: "nat \<Rightarrow> char" where
  "b64_char n = b64_alphabet ! n"

definition b64_val :: "char \<Rightarrow> nat option" where
  "b64_val c = find_index ((=) c) b64_alphabet"

fun sextets :: "nat list \<Rightarrow> nat list" where
  "sextets (a # b # c # rest) = a div 4 # (a mod 4 * 16 + b div 16) # (b mod 16 * 4 + c div 64) # c mod 64 # sextets rest"
| "sextets [a, b] = [a div 4, a mod 4 * 16 + b div 16, b mod 16 * 4]"
| "sextets [a] = [a div 4, a mod 4 * 16]"
| "sextets [] = []"

fun octets :: "nat list \<Rightarrow> nat list" where
  "octets (x # y # z # w # rest) = (x * 4 + y div 16) # (y mod 16 * 16 + z div 4) # (z mod 4 * 64 + w) # octets rest"
| "octets [x, y, z] = [x * 4 + y div 16, y mod 16 * 16 + z div 4]"
| "octets [x, y] = [x * 4 + y div 16]"
| "octets _ = []"

definition btoa :: "buffer \<Rightarrow> jsstring" where
  "btoa bytes =
     (let text = map b64_char (sextets (map unat bytes))
      in text @ replicate ((4 - length text mod 4) mod 4) CHR ''='')"

text \<open>The forgiving decoder: up to two padding characters end a text of whole groups.\<close>

definition strip_padding :: "jsstring \<Rightarrow> jsstring" where
  "strip_padding s =
     (if length s mod 4 \<noteq> 0 \<or> s = [] \<or> last s \<noteq> CHR ''='' then s
      else if butlast s \<noteq> [] \<and> last (butlast s) = CHR ''='' then butlast (butlast s) else butlast s)"

definition atob :: "jsstring \<Rightarrow> buffer option" where
  "atob s =
     (let text = strip_padding s
      in if length text mod 4 = 1 \<or> \<not> list_all (\<lambda>c. b64_val c \<noteq> None) text then None
         else Some (map word_of_nat (octets (map (\<lambda>c. the (b64_val c)) text))))"

section \<open>base64url\<close>

definition is_base64url :: "char \<Rightarrow> bool" where
  "is_base64url c \<longleftrightarrow> c \<in> set ''ABCDEFGHIJKLMNOPQRSTUVWXYZabcdefghijklmnopqrstuvwxyz0123456789_-''"

definition to_standard :: "char \<Rightarrow> char" where
  "to_standard c = (if c = CHR ''-'' then CHR ''+'' else if c = CHR ''_'' then CHR ''/'' else c)"

definition to_url :: "char \<Rightarrow> char" where
  "to_url c = (if c = CHR ''+'' then CHR ''-'' else if c = CHR ''/'' then CHR ''_'' else c)"

definition decodeBase64Url :: "jsstring \<Rightarrow> buffer option" where
  "decodeBase64Url value =
     (if \<not> list_all is_base64url value \<or> length value mod 4 = 1 then None
      else let padded = value @ replicate ((length value + 3) div 4 * 4 - length value) CHR ''=''
           in atob (map to_standard padded))"

definition encodeBase64Url :: "buffer \<Rightarrow> jsstring" where
  "encodeBase64Url value = filter (\<lambda>c. c \<noteq> CHR ''='') (map to_url (btoa value))"

section \<open>Challenges\<close>

record CredentialDescriptor =
  cd_id :: buffer
  cd_transports :: "jsstring list option"

record AuthenticatorSelection =
  as_attachment :: "jsstring option"
  as_residentKey :: "jsstring option"
  as_requireResidentKey :: "bool option"
  as_userVerification :: "jsstring option"

record RequestOptions =
  ro_challenge :: buffer
  ro_timeout :: "rat option"
  ro_rpId :: "jsstring option"
  ro_userVerification :: "jsstring option"
  ro_allowCredentials :: "CredentialDescriptor list option"

record CreationOptions =
  co_challenge :: buffer
  co_rpName :: jsstring
  co_rpId :: "jsstring option"
  co_userId :: buffer
  co_userName :: jsstring
  co_userDisplayName :: jsstring
  co_pubKeyCredParams :: "int list"
  co_timeout :: "rat option"
  co_excludeCredentials :: "CredentialDescriptor list option"
  co_authenticatorSelection :: AuthenticatorSelection
  co_attestation :: "jsstring option"

text \<open>The four enumerations: the value itself when it is one of the words.\<close>

definition one_of :: "jsstring list \<Rightarrow> json \<Rightarrow> jsstring option" where
  "one_of words value = (case value of JStr s \<Rightarrow> if s \<in> set words then Some s else None | _ \<Rightarrow> None)"

definition parseUserVerification :: "json \<Rightarrow> jsstring option" where
  "parseUserVerification = one_of [''required'', ''preferred'', ''discouraged'']"

definition parseTransport :: "json \<Rightarrow> jsstring option" where
  "parseTransport = one_of [''ble'', ''hybrid'', ''internal'', ''nfc'', ''usb'']"

definition parseAuthenticatorAttachment :: "json \<Rightarrow> jsstring option" where
  "parseAuthenticatorAttachment = one_of [''cross-platform'', ''platform'']"

definition parseResidentKey :: "json \<Rightarrow> jsstring option" where
  "parseResidentKey = one_of [''discouraged'', ''preferred'', ''required'']"

fun map_option_list :: "('a \<Rightarrow> 'b option) \<Rightarrow> 'a list \<Rightarrow> 'b list option" where
  "map_option_list f [] = Some []"
| "map_option_list f (x # xs) =
     (case f x of None \<Rightarrow> None | Some y \<Rightarrow> map_option (Cons y) (map_option_list f xs))"

text \<open>An optional property: absent is fine, present must parse.\<close>

definition optional_property :: "json option \<Rightarrow> (json \<Rightarrow> 'a option) \<Rightarrow> 'a option option" where
  "optional_property value parse = (case value of None \<Rightarrow> Some None | Some j \<Rightarrow> map_option Some (parse j))"

definition parse_transports :: "json \<Rightarrow> jsstring list option" where
  "parse_transports value = (case value of JArr js \<Rightarrow> map_option_list parseTransport js | _ \<Rightarrow> None)"

definition parse_descriptor :: "json \<Rightarrow> CredentialDescriptor option" where
  "parse_descriptor candidate =
     (case candidate of
        JObj props \<Rightarrow>
          (case (json_field props ''type'' = Some (JStr ''public-key''), json_field props ''id'') of
             (True, Some (JStr text)) \<Rightarrow>
               (case (decodeBase64Url text, optional_property (json_field props ''transports'') parse_transports) of
                  (Some i, Some transports) \<Rightarrow> Some \<lparr>cd_id = i, cd_transports = transports\<rparr>
                | _ \<Rightarrow> None)
           | _ \<Rightarrow> None)
      | _ \<Rightarrow> None)"

definition parseAllowCredentials :: "json \<Rightarrow> CredentialDescriptor list option" where
  "parseAllowCredentials value = (case value of JArr js \<Rightarrow> map_option_list parse_descriptor js | _ \<Rightarrow> None)"

definition json_bool :: "json \<Rightarrow> bool option" where
  "json_bool value = (case value of JBool b \<Rightarrow> Some b | _ \<Rightarrow> None)"

definition parseAuthenticatorSelection :: "json \<Rightarrow> AuthenticatorSelection option" where
  "parseAuthenticatorSelection value =
     (case value of
        JObj props \<Rightarrow>
          (case (optional_property (json_field props ''authenticatorAttachment'') parseAuthenticatorAttachment,
                 optional_property (json_field props ''residentKey'') parseResidentKey,
                 optional_property (json_field props ''requireResidentKey'') json_bool,
                 optional_property (json_field props ''userVerification'') parseUserVerification) of
             (Some a, Some r, Some q, Some u) \<Rightarrow>
               Some \<lparr>as_attachment = a, as_residentKey = r, as_requireResidentKey = q, as_userVerification = u\<rparr>
           | _ \<Rightarrow> None)
      | _ \<Rightarrow> None)"

definition parse_alg :: "json \<Rightarrow> int option" where
  "parse_alg candidate =
     (case candidate of
        JObj props \<Rightarrow>
          (case (json_field props ''type'' = Some (JStr ''public-key''), json_field props ''alg'') of
             (True, Some (JNum r)) \<Rightarrow> if of_int \<lfloor>r\<rfloor> = r then Some \<lfloor>r\<rfloor> else None
           | _ \<Rightarrow> None)
      | _ \<Rightarrow> None)"

definition parsePublicKeyCredentialParameters :: "json \<Rightarrow> int list option" where
  "parsePublicKeyCredentialParameters value =
     (case value of JArr js \<Rightarrow> if js = [] then None else map_option_list parse_alg js | _ \<Rightarrow> None)"

definition parse_timeout :: "json \<Rightarrow> rat option" where
  "parse_timeout value = (case value of JNum r \<Rightarrow> if r < 0 then None else Some r | _ \<Rightarrow> None)"

definition nonempty_text :: "json \<Rightarrow> jsstring option" where
  "nonempty_text value = (case value of JStr s \<Rightarrow> if s = [] then None else Some s | _ \<Rightarrow> None)"

text \<open>A guard of a parser: the value, or the message of the challenge that is invalid.\<close>

definition require :: "'a option \<Rightarrow> jsstring \<Rightarrow> jsstring + 'a" where
  "require value message = (case value of None \<Rightarrow> Inl message | Some a \<Rightarrow> Inr a)"

definition json_object :: "json option \<Rightarrow> (jsstring \<times> json) list option" where
  "json_object value = (case value of Some (JObj props) \<Rightarrow> Some props | _ \<Rightarrow> None)"

definition json_string :: "json option \<Rightarrow> jsstring option" where
  "json_string value = (case value of Some (JStr s) \<Rightarrow> Some s | _ \<Rightarrow> None)"

definition nonempty_buffer :: "jsstring \<Rightarrow> buffer option" where
  "nonempty_buffer text =
     (case decodeBase64Url text of None \<Rightarrow> None | Some b \<Rightarrow> if b = [] then None else Some b)"

definition public_key_of :: "json \<Rightarrow> (jsstring \<times> json) list option" where
  "public_key_of value = (case value of JObj props \<Rightarrow> json_object (json_field props ''publicKey'') | _ \<Rightarrow> None)"

definition parsePasskeyLoginChallenge :: "json \<Rightarrow> jsstring + RequestOptions" where
  "parsePasskeyLoginChallenge value =
     sum_bind (require (public_key_of value) ''Passkey login returned an invalid challenge'') (\<lambda>key.
     sum_bind (require (json_string (json_field key ''challenge'')) ''Passkey login challenge is missing a challenge'') (\<lambda>text.
     sum_bind (require (nonempty_buffer text) ''Passkey login challenge has invalid binary data'') (\<lambda>challenge.
     sum_bind (require (optional_property (json_field key ''timeout'') parse_timeout)
                 ''Passkey login challenge has an invalid timeout'') (\<lambda>timeout.
     sum_bind (require (optional_property (json_field key ''rpId'') nonempty_text)
                 ''Passkey login challenge has an invalid relying party'') (\<lambda>rpId.
     sum_bind (require (optional_property (json_field key ''userVerification'') parseUserVerification)
                 ''Passkey login challenge has invalid user verification'') (\<lambda>uv.
     sum_bind (require (optional_property (json_field key ''allowCredentials'') parseAllowCredentials)
                 ''Passkey login challenge has invalid allowed credentials'') (\<lambda>allow.
       Inr \<lparr>ro_challenge = challenge, ro_timeout = timeout, ro_rpId = rpId,
            ro_userVerification = uv, ro_allowCredentials = allow\<rparr>)))))))"

definition no_selection :: AuthenticatorSelection where
  "no_selection = \<lparr>as_attachment = None, as_residentKey = None, as_requireResidentKey = None, as_userVerification = None\<rparr>"

text \<open>The two groups of required fields: presence, then the binary data.\<close>

definition registration_fields ::
    "(jsstring \<times> json) list \<Rightarrow> (jsstring \<times> (jsstring \<times> json) list \<times> jsstring \<times> jsstring \<times> jsstring \<times> jsstring) option" where
  "registration_fields key =
     (case (json_string (json_field key ''challenge''), json_object (json_field key ''rp''), json_object (json_field key ''user'')) of
        (Some challenge, Some rp, Some user) \<Rightarrow>
          (case (json_string (json_field rp ''name''), json_string (json_field user ''id''),
                 json_string (json_field user ''name''), json_string (json_field user ''displayName'')) of
             (Some rpName, Some userId, Some name, Some display) \<Rightarrow> Some (challenge, rp, rpName, userId, name, display)
           | _ \<Rightarrow> None)
      | _ \<Rightarrow> None)"

definition registration_binary ::
    "(jsstring \<times> json) list \<Rightarrow> jsstring \<Rightarrow> jsstring \<Rightarrow> (buffer \<times> buffer \<times> int list) option" where
  "registration_binary key challengeText userText =
     (case (nonempty_buffer challengeText, nonempty_buffer userText,
            Option.bind (json_field key ''pubKeyCredParams'') parsePublicKeyCredentialParameters) of
        (Some challenge, Some userId, Some parameters) \<Rightarrow> Some (challenge, userId, parameters)
      | _ \<Rightarrow> None)"

definition parsePasskeyRegistrationChallenge :: "json \<Rightarrow> jsstring + CreationOptions" where
  "parsePasskeyRegistrationChallenge value =
     sum_bind (require (public_key_of value) ''Passkey registration returned an invalid challenge'') (\<lambda>key.
     sum_bind (require (registration_fields key)
                 ''Passkey registration challenge is missing required fields'') (\<lambda>(challengeText, rp, rpName, userText, name, display).
     sum_bind (require (registration_binary key challengeText userText)
                 ''Passkey registration challenge has invalid binary data'') (\<lambda>(challenge, userId, parameters).
     sum_bind (require (optional_property (json_field rp ''id'') nonempty_text)
                 ''Passkey registration challenge has an invalid relying party'') (\<lambda>rpId.
     sum_bind (require (optional_property (json_field key ''timeout'') parse_timeout)
                 ''Passkey registration challenge has an invalid timeout'') (\<lambda>timeout.
     sum_bind (require (optional_property (json_field key ''excludeCredentials'') parseAllowCredentials)
                 ''Passkey registration challenge has invalid excluded credentials'') (\<lambda>exclude.
     sum_bind (require (case json_field key ''authenticatorSelection'' of
                          None \<Rightarrow> Some no_selection | Some j \<Rightarrow> parseAuthenticatorSelection j)
                 ''Passkey registration challenge has invalid authenticator selection'') (\<lambda>selection.
     sum_bind (require (optional_property (json_field key ''attestation'') (one_of [''direct'', ''enterprise'', ''indirect'', ''none'']))
                 ''Passkey registration challenge has invalid attestation'') (\<lambda>attestation.
       Inr \<lparr>co_challenge = challenge, co_rpName = rpName, co_rpId = rpId, co_userId = userId, co_userName = name,
            co_userDisplayName = display, co_pubKeyCredParams = parameters, co_timeout = timeout,
            co_excludeCredentials = exclude,
            co_authenticatorSelection = selection\<lparr>as_residentKey := Some ''required'', as_requireResidentKey := Some True\<rparr>,
            co_attestation = attestation\<rparr>))))))))"

section \<open>Credentials\<close>

datatype browser_value =
    BrowserNull
  | BrowserText jsstring
  | BrowserBuffer buffer
  | BrowserObject "(jsstring \<times> browser_value) list"
  | BrowserOther

definition readBuffer :: "browser_value option \<Rightarrow> buffer option" where
  "readBuffer value = (case value of Some (BrowserBuffer b) \<Rightarrow> Some b | _ \<Rightarrow> None)"

record PasskeyAssertion =
  ass_id :: jsstring
  ass_rawId :: jsstring
  ass_authenticatorData :: jsstring
  ass_clientDataJSON :: jsstring
  ass_signature :: jsstring
  ass_userHandle :: "jsstring option"

datatype 'a CredentialResult = CredentialGiven 'a | CredentialCancelled jsstring | CredentialError jsstring

record PasskeyRegistration =
  pr_id :: jsstring
  pr_rawId :: jsstring
  pr_attestationObject :: jsstring
  pr_clientDataJSON :: jsstring

fun raised_message :: "Raised \<Rightarrow> jsstring \<Rightarrow> jsstring" where
  "raised_message (RaisedError e) fallback = js_message e"
| "raised_message RaisedValue fallback = fallback"

text \<open>The checks both requests make on the object the browser returns.\<close>

definition credential_parts ::
    "Raised + browser_value \<Rightarrow> jsstring \<Rightarrow> jsstring \<Rightarrow>
     'a CredentialResult + jsstring \<times> (jsstring \<times> browser_value) list \<times> (jsstring \<times> browser_value) list" where
  "credential_parts outcome cancelled invalid =
     (case outcome of
        Inl e \<Rightarrow> Inl (CredentialError (raised_message e ''Passkey error''))
      | Inr BrowserNull \<Rightarrow> Inl (CredentialCancelled cancelled)
      | Inr (BrowserObject props) \<Rightarrow>
          (case (map_of props ''type'' = Some (BrowserText ''public-key''), map_of props ''id'') of
             (True, Some (BrowserText i)) \<Rightarrow>
               (case map_of props ''response'' of
                  Some (BrowserObject response) \<Rightarrow> Inr (i, props, response)
                | _ \<Rightarrow> Inl (CredentialError invalid))
           | _ \<Rightarrow> Inl (CredentialError ''Passkey returned an invalid credential''))
      | Inr _ \<Rightarrow> Inl (CredentialError ''Passkey returned an invalid credential''))"

definition requestPasskeyAssertion ::
    "(RequestOptions \<Rightarrow> Raised + browser_value) \<Rightarrow> RequestOptions \<Rightarrow> PasskeyAssertion CredentialResult" where
  "requestPasskeyAssertion getter request =
     (case credential_parts (getter request) ''No passkey was selected'' ''Passkey returned an invalid assertion'' of
        Inl r \<Rightarrow> r
      | Inr (i, props, response) \<Rightarrow>
          let userHandle = map_of response ''userHandle'';
              absent = (userHandle = None \<or> userHandle = Some BrowserNull);
              parsedUserHandle = (if absent then None else readBuffer userHandle)
          in (case (readBuffer (map_of props ''rawId''), readBuffer (map_of response ''authenticatorData''),
                    readBuffer (map_of response ''clientDataJSON''), readBuffer (map_of response ''signature'')) of
                (Some rawId, Some authenticatorData, Some clientDataJSON, Some signature) \<Rightarrow>
                  if parsedUserHandle = None \<and> \<not> absent
                  then CredentialError ''Passkey returned an invalid assertion''
                  else CredentialGiven \<lparr>ass_id = i, ass_rawId = encodeBase64Url rawId,
                         ass_authenticatorData = encodeBase64Url authenticatorData,
                         ass_clientDataJSON = encodeBase64Url clientDataJSON,
                         ass_signature = encodeBase64Url signature,
                         ass_userHandle = map_option encodeBase64Url parsedUserHandle\<rparr>
              | _ \<Rightarrow> CredentialError ''Passkey returned an invalid assertion''))"

definition requestPasskeyRegistration ::
    "(CreationOptions \<Rightarrow> Raised + browser_value) \<Rightarrow> CreationOptions \<Rightarrow> PasskeyRegistration CredentialResult" where
  "requestPasskeyRegistration creator request =
     (case credential_parts (creator request) ''No passkey was created'' ''Passkey returned an invalid registration'' of
        Inl r \<Rightarrow> r
      | Inr (i, props, response) \<Rightarrow>
          (case (readBuffer (map_of props ''rawId''), readBuffer (map_of response ''attestationObject''),
                 readBuffer (map_of response ''clientDataJSON'')) of
             (Some rawId, Some attestation, Some clientDataJSON) \<Rightarrow>
               CredentialGiven \<lparr>pr_id = i, pr_rawId = encodeBase64Url rawId,
                 pr_attestationObject = encodeBase64Url attestation, pr_clientDataJSON = encodeBase64Url clientDataJSON\<rparr>
           | _ \<Rightarrow> CredentialError ''Passkey returned an invalid registration''))"

section \<open>Lemmas\<close>

lemma octets_sextets: "\<forall>n \<in> set ns. n < 256 \<Longrightarrow> octets (sextets ns) = ns"
proof (induction ns rule: sextets.induct)
  case (1 a b c rest)
  have "(a mod 4 * 16 + b div 16) div 16 = a mod 4" "(a mod 4 * 16 + b div 16) mod 16 = b div 16"
    "(b mod 16 * 4 + c div 64) div 4 = b mod 16" "(b mod 16 * 4 + c div 64) mod 4 = c div 64"
    using 1(2) by (simp_all add: less_mult_imp_div_less div_add1_eq mod_add_eq)
  with 1 show ?case by simp
next
  case (2 a b)
  have "(a mod 4 * 16 + b div 16) div 16 = a mod 4" "(a mod 4 * 16 + b div 16) mod 16 = b div 16"
    using 2 by (simp_all add: less_mult_imp_div_less)
  then show ?case by simp
qed simp_all

lemma sextets_bound: "\<forall>n \<in> set ns. n < 256 \<Longrightarrow> \<forall>n \<in> set (sextets ns). n < 64"
proof (induction ns rule: sextets.induct)
  case (1 a b c rest)
  then have "a div 4 < 64" "a mod 4 * 16 + b div 16 < 64" "b mod 16 * 4 + c div 64 < 64"
    by (simp_all, linarith+)
  with 1 show ?case by simp
next
  case (2 a b)
  then show ?case by simp linarith
next
  case (3 a)
  then show ?case by simp
qed simp

lemma sextets_length: "length (sextets ns) mod 4 \<noteq> 1"
  by (induction ns rule: sextets.induct) simp_all

lemma b64_table:
  "list_all (\<lambda>n. to_url (b64_char n) \<noteq> CHR ''='' \<and> is_base64url (to_url (b64_char n)) \<and>
     to_standard (to_url (b64_char n)) = b64_char n \<and> b64_val (b64_char n) = Some n \<and> b64_char n \<noteq> CHR ''='') [0..<64]"
  by code_simp

lemma b64_chars:
  assumes "n < 64"
  shows "to_url (b64_char n) \<noteq> CHR ''=''" "is_base64url (to_url (b64_char n))"
    "to_standard (to_url (b64_char n)) = b64_char n" "b64_val (b64_char n) = Some n" "b64_char n \<noteq> CHR ''=''"
  using b64_table assms by (simp_all add: list_all_iff)

lemma byte_bound: "unat (b :: 8 word) < 256"
  using unsigned_less [of b] by simp

lemma encode_text:
  assumes "ss = sextets (map unat bytes)"
  shows "encodeBase64Url bytes = map (\<lambda>n. to_url (b64_char n)) ss"
proof -
  have "\<forall>n \<in> set ss. n < 64" unfolding assms by (rule sextets_bound) (auto simp: byte_bound)
  then have "filter (\<lambda>c. c \<noteq> CHR ''='') (map (\<lambda>n. to_url (b64_char n)) ss) = map (\<lambda>n. to_url (b64_char n)) ss"
    by (auto simp: filter_id_conv b64_chars)
  then show ?thesis by (simp add: encodeBase64Url_def btoa_def assms comp_def to_url_def [of "CHR ''=''"])
qed

lemma strip_own_padding:
  assumes "\<forall>c \<in> set text. c \<noteq> CHR ''=''" and "length text mod 4 \<noteq> 1"
  shows "strip_padding (text @ replicate ((length text + 3) div 4 * 4 - length text) CHR ''='') = text"
proof -
  define p where "p = (length text + 3) div 4 * 4 - length text"
  have "n mod 4 \<noteq> 1 \<Longrightarrow> (n + 3) div 4 * 4 - n = 0 \<and> n mod 4 = 0 \<or> (n + 3) div 4 * 4 - n = 1 \<and> n \<noteq> 0 \<and> (n + 1) mod 4 = 0 \<or>
      (n + 3) div 4 * 4 - n = 2 \<and> (n + 2) mod 4 = 0" for n :: nat
    by presburger
  from this [of "length text"] assms(2)
  have "p = 0 \<and> length text mod 4 = 0 \<or> p = 1 \<and> text \<noteq> [] \<and> (length text + 1) mod 4 = 0 \<or>
      p = 2 \<and> (length text + 2) mod 4 = 0"
    unfolding p_def by simp
  then have "strip_padding (text @ replicate p CHR ''='') = text"
  proof (elim disjE conjE)
    assume "p = 0"
    moreover have "text \<noteq> [] \<Longrightarrow> last text \<noteq> CHR ''=''" using assms(1) by simp
    ultimately have "strip_padding text = text" unfolding strip_padding_def by auto
    with \<open>p = 0\<close> show ?thesis by simp
  next
    assume "p = 1" "text \<noteq> []" "(length text + 1) mod 4 = 0"
    with assms(1) show ?thesis by (simp add: strip_padding_def butlast_append)
  next
    assume "p = 2" "(length text + 2) mod 4 = 0"
    then show ?thesis by (simp add: strip_padding_def numeral_2_eq_2 butlast_append)
  qed
  then show ?thesis by (simp add: p_def)
qed

lemma atob_sextets:
  assumes "\<forall>n \<in> set ss. n < 64" and "length ss mod 4 \<noteq> 1"
  shows "atob (map b64_char ss @ replicate ((length ss + 3) div 4 * 4 - length ss) CHR ''='') =
           Some (map word_of_nat (octets ss))"
proof -
  have "strip_padding (map b64_char ss @ replicate ((length ss + 3) div 4 * 4 - length ss) CHR ''='') = map b64_char ss"
    using strip_own_padding [of "map b64_char ss"] assms by (auto simp: b64_chars)
  moreover have "map (\<lambda>c. the (b64_val c)) (map b64_char ss) = ss"
    using assms(1) by (auto simp: b64_chars intro: map_idI)
  moreover have "list_all (\<lambda>c. b64_val c \<noteq> None) (map b64_char ss)"
    using assms(1) by (auto simp: list_all_iff b64_chars)
  ultimately show ?thesis using assms(2) by (simp add: atob_def)
qed

lemma map_standard: "\<forall>n \<in> set ss. n < 64 \<Longrightarrow> map to_standard (map (\<lambda>n. to_url (b64_char n)) ss) = map b64_char ss"
  by (simp add: b64_chars)

lemma base64url_round_trip: "decodeBase64Url (encodeBase64Url bytes) = Some bytes"
proof -
  define ss where "ss = sextets (map unat bytes)"
  have bytes: "\<forall>n \<in> set (map unat bytes). n < 256" by (auto simp: byte_bound)
  have b: "\<forall>n \<in> set ss. n < 64" and l: "length ss mod 4 \<noteq> 1"
    unfolding ss_def using sextets_bound [OF bytes] sextets_length by blast+
  have "decodeBase64Url (map (\<lambda>n. to_url (b64_char n)) ss) = Some (map word_of_nat (octets ss))"
    using atob_sextets [OF b l] map_standard [OF b] b l unfolding decodeBase64Url_def
    by (simp add: list_all_iff b64_chars to_standard_def [of "CHR ''=''"] del: map_map)
  moreover have "octets ss = map unat bytes" unfolding ss_def by (rule octets_sextets [OF bytes])
  ultimately show ?thesis using encode_text [OF ss_def] by (simp add: comp_def)
qed

lemma encode_is_url: "list_all is_base64url (encodeBase64Url bytes)"
proof -
  have "\<forall>n \<in> set (sextets (map unat bytes)). n < 64"
    by (rule sextets_bound) (auto simp: byte_bound)
  then show ?thesis using encode_text [OF refl, of bytes] by (simp add: list_all_iff b64_chars)
qed

lemma require_Inr [simp]: "require v m = Inr a \<longleftrightarrow> v = Some a"
  by (cases v) (simp_all add: require_def)

lemma nonempty_buffer_encode: "bytes \<noteq> [] \<Longrightarrow> nonempty_buffer (encodeBase64Url bytes) = Some bytes"
  by (simp add: nonempty_buffer_def base64url_round_trip)

section \<open>Properties\<close>

text \<open>C27: binary fields survive the wire: what the client encodes is unpadded base64url text that decodes to
  the very same bytes, and the decoder accepts a text exactly when it is over the
  alphabet and of a possible length.\<close>

theorem base64url_exact:
  "decodeBase64Url (encodeBase64Url bytes) = Some bytes \<and> list_all is_base64url (encodeBase64Url bytes) \<and>
   (decodeBase64Url value \<noteq> None) = (list_all is_base64url value \<and> length value mod 4 \<noteq> 1)"
proof -
  have "\<exists>b. decodeBase64Url value = Some b" if v: "list_all is_base64url value" "length value mod 4 \<noteq> 1"
  proof -
    have ok: "b64_val (to_standard c) \<noteq> None \<and> to_standard c \<noteq> CHR ''=''" if "is_base64url c" for c
    proof -
      have "list_all (\<lambda>c. b64_val (to_standard c) \<noteq> None \<and> to_standard c \<noteq> CHR ''='')
          ''ABCDEFGHIJKLMNOPQRSTUVWXYZabcdefghijklmnopqrstuvwxyz0123456789_-''" by code_simp
      with that show ?thesis unfolding is_base64url_def list_all_iff by blast
    qed
    then have all: "\<forall>c \<in> set (map to_standard value). b64_val c \<noteq> None \<and> c \<noteq> CHR ''=''"
      using v(1) by (auto simp: list_all_iff)
    then have "strip_padding (map to_standard value @ replicate ((length value + 3) div 4 * 4 - length value) CHR ''='') = map to_standard value"
      using strip_own_padding [of "map to_standard value"] v(2) by auto
    with all v show ?thesis
      by (simp add: decodeBase64Url_def atob_def list_all_iff to_standard_def [of "CHR ''=''"] Let_def)
  qed
  then have "(decodeBase64Url value \<noteq> None) = (list_all is_base64url value \<and> length value mod 4 \<noteq> 1)"
    by (auto simp: decodeBase64Url_def)
  then show ?thesis by (simp add: base64url_round_trip encode_is_url)
qed

text \<open>C28: a registration challenge that is accepted always asks for a discoverable passkey with a non-empty
  challenge and user handle, whatever the server put into the authenticator selection.\<close>

theorem registration_is_discoverable:
  assumes "parsePasskeyRegistrationChallenge value = Inr options"
  shows "as_residentKey (co_authenticatorSelection options) = Some ''required'' \<and>
         as_requireResidentKey (co_authenticatorSelection options) = Some True \<and>
         co_challenge options \<noteq> [] \<and> co_userId options \<noteq> [] \<and> co_pubKeyCredParams options \<noteq> [] \<and> co_rpId options \<noteq> Some []"
proof -
  have alg: "parsePublicKeyCredentialParameters j = Some ps \<Longrightarrow> ps \<noteq> []" for j ps
    by (auto simp: parsePublicKeyCredentialParameters_def neq_Nil_conv split: json.splits if_splits option.splits)
  have bytes: "nonempty_buffer w = Some b \<Longrightarrow> b \<noteq> []" for w b
    by (auto simp: nonempty_buffer_def split: option.splits if_splits)
  have binary: "registration_binary key c u = Some (challenge, userId, parameters) \<Longrightarrow>
      challenge \<noteq> [] \<and> userId \<noteq> [] \<and> parameters \<noteq> []" for key c u challenge userId parameters
    using alg bytes by (auto simp: registration_binary_def bind_eq_Some_conv split: option.splits)
  have rp: "optional_property v nonempty_text = Some r \<Longrightarrow> r \<noteq> Some []" for v r
    by (auto simp: optional_property_def nonempty_text_def split: option.splits json.splits if_splits)
  from assms show ?thesis
    unfolding parsePasskeyRegistrationChallenge_def
    by (auto simp: sum_bind_Inr dest!: binary rp split: prod.splits)
qed

definition sample_challenge :: json where
  "sample_challenge =
     JObj [(''publicKey'', JObj
       [(''challenge'', JStr ''AQID''), (''rp'', JObj [(''name'', JStr ''denpie'')]),
        (''user'', JObj [(''id'', JStr ''AQ''), (''name'', JStr ''ann''), (''displayName'', JStr ''Ann'')]),
        (''pubKeyCredParams'', JArr [JObj [(''type'', JStr ''public-key''), (''alg'', JNum (of_int (- 7)))]]),
        (''authenticatorSelection'', JObj [(''residentKey'', JStr ''discouraged'')])])]"

theorem registration_is_discoverable_witness:
  "\<exists>options. parsePasskeyRegistrationChallenge sample_challenge = Inr options \<and>
     as_residentKey (co_authenticatorSelection options) = Some ''required'' \<and> co_challenge options \<noteq> []"
proof -
  have "\<not> isl (parsePasskeyRegistrationChallenge sample_challenge)" by code_simp
  then obtain options where "parsePasskeyRegistrationChallenge sample_challenge = Inr options"
    by (cases "parsePasskeyRegistrationChallenge sample_challenge") auto
  with registration_is_discoverable [OF this] show ?thesis by blast
qed

end
