(* ===== verification/Auth_Client.thy ===== *)
theory Auth_Client
  imports WebAuthn
begin

text \<open>
  \<open>lib/auth-types.ts\<close> and the requests of \<open>lib/auth-client.ts\<close>: each call of the client as a function of
  \<open>fetch\<close>. Nothing a call does escapes as an exception: its \<open>catch\<close> turns whatever was raised into a
  value. The state the calls share is in \<open>Auth_State\<close>.
\<close>

record SessionUser =
  su_id :: jsstring
  su_username :: jsstring
  su_role :: jsstring
  su_display_name :: "jsstring option"
  su_avatar_data :: "jsstring option"
  su_build_sha :: jsstring

datatype SessionState =
    SessionChecking
  | SessionGuest
  | SessionAuthenticated (st_user: SessionUser) (st_notice: "jsstring option")
  | SessionError jsstring

definition auth_asString :: "json option \<Rightarrow> js_error + jsstring" where
  "auth_asString value = (case value of Some (JStr s) \<Rightarrow> Inr s | _ \<Rightarrow> Inl (TypeError ''expected string field''))"

definition auth_asStringOrNull :: "json option \<Rightarrow> js_error + jsstring option" where
  "auth_asStringOrNull value =
     (if value = Some JNull then Inr None else sum_bind (auth_asString value) (\<lambda>s. Inr (Some s)))"

definition ME_FIELDS :: "jsstring list" where
  "ME_FIELDS = [''id'', ''username'', ''role'', ''display_name'', ''avatar_data'', ''build_sha'']"

definition parseSessionUser :: "json \<Rightarrow> js_error + SessionUser" where
  "parseSessionUser j =
     sum_bind (record_of ''/auth/me body is not an object'' j) (\<lambda>props.
     case find (\<lambda>key. key \<notin> set ME_FIELDS) (map fst props) of
       Some key \<Rightarrow> Inl (TypeError (''/auth/me unexpected field: '' @ key))
     | None \<Rightarrow>
        sum_bind (auth_asString (json_field props ''id'')) (\<lambda>i.
        sum_bind (auth_asString (json_field props ''username'')) (\<lambda>name.
        sum_bind (auth_asString (json_field props ''role'')) (\<lambda>role.
        sum_bind (auth_asStringOrNull (json_field props ''display_name'')) (\<lambda>display.
        sum_bind (auth_asStringOrNull (json_field props ''avatar_data'')) (\<lambda>avatar.
        sum_bind (auth_asString (json_field props ''build_sha'')) (\<lambda>sha.
          Inr \<lparr>su_id = i, su_username = name, su_role = role, su_display_name = display,
               su_avatar_data = avatar, su_build_sha = sha\<rparr>)))))))"

section \<open>Results\<close>

datatype AuthReason = Unauthorized | NetworkFailure | InvalidResponse

datatype AuthResult = AuthOk SessionUser | AuthFail AuthReason jsstring

datatype LogoutResult = LogoutOk | LogoutFail jsstring

datatype 'r ChallengeResult = Challenge 'r | ChallengeError AuthReason jsstring

record PasskeyInfo =
  pi_id :: jsstring
  pi_name :: jsstring

datatype PasskeyListResult = Passkeys "PasskeyInfo list" | PasskeysError jsstring

datatype PasskeyMutationResult = PasskeySuccess | PasskeyError jsstring

record ProfileUpdateInput =
  pu_displayName :: "jsstring option"
  pu_avatarData :: "jsstring option"
  pu_password :: "jsstring option"

datatype ProfileUpdateResult = ProfileUpdated SessionUser | ProfileError jsstring

section \<open>Requests\<close>

definition networkMessage :: "Raised \<Rightarrow> jsstring" where
  "networkMessage e = raised_message e ''Network request failed''"

definition responseMessage :: "HttpReply \<Rightarrow> Raised + jsstring" where
  "responseMessage reply =
     sum_bind (hr_text reply) (\<lambda>message.
       Inr (if js_trim message = [] then ''Request failed with status '' @ dec_of_int (hr_status reply)
            else js_trim message))"

definition readEmptySuccess :: "HttpReply \<Rightarrow> Raised + bool" where
  "readEmptySuccess reply =
     (if \<not> hr_ok reply then Inr False
      else sum_bind (hr_text reply) (\<lambda>body. Inr (js_trim body = [])))"

text \<open>The \<open>try ... catch\<close> around every call.\<close>

definition settle :: "(jsstring \<Rightarrow> 'r) \<Rightarrow> Raised + 'r \<Rightarrow> 'r" where
  "settle failed r = (case r of Inl e \<Rightarrow> failed (networkMessage e) | Inr a \<Rightarrow> a)"

definition auth_request :: "jsstring \<Rightarrow> jsstring \<Rightarrow> (jsstring \<times> jsstring) list \<Rightarrow> json option \<Rightarrow> HttpRequest" where
  "auth_request verb url headers body = \<lparr>rq_method = verb, rq_url = url, rq_headers = headers, rq_json = body\<rparr>"

definition json_accept :: "(jsstring \<times> jsstring) list" where
  "json_accept = [(''accept'', ''application/json'')]"

definition json_content :: "(jsstring \<times> jsstring) list" where
  "json_content = [(''content-type'', ''application/json'')]"

definition invalid_body :: "jsstring \<Rightarrow> Raised \<Rightarrow> jsstring" where
  "invalid_body what e =
     (case e of RaisedError err \<Rightarrow> what @ '' returned an invalid body: '' @ js_message err
      | RaisedValue \<Rightarrow> what @ '' returned an invalid body'')"

text \<open>\<open>parseSessionUser(await response.json())\<close> inside its own \<open>try\<close>.\<close>

definition read_user :: "HttpReply \<Rightarrow> Raised + SessionUser" where
  "read_user reply = sum_bind (hr_json reply) (\<lambda>j. lift_error (parseSessionUser j))"

definition rawFetchMe :: "fetcher \<Rightarrow> AuthResult" where
  "rawFetchMe fetch =
     settle (AuthFail NetworkFailure)
      (sum_bind (fetch (auth_request ''GET'' ''/auth/me'' json_accept None)) (\<lambda>reply.
         if hr_status reply = 401 \<or> hr_status reply = 403 then Inr (AuthFail Unauthorized ''Not signed in'')
         else if \<not> hr_ok reply
         then Inr (AuthFail NetworkFailure (''/auth/me failed with status '' @ dec_of_int (hr_status reply)))
         else Inr (case read_user reply of
                     Inr user \<Rightarrow> AuthOk user
                   | Inl e \<Rightarrow> AuthFail InvalidResponse (invalid_body ''/auth/me'' e))))"

text \<open>A signing-in call ends in \<open>None\<close> when the session is still to be read with \<open>fetchMe\<close>.\<close>

definition login_call :: "fetcher \<Rightarrow> jsstring \<Rightarrow> jsstring \<Rightarrow> AuthResult option" where
  "login_call fetch username password =
     settle (\<lambda>m. Some (AuthFail NetworkFailure m))
      (sum_bind (fetch (auth_request ''POST'' ''/auth/login'' json_content
                   (Some (JObj [(''username'', JStr username), (''password'', JStr password)])))) (\<lambda>reply.
         if \<not> hr_ok reply
         then Inr (Some (if hr_status reply = 401 then AuthFail Unauthorized ''Invalid username or password''
                         else AuthFail NetworkFailure (''Login failed with status '' @ dec_of_int (hr_status reply))))
         else Inr None))"

definition setup_call :: "fetcher \<Rightarrow> jsstring \<Rightarrow> jsstring \<Rightarrow> jsstring \<Rightarrow> AuthResult option" where
  "setup_call fetch username password setupToken =
     settle (\<lambda>m. Some (AuthFail NetworkFailure m))
      (sum_bind (fetch (auth_request ''POST'' ''/auth/setup'' json_content
                   (Some (JObj [(''username'', JStr username), (''password'', JStr password),
                                (''admin_token'', JStr setupToken)])))) (\<lambda>reply.
         if \<not> hr_ok reply
         then sum_bind (responseMessage reply) (\<lambda>m. Inr (Some (AuthFail NetworkFailure m)))
         else Inr (case read_user reply of
                     Inl e \<Rightarrow> Some (AuthFail InvalidResponse (invalid_body ''/auth/setup'' e))
                   | Inr user \<Rightarrow> None)))"

definition assertion_json :: "PasskeyAssertion \<Rightarrow> json" where
  "assertion_json a =
     JObj [(''id'', JStr (ass_id a)), (''rawId'', JStr (ass_rawId a)), (''type'', JStr ''public-key''),
           (''response'', JObj [(''authenticatorData'', JStr (ass_authenticatorData a)),
                                (''clientDataJSON'', JStr (ass_clientDataJSON a)),
                                (''signature'', JStr (ass_signature a)),
                                (''userHandle'', text_or_null (ass_userHandle a))])]"

definition registration_json :: "PasskeyRegistration \<Rightarrow> json" where
  "registration_json r =
     JObj [(''id'', JStr (pr_id r)), (''rawId'', JStr (pr_rawId r)), (''type'', JStr ''public-key''),
           (''response'', JObj [(''attestationObject'', JStr (pr_attestationObject r)),
                                (''clientDataJSON'', JStr (pr_clientDataJSON r))])]"

text \<open>The two calls that read a challenge: \<open>what\<close> names the ceremony in the message.\<close>

definition start_ceremony ::
    "fetcher \<Rightarrow> jsstring \<Rightarrow> jsstring \<Rightarrow> (json \<Rightarrow> jsstring + 'r) \<Rightarrow> 'r ChallengeResult" where
  "start_ceremony fetch url unreadable parse =
     settle (ChallengeError NetworkFailure)
      (sum_bind (fetch (auth_request ''POST'' url [] None)) (\<lambda>reply.
         if \<not> hr_ok reply
         then sum_bind (responseMessage reply) (\<lambda>m. Inr (ChallengeError NetworkFailure m))
         else Inr (case hr_json reply of
                     Inl e \<Rightarrow> ChallengeError InvalidResponse unreadable
                   | Inr body \<Rightarrow> (case parse body of Inr request \<Rightarrow> Challenge request
                                   | Inl m \<Rightarrow> ChallengeError InvalidResponse m))))"

definition startPasskeyLogin :: "fetcher \<Rightarrow> RequestOptions ChallengeResult" where
  "startPasskeyLogin fetch =
     start_ceremony fetch ''/auth/passkeys/login/start'' ''Passkey login returned an invalid challenge''
       parsePasskeyLoginChallenge"

definition startPasskeyRegistration :: "fetcher \<Rightarrow> CreationOptions ChallengeResult" where
  "startPasskeyRegistration fetch =
     start_ceremony fetch ''/auth/passkeys/register/start'' ''Passkey registration returned an invalid challenge''
       parsePasskeyRegistrationChallenge"

definition passkey_login_call :: "fetcher \<Rightarrow> PasskeyAssertion \<Rightarrow> AuthResult option" where
  "passkey_login_call fetch assertion =
     settle (\<lambda>m. Some (AuthFail NetworkFailure m))
      (sum_bind (fetch (auth_request ''POST'' ''/auth/passkeys/login/finish'' json_content (Some (assertion_json assertion))))
        (\<lambda>reply.
         if \<not> hr_ok reply
         then sum_bind (responseMessage reply) (\<lambda>m. Inr (Some (AuthFail NetworkFailure m)))
         else sum_bind (readEmptySuccess reply) (\<lambda>empty.
           Inr (if \<not> empty then Some (AuthFail InvalidResponse ''Passkey login returned an unexpected body'')
                else None))))"

text \<open>The mutations whose success body must be empty.\<close>

definition empty_mutation :: "fetcher \<Rightarrow> HttpRequest \<Rightarrow> jsstring \<Rightarrow> PasskeyMutationResult" where
  "empty_mutation fetch request unexpected =
     settle PasskeyError
      (sum_bind (fetch request) (\<lambda>reply.
         if \<not> hr_ok reply then sum_bind (responseMessage reply) (\<lambda>m. Inr (PasskeyError m))
         else sum_bind (readEmptySuccess reply) (\<lambda>empty.
           Inr (if empty then PasskeySuccess else PasskeyError unexpected))))"

definition finishPasskeyRegistration :: "fetcher \<Rightarrow> PasskeyRegistration \<Rightarrow> PasskeyMutationResult" where
  "finishPasskeyRegistration fetch r =
     empty_mutation fetch
       (auth_request ''POST'' ''/auth/passkeys/register/finish'' json_content (Some (registration_json r)))
       ''Passkey registration returned an unexpected body''"

definition deletePasskey :: "fetcher \<Rightarrow> jsstring \<Rightarrow> PasskeyMutationResult" where
  "deletePasskey fetch i =
     empty_mutation fetch (auth_request ''DELETE'' (''/auth/passkeys/'' @ encodeURIComponent i) [] None)
       ''Passkey deletion returned an unexpected body''"

definition delete_account_call :: "fetcher \<Rightarrow> PasskeyMutationResult" where
  "delete_account_call fetch =
     empty_mutation fetch (auth_request ''DELETE'' ''/auth/me'' [] None)
       ''Account deletion returned an unexpected body''"

definition parse_passkey :: "json \<Rightarrow> PasskeyInfo option" where
  "parse_passkey item =
     (case item of
        JObj props \<Rightarrow>
          (case (json_field props ''id'', json_field props ''name'') of
             (Some (JStr i), Some (JStr name)) \<Rightarrow> Some \<lparr>pi_id = i, pi_name = name\<rparr>
           | _ \<Rightarrow> None)
      | _ \<Rightarrow> None)"

definition parsePasskeyList :: "json \<Rightarrow> PasskeyInfo list option" where
  "parsePasskeyList value = (case value of JArr items \<Rightarrow> map_option_list parse_passkey items | _ \<Rightarrow> None)"

definition listPasskeys :: "fetcher \<Rightarrow> PasskeyListResult" where
  "listPasskeys fetch =
     settle PasskeysError
      (sum_bind (fetch (auth_request ''GET'' ''/auth/passkeys'' json_accept None)) (\<lambda>reply.
         if \<not> hr_ok reply then sum_bind (responseMessage reply) (\<lambda>m. Inr (PasskeysError m))
         else Inr (case hr_json reply of
                     Inl e \<Rightarrow> PasskeysError ''Passkey list returned an invalid body''
                   | Inr body \<Rightarrow> (case parsePasskeyList body of
                                     None \<Rightarrow> PasskeysError ''Passkey list returned an invalid body''
                                   | Some passkeys \<Rightarrow> Passkeys passkeys))))"

text \<open>\<open>JSON.stringify\<close> leaves out a property that is \<open>undefined\<close>.\<close>

definition given :: "jsstring \<Rightarrow> jsstring option \<Rightarrow> (jsstring \<times> json) list" where
  "given key value = (case value of None \<Rightarrow> [] | Some s \<Rightarrow> [(key, JStr s)])"

definition updateProfile :: "fetcher \<Rightarrow> ProfileUpdateInput \<Rightarrow> ProfileUpdateResult" where
  "updateProfile fetch input =
     settle ProfileError
      (sum_bind (fetch (auth_request ''PATCH'' ''/auth/me'' (json_accept @ json_content)
                   (Some (JObj (given ''display_name'' (pu_displayName input) @
                                given ''avatar_data'' (pu_avatarData input) @
                                given ''password'' (pu_password input)))))) (\<lambda>reply.
         if \<not> hr_ok reply then sum_bind (responseMessage reply) (\<lambda>m. Inr (ProfileError m))
         else Inr (case read_user reply of
                     Inr user \<Rightarrow> ProfileUpdated user
                   | Inl e \<Rightarrow> ProfileError (invalid_body ''Profile update'' e))))"

definition logout_call :: "fetcher \<Rightarrow> LogoutResult" where
  "logout_call fetch =
     settle LogoutFail
      (sum_bind (fetch (auth_request ''POST'' ''/auth/logout'' [] None)) (\<lambda>reply.
         if \<not> hr_ok reply then Inr (LogoutFail (''Logout failed with status '' @ dec_of_int (hr_status reply)))
         else sum_bind (readEmptySuccess reply) (\<lambda>empty.
           Inr (if \<not> empty then LogoutFail ''Logout returned an unexpected body'' else LogoutOk))))"

section \<open>Transitions of the shown session\<close>

fun toSessionState :: "AuthResult \<Rightarrow> SessionState" where
  "toSessionState (AuthOk user) = SessionAuthenticated user None"
| "toSessionState (AuthFail reason message) =
     (if reason = Unauthorized then SessionGuest else SessionError message)"

fun applyLogout :: "SessionState \<Rightarrow> LogoutResult \<Rightarrow> SessionState" where
  "applyLogout state LogoutOk = SessionGuest"
| "applyLogout state (LogoutFail message) =
     (case state of
        SessionAuthenticated user notice \<Rightarrow> SessionAuthenticated user (Some message)
      | _ \<Rightarrow> SessionError message)"

section \<open>Lemmas\<close>

lemma auth_asString_Inr [simp]: "auth_asString v = Inr s \<longleftrightarrow> v = Some (JStr s)"
  by (auto simp: auth_asString_def split: option.splits json.splits)

lemma auth_asStringOrNull_Inr [simp]: "auth_asStringOrNull v = Inr s \<longleftrightarrow> v = Some (text_or_null s)"
  by (cases s) (auto simp: auth_asStringOrNull_def text_or_null_def sum_bind_Inr)

lemma find_key_None: "find (\<lambda>key. key \<notin> A) ks = None \<longleftrightarrow> set ks \<subseteq> A"
  by (auto simp: find_None_iff)

text \<open>Exactly the bodies that are accepted: six fields of the right type, and no other.\<close>

lemma session_user_fields:
  "parseSessionUser j = Inr u \<longleftrightarrow>
   (\<exists>props. j = JObj props \<and> set (map fst props) \<subseteq> set ME_FIELDS \<and>
      json_field props ''id'' = Some (JStr (su_id u)) \<and> json_field props ''username'' = Some (JStr (su_username u)) \<and>
      json_field props ''role'' = Some (JStr (su_role u)) \<and>
      json_field props ''display_name'' = Some (text_or_null (su_display_name u)) \<and>
      json_field props ''avatar_data'' = Some (text_or_null (su_avatar_data u)) \<and>
      json_field props ''build_sha'' = Some (JStr (su_build_sha u)))" (is "?l = ?r")
proof -
  have split: "(case find (\<lambda>key. key \<notin> set ME_FIELDS) ks of None \<Rightarrow> (a :: js_error + SessionUser) | Some k \<Rightarrow> Inl (e k)) = Inr b
        \<longleftrightarrow> set ks \<subseteq> set ME_FIELDS \<and> a = Inr b" for ks a b and e :: "jsstring \<Rightarrow> js_error"
    using find_key_None [of "set ME_FIELDS" ks] by (cases "find (\<lambda>key. key \<notin> set ME_FIELDS) ks") auto
  show ?thesis by (cases u) (auto simp: parseSessionUser_def sum_bind_Inr split)
qed

lemma settle_simps [simp]: "settle f (Inl e) = f (networkMessage e)" "settle f (Inr a) = a"
  by (simp_all add: settle_def)

lemma lift_error_Inl: "lift_error r = Inl e \<longleftrightarrow> (\<exists>e'. r = Inl e' \<and> e = RaisedError e')"
  by (cases r) auto

text \<open>A user is reported only for a successful reply whose body is that user.\<close>

lemma rawFetchMe_ok:
  "rawFetchMe fetch = AuthOk u \<longleftrightarrow>
   (\<exists>reply j. fetch (auth_request ''GET'' ''/auth/me'' json_accept None) = Inr reply \<and> hr_ok reply \<and>
      hr_json reply = Inr j \<and> parseSessionUser j = Inr u)"
  by (cases "fetch (auth_request ''GET'' ''/auth/me'' json_accept None)")
    (auto simp: rawFetchMe_def read_user_def sum_bind_Inr lift_error_Inr hr_ok_def lift_error_Inl split: sum.splits)

lemma rawFetchMe_guest:
  "rawFetchMe fetch = AuthFail Unauthorized m \<longleftrightarrow>
   m = ''Not signed in'' \<and>
   (\<exists>reply. fetch (auth_request ''GET'' ''/auth/me'' json_accept None) = Inr reply \<and> hr_status reply \<in> {401, 403})"
  by (cases "fetch (auth_request ''GET'' ''/auth/me'' json_accept None)")
    (auto simp: rawFetchMe_def split: sum.splits)

text \<open>An empty-bodied mutation succeeds exactly on a successful reply with a blank body.\<close>

lemma empty_mutation_ok:
  "empty_mutation fetch request unexpected = PasskeySuccess \<longleftrightarrow>
   (\<exists>reply body. fetch request = Inr reply \<and> hr_ok reply \<and> hr_text reply = Inr body \<and> js_trim body = [])"
proof (cases "fetch request")
  case (Inr reply)
  then show ?thesis
    by (cases "hr_text reply") (auto simp: empty_mutation_def responseMessage_def readEmptySuccess_def)
qed (simp add: empty_mutation_def)

lemma logout_ok:
  "logout_call fetch = LogoutOk \<longleftrightarrow>
   (\<exists>reply body. fetch (auth_request ''POST'' ''/auth/logout'' [] None) = Inr reply \<and> hr_ok reply \<and>
      hr_text reply = Inr body \<and> js_trim body = [])"
proof (cases "fetch (auth_request ''POST'' ''/auth/logout'' [] None)")
  case (Inr reply)
  then show ?thesis
    by (cases "hr_text reply") (auto simp: logout_call_def readEmptySuccess_def)
qed (simp add: logout_call_def)

text \<open>A failed logout keeps whoever is signed in.\<close>

lemma failed_logout_keeps_user:
  "applyLogout (SessionAuthenticated u n) (LogoutFail m) = SessionAuthenticated u (Some m)"
  by simp

end
