(* ===== verification/Auth_State.thy ===== *)
theory Auth_State
  imports Auth_Client
begin

text \<open>
  The state of \<open>createAuthClient\<close> in \<open>lib/auth-client.ts\<close>: the shared request for \<open>/auth/me\<close>, the result kept for
  fifteen seconds, and the bootstrap request the first \<open>fetchMe\<close> triggers
  (\<open>lib/bootstrap-prefetch.ts\<close>). There are two clients in the page, the module's default one and the
  one of \<open>AppShell\<close>; a third stands for a client with an injected \<open>fetch\<close>. A promise is the number of its
  request; a request that settles is an event.
\<close>

datatype AuthClientId = DefaultClient | ShellClient | InjectedClient

record MeState =
  me_inFlight :: "nat option"
  me_cached :: "(AuthResult \<times> int) option"
  me_prefetchTriggered :: bool

record AuthWorld =
  aw_me :: "AuthClientId \<Rightarrow> MeState"
  aw_started :: bool
  aw_running :: "(nat \<times> AuthClientId) list"
  aw_next :: nat

definition INITIAL_ME :: MeState where
  "INITIAL_ME = \<lparr>me_inFlight = None, me_cached = None, me_prefetchTriggered = False\<rparr>"

definition INITIAL_WORLD :: AuthWorld where
  "INITIAL_WORLD = \<lparr>aw_me = (\<lambda>c. INITIAL_ME), aw_started = False, aw_running = [], aw_next = 0\<rparr>"

definition ME_CACHE_TTL_MS :: int where
  "ME_CACHE_TTL_MS = 15000"

definition update_me :: "AuthClientId \<Rightarrow> (MeState \<Rightarrow> MeState) \<Rightarrow> AuthWorld \<Rightarrow> AuthWorld" where
  "update_me c f w = w\<lparr>aw_me := (aw_me w)(c := f (aw_me w c))\<rparr>"

datatype MeAnswer = MeNow AuthResult | MeWait nat

text \<open>What \<open>fetchMe\<close> can answer without a request of its own, and the state after its checks.\<close>

definition me_shared :: "int \<Rightarrow> MeState \<Rightarrow> MeAnswer option \<times> MeState" where
  "me_shared now s =
     (case (me_inFlight s, me_cached s) of
        (None, Some (result, expiresAt)) \<Rightarrow>
          if now < expiresAt then (Some (MeNow result), s) else (None, s\<lparr>me_cached := None\<rparr>)
      | (flight, cached) \<Rightarrow>
          (map_option MeWait flight,
           case cached of
             Some (result, expiresAt) \<Rightarrow> if expiresAt \<le> now then s\<lparr>me_cached := None\<rparr> else s
           | None \<Rightarrow> s))"

text \<open>\<open>inFlightMe = rawFetchMe().then(...)\<close>: a new request of client \<open>c\<close>.\<close>

definition launch_me :: "AuthClientId \<Rightarrow> AuthWorld \<Rightarrow> MeAnswer \<times> AuthWorld" where
  "launch_me c w =
     (MeWait (aw_next w),
      update_me c (\<lambda>s. s\<lparr>me_inFlight := Some (aw_next w)\<rparr>)
        (w\<lparr>aw_running := aw_running w @ [(aw_next w, c)], aw_next := Suc (aw_next w)\<rparr>))"

text \<open>
  \<open>fetchMe\<close>. Its first request triggers the bootstrap prefetch, which asks the default client; the
  prefetch runs once, so the nested call does not nest further. \<open>browser\<close> is the test for \<open>window\<close>.
\<close>

definition fetch_me_nested :: "int \<Rightarrow> AuthWorld \<Rightarrow> AuthWorld" where
  "fetch_me_nested now w =
     (let (answer, s) = me_shared now (aw_me w DefaultClient);
          w1 = update_me DefaultClient (\<lambda>_. s) w
      in if answer \<noteq> None then w1
         else snd (launch_me DefaultClient (update_me DefaultClient (\<lambda>s. s\<lparr>me_prefetchTriggered := True\<rparr>) w1)))"

definition bootstrap_me :: "bool \<Rightarrow> int \<Rightarrow> AuthWorld \<Rightarrow> AuthWorld" where
  "bootstrap_me browser now w =
     (if aw_started w \<or> \<not> browser then w else fetch_me_nested now (w\<lparr>aw_started := True\<rparr>))"

definition triggerBootstrapPrefetch :: "bool \<Rightarrow> AuthClientId \<Rightarrow> int \<Rightarrow> AuthWorld \<Rightarrow> AuthWorld" where
  "triggerBootstrapPrefetch browser c now w =
     (if me_prefetchTriggered (aw_me w c) then w
      else let w1 = update_me c (\<lambda>s. s\<lparr>me_prefetchTriggered := True\<rparr>) w
           in if c \<noteq> InjectedClient \<and> browser then bootstrap_me browser now w1 else w1)"

definition fetchMe :: "bool \<Rightarrow> AuthClientId \<Rightarrow> bool \<Rightarrow> int \<Rightarrow> AuthWorld \<Rightarrow> MeAnswer \<times> AuthWorld" where
  "fetchMe browser c force now w =
     (let (answer, s) = (if force then (None, aw_me w c) else me_shared now (aw_me w c));
          w1 = update_me c (\<lambda>_. s) w
      in case answer of
           Some a \<Rightarrow> (a, w1)
         | None \<Rightarrow> launch_me c (triggerBootstrapPrefetch browser c now w1))"

text \<open>The \<open>then\<close> of request \<open>f\<close>: it clears whichever request the client is waiting for.\<close>

definition meSettled :: "nat \<Rightarrow> AuthResult \<Rightarrow> int \<Rightarrow> AuthWorld \<Rightarrow> AuthWorld" where
  "meSettled f result now w =
     (case map_of (aw_running w) f of
        None \<Rightarrow> w
      | Some c \<Rightarrow>
          update_me c
            (\<lambda>s. s\<lparr>me_inFlight := None,
                  me_cached := (case result of AuthOk u \<Rightarrow> Some (result, now + ME_CACHE_TTL_MS)
                                | AuthFail r m \<Rightarrow> me_cached s)\<rparr>)
            (w\<lparr>aw_running := filter (\<lambda>p. fst p \<noteq> f) (aw_running w)\<rparr>))"

definition resetMeDedupe :: "AuthClientId \<Rightarrow> AuthWorld \<Rightarrow> AuthWorld" where
  "resetMeDedupe c = update_me c (\<lambda>s. s\<lparr>me_inFlight := None, me_cached := None\<rparr>)"

section \<open>The calls that change the session\<close>

text \<open>A call that must read the session drops what was shared first.\<close>

definition enter_session :: "bool \<Rightarrow> AuthClientId \<Rightarrow> int \<Rightarrow> AuthResult option \<Rightarrow> AuthWorld \<Rightarrow> MeAnswer \<times> AuthWorld" where
  "enter_session browser c now outcome w =
     (case outcome of
        Some result \<Rightarrow> (MeNow result, w)
      | None \<Rightarrow> fetchMe browser c False now (resetMeDedupe c w))"

definition login ::
    "fetcher \<Rightarrow> bool \<Rightarrow> AuthClientId \<Rightarrow> int \<Rightarrow> jsstring \<Rightarrow> jsstring \<Rightarrow> AuthWorld \<Rightarrow> MeAnswer \<times> AuthWorld" where
  "login fetch browser c now username password = enter_session browser c now (login_call fetch username password)"

definition setup_account ::
    "fetcher \<Rightarrow> bool \<Rightarrow> AuthClientId \<Rightarrow> int \<Rightarrow> jsstring \<Rightarrow> jsstring \<Rightarrow> jsstring \<Rightarrow> AuthWorld \<Rightarrow> MeAnswer \<times> AuthWorld" where
  "setup_account fetch browser c now username password setupToken =
     enter_session browser c now (setup_call fetch username password setupToken)"

definition finishPasskeyLogin ::
    "fetcher \<Rightarrow> bool \<Rightarrow> AuthClientId \<Rightarrow> int \<Rightarrow> PasskeyAssertion \<Rightarrow> AuthWorld \<Rightarrow> MeAnswer \<times> AuthWorld" where
  "finishPasskeyLogin fetch browser c now assertion =
     enter_session browser c now (passkey_login_call fetch assertion)"

definition deleteAccount :: "fetcher \<Rightarrow> AuthClientId \<Rightarrow> AuthWorld \<Rightarrow> PasskeyMutationResult \<times> AuthWorld" where
  "deleteAccount fetch c w =
     (let result = delete_account_call fetch
      in (result, if result = PasskeySuccess then resetMeDedupe c w else w))"

definition logout :: "fetcher \<Rightarrow> AuthClientId \<Rightarrow> AuthWorld \<Rightarrow> LogoutResult \<times> AuthWorld" where
  "logout fetch c w =
     (let result = logout_call fetch
      in (result, if result = LogoutOk then resetMeDedupe c w else w))"

section \<open>Runs\<close>

datatype MeEvent =
    FetchMe AuthClientId bool int
  | MeSettles nat AuthResult int
  | SessionChanged AuthClientId

fun me_step :: "bool \<Rightarrow> AuthWorld \<Rightarrow> MeEvent \<Rightarrow> AuthWorld" where
  "me_step browser w (FetchMe c force now) = snd (fetchMe browser c force now w)"
| "me_step browser w (MeSettles f result now) = meSettled f result now w"
| "me_step browser w (SessionChanged c) = resetMeDedupe c w"

definition me_run :: "bool \<Rightarrow> MeEvent list \<Rightarrow> AuthWorld" where
  "me_run browser = foldl (me_step browser) INITIAL_WORLD"

text \<open>
  What holds of every reachable world: request numbers are fresh, a client waits for a running request
  of its own only, and what is kept is a user that some request returned fifteen seconds before it
  expires. \<open>settled\<close> is the list of settlements so far.
\<close>

definition me_ok :: "(nat \<times> AuthResult \<times> int) list \<Rightarrow> AuthWorld \<Rightarrow> bool" where
  "me_ok settled w \<longleftrightarrow>
     distinct (map fst (aw_running w)) \<and> (\<forall>p \<in> set (aw_running w). fst p < aw_next w) \<and>
     (\<forall>c f. me_inFlight (aw_me w c) = Some f \<longrightarrow> (f, c) \<in> set (aw_running w)) \<and>
     (\<forall>c r t. me_cached (aw_me w c) = Some (r, t) \<longrightarrow>
        (\<exists>u f. r = AuthOk u \<and> (f, r, t - ME_CACHE_TTL_MS) \<in> set settled))"

definition settlements :: "MeEvent list \<Rightarrow> (nat \<times> AuthResult \<times> int) list" where
  "settlements es = concat (map (\<lambda>e. case e of MeSettles f r t \<Rightarrow> [(f, r, t)] | _ \<Rightarrow> []) es)"

lemma aw_me_update [simp]: "aw_me (update_me c f w) = (aw_me w)(c := f (aw_me w c))"
  by (simp add: update_me_def)

lemma update_me_rest [simp]:
  "aw_started (update_me c f w) = aw_started w" "aw_running (update_me c f w) = aw_running w"
  "aw_next (update_me c f w) = aw_next w"
  by (simp_all add: update_me_def)

lemma update_me_same: "update_me c (\<lambda>_. aw_me w c) w = w"
  by (simp add: update_me_def)

text \<open>A change of a client that keeps its request and at most drops its result keeps \<open>me_ok\<close>.\<close>

lemma me_ok_update:
  assumes "me_ok l w" and "\<And>f. me_inFlight s = Some f \<Longrightarrow> me_inFlight (aw_me w c) = Some f"
    and "\<And>p. me_cached s = Some p \<Longrightarrow> me_cached (aw_me w c) = Some p"
  shows "me_ok l (update_me c (\<lambda>_. s) w)"
  using assms by (auto simp: me_ok_def)

lemma me_ok_prefetch_mark: "me_ok l w \<Longrightarrow> me_ok l (update_me c (\<lambda>s. s\<lparr>me_prefetchTriggered := True\<rparr>) w)"
  by (auto simp: me_ok_def)

lemma me_ok_started: "me_ok l w \<Longrightarrow> me_ok l (w\<lparr>aw_started := b\<rparr>)"
  by (simp add: me_ok_def)

lemma me_ok_launch: "me_ok l w \<Longrightarrow> me_ok l (snd (launch_me c w))"
  by (fastforce simp: me_ok_def launch_me_def)

lemma me_shared_state:
  "me_shared now s = (a, s') \<Longrightarrow>
   me_inFlight s' = me_inFlight s \<and> (me_cached s' = None \<or> me_cached s' = me_cached s) \<and> me_prefetchTriggered s' = me_prefetchTriggered s"
  by (auto simp: me_shared_def split: option.splits if_splits)

lemma me_ok_shared: "me_ok l w \<Longrightarrow> me_shared now (aw_me w c) = (a, s) \<Longrightarrow> me_ok l (update_me c (\<lambda>_. s) w)"
  by (rule me_ok_update) (auto dest!: me_shared_state)

lemma me_ok_nested: "me_ok l w \<Longrightarrow> me_ok l (fetch_me_nested now w)"
  by (auto simp: fetch_me_nested_def Let_def split: prod.splits
      intro!: me_ok_launch me_ok_prefetch_mark me_ok_shared)

lemma me_ok_trigger: "me_ok l w \<Longrightarrow> me_ok l (triggerBootstrapPrefetch browser c now w)"
  by (auto simp: triggerBootstrapPrefetch_def bootstrap_me_def Let_def
      intro!: me_ok_nested me_ok_started me_ok_prefetch_mark)

lemma me_ok_same: "me_ok l w \<Longrightarrow> me_ok l (update_me c (\<lambda>_. aw_me w c) w)"
  by (simp add: update_me_same)

lemma me_ok_fetch: "me_ok l w \<Longrightarrow> me_ok l (snd (fetchMe browser c force now w))"
  by (auto simp: fetchMe_def Let_def split: prod.splits option.splits
      intro!: me_ok_launch me_ok_trigger me_ok_shared me_ok_same)

lemma me_ok_reset: "me_ok l w \<Longrightarrow> me_ok l (resetMeDedupe c w)"
  by (auto simp: me_ok_def resetMeDedupe_def)

lemma me_ok_settled:
  assumes ok: "me_ok l w" shows "me_ok (l @ [(f, result, now)]) (meSettled f result now w)"
proof (cases "map_of (aw_running w) f")
  case None
  then show ?thesis using ok by (force simp: me_ok_def meSettled_def)
next
  case (Some c)
  have inj: "d = c" if "(f, d) \<in> set (aw_running w)" for d
    using that Some ok by (simp add: me_ok_def)
  have dist: "distinct (map fst (filter (\<lambda>p. fst p \<noteq> f) (aw_running w)))"
    using ok by (simp add: me_ok_def distinct_map_filter)
  have flights: "me_inFlight (aw_me w d) = Some g \<Longrightarrow> d \<noteq> c \<Longrightarrow> g \<noteq> f \<and> (g, d) \<in> set (aw_running w)" for d g
    using ok inj by (auto simp: me_ok_def)
  have cached: "me_cached (aw_me w d) = Some (r, t) \<Longrightarrow>
      \<exists>u g. r = AuthOk u \<and> (g, r, t - ME_CACHE_TTL_MS) \<in> set (l @ [(f, result, now)])" for d r t
    using ok by (fastforce simp: me_ok_def)
  show ?thesis
    using ok dist flights cached Some
    unfolding me_ok_def meSettled_def
    by (cases result) (auto simp: aw_me_update)
qed

lemma me_ok_run: "me_ok (settlements es) (me_run browser es)"
proof (induction es rule: rev_induct)
  case Nil
  show ?case by (simp add: me_run_def me_ok_def settlements_def INITIAL_WORLD_def INITIAL_ME_def)
next
  case (snoc e es)
  have "me_run browser (es @ [e]) = me_step browser (me_run browser es) e" by (simp add: me_run_def)
  with snoc show ?case
    by (cases e) (auto simp: settlements_def intro!: me_ok_fetch me_ok_reset me_ok_settled)
qed

lemma fetchMe_shared:
  "me_shared now (aw_me w c) = (Some a, s) \<Longrightarrow> fst (fetchMe browser c False now w) = a"
  by (simp add: fetchMe_def Let_def)

lemma fetchMe_answer:
  "fst (fetchMe browser c force now w) = MeNow r \<Longrightarrow>
   \<not> force \<and> (\<exists>t. me_cached (aw_me w c) = Some (r, t) \<and> now < t)"
  by (auto simp: fetchMe_def me_shared_def launch_me_def Let_def split: option.splits prod.splits if_splits)

lemma fetchMe_wait:
  assumes "me_ok l w" and "fst (fetchMe browser c force now w) = MeWait f"
  shows "(f, c) \<in> set (aw_running (snd (fetchMe browser c force now w)))"
  using assms
  by (auto simp: fetchMe_def me_shared_def launch_me_def me_ok_def Let_def split: option.splits prod.splits if_splits)

text \<open>C29: every call of \<open>fetchMe\<close> is answered, either at once with a user that a request returned less
  than fifteen seconds ago, or by a request that is still running; a forced call always gets a
  request.\<close>

theorem fetch_me_answers:
  "let w = me_run browser es; (answer, w') = fetchMe browser c force now w
   in case answer of
        MeNow r \<Rightarrow> \<not> force \<and> list_ex (\<lambda>(f, r', t). r' = r \<and> (case r of AuthOk u \<Rightarrow> True | AuthFail e m \<Rightarrow> False)
                                        \<and> now < t + 15000) (settlements es)
      | MeWait f \<Rightarrow> (f, c) \<in> set (aw_running w')"
proof -
  let ?w = "me_run browser es"
  obtain answer w' where a: "fetchMe browser c force now ?w = (answer, w')" by fastforce
  show ?thesis
  proof (cases answer)
    case (MeNow r)
    with a fetchMe_answer [of browser c force now "?w" r] obtain t
      where "\<not> force" "me_cached (aw_me ?w c) = Some (r, t)" "now < t" by auto
    moreover with me_ok_run [of es browser] obtain u f
      where "r = AuthOk u" "(f, r, t - ME_CACHE_TTL_MS) \<in> set (settlements es)" unfolding me_ok_def by blast
    ultimately show ?thesis using a MeNow by (force simp: list_ex_iff ME_CACHE_TTL_MS_def)
  next
    case (MeWait f)
    with a fetchMe_wait [OF me_ok_run [of es browser], of browser c force now f] show ?thesis by simp
  qed
qed

text \<open>A successful sign-in never answers with what was kept before it.\<close>

lemma enter_session_asks:
  "fst (enter_session browser c now None w) = MeWait (aw_next (triggerBootstrapPrefetch browser c now (resetMeDedupe c w)))"
proof -
  have "me_shared now (aw_me (resetMeDedupe c w) c) = (None, aw_me (resetMeDedupe c w) c)"
    by (simp add: me_shared_def resetMeDedupe_def)
  then show ?thesis by (simp add: enter_session_def fetchMe_def launch_me_def Let_def update_me_same)
qed

text \<open>Dropping the shared state does not reach a request that is already running. A session request
  that a logout overtakes still leaves the user it read behind, and \<open>fetchMe\<close> serves that user, without a
  request, until it expires.
\<close>

theorem overtaken_request_keeps_user:
  "let w = me_run True [FetchMe ShellClient False 0, SessionChanged ShellClient, MeSettles 1 (AuthOk u) 100]
   in map_of (aw_running (me_run True [FetchMe ShellClient False 0])) 1 = Some ShellClient \<and>
      fst (fetchMe True ShellClient False 15099 w) = MeNow (AuthOk u)"
  by (simp add: me_run_def fetchMe_def me_shared_def INITIAL_WORLD_def INITIAL_ME_def launch_me_def
      triggerBootstrapPrefetch_def bootstrap_me_def fetch_me_nested_def update_me_def resetMeDedupe_def meSettled_def
      ME_CACHE_TTL_MS_def Let_def)

text \<open>The first \<open>fetchMe\<close> of the page sends two requests for \<open>/auth/me\<close>, whichever of the two clients makes it:
  the bootstrap request of the default client and its own.\<close>

theorem first_fetch_asks_twice:
  "map snd (aw_running (me_run True [FetchMe ShellClient False now])) = [DefaultClient, ShellClient] \<and>
   map snd (aw_running (me_run True [FetchMe DefaultClient False now])) = [DefaultClient, DefaultClient]"
  by (simp add: me_run_def fetchMe_def me_shared_def INITIAL_WORLD_def INITIAL_ME_def launch_me_def
      triggerBootstrapPrefetch_def bootstrap_me_def fetch_me_nested_def update_me_def Let_def)

end
