(* ===== verification/Accounts.thy ===== *)
theory Accounts
  imports Snapshot
begin

text \<open>
  \<open>lib/remembered-accounts.ts\<close>: the usernames a browser offers to switch to. A storage operation that throws is
  \<open>None\<close>.
\<close>

definition REMEMBERED_ACCOUNTS_KEY :: jsstring where
  "REMEMBERED_ACCOUNTS_KEY = ''denpie.remembered_accounts''"

definition PREFILL_USERNAME_KEY :: jsstring where
  "PREFILL_USERNAME_KEY = ''denpie.prefill_username''"

definition REMEMBERED_MAX :: nat where
  "REMEMBERED_MAX = 5"

definition isUsernameList :: "json \<Rightarrow> jsstring list option" where
  "isUsernameList value =
     (case value of
        JArr js \<Rightarrow> if list_all (\<lambda>j. case j of JStr s \<Rightarrow> True | _ \<Rightarrow> False) js
                   then Some (map (\<lambda>j. case j of JStr s \<Rightarrow> s | _ \<Rightarrow> []) js) else None
      | _ \<Rightarrow> None)"

text \<open>The loop over the parsed entries, with the names collected so far.\<close>

fun collect_names :: "jsstring list \<Rightarrow> jsstring list \<Rightarrow> jsstring list" where
  "collect_names names [] = names"
| "collect_names names (entry # rest) =
     (let name = js_trim entry
      in if name = [] \<or> name \<in> set names then collect_names names rest
         else if Suc (length names) = REMEMBERED_MAX then names @ [name]
         else collect_names (names @ [name]) rest)"

definition parseRememberedAccounts :: "jsstring option \<Rightarrow> jsstring list" where
  "parseRememberedAccounts raw =
     (case raw of
        None \<Rightarrow> []
      | Some s \<Rightarrow> if js_trim s = [] then []
                  else (case Option.bind (json_parse s) isUsernameList of
                          None \<Rightarrow> []
                        | Some parsed \<Rightarrow> collect_names [] parsed))"

definition recordRememberedAccount :: "jsstring list \<Rightarrow> jsstring \<Rightarrow> jsstring list" where
  "recordRememberedAccount accounts name =
     (let username = js_trim name
      in if username = [] then accounts
         else take REMEMBERED_MAX (username # filter (\<lambda>entry. entry \<noteq> username) accounts))"

definition otherRememberedAccounts :: "jsstring list \<Rightarrow> jsstring \<Rightarrow> jsstring list" where
  "otherRememberedAccounts accounts currentUsername = filter (\<lambda>name. name \<noteq> currentUsername) accounts"

definition storage_get :: "WebStorage \<Rightarrow> jsstring \<Rightarrow> jsstring option option" where
  "storage_get ws key = (if ws_get_throws ws then None else Some (ws_items ws key))"

definition storage_set :: "WebStorage \<Rightarrow> jsstring \<Rightarrow> jsstring \<Rightarrow> WebStorage option" where
  "storage_set ws key value = (if ws_set_throws ws then None else Some (ws\<lparr>ws_items := (ws_items ws)(key \<mapsto> value)\<rparr>))"

definition storage_remove :: "WebStorage \<Rightarrow> jsstring \<Rightarrow> WebStorage option" where
  "storage_remove ws key = (if ws_remove_throws ws then None else Some (ws\<lparr>ws_items := (ws_items ws)(key := None)\<rparr>))"

definition loadRememberedAccounts :: "WebStorage \<Rightarrow> jsstring list option" where
  "loadRememberedAccounts ws = map_option parseRememberedAccounts (storage_get ws REMEMBERED_ACCOUNTS_KEY)"

definition saveRememberedAccounts :: "jsstring list \<Rightarrow> WebStorage \<Rightarrow> WebStorage option" where
  "saveRememberedAccounts accounts ws = storage_set ws REMEMBERED_ACCOUNTS_KEY (json_text (JArr (map JStr accounts)))"

definition consumePrefillUsername :: "WebStorage \<Rightarrow> (jsstring \<times> WebStorage) option" where
  "consumePrefillUsername ws =
     Option.bind (storage_get ws PREFILL_USERNAME_KEY) (\<lambda>value.
       map_option (Pair (case value of None \<Rightarrow> [] | Some s \<Rightarrow> s)) (storage_remove ws PREFILL_USERNAME_KEY))"

definition storePrefillUsername :: "jsstring \<Rightarrow> WebStorage \<Rightarrow> WebStorage option" where
  "storePrefillUsername name ws = storage_set ws PREFILL_USERNAME_KEY name"

section \<open>The list\<close>

text \<open>What a list read from storage and every list made from it satisfies.\<close>

definition account_list :: "jsstring list \<Rightarrow> bool" where
  "account_list names \<longleftrightarrow>
     distinct names \<and> length names \<le> REMEMBERED_MAX \<and> list_all (\<lambda>n. n \<noteq> [] \<and> js_trim n = n) names"

lemma collect_names_list:
  "account_list names \<Longrightarrow> length names < REMEMBERED_MAX \<Longrightarrow> account_list (collect_names names es)"
  by (induction names es rule: collect_names.induct) (auto simp: account_list_def Let_def)

lemma parsed_account_list: "account_list (parseRememberedAccounts raw)"
  by (auto simp: parseRememberedAccounts_def split: option.splits intro!: collect_names_list)
    (auto simp: account_list_def REMEMBERED_MAX_def)

lemma account_list_take: "account_list names \<Longrightarrow> account_list (take n names)"
  unfolding account_list_def by (auto simp: list_all_iff dest: in_set_takeD)

lemma recorded_account_list:
  assumes "account_list names" shows "account_list (recordRememberedAccount names name)"
proof (cases "js_trim name = []")
  case True
  then show ?thesis using assms by (simp add: recordRememberedAccount_def)
next
  case False
  then show ?thesis using assms
    by (auto simp: recordRememberedAccount_def account_list_def list_all_iff REMEMBERED_MAX_def Let_def
        dest!: in_set_takeD)
qed

lemma collect_names_fixed:
  assumes "list_all (\<lambda>n. n \<noteq> [] \<and> js_trim n = n) es" and "distinct (names @ es)"
    and "length names + length es \<le> REMEMBERED_MAX"
  shows "collect_names names es = names @ es"
  using assms
proof (induction es arbitrary: names)
  case (Cons e es)
  have "es = []" if "Suc (length names) = REMEMBERED_MAX" using Cons.prems(3) that by (cases es) simp_all
  then show ?case using Cons by (auto simp: Let_def)
qed simp

lemma usernames_read_back [simp]: "isUsernameList (JArr (map JStr names)) = Some names"
  by (simp add: isUsernameList_def list_all_iff o_def)

lemma printable_names: "printable (JArr (map JStr names))"
  by (simp add: list_all_iff)

lemma json_text_not_blank: "js_trim (json_text (JArr js)) \<noteq> []"
proof -
  have "\<not> is_js_space CHR ''[''" by code_simp
  moreover have "dropWhile is_js_space (xs @ [CHR ''['']) \<noteq> []" for xs
    using calculation by (simp add: dropWhile_eq_Nil_conv)
  ultimately show ?thesis by (simp add: js_trim_def js_trim_start_def js_trim_end_def)
qed

lemma accounts_read_back:
  assumes "account_list names" and "saveRememberedAccounts names ws = Some ws'" and "\<not> ws_get_throws ws"
  shows "loadRememberedAccounts ws' = Some names"
proof -
  have "collect_names [] names = names"
    using assms(1) collect_names_fixed [of names "[]"] by (simp add: account_list_def)
  then show ?thesis
    using assms json_round_trip [OF printable_names, of names] json_text_not_blank [of "map JStr names"]
    by (auto simp: saveRememberedAccounts_def storage_set_def loadRememberedAccounts_def storage_get_def
        parseRememberedAccounts_def simp del: json_text.simps split: if_splits)
qed

text \<open>The remembered accounts survive a page load: a list that was saved is read back as it was, for
  every list the code can make.\<close>

theorem accounts_round_trip:
  assumes "account_list names" and "saveRememberedAccounts names ws = Some ws'" and "\<not> ws_get_throws ws"
  shows "loadRememberedAccounts ws' = Some names"
  using accounts_read_back [OF assms] .

definition sample_storage :: WebStorage where
  "sample_storage = \<lparr>ws_items = Map.empty, ws_get_throws = False, ws_set_throws = False, ws_remove_throws = False\<rparr>"

lemma accounts_round_trip_witness:
  "loadRememberedAccounts (the (saveRememberedAccounts [''ann'', ''bob''] sample_storage)) = Some [''ann'', ''bob'']"
proof (rule accounts_round_trip)
  show "account_list [''ann'', ''bob'']" by code_simp
  show "saveRememberedAccounts [''ann'', ''bob''] sample_storage =
      Some (the (saveRememberedAccounts [''ann'', ''bob''] sample_storage))"
    by (simp add: saveRememberedAccounts_def storage_set_def sample_storage_def)
  show "\<not> ws_get_throws sample_storage" by (simp add: sample_storage_def)
qed

text \<open>The account that signs in comes first, and the list stays well formed.\<close>

theorem recorded_first:
  assumes "account_list names" and "js_trim name \<noteq> []"
  shows "hd (recordRememberedAccount names name) = js_trim name \<and> account_list (recordRememberedAccount names name) \<and>
    otherRememberedAccounts (recordRememberedAccount names name) (js_trim name) =
      take 4 (otherRememberedAccounts names (js_trim name))"
  using recorded_account_list [OF assms(1), of name] assms(2)
  by (auto simp: recordRememberedAccount_def otherRememberedAccounts_def REMEMBERED_MAX_def Let_def filter_id_conv
      dest!: in_set_takeD)

lemma recorded_first_witness:
  "hd (recordRememberedAccount [''ann''] '' bob'') = js_trim '' bob''"
  using recorded_first [of "[''ann'']" "'' bob''"] by (simp add: account_list_def REMEMBERED_MAX_def js_trim_def
      js_trim_start_def js_trim_end_def is_js_space_def)

end
