(* ===== verification/Toast.thy ===== *)
theory Toast
  imports Prelude
begin

text \<open>
  \<open>lib/toast.ts\<close> and \<open>islands/toast-context.tsx\<close>: how a message becomes a toast, and the toast on screen. The character
  that stands for a cut-off text (U+2026) is outside the code units of the model and an argument.
\<close>

datatype ToastKind = ToastError | ToastSuccess | ToastInfo

record ToastParts =
  tp_summary :: jsstring
  tp_detail :: "jsstring option"
  tp_kind :: ToastKind

record ShownToast = ToastParts +
  tp_id :: nat

definition ERROR_MARKERS :: "jsstring list" where
  "ERROR_MARKERS = [''fail'', ''error'', ''invalid'', ''unable'', ''denied'', ''unauthorized'', ''forbidden'', ''not found'',
     ''timeout'', ''panic'', ''could not'', ''cannot'', ''unavailable'', ''missing'', ''expired'', ''refused'', ''rate limit'',
     ''too many requests'']"

definition looksLikeError :: "jsstring \<Rightarrow> bool" where
  "looksLikeError message =
     (let lower = js_lower message
      in js_starts_with ''llm error'' lower \<or> js_includes ''api key missing'' lower \<or>
         list_ex (\<lambda>marker. js_includes marker lower) ERROR_MARKERS)"

definition HEAD_LIMIT :: nat where
  "HEAD_LIMIT = 120"

definition is_cut_char :: "char \<Rightarrow> bool" where
  "is_cut_char c \<longleftrightarrow> is_js_space c \<or> c \<in> {CHR '','', CHR '':'', CHR ''{''}"

definition cut_head :: "jsstring \<Rightarrow> jsstring" where
  "cut_head message = rev (dropWhile is_cut_char (rev (take HEAD_LIMIT message)))"

definition splitToastParts :: "jsstring \<Rightarrow> jsstring \<Rightarrow> jsstring \<times> jsstring option" where
  "splitToastParts ellipsis message =
     (let trimmed = js_trim message;
          shortened = (if length trimmed \<le> HEAD_LIMIT then (trimmed, None)
                       else (cut_head trimmed @ ellipsis, Some trimmed))
      in if trimmed = [] then ([], None)
         else case find_index (\<lambda>c. c = CHR 0x0A) trimmed of
                None \<Rightarrow> shortened
              | Some newline \<Rightarrow>
                  let head = js_trim (take newline trimmed); rest = js_trim (drop (newline + 1) trimmed)
                  in if rest \<noteq> [] then (head, Some rest) else shortened)"

fun toastTimeoutMs :: "ToastKind \<Rightarrow> nat option" where
  "toastTimeoutMs ToastError = None"
| "toastTimeoutMs ToastSuccess = Some 2400"
| "toastTimeoutMs ToastInfo = Some 2800"

definition classifyToast :: "jsstring \<Rightarrow> jsstring \<Rightarrow> ToastKind \<Rightarrow> ToastParts" where
  "classifyToast ellipsis message kind =
     (let (summary, detail) = splitToastParts ellipsis message
      in \<lparr>tp_summary = summary, tp_detail = detail, tp_kind = (if looksLikeError summary then ToastError else kind)\<rparr>)"

section \<open>The provider\<close>

text \<open>The toast, whether its detail is unfolded, the next number, and the timer the effect has set, if any.\<close>

record ToastView =
  tv_toast :: "ShownToast option"
  tv_expanded :: bool
  tv_nextId :: nat
  tv_timer :: "nat option"

definition INITIAL_TOAST :: ToastView where
  "INITIAL_TOAST = \<lparr>tv_toast = None, tv_expanded = False, tv_nextId = 1, tv_timer = None\<rparr>"

text \<open>The effect on \<open>[toast]\<close>: the old timer is cleared, and one set for a toast that has a timeout.\<close>

definition toast_effect :: "ToastView \<Rightarrow> ToastView" where
  "toast_effect v =
     v\<lparr>tv_timer := Option.bind (tv_toast v) (\<lambda>toast. map_option (\<lambda>_. tp_id toast) (toastTimeoutMs (tp_kind toast)))\<rparr>"

definition show_toast :: "jsstring \<Rightarrow> jsstring \<Rightarrow> ToastKind \<Rightarrow> ToastView \<Rightarrow> ToastView" where
  "show_toast ellipsis message kind v =
     (let parts = classifyToast ellipsis message kind
      in v\<lparr>tv_expanded := False, tv_toast := Some (ToastParts.extend parts \<lparr>tp_id = tv_nextId v\<rparr>),
           tv_nextId := tv_nextId v + 1\<rparr>)"

definition hide_toast :: "ToastView \<Rightarrow> ToastView" where
  "hide_toast v = v\<lparr>tv_toast := None\<rparr>"

definition toggle_detail :: "ToastView \<Rightarrow> ToastView" where
  "toggle_detail v = v\<lparr>tv_expanded := \<not> tv_expanded v\<rparr>"

datatype ToastEvent = ToastShow jsstring ToastKind | ToastDismiss | ToastToggle | ToastTimer nat

text \<open>A timer that was cleared does not fire.\<close>

fun toast_step :: "jsstring \<Rightarrow> ToastView \<Rightarrow> ToastEvent \<Rightarrow> ToastView" where
  "toast_step ellipsis v (ToastShow message kind) = toast_effect (show_toast ellipsis message kind v)"
| "toast_step ellipsis v ToastDismiss = toast_effect (hide_toast v)"
| "toast_step ellipsis v ToastToggle = toggle_detail v"
| "toast_step ellipsis v (ToastTimer n) = (if tv_timer v = Some n then toast_effect (hide_toast v) else v)"

definition toast_ok :: "ToastView \<Rightarrow> bool" where
  "toast_ok v \<longleftrightarrow> tv_timer v = tv_timer (toast_effect v)"

lemma toast_effect_simps [simp]:
  "tv_toast (toast_effect v) = tv_toast v" "tv_expanded (toast_effect v) = tv_expanded v"
  "tv_nextId (toast_effect v) = tv_nextId v" "toast_ok (toast_effect v)"
  by (simp_all add: toast_effect_def toast_ok_def)

lemma toast_ok_step: "toast_ok v \<Longrightarrow> toast_ok (toast_step ellipsis v e)"
  by (cases e) (auto simp: toggle_detail_def toast_ok_def toast_effect_def)

lemma toast_ok_run: "toast_ok v \<Longrightarrow> toast_ok (foldl (toast_step ellipsis) v es)"
  by (induction es arbitrary: v) (simp_all add: toast_ok_step)

text \<open>Which toasts have a timer: none of kind error.\<close>

lemma toast_ok_timer:
  "toast_ok v \<Longrightarrow> tv_timer v = Some n \<longleftrightarrow> (\<exists>toast. tv_toast v = Some toast \<and> tp_id toast = n \<and> tp_kind toast \<noteq> ToastError)"
  by (cases "tv_toast v"; cases "tp_kind (the (tv_toast v))") (auto simp: toast_ok_def toast_effect_def)

definition toast_passive :: "ToastEvent \<Rightarrow> bool" where
  "toast_passive e \<longleftrightarrow> (case e of ToastToggle \<Rightarrow> True | ToastTimer n \<Rightarrow> True | _ \<Rightarrow> False)"

lemma error_toast_passive:
  assumes "toast_ok v" and "tv_toast v = Some toast" and "tp_kind toast = ToastError" and "list_all toast_passive es"
  shows "tv_toast (foldl (toast_step ellipsis) v es) = Some toast"
  using assms
proof (induction es arbitrary: v)
  case (Cons e es)
  have "tv_toast (toast_step ellipsis v e) = Some toast"
    using Cons.prems by (cases e) (auto simp: toast_passive_def toggle_detail_def toast_ok_timer)
  with Cons toast_ok_step [OF Cons.prems(1), of ellipsis e] show ?case by simp
qed simp

text \<open>An error stays on screen: from any reachable view, a message whose summary reads like an error, whatever
  kind the caller gave, is still shown after any timers and unfoldings, until it is dismissed or
  replaced.\<close>

theorem error_toast_stays:
  assumes "looksLikeError (fst (splitToastParts ellipsis message)) \<or> kind = ToastError" and "list_all toast_passive es"
  shows "map_option (\<lambda>t. (tp_summary t, tp_detail t, tp_kind t))
      (tv_toast (foldl (toast_step ellipsis) (toast_step ellipsis v (ToastShow message kind)) es)) =
    Some (fst (splitToastParts ellipsis message), snd (splitToastParts ellipsis message), ToastError)"
proof -
  let ?v = "toast_step ellipsis v (ToastShow message kind)"
  obtain toast where t: "tv_toast ?v = Some toast" "tp_kind toast = ToastError"
      "tp_summary toast = fst (splitToastParts ellipsis message)" "tp_detail toast = snd (splitToastParts ellipsis message)"
    using assms(1) by (cases "splitToastParts ellipsis message") (auto simp: show_toast_def classifyToast_def ToastParts.extend_def Let_def)
  then show ?thesis using error_toast_passive [of ?v toast es ellipsis] assms(2) by simp
qed

lemma error_toast_stays_witness:
  "map_option (\<lambda>t. (tp_summary t, tp_detail t, tp_kind t))
      (tv_toast (foldl (toast_step ''...'') (toast_step ''...'' INITIAL_TOAST (ToastShow ''Not found'' ToastSuccess))
        [ToastTimer 1, ToastToggle])) =
    Some (fst (splitToastParts ''...'' ''Not found''), snd (splitToastParts ''...'' ''Not found''), ToastError)"
proof (rule error_toast_stays)
  show "looksLikeError (fst (splitToastParts ''...'' ''Not found'')) \<or> ToastSuccess = ToastError" by code_simp
  show "list_all toast_passive [ToastTimer 1, ToastToggle]" by (simp add: toast_passive_def)
qed

text \<open>
  Only the summary is looked at: an error in the second line of a message, or past its first 120
  characters, does not keep the toast.
\<close>

lemma error_detail_hides:
  "let v = toast_step ''...'' INITIAL_TOAST (ToastShow ''Saved
backend error: timeout'' ToastSuccess)
   in looksLikeError ''Saved
backend error: timeout'' \<and> map_option tp_kind (tv_toast v) = Some ToastSuccess \<and>
      tv_toast (toast_step ''...'' v (ToastTimer 1)) = None"
  by code_simp

text \<open>Nothing of a message is lost: without a detail the summary is the whole message.\<close>

lemma split_keeps_text:
  "splitToastParts ellipsis message = (summary, None) \<Longrightarrow> summary = js_trim message"
  by (auto simp: splitToastParts_def Let_def split: option.splits if_splits)

lemma split_short_summary:
  assumes "CHR 0x0A \<notin> set message"
  shows "length (fst (splitToastParts ellipsis message)) \<le> HEAD_LIMIT + length ellipsis"
proof -
  have "find_index (\<lambda>c. c = CHR 0x0A) (js_trim message) = None"
    using assms set_js_trim [of message] by (auto simp: find_index_None)
  moreover have "length (cut_head s) \<le> HEAD_LIMIT" for s
    using length_dropWhile_le [of is_cut_char "rev (take HEAD_LIMIT s)"] by (simp add: cut_head_def)
  ultimately show ?thesis by (auto simp: splitToastParts_def Let_def)
qed

end
