(* ===== verification/App_Shell.thy ===== *)
theory App_Shell
  imports Auth_State Accounts Toast I18n
begin

text \<open>
  \<open>islands/AppShell.tsx\<close> with \<open>lib/keep-alive.ts\<close> and \<open>lib/view-transition.ts\<close>: which view the address names, in-app
  navigation over the browser's history, the sign-in form, and the session the shell shows. A call
  of the auth client is split where it waits: the handler up to the call, and what it does with the
  result. A toast is the message and kind it is shown with.
\<close>

datatype AppView = FlowView | GroundingView | SettingsView | KeysView | ArchiveView | AccountView

fun pathnameForView :: "AppView \<Rightarrow> jsstring" where
  "pathnameForView FlowView = ''/''"
| "pathnameForView GroundingView = ''/grounding''"
| "pathnameForView SettingsView = ''/settings''"
| "pathnameForView KeysView = ''/keys''"
| "pathnameForView ArchiveView = ''/archive''"
| "pathnameForView AccountView = ''/account''"

fun titleKeyForView :: "AppView \<Rightarrow> jsstring" where
  "titleKeyForView FlowView = ''nav.flow''"
| "titleKeyForView GroundingView = ''nav.grounding''"
| "titleKeyForView SettingsView = ''nav.settings''"
| "titleKeyForView KeysView = ''nav.api_keys''"
| "titleKeyForView ArchiveView = ''nav.archive''"
| "titleKeyForView AccountView = ''account.menu_title''"

definition desktopNavigation :: "(jsstring \<times> jsstring \<times> AppView) list" where
  "desktopNavigation =
     [(''nav.flow'', ''/'', FlowView), (''nav.grounding'', ''/grounding'', GroundingView),
      (''nav.settings'', ''/settings'', SettingsView), (''nav.api_keys'', ''/keys'', KeysView),
      (''nav.archive'', ''/archive'', ArchiveView)]"

definition strip_slashes :: "jsstring \<Rightarrow> jsstring" where
  "strip_slashes s = rev (dropWhile (\<lambda>c. c = CHR ''/'') (rev s))"

definition viewForPathname :: "jsstring \<Rightarrow> AppView option" where
  "viewForPathname pathname =
     (let normalized = (if strip_slashes pathname = [] then ''/'' else strip_slashes pathname)
      in if normalized = ''/'' \<or> normalized = ''/flow'' then Some FlowView
         else if normalized = ''/grounding'' then Some GroundingView
         else if normalized = ''/settings'' then Some SettingsView
         else if normalized = ''/keys'' then Some KeysView
         else if normalized = ''/archive'' then Some ArchiveView
         else if normalized = ''/account'' then Some AccountView
         else None)"

record PointerClick =
  pc_button :: int
  pc_defaultPrevented :: bool
  pc_metaKey :: bool
  pc_altKey :: bool
  pc_ctrlKey :: bool
  pc_shiftKey :: bool

definition isUnmodifiedPrimaryClick :: "PointerClick \<Rightarrow> bool" where
  "isUnmodifiedPrimaryClick event \<longleftrightarrow>
     pc_button event = 0 \<and> \<not> pc_defaultPrevented event \<and> \<not> pc_metaKey event \<and> \<not> pc_altKey event \<and>
     \<not> pc_ctrlKey event \<and> \<not> pc_shiftKey event"

text \<open>A history state is a value of any shape; a number here is finite.\<close>

definition navigationHistoryState :: "rat \<Rightarrow> json" where
  "navigationHistoryState y = JObj [(''kind'', JStr ''denpie-navigation''), (''scrollY'', JNum y)]"

definition scrollYFromHistoryState :: "json \<Rightarrow> rat" where
  "scrollYFromHistoryState st =
     (case st of
        JObj props \<Rightarrow>
          if json_field props ''kind'' = Some (JStr ''denpie-navigation'')
          then (case json_field props ''scrollY'' of Some (JNum y) \<Rightarrow> y | _ \<Rightarrow> 0) else 0
      | _ \<Rightarrow> 0)"

definition roleLabel :: "catalog \<Rightarrow> jsstring \<Rightarrow> jsstring" where
  "roleLabel cat role =
     (if role = ''admin'' then i18n_t cat ''role.admin'' else if role = ''user'' then i18n_t cat ''role.user'' else role)"

definition commitUrl :: "jsstring \<Rightarrow> jsstring" where
  "commitUrl sha = ''https://github.com/slopfire/dailytipdraft/commit/'' @ sha"

definition shortSha :: "jsstring \<Rightarrow> jsstring" where
  "shortSha sha = take 7 sha"

section \<open>Mounted views\<close>

definition PERSISTED_APP_VIEWS :: "AppView list" where
  "PERSISTED_APP_VIEWS = [FlowView]"

definition nextMountedViews :: "'v set \<Rightarrow> 'v \<Rightarrow> 'v list \<Rightarrow> 'v set" where
  "nextMountedViews previous current persist = insert current {v \<in> set persist. v \<in> previous \<or> current = v}"

record MountedViews =
  mv_mounted :: "AppView set"
  mv_lastView :: AppView

definition first_mount :: "AppView \<Rightarrow> MountedViews" where
  "first_mount v = \<lparr>mv_mounted = nextMountedViews {} v PERSISTED_APP_VIEWS, mv_lastView = v\<rparr>"

definition render_view :: "AppView \<Rightarrow> MountedViews \<Rightarrow> MountedViews" where
  "render_view v m =
     (if v \<noteq> mv_lastView m
      then \<lparr>mv_mounted = nextMountedViews (mv_mounted m) v PERSISTED_APP_VIEWS, mv_lastView = v\<rparr> else m)"

lemma mounted_views_run:
  "mv_mounted (foldl (\<lambda>m v. render_view v m) (first_mount v0) vs) =
     insert (last (v0 # vs)) (if FlowView \<in> set (v0 # vs) then {FlowView} else {}) \<and>
   mv_lastView (foldl (\<lambda>m v. render_view v m) (first_mount v0) vs) = last (v0 # vs)"
proof (induction vs rule: rev_induct)
  case Nil
  show ?case by (auto simp: first_mount_def nextMountedViews_def PERSISTED_APP_VIEWS_def)
next
  case (snoc v vs)
  then show ?case
    by (auto simp: render_view_def nextMountedViews_def PERSISTED_APP_VIEWS_def) (metis last_in_set)
qed

section \<open>Navigation\<close>

text \<open>
  The tab's history: the entries before the current one (nearest first), the current one, and those
  after it; an entry is its path and state. Scroll positions are those of \<open>main\<close> and of the window.
\<close>

record Tab =
  tab_before :: "(jsstring \<times> json) list"
  tab_entry :: "jsstring \<times> json"
  tab_after :: "(jsstring \<times> json) list"
  tab_main :: rat
  tab_window :: rat
  tab_view :: AppView

definition navigate :: "AppView \<Rightarrow> Tab \<Rightarrow> Tab" where
  "navigate nextView tab =
     (if viewForPathname (fst (tab_entry tab)) = Some nextView then tab
      else let here = (fst (tab_entry tab), navigationHistoryState (max (tab_main tab) (tab_window tab)))
           in tab\<lparr>tab_before := here # tab_before tab,
                  tab_entry := (pathnameForView nextView, navigationHistoryState 0),
                  tab_after := [], tab_view := nextView, tab_main := 0, tab_window := 0\<rparr>)"

definition onPopState :: "Tab \<Rightarrow> Tab" where
  "onPopState tab =
     (case viewForPathname (fst (tab_entry tab)) of
        None \<Rightarrow> tab
      | Some nextView \<Rightarrow>
          let y = scrollYFromHistoryState (snd (tab_entry tab))
          in tab\<lparr>tab_view := nextView, tab_main := y, tab_window := y\<rparr>)"

text \<open>The browser's own back step, which fires the event.\<close>

definition history_back :: "Tab \<Rightarrow> Tab" where
  "history_back tab =
     (case tab_before tab of
        [] \<Rightarrow> tab
      | e # es \<Rightarrow> onPopState (tab\<lparr>tab_before := es, tab_entry := e, tab_after := tab_entry tab # tab_after tab\<rparr>))"

lemma view_pathname [simp]: "viewForPathname (pathnameForView v) = Some v"
  by (cases v) (simp_all add: viewForPathname_def strip_slashes_def)

lemma navigation_links: "list_all (\<lambda>(key, href, v). viewForPathname href = Some v \<and> titleKeyForView v = key) desktopNavigation"
  by code_simp

lemma scroll_state [simp]: "scrollYFromHistoryState (navigationHistoryState y) = y"
  by (simp add: scrollYFromHistoryState_def navigationHistoryState_def json_field_def)

text \<open>The shell shows the view its address names.\<close>

definition tab_ok :: "Tab \<Rightarrow> bool" where
  "tab_ok tab \<longleftrightarrow> viewForPathname (fst (tab_entry tab)) = Some (tab_view tab)"

lemma navigate_ok: "tab_ok tab \<Longrightarrow> tab_ok (navigate v tab)"
  by (simp add: tab_ok_def navigate_def Let_def)

text \<open>Leaving a view and going back restores it: the view, and the larger of the two scroll positions it had,
  whichever of the page and \<open>main\<close> it was that scrolled.\<close>

theorem navigate_back_restores:
  assumes "tab_ok tab" and "v \<noteq> tab_view tab"
  shows "let back = history_back (navigate v tab); y = max (tab_main tab) (tab_window tab)
    in tab_ok (navigate v tab) \<and> tab_view (navigate v tab) = v \<and> tab_view back = tab_view tab \<and>
       tab_main back = y \<and> tab_window back = y \<and> tab_before back = tab_before tab \<and>
       fst (tab_entry back) = fst (tab_entry tab)"
  using assms by (auto simp: tab_ok_def navigate_def history_back_def onPopState_def Let_def)

definition sample_tab :: Tab where
  "sample_tab = \<lparr>tab_before = [], tab_entry = (''/flow/'', JNull), tab_after = [], tab_main = 0, tab_window = 140,
     tab_view = FlowView\<rparr>"

lemma navigate_back_restores_witness:
  "let back = history_back (navigate KeysView sample_tab)
   in tab_view (navigate KeysView sample_tab) = KeysView \<and> tab_view back = FlowView \<and> tab_window back = 140"
proof -
  have "tab_ok sample_tab" "KeysView \<noteq> tab_view sample_tab" by code_simp+
  from navigate_back_restores [OF this] show ?thesis by (simp add: Let_def sample_tab_def)
qed

section \<open>The sign-in form\<close>

datatype LoginAttempt = LoginIdle | LoginPassword | LoginSetup | LoginPasskey

record LoginForm =
  lf_username :: jsstring
  lf_password :: jsstring
  lf_setupToken :: jsstring
  lf_attempt :: LoginAttempt
  lf_error :: "jsstring option"

type_synonym toast = "jsstring \<times> ToastKind"

definition login_mount :: "jsstring \<Rightarrow> LoginForm \<Rightarrow> LoginForm" where
  "login_mount prefill form = (if prefill \<noteq> [] then form\<lparr>lf_username := prefill\<rparr> else form)"

definition isSetup :: "LoginForm \<Rightarrow> bool" where
  "isSetup form \<longleftrightarrow> js_trim (lf_setupToken form) \<noteq> []"

definition submit_disabled :: "LoginForm \<Rightarrow> bool" where
  "submit_disabled form \<longleftrightarrow> lf_attempt form \<noteq> LoginIdle \<or> lf_username form = [] \<or> lf_password form = []"

definition submit_started :: "LoginForm \<Rightarrow> LoginForm" where
  "submit_started form = form\<lparr>lf_attempt := (if isSetup form then LoginSetup else LoginPassword), lf_error := None\<rparr>"

text \<open>The call the form makes.\<close>

definition submit_call :: "fetcher \<Rightarrow> bool \<Rightarrow> int \<Rightarrow> LoginForm \<Rightarrow> AuthWorld \<Rightarrow> MeAnswer \<times> AuthWorld" where
  "submit_call fetch browser now form =
     (if isSetup form
      then setup_account fetch browser ShellClient now (lf_username form) (lf_password form) (js_trim (lf_setupToken form))
      else login fetch browser ShellClient now (lf_username form) (lf_password form))"

text \<open>
  \<open>rememberAndEnter\<close>: the storage afterwards, the toasts, and the user it enters with. When the storage
  throws, so does the handler, and nobody is entered.
\<close>

definition rememberAndEnter ::
    "SessionUser \<Rightarrow> jsstring \<Rightarrow> WebStorage \<Rightarrow> WebStorage \<times> toast list \<times> SessionUser option" where
  "rememberAndEnter user message ws =
     (case Option.bind (loadRememberedAccounts ws)
             (\<lambda>accounts. saveRememberedAccounts (recordRememberedAccount accounts (su_username user)) ws) of
        None \<Rightarrow> (ws, [], None)
      | Some ws' \<Rightarrow> (ws', [(message, ToastSuccess)], Some user))"

definition login_failed :: "jsstring \<Rightarrow> LoginForm \<Rightarrow> LoginForm" where
  "login_failed message form = form\<lparr>lf_attempt := LoginIdle, lf_error := Some message\<rparr>"

definition login_result ::
    "catalog \<Rightarrow> jsstring \<Rightarrow> AuthResult \<Rightarrow> LoginForm \<Rightarrow> WebStorage \<Rightarrow>
     LoginForm \<times> WebStorage \<times> toast list \<times> SessionUser option" where
  "login_result cat toast_key result form ws =
     (case result of
        AuthFail reason message \<Rightarrow> (login_failed message form, ws, [(message, ToastError)], None)
      | AuthOk user \<Rightarrow> (form\<lparr>lf_attempt := LoginIdle\<rparr>, rememberAndEnter user (i18n_t cat toast_key) ws))"

definition handleSubmit ::
    "catalog \<Rightarrow> AuthResult \<Rightarrow> LoginForm \<Rightarrow> WebStorage \<Rightarrow> LoginForm \<times> WebStorage \<times> toast list \<times> SessionUser option" where
  "handleSubmit cat result form = login_result cat ''toast.logged_in'' result (submit_started form)"

definition handlePasskeyLogin ::
    "catalog \<Rightarrow> bool \<Rightarrow> RequestOptions ChallengeResult \<Rightarrow> (RequestOptions \<Rightarrow> PasskeyAssertion CredentialResult) \<Rightarrow>
     (PasskeyAssertion \<Rightarrow> AuthResult) \<Rightarrow> LoginForm \<Rightarrow> WebStorage \<Rightarrow>
     LoginForm \<times> WebStorage \<times> toast list \<times> SessionUser option" where
  "handlePasskeyLogin cat available started credential finish form ws =
     (if \<not> available then (form\<lparr>lf_error := Some (i18n_t cat ''auth.passkey_unavailable'')\<rparr>, ws, [], None)
      else let waiting = form\<lparr>lf_attempt := LoginPasskey, lf_error := None\<rparr>
           in case started of
                ChallengeError reason message \<Rightarrow> (login_failed message waiting, ws, [], None)
              | Challenge request \<Rightarrow>
                  (case credential request of
                     CredentialCancelled message \<Rightarrow> (login_failed message waiting, ws, [], None)
                   | CredentialError message \<Rightarrow> (login_failed message waiting, ws, [], None)
                   | CredentialGiven assertion \<Rightarrow>
                       login_result cat ''toast.logged_in_passkey'' (finish assertion) waiting ws))"

text \<open>Whatever happens, the form is idle again afterwards, and it shows an error unless someone was signed in.\<close>

lemma login_result_idle:
  "login_result cat key result form ws = (form', ws', toasts, entered) \<Longrightarrow>
   lf_attempt form' = LoginIdle \<and> (\<forall>r m. result = AuthFail r m \<longrightarrow> lf_error form' = Some m \<and> toasts = [(m, ToastError)] \<and> entered = None)"
  by (cases result) (auto simp: login_result_def login_failed_def)

lemma remember_enters:
  assumes "\<not> ws_get_throws ws" and "\<not> ws_set_throws ws"
  shows "\<exists>ws'. rememberAndEnter u m ws = (ws', [(m, ToastSuccess)], Some u) \<and>
    loadRememberedAccounts ws' = map_option (\<lambda>a. recordRememberedAccount a (su_username u)) (loadRememberedAccounts ws)"
proof -
  obtain names where n: "loadRememberedAccounts ws = Some names" "account_list names"
    using assms(1) parsed_account_list by (auto simp: loadRememberedAccounts_def storage_get_def)
  obtain ws' where s: "saveRememberedAccounts (recordRememberedAccount names (su_username u)) ws = Some ws'"
    using assms(2) by (simp add: saveRememberedAccounts_def storage_set_def)
  show ?thesis
    using n s accounts_read_back [OF recorded_account_list [OF n(2)] s assms(1)] by (simp add: rememberAndEnter_def)
qed

text \<open>A storage that refuses to write keeps a user out who has signed in.\<close>

lemma full_storage_blocks_login:
  assumes "ws_set_throws ws"
  shows "snd (snd (snd (handleSubmit cat (AuthOk u) form ws))) = None"
  using assms
  by (auto simp: handleSubmit_def login_result_def rememberAndEnter_def saveRememberedAccounts_def storage_set_def
      split: option.splits Option.bind_splits)

section \<open>The session of the shell\<close>

text \<open>
  With the calls it is waiting for: of \<open>refresh\<close>, of \<open>handleRefreshSession\<close>, and of a logout (from the
  menu, or to switch accounts).
\<close>

record ShellState =
  sh_session :: SessionState
  sh_admin :: bool
  sh_reading :: nat
  sh_refreshing :: nat
  sh_leaving :: nat
  sh_switching :: nat

definition INITIAL_SHELL :: ShellState where
  "INITIAL_SHELL = \<lparr>sh_session = SessionChecking, sh_admin = False, sh_reading = 0, sh_refreshing = 0, sh_leaving = 0,
     sh_switching = 0\<rparr>"

definition refresh_start :: "bool \<Rightarrow> ShellState \<Rightarrow> ShellState" where
  "refresh_start showChecking st =
     (if showChecking then st\<lparr>sh_session := SessionChecking\<rparr> else st)\<lparr>sh_reading := Suc (sh_reading st)\<rparr>"

definition refresh_done :: "AuthResult \<Rightarrow> ShellState \<Rightarrow> ShellState" where
  "refresh_done result st = st\<lparr>sh_session := toSessionState result, sh_reading := sh_reading st - 1\<rparr>"

definition handleLogout :: "catalog \<Rightarrow> LogoutResult \<Rightarrow> ShellState \<Rightarrow> ShellState \<times> toast list" where
  "handleLogout cat result st =
     (st\<lparr>sh_admin := False, sh_session := applyLogout (sh_session st) result\<rparr>,
      if result = LogoutOk then [(i18n_t cat ''toast.logged_out'', ToastSuccess)] else [])"

text \<open>\<open>handleSwitchAccount\<close> up to its call; \<open>None\<close> when the storage throws, and no logout is sent.\<close>

definition switch_start :: "jsstring \<Rightarrow> WebStorage \<Rightarrow> ShellState \<Rightarrow> (ShellState \<times> WebStorage) option" where
  "switch_start username ws st =
     map_option (\<lambda>ws'. (st\<lparr>sh_switching := Suc (sh_switching st)\<rparr>, ws')) (storePrefillUsername username ws)"

definition switch_done :: "catalog \<Rightarrow> LogoutResult \<Rightarrow> ShellState \<Rightarrow> ShellState \<times> toast list" where
  "switch_done cat result st =
     (st\<lparr>sh_admin := False, sh_session := applyLogout (sh_session st) result\<rparr>,
      if result = LogoutOk then [(i18n_t cat ''toast.switched_account'', ToastInfo)] else [])"

definition handleRefreshSession :: "catalog \<Rightarrow> AuthResult \<Rightarrow> ShellState \<Rightarrow> ShellState \<times> toast list" where
  "handleRefreshSession cat result st =
     (let next = toSessionState result
      in (st\<lparr>sh_session := next\<rparr>,
          case next of
            SessionAuthenticated user notice \<Rightarrow> [(i18n_t cat ''toast.profile_refreshed'', ToastSuccess)]
          | _ \<Rightarrow> [(i18n_t cat ''toast.profile_refresh_failed'', ToastError)]))"

datatype ShellEvent =
    ShellRefresh | ShellRefreshed AuthResult
  | ShellMenuRefresh | ShellMenuRefreshed AuthResult
  | ShellLogout | ShellLoggedOut LogoutResult
  | ShellSwitch | ShellSwitched LogoutResult
  | ShellSignedIn SessionUser | ShellUserChanged SessionUser | ShellAccountDeleted | ShellBackToSignIn
  | ShellEnterAdmin | ShellLeaveAdmin

definition shown_user :: "ShellState \<Rightarrow> SessionUser option" where
  "shown_user st = (case sh_session st of SessionAuthenticated user notice \<Rightarrow> Some user | _ \<Rightarrow> None)"

definition is_admin :: "SessionUser \<Rightarrow> bool" where
  "is_admin user \<longleftrightarrow> su_role user = ''admin''"

text \<open>What can happen: the controls on screen, and the calls that are waited for.\<close>

fun shell_can :: "ShellState \<Rightarrow> ShellEvent \<Rightarrow> bool" where
  "shell_can st ShellRefresh = (case sh_session st of SessionError m \<Rightarrow> True | _ \<Rightarrow> False)"
| "shell_can st (ShellRefreshed r) = (0 < sh_reading st)"
| "shell_can st ShellMenuRefresh = (shown_user st \<noteq> None \<and> \<not> sh_admin st)"
| "shell_can st (ShellMenuRefreshed r) = (0 < sh_refreshing st)"
| "shell_can st ShellLogout = (shown_user st \<noteq> None)"
| "shell_can st (ShellLoggedOut r) = (0 < sh_leaving st)"
| "shell_can st ShellSwitch = (shown_user st \<noteq> None \<and> \<not> sh_admin st)"
| "shell_can st (ShellSwitched r) = (0 < sh_switching st)"
| "shell_can st (ShellSignedIn u) = (sh_session st = SessionGuest)"
| "shell_can st (ShellUserChanged u) = (shown_user st \<noteq> None \<and> \<not> sh_admin st)"
| "shell_can st ShellAccountDeleted = (shown_user st \<noteq> None \<and> \<not> sh_admin st)"
| "shell_can st ShellBackToSignIn = (case sh_session st of SessionError m \<Rightarrow> True | _ \<Rightarrow> False)"
| "shell_can st ShellEnterAdmin = (case shown_user st of Some u \<Rightarrow> is_admin u \<and> \<not> sh_admin st | None \<Rightarrow> False)"
| "shell_can st ShellLeaveAdmin = (shown_user st \<noteq> None \<and> sh_admin st)"

definition enter_user :: "SessionUser \<Rightarrow> ShellState \<Rightarrow> ShellState" where
  "enter_user user st = st\<lparr>sh_session := SessionAuthenticated user None\<rparr>"

fun shell_do :: "catalog \<Rightarrow> ShellState \<Rightarrow> ShellEvent \<Rightarrow> ShellState" where
  "shell_do cat st ShellRefresh = refresh_start True st"
| "shell_do cat st (ShellRefreshed r) = refresh_done r st"
| "shell_do cat st ShellMenuRefresh = st\<lparr>sh_refreshing := Suc (sh_refreshing st)\<rparr>"
| "shell_do cat st (ShellMenuRefreshed r) = fst (handleRefreshSession cat r (st\<lparr>sh_refreshing := sh_refreshing st - 1\<rparr>))"
| "shell_do cat st ShellLogout = st\<lparr>sh_leaving := Suc (sh_leaving st)\<rparr>"
| "shell_do cat st (ShellLoggedOut r) = fst (handleLogout cat r (st\<lparr>sh_leaving := sh_leaving st - 1\<rparr>))"
| "shell_do cat st ShellSwitch = st\<lparr>sh_switching := Suc (sh_switching st)\<rparr>"
| "shell_do cat st (ShellSwitched r) = fst (switch_done cat r (st\<lparr>sh_switching := sh_switching st - 1\<rparr>))"
| "shell_do cat st (ShellSignedIn u) = enter_user u st"
| "shell_do cat st (ShellUserChanged u) = enter_user u st"
| "shell_do cat st ShellAccountDeleted = st\<lparr>sh_session := SessionGuest\<rparr>"
| "shell_do cat st ShellBackToSignIn = st\<lparr>sh_session := SessionGuest\<rparr>"
| "shell_do cat st ShellEnterAdmin = st\<lparr>sh_admin := True\<rparr>"
| "shell_do cat st ShellLeaveAdmin = st\<lparr>sh_admin := False\<rparr>"

inductive shell_step :: "catalog \<Rightarrow> ShellState \<Rightarrow> ShellEvent \<Rightarrow> ShellState \<Rightarrow> bool" for cat where
  shell_step: "shell_can st e \<Longrightarrow> shell_step cat st e (shell_do cat st e)"

inductive_cases shell_stepE: "shell_step cat st e st'"

inductive shell_reach :: "catalog \<Rightarrow> ShellEvent list \<Rightarrow> ShellState \<Rightarrow> bool" for cat where
  mounted: "shell_reach cat [] (refresh_start True INITIAL_SHELL)"
| stepped: "shell_reach cat es st \<Longrightarrow> shell_step cat st e st' \<Longrightarrow> shell_reach cat (es @ [e]) st'"

text \<open>The users the calls of a run have named.\<close>

fun event_users :: "ShellEvent \<Rightarrow> SessionUser list" where
  "event_users (ShellRefreshed (AuthOk u)) = [u]"
| "event_users (ShellMenuRefreshed (AuthOk u)) = [u]"
| "event_users (ShellSignedIn u) = [u]"
| "event_users (ShellUserChanged u) = [u]"
| "event_users e = []"

lemma applyLogout_user:
  "applyLogout s r = SessionAuthenticated u n \<Longrightarrow> \<exists>n'. s = SessionAuthenticated u n'"
  by (cases r; cases s) auto

lemma applyLogout_checking [simp]: "applyLogout s r \<noteq> SessionChecking"
  by (cases r; cases s) auto

lemma toSessionState_checking [simp]: "toSessionState r \<noteq> SessionChecking"
  by (cases r) auto

lemma toSessionState_user: "toSessionState r = SessionAuthenticated u n \<Longrightarrow> r = AuthOk u"
  by (cases r) (auto split: if_splits)

lemma shell_user:
  assumes "sh_session (shell_do cat st e) = SessionAuthenticated u n"
  shows "u \<in> set (event_users e) \<or> (\<exists>n'. sh_session st = SessionAuthenticated u n')"
  using assms
  by (cases e) (auto simp: refresh_start_def refresh_done_def handleRefreshSession_def handleLogout_def switch_done_def
      enter_user_def Let_def dest!: toSessionState_user applyLogout_user)

lemma shell_checking:
  assumes "sh_session st = SessionChecking \<longrightarrow> 0 < sh_reading st" and "shell_can st e"
    and "sh_session (shell_do cat st e) = SessionChecking"
  shows "0 < sh_reading (shell_do cat st e)"
  using assms
  by (cases e) (auto simp: refresh_start_def refresh_done_def handleRefreshSession_def handleLogout_def switch_done_def
      enter_user_def shown_user_def Let_def)

text \<open>C30: in every run of the shell, a user on screen is one the server named, and the page never hangs on
  "checking": while it shows that, the answer it waits for is still to come.\<close>

theorem shell_session_sound:
  assumes "shell_reach cat es st"
  shows "(case sh_session st of
            SessionAuthenticated u n \<Rightarrow> list_ex (\<lambda>e. u \<in> set (event_users e)) es
          | SessionChecking \<Rightarrow> 0 < sh_reading st \<and> (\<forall>r. shell_can st (ShellRefreshed r))
          | _ \<Rightarrow> True)"
proof -
  have "(sh_session st = SessionChecking \<longrightarrow> 0 < sh_reading st) \<and>
        (\<forall>u n. sh_session st = SessionAuthenticated u n \<longrightarrow> list_ex (\<lambda>e. u \<in> set (event_users e)) es)"
    using assms
  proof induction
    case mounted
    show ?case by (simp add: refresh_start_def INITIAL_SHELL_def)
  next
    case (stepped es st e st')
    from stepped.hyps(2) have s: "shell_can st e" "st' = shell_do cat st e" by (auto elim: shell_stepE)
    show ?case using stepped.IH shell_checking [of st e cat] shell_user [of cat st e] s by fastforce
  qed
  then show ?thesis by (cases "sh_session st") auto
qed

text \<open>A run by its events.\<close>

lemma shell_reach_run:
  assumes "shell_reach cat es st" and "shell_can st e" shows "shell_reach cat (es @ [e]) (shell_do cat st e)"
  using shell_reach.stepped [OF assms(1) shell_step.intros [OF assms(2)]] .

definition keys_catalog :: catalog where
  "keys_catalog key = key"

definition plain_user :: "jsstring \<Rightarrow> jsstring \<Rightarrow> SessionUser" where
  "plain_user name role = \<lparr>su_id = name, su_username = name, su_role = role, su_display_name = None,
     su_avatar_data = None, su_build_sha = []\<rparr>"

definition ann :: SessionUser where "ann = plain_user ''ann'' ''admin''"

definition bob :: SessionUser where "bob = plain_user ''bob'' ''user''"

lemma shell_session_sound_witness:
  "let st = shell_do keys_catalog (refresh_start True INITIAL_SHELL) (ShellRefreshed (AuthOk ann))
   in sh_session st = SessionAuthenticated ann None \<and> list_ex (\<lambda>e. ann \<in> set (event_users e)) [ShellRefreshed (AuthOk ann)]"
proof -
  have "shell_reach keys_catalog ([] @ [ShellRefreshed (AuthOk ann)])
      (shell_do keys_catalog (refresh_start True INITIAL_SHELL) (ShellRefreshed (AuthOk ann)))"
    by (rule shell_reach_run [OF shell_reach.mounted]) (simp add: refresh_start_def)
  from shell_session_sound [OF this] show ?thesis by (simp add: refresh_done_def Let_def)
qed

fun shell_run :: "ShellState \<Rightarrow> ShellEvent list \<Rightarrow> ShellState option" where
  "shell_run st [] = Some st"
| "shell_run st (e # es) = (if shell_can st e then shell_run (shell_do keys_catalog st e) es else None)"

lemma shell_run_reach: "shell_reach keys_catalog ds st \<Longrightarrow> shell_run st es = Some st' \<Longrightarrow> shell_reach keys_catalog (ds @ es) st'"
proof (induction es arbitrary: ds st)
  case (Cons e es)
  then show ?case using shell_reach_run [of keys_catalog ds st e] Cons.IH [of "ds @ [e]"] by (auto split: if_splits)
qed simp

text \<open>The results of the menu's refresh are taken whatever has happened since. One that a logout overtakes
  brings the signed-out user back on screen; one that fails after the admin page was opened leaves the
  admin mode on, and the next user, admin or not, lands on the admin page.
\<close>

theorem late_refresh_results:
  "(\<exists>st. shell_reach keys_catalog [ShellRefreshed (AuthOk ann), ShellMenuRefresh, ShellLogout, ShellLoggedOut LogoutOk,
        ShellMenuRefreshed (AuthOk ann)] st \<and> shown_user st = Some ann) \<and>
   (\<exists>st. shell_reach keys_catalog [ShellRefreshed (AuthOk ann), ShellMenuRefresh, ShellEnterAdmin,
        ShellMenuRefreshed (AuthFail Unauthorized ''Not signed in''), ShellSignedIn bob] st \<and>
      shown_user st = Some bob \<and> \<not> is_admin bob \<and> sh_admin st)"
proof -
  let ?a = "[ShellRefreshed (AuthOk ann), ShellMenuRefresh, ShellLogout, ShellLoggedOut LogoutOk, ShellMenuRefreshed (AuthOk ann)]"
  let ?b = "[ShellRefreshed (AuthOk ann), ShellMenuRefresh, ShellEnterAdmin,
        ShellMenuRefreshed (AuthFail Unauthorized ''Not signed in''), ShellSignedIn bob]"
  have a: "case shell_run (refresh_start True INITIAL_SHELL) ?a of Some st \<Rightarrow> shown_user st = Some ann | None \<Rightarrow> False"
    by code_simp
  have b: "case shell_run (refresh_start True INITIAL_SHELL) ?b of
      Some st \<Rightarrow> shown_user st = Some bob \<and> \<not> is_admin bob \<and> sh_admin st | None \<Rightarrow> False"
    by code_simp
  show ?thesis
    using a b shell_run_reach [OF shell_reach.mounted, of ?a] shell_run_reach [OF shell_reach.mounted, of ?b]
    by (auto split: option.splits)
qed

end
