(* ===== verification/Api_Messages.thy ===== *)
theory Api_Messages
  imports Messages "HOL-Library.Word"
begin

text \<open>
  The messages of \<open>frontend-astro/src/generated/denpie_pb.ts\<close> that the operations of \<open>lib/api-v1\<close> send and receive, each
  a record with the generated fields in their order, and the operations and results of the two
  \<open>oneof\<close>s as datatypes with the cases the client uses. A request with a single field is that field.
\<close>

datatype ForceDailyRefreshOutcome =
    RefreshUnspecified | RefreshCardAvailable | RefreshQueueRefilled | RefreshNoChange | RefreshActiveLimitReached

record TipCardResponse =
  tc_id :: bigint
  tc_topic :: jsstring
  tc_fullContent :: jsstring
  tc_compressedContent :: jsstring
  tc_tipcardType :: jsstring
  tc_pinned :: bool

record ApiInfo =
  ai_apiVersion :: jsstring
  ai_serverVersion :: jsstring
  ai_buildSha :: jsstring
  ai_capabilities :: "jsstring list"

record GroundingSearchProfile =
  gs_depth :: jsstring
  gs_freshness :: jsstring
  gs_guidance :: jsstring
  gs_includeDomains :: "jsstring list"
  gs_failurePolicy :: jsstring

record Settings =
  set_model :: jsstring
  set_compressModel :: jsstring
  set_template :: jsstring
  set_apiKey :: jsstring
  set_baseUrl :: jsstring
  set_compressBaseUrl :: jsstring
  set_reasoningEffort :: jsstring
  set_compressReasoningEffort :: jsstring
  set_colorScheme :: jsstring
  set_autoupdateEnabled :: bool
  set_autoupdateRepo :: jsstring
  set_autoupdateBranch :: jsstring
  set_autoupdateCheckIntervalSecs :: bigint
  set_autoupdateCommand :: jsstring
  set_autoupdateLastSeenSha :: jsstring
  set_dailyTimeZone :: jsstring
  set_dailyUpdateTime :: jsstring
  set_maxActiveCards :: bigint
  set_compressionLevel :: jsstring
  set_groundingStrategy :: jsstring
  set_imageStrategy :: jsstring
  set_searchApiKey :: jsstring
  set_searchBaseUrl :: jsstring
  set_imageSources :: jsstring
  set_groundingModel :: jsstring
  set_groundingReasoningEffort :: jsstring
  set_searchProvider :: jsstring
  set_scrapeProvider :: jsstring
  set_visionModel :: jsstring
  set_transparency :: jsstring
  set_blurIntensity :: jsstring
  set_groundingSourceMode :: jsstring
  set_groundingVerificationMode :: jsstring
  set_groundingSearchProfile :: "GroundingSearchProfile option"
  set_groundingBehavior :: jsstring

record UpdateSettingsRequest =
  usr_model :: "jsstring option"
  usr_compressModel :: "jsstring option"
  usr_template :: "jsstring option"
  usr_apiKey :: "jsstring option"
  usr_baseUrl :: "jsstring option"
  usr_compressBaseUrl :: "jsstring option"
  usr_reasoningEffort :: "jsstring option"
  usr_compressReasoningEffort :: "jsstring option"
  usr_colorScheme :: "jsstring option"
  usr_autoupdateEnabled :: "bool option"
  usr_autoupdateRepo :: "jsstring option"
  usr_autoupdateBranch :: "jsstring option"
  usr_autoupdateCheckIntervalSecs :: "bigint option"
  usr_autoupdateCommand :: "jsstring option"
  usr_dailyTimeZone :: "jsstring option"
  usr_dailyUpdateTime :: "jsstring option"
  usr_maxActiveCards :: "bigint option"
  usr_compressionLevel :: "jsstring option"
  usr_groundingStrategy :: "jsstring option"
  usr_imageStrategy :: "jsstring option"
  usr_searchApiKey :: "jsstring option"
  usr_searchBaseUrl :: "jsstring option"
  usr_imageSources :: "jsstring option"
  usr_groundingModel :: "jsstring option"
  usr_groundingReasoningEffort :: "jsstring option"
  usr_searchProvider :: "jsstring option"
  usr_scrapeProvider :: "jsstring option"
  usr_visionModel :: "jsstring option"
  usr_transparency :: "jsstring option"
  usr_blurIntensity :: "jsstring option"
  usr_groundingSourceMode :: "jsstring option"
  usr_groundingVerificationMode :: "jsstring option"
  usr_groundingSearchProfile :: "GroundingSearchProfile option"
  usr_groundingBehavior :: "jsstring option"

record ApiKeyInfo =
  ak_id :: bigint
  ak_clientName :: jsstring
  ak_createdAt :: jsstring
  ak_scopes :: "jsstring list"
  ak_expiresAt :: jsstring
  ak_lastUsedAt :: jsstring

record TipcardInfo =
  tci_id :: bigint
  tci_topicName :: jsstring
  tci_fullContent :: jsstring
  tci_compressedContent :: jsstring
  tci_createdAt :: jsstring
  tci_tipcardType :: jsstring
  tci_status :: jsstring
  tci_nextReviewAt :: jsstring
  tci_repeatCount :: int
  tci_pinned :: bool
  tci_title :: jsstring
  tci_topicIcon :: jsstring
  tci_topicColor :: jsstring
  tci_images :: "TipcardImageInfo list"
  tci_groundingStatus :: jsstring
  tci_groundingSourceMode :: jsstring
  tci_groundingEvidence :: "GroundingEvidence list"

record AppSummary =
  sm_topics :: bigint
  sm_totalCards :: bigint
  sm_dueCards :: bigint
  sm_activeCards :: bigint

record AppTopicInfo =
  at_id :: bigint
  at_name :: jsstring
  at_tipcardType :: jsstring
  at_promptTemplate :: jsstring
  at_totalCards :: bigint
  at_dueCards :: bigint
  at_completedCards :: bigint
  at_dailyCardCount :: int
  at_dailyTimeZone :: jsstring
  at_dailyUpdateTime :: jsstring
  at_compressionLevel :: jsstring
  at_groundingStrategy :: jsstring
  at_imageStrategy :: jsstring
  at_iconId :: jsstring
  at_topicColor :: jsstring
  at_pendingCards :: bigint
  at_groundingModel :: jsstring
  at_groundingReasoningEffort :: jsstring
  at_groundingSourceMode :: jsstring
  at_groundingVerificationMode :: jsstring
  at_groundingSearchProfile :: "GroundingSearchProfile option"
  at_groundingBehavior :: jsstring

record UpdateTopicRequest =
  utr_id :: bigint
  utr_promptTemplate :: "jsstring option"
  utr_dailyCardCount :: "int option"
  utr_dailyTimeZone :: "jsstring option"
  utr_dailyUpdateTime :: "jsstring option"
  utr_compressionLevel :: "jsstring option"
  utr_groundingStrategy :: "jsstring option"
  utr_imageStrategy :: "jsstring option"
  utr_groundingModel :: "jsstring option"
  utr_groundingReasoningEffort :: "jsstring option"
  utr_groundingSourceMode :: "jsstring option"
  utr_groundingVerificationMode :: "jsstring option"
  utr_groundingSearchProfile :: "GroundingSearchProfile option"
  utr_clearGroundingSearchProfile :: "bool option"
  utr_groundingBehavior :: "jsstring option"

record ForceDailyRefreshResponse =
  fr_refreshedCards :: bigint
  fr_outcome :: ForceDailyRefreshOutcome
  fr_availableCards :: bigint
  fr_generatedCards :: bigint

record AddDocumentRequest =
  adr_topicIdOpt :: jsstring
  adr_sourceType :: jsstring
  adr_title :: jsstring
  adr_url :: jsstring
  adr_content :: jsstring
  adr_topicIds :: "bigint list"

record DocumentInfo =
  di_id :: bigint
  di_topicId :: bigint
  di_sourceType :: jsstring
  di_title :: jsstring
  di_url :: jsstring
  di_createdAt :: jsstring
  di_topicIds :: "bigint list"

record DocumentDetail =
  dd_id :: bigint
  dd_topicIds :: "bigint list"
  dd_sourceType :: jsstring
  dd_title :: jsstring
  dd_url :: jsstring
  dd_content :: jsstring
  dd_createdAt :: jsstring

record AddPoolImageRequest =
  apr_imageData :: jsstring
  apr_name :: jsstring
  apr_description :: jsstring

record PoolImageInfo =
  po_id :: bigint
  po_name :: jsstring
  po_description :: jsstring
  po_createdAt :: jsstring
  po_tags :: "jsstring list"

record PoolImageCreated =
  pc_id :: bigint
  pc_name :: jsstring
  pc_description :: jsstring
  pc_tags :: "jsstring list"
  pc_annotated :: bool
  pc_fallbackReason :: jsstring
  pc_model :: jsstring
  pc_downloadPath :: jsstring

record ContinueDailyReviewResponse =
  cr_availableCards :: bigint
  cr_activeCardId :: "bigint option"
  cr_pendingCount :: int

record ExploredLink =
  el_title :: jsstring
  el_url :: jsstring

record VisionModelTest =
  vm_ok :: bool
  vm_model :: jsstring
  vm_message :: jsstring

record PreviewGroundingRequest =
  pq_topicId :: bigint
  pq_groundingSourceMode :: "jsstring option"
  pq_groundingVerificationMode :: "jsstring option"
  pq_groundingSearchProfile :: "GroundingSearchProfile option"
  pq_documentIds :: "bigint list"
  pq_groundingBehavior :: "jsstring option"

record PreviewGroundingResult =
  pgr_groundingSourceMode :: jsstring
  pgr_groundingVerificationMode :: jsstring
  pgr_groundingSearchProfile :: "GroundingSearchProfile option"
  pgr_backend :: jsstring
  pgr_queries :: "jsstring list"
  pgr_evidence :: "GroundingEvidence list"
  pgr_warnings :: "jsstring list"
  pgr_groundingBehavior :: jsstring

record EnhancePromptTemplateResult =
  epr_promptTemplate :: jsstring
  epr_groundingStrategy :: jsstring
  epr_groundingModel :: jsstring
  epr_groundingReasoningEffort :: jsstring
  epr_imageStrategy :: jsstring
  epr_rationale :: jsstring

record UploadDocumentRequest =
  ud_topicIds :: "bigint list"
  ud_filename :: jsstring
  ud_mimeType :: jsstring
  ud_title :: jsstring
  ud_data :: "8 word list"

record AppendTipcardImagesRequest =
  api_cardId :: bigint
  api_imageData :: "jsstring list"
  api_poolImageIds :: "bigint list"
  api_urls :: "jsstring list"

record ReplaceTipcardImagesRequest =
  rep_cardId :: bigint
  rep_imageData :: "jsstring list"

record ReviewAndAdvanceRequest =
  rar_cardId :: bigint
  rar_grade :: int
  rar_action :: ReviewActionValue

record ReviewAndAdvanceResponse =
  rr_reviewedCardId :: bigint
  rr_nextCard :: "FlowCardInfo option"
  rr_dailyComplete :: bool
  rr_pendingCount :: int
  rr_refillScheduled :: bool

record FlowCardPage =
  fcp_cards :: "FlowCardInfo list"
  fcp_nextPageToken :: jsstring
  fcp_hasMore :: bool

record TipcardDetail =
  td_card :: "FlowCardInfo option"

text \<open>\<open>ApiRequest.op\<close>\<close>

datatype ApiOp =
    OpGetApiInfo
  | OpListFlowCards int jsstring
  | OpReviewAndAdvance ReviewAndAdvanceRequest
  | OpGetTipcard bigint
  | OpContinueDailyReview "jsstring list" jsstring
  | OpPinTipcard bigint bool
  | OpDeleteTipcard bigint
  | OpTipsV1 TipsRequestV1
  | OpAppendTipcardImages AppendTipcardImagesRequest
  | OpReplaceTipcardImages ReplaceTipcardImagesRequest
  | OpGetSettings
  | OpPreviewGrounding PreviewGroundingRequest
  | OpUpdateSettings UpdateSettingsRequest
  | OpListApiKeys
  | OpCreateApiKey jsstring
  | OpDeleteApiKey bigint
  | OpListTipcards
  | OpGetSummary
  | OpListAppTopics
  | OpUpdateTopic UpdateTopicRequest
  | OpDeleteTopic bigint
  | OpForceDailyRefresh jsstring jsstring
  | OpListDocuments
  | OpGetDocument bigint
  | OpCreateDocument AddDocumentRequest
  | OpUploadDocument UploadDocumentRequest
  | OpDeleteDocument bigint
  | OpAttachDocumentTopic bigint bigint
  | OpDetachDocumentTopic bigint bigint
  | OpExploreLink jsstring
  | OpEnhancePromptTemplate bigint
  | OpTestVisionModel
  | OpListPoolImages
  | OpCreatePoolImage AddPoolImageRequest
  | OpDeletePoolImage bigint

text \<open>\<open>ApiResponse.result\<close>: a case the client never expects is \<open>ResultOther\<close> with its name, an unset one \<open>ResultUnset\<close>.\<close>

datatype ApiResult =
    ResultApiKeyCreated jsstring
  | ResultTips "TipCardResponse list"
  | ResultOk
  | ResultSettings Settings
  | ResultApiKeys "ApiKeyInfo list"
  | ResultTipcards "TipcardInfo list"
  | ResultSummary AppSummary
  | ResultAppTopics "AppTopicInfo list"
  | ResultForceDailyRefresh ForceDailyRefreshResponse
  | ResultDocuments "DocumentInfo list"
  | ResultPoolImages "PoolImageInfo list"
  | ResultApiInfo ApiInfo
  | ResultFlowCardPage FlowCardPage
  | ResultTipcardDetail TipcardDetail
  | ResultDocumentDetail DocumentDetail
  | ResultContinueDailyReview ContinueDailyReviewResponse
  | ResultExploredLinks "ExploredLink list"
  | ResultVisionModelTest VisionModelTest
  | ResultDocumentCreated DocumentDetail
  | ResultPoolImageCreated PoolImageCreated
  | ResultReviewAndAdvance ReviewAndAdvanceResponse
  | ResultEnhancePromptTemplate EnhancePromptTemplateResult
  | ResultPreviewGrounding PreviewGroundingResult
  | ResultOther jsstring
  | ResultUnset

text \<open>\<open>String(response.result.case)\<close>\<close>

fun result_case :: "ApiResult \<Rightarrow> jsstring" where
  "result_case (ResultApiKeyCreated v) = ''apiKeyCreated''"
| "result_case (ResultTips v) = ''tips''"
| "result_case ResultOk = ''ok''"
| "result_case (ResultSettings v) = ''settings''"
| "result_case (ResultApiKeys v) = ''apiKeys''"
| "result_case (ResultTipcards v) = ''tipcards''"
| "result_case (ResultSummary v) = ''summary''"
| "result_case (ResultAppTopics v) = ''appTopics''"
| "result_case (ResultForceDailyRefresh v) = ''forceDailyRefresh''"
| "result_case (ResultDocuments v) = ''documents''"
| "result_case (ResultPoolImages v) = ''poolImages''"
| "result_case (ResultApiInfo v) = ''apiInfo''"
| "result_case (ResultFlowCardPage v) = ''flowCardPage''"
| "result_case (ResultTipcardDetail v) = ''tipcardDetail''"
| "result_case (ResultDocumentDetail v) = ''documentDetail''"
| "result_case (ResultContinueDailyReview v) = ''continueDailyReview''"
| "result_case (ResultExploredLinks v) = ''exploredLinks''"
| "result_case (ResultVisionModelTest v) = ''visionModelTest''"
| "result_case (ResultDocumentCreated v) = ''documentCreated''"
| "result_case (ResultPoolImageCreated v) = ''poolImageCreated''"
| "result_case (ResultReviewAndAdvance v) = ''reviewAndAdvance''"
| "result_case (ResultEnhancePromptTemplate v) = ''enhancePromptTemplate''"
| "result_case (ResultPreviewGrounding v) = ''previewGrounding''"
| "result_case (ResultOther name) = name"
| "result_case ResultUnset = ''undefined''"

end
