(* ===== verification/Operations.thy ===== *)
theory Operations
  imports Api_Messages Transport Read_Cache Flow_Page
begin

text \<open>
  \<open>lib/api-v1/ops.ts\<close>: the operations of the Flow page over the transport and the read cache. A read is looked up in
  the cache and otherwise launched: its producer makes the request at once, and its answer waits to be
  settled. A mutation checks its arguments, makes its request and, when the answer has the right shape,
  clears the cache. The network's replies are those of \<open>Wire\<close>, the random bytes of an identifier an
  argument.
\<close>

datatype ApiFailure = ApiTransport TransportError | ApiTypeError jsstring

type_synonym codec = "(ApiOp, ApiResult) Codec"

definition lift_transport :: "TransportError + 'a \<Rightarrow> ApiFailure + 'a" where
  "lift_transport r = (case r of Inl e \<Rightarrow> Inl (ApiTransport e) | Inr a \<Rightarrow> Inr a)"

definition unexpected_case :: "jsstring \<Rightarrow> ApiResult \<Rightarrow> ApiFailure" where
  "unexpected_case operation result =
     ApiTypeError (operation @ '' returned unexpected result case '' @ result_case result)"

section \<open>Reads\<close>

text \<open>The uncached producers: a request that carries its own identifier.\<close>

definition read_request ::
    "codec \<Rightarrow> bytes \<Rightarrow> ApiOp \<Rightarrow> jsstring \<Rightarrow> (ApiResult \<Rightarrow> ApiFailure + 'a) \<Rightarrow> Wire \<Rightarrow> (ApiFailure + jsstring \<times> 'a) \<times> Wire" where
  "read_request cd random op prefix check w =
     (case buildEnvelope op (newRequestId random prefix) None False of
        Inl e \<Rightarrow> (Inl (ApiTransport e), w)
      | Inr envelope \<Rightarrow>
          let (response, w') = callEnvelope cd API_V1_PATH envelope w
          in (sum_bind (lift_transport response) (\<lambda>result.
                sum_bind (check result) (\<lambda>a. Inr (rq_requestId envelope, a))), w'))"

definition check_info :: "ApiResult \<Rightarrow> ApiFailure + ApiInfo" where
  "check_info result = (case result of ResultApiInfo info \<Rightarrow> Inr info | _ \<Rightarrow> Inl (unexpected_case ''get_api_info'' result))"

definition fetchApiInfo :: "codec \<Rightarrow> bytes \<Rightarrow> Wire \<Rightarrow> (ApiFailure + jsstring \<times> ApiInfo) \<times> Wire" where
  "fetchApiInfo cd random = read_request cd random OpGetApiInfo ''info'' check_info"

definition FLOW_PAGE_DEFAULT_SIZE :: int where
  "FLOW_PAGE_DEFAULT_SIZE = 48"

text \<open>The message of an error \<open>cursorFromPage\<close> throws.\<close>

fun error_message :: "js_error \<Rightarrow> jsstring" where
  "error_message (TypeError m) = m"
| "error_message (PlainError m) = m"
| "error_message (AddValidationError m) = m"

definition check_page :: "ApiResult \<Rightarrow> ApiFailure + FlowCardsPage" where
  "check_page result =
     (case result of
        ResultFlowCardPage page \<Rightarrow>
          (case cursorFromPage (if fcp_nextPageToken page = [] then None else Some (fcp_nextPageToken page)) (fcp_hasMore page) of
             Inl e \<Rightarrow> Inl (ApiTypeError (error_message e))
           | Inr cursor \<Rightarrow> Inr \<lparr>pg_cards = fcp_cards page, pg_cursor = cursor\<rparr>)
      | _ \<Rightarrow> Inl (unexpected_case ''list_flow_cards'' result))"

definition fetchFlowPage :: "codec \<Rightarrow> bytes \<Rightarrow> int \<Rightarrow> jsstring option \<Rightarrow> Wire \<Rightarrow> (ApiFailure + jsstring \<times> FlowCardsPage) \<times> Wire" where
  "fetchFlowPage cd random pageSize pageToken =
     read_request cd random (OpListFlowCards pageSize (case pageToken of None \<Rightarrow> [] | Some t \<Rightarrow> t)) ''flow'' check_page"

definition check_card :: "bigint \<Rightarrow> ApiResult \<Rightarrow> ApiFailure + FlowCardInfo" where
  "check_card cardId result =
     (case result of
        ResultTipcardDetail detail \<Rightarrow>
          (case td_card detail of
             None \<Rightarrow> Inl (ApiTypeError (''get_tipcard returned no card for id '' @ dec_of_int cardId))
           | Some c \<Rightarrow>
               if fc_id c \<noteq> cardId
               then Inl (ApiTypeError (''get_tipcard returned card '' @ dec_of_int (fc_id c) @ '' but card '' @
                                       dec_of_int cardId @ '' was requested''))
               else Inr c)
      | _ \<Rightarrow> Inl (unexpected_case ''get_tipcard'' result))"

definition fetchTipcard :: "codec \<Rightarrow> bytes \<Rightarrow> bigint \<Rightarrow> Wire \<Rightarrow> (ApiFailure + jsstring \<times> FlowCardInfo) \<times> Wire" where
  "fetchTipcard cd random cardId = read_request cd random (OpGetTipcard cardId) ''detail'' (check_card cardId)"

text \<open>The reads that go through the cache, which holds the answers of all of them.\<close>

datatype ReadCall = CallApiInfo | CallFlowPage int "jsstring option" | CallTipcard bigint

datatype ReadAnswer =
    AnswerInfo jsstring ApiInfo
  | AnswerPage jsstring FlowCardsPage
  | AnswerCard jsstring FlowCardInfo

definition read_key :: "ReadCall \<Rightarrow> jsstring" where
  "read_key call =
     (case call of
        CallApiInfo \<Rightarrow> readCacheKey ''getApiInfo'' []
      | CallFlowPage pageSize pageToken \<Rightarrow>
          readCacheKey ''listFlowCards'' [dec_of_int pageSize, case pageToken of None \<Rightarrow> [] | Some t \<Rightarrow> t]
      | CallTipcard cardId \<Rightarrow> readCacheKey ''getTipcard'' [dec_of_int cardId])"

definition producer :: "codec \<Rightarrow> bytes \<Rightarrow> ReadCall \<Rightarrow> Wire \<Rightarrow> (ApiFailure + ReadAnswer) \<times> Wire" where
  "producer cd random call w =
     (case call of
        CallApiInfo \<Rightarrow>
          let (r, w') = fetchApiInfo cd random w in (sum_bind r (\<lambda>(i, a). Inr (AnswerInfo i a)), w')
      | CallFlowPage pageSize pageToken \<Rightarrow>
          let (r, w') = fetchFlowPage cd random pageSize pageToken w in (sum_bind r (\<lambda>(i, a). Inr (AnswerPage i a)), w')
      | CallTipcard cardId \<Rightarrow>
          let (r, w') = fetchTipcard cd random cardId w in (sum_bind r (\<lambda>(i, a). Inr (AnswerCard i a)), w'))"

text \<open>\<open>getApiInfo\<close>, \<open>listFlowCards\<close> and \<open>getTipcard\<close>: the answers of the producers that still run are in \<open>api_pending\<close>.\<close>

record ApiState =
  api_wire :: Wire
  api_cache :: "ReadAnswer CacheState"
  api_pending :: "nat \<rightharpoonup> ApiFailure + ReadAnswer"
  api_mutating :: "nat \<rightharpoonup> bool"
  api_sent :: nat

definition cached_read :: "codec \<Rightarrow> bytes \<Rightarrow> ReadCall \<Rightarrow> int \<Rightarrow> ApiState \<Rightarrow> ReadAnswer ReadResult \<times> ApiState" where
  "cached_read cd random call now st =
     (case withReadCache (api_cache st) (read_key call) READ_CACHE_DEFAULT_TTL_MS now of
        (ReadLaunched p, cache) \<Rightarrow>
          let (answer, w) = producer cd random call (api_wire st)
          in (ReadLaunched p, st\<lparr>api_wire := w, api_cache := cache, api_pending := (api_pending st)(p \<mapsto> answer)\<rparr>)
      | (result, cache) \<Rightarrow> (result, st\<lparr>api_cache := cache\<rparr>))"

definition getApiInfo :: "codec \<Rightarrow> bytes \<Rightarrow> int \<Rightarrow> ApiState \<Rightarrow> ReadAnswer ReadResult \<times> ApiState" where
  "getApiInfo cd random = cached_read cd random CallApiInfo"

definition listFlowCards :: "codec \<Rightarrow> bytes \<Rightarrow> int \<Rightarrow> jsstring option \<Rightarrow> int \<Rightarrow> ApiState \<Rightarrow> ReadAnswer ReadResult \<times> ApiState" where
  "listFlowCards cd random pageSize pageToken = cached_read cd random (CallFlowPage pageSize pageToken)"

definition getTipcard :: "codec \<Rightarrow> bytes \<Rightarrow> bigint \<Rightarrow> int \<Rightarrow> ApiState \<Rightarrow> ReadAnswer ReadResult \<times> ApiState" where
  "getTipcard cd random cardId = cached_read cd random (CallTipcard cardId)"

definition read_settles :: "nat \<Rightarrow> int \<Rightarrow> ApiState \<Rightarrow> ApiState" where
  "read_settles p now st =
     (case api_pending st p of
        None \<Rightarrow> st
      | Some (Inr a) \<Rightarrow> st\<lparr>api_cache := producerSettled (api_cache st) p a now, api_pending := (api_pending st)(p := None)\<rparr>
      | Some (Inl e) \<Rightarrow> st\<lparr>api_cache := producerFailed (api_cache st) p, api_pending := (api_pending st)(p := None)\<rparr>)"

section \<open>Mutations\<close>

text \<open>The request of a mutation and the check of its answer.\<close>

definition mutation_request ::
    "codec \<Rightarrow> bytes \<Rightarrow> ApiOp \<Rightarrow> jsstring \<Rightarrow> (ApiResult \<Rightarrow> ApiFailure + 'a) \<Rightarrow> Wire \<Rightarrow> (ApiFailure + jsstring \<times> 'a) \<times> Wire" where
  "mutation_request cd random op key check w =
     (let (response, w') = callMutationWithKeyEnvelope cd random op key w
      in (sum_bind (lift_transport response) (\<lambda>(requestId, result).
            sum_bind (check result) (\<lambda>a. Inr (requestId, a))), w'))"

definition check_ok :: "jsstring \<Rightarrow> ApiResult \<Rightarrow> ApiFailure + unit" where
  "check_ok operation result = (if result = ResultOk then Inr () else Inl (unexpected_case operation result))"

definition check_reviewed :: "bigint \<Rightarrow> ApiResult \<Rightarrow> ApiFailure + ReviewAndAdvanceResponse" where
  "check_reviewed cardId result =
     (case result of
        ResultReviewAndAdvance r \<Rightarrow>
          if rr_reviewedCardId r \<noteq> cardId
          then Inl (ApiTypeError (''review_and_advance reviewed card '' @ dec_of_int (rr_reviewedCardId r) @
                                  '' but card '' @ dec_of_int cardId @ '' was requested''))
          else Inr r
      | _ \<Rightarrow> Inl (unexpected_case ''review_and_advance'' result))"

definition reviewAndAdvance ::
    "codec \<Rightarrow> bytes \<Rightarrow> bigint \<Rightarrow> int \<Rightarrow> ReviewActionValue \<Rightarrow> jsstring \<Rightarrow> Wire \<Rightarrow>
     (ApiFailure + jsstring \<times> ReviewAndAdvanceResponse) \<times> Wire" where
  "reviewAndAdvance cd random cardId grade action key =
     mutation_request cd random
       (OpReviewAndAdvance \<lparr>rar_cardId = cardId, rar_grade = grade, rar_action = action\<rparr>) key (check_reviewed cardId)"

record ContinueDailyReviewOutcome =
  co_availableCards :: bigint
  co_activeCardId :: bigint
  co_pendingCount :: int

definition check_continued :: "ApiResult \<Rightarrow> ApiFailure + ContinueDailyReviewOutcome" where
  "check_continued result =
     (case result of
        ResultContinueDailyReview r \<Rightarrow>
          (case cr_activeCardId r of
             Some active \<Rightarrow>
               if active \<le> 0 then Inl (ApiTypeError ''continue_daily_review must return a positive activeCardId'')
               else Inr \<lparr>co_availableCards = cr_availableCards r, co_activeCardId = active, co_pendingCount = cr_pendingCount r\<rparr>
           | None \<Rightarrow> Inl (ApiTypeError ''continue_daily_review must return a positive activeCardId''))
      | _ \<Rightarrow> Inl (unexpected_case ''continue_daily_review'' result))"

definition continueDailyReview ::
    "codec \<Rightarrow> bytes \<Rightarrow> jsstring \<Rightarrow> jsstring \<Rightarrow> Wire \<Rightarrow> (ApiFailure + jsstring \<times> ContinueDailyReviewOutcome) \<times> Wire" where
  "continueDailyReview cd random topicName key w =
     (if js_trim topicName = [] then (Inl (ApiTypeError ''continue_daily_review requires a non-blank topic''), w)
      else mutation_request cd random (OpContinueDailyReview [topicName] ''repeatable_tip'') key check_continued w)"

text \<open>The guard on a card identifier, before any request.\<close>

definition positive_card :: "jsstring \<Rightarrow> bigint \<Rightarrow> (Wire \<Rightarrow> (ApiFailure + 'a) \<times> Wire) \<Rightarrow> Wire \<Rightarrow> (ApiFailure + 'a) \<times> Wire" where
  "positive_card operation cardId call w =
     (if cardId \<le> 0
      then (Inl (ApiTypeError (operation @ '' requires a positive card id, got '' @ dec_of_int cardId)), w)
      else call w)"

definition pinTipcard :: "codec \<Rightarrow> bytes \<Rightarrow> bigint \<Rightarrow> bool \<Rightarrow> jsstring \<Rightarrow> Wire \<Rightarrow> (ApiFailure + jsstring \<times> unit) \<times> Wire" where
  "pinTipcard cd random cardId pinned key =
     positive_card ''pin_tipcard'' cardId
       (mutation_request cd random (OpPinTipcard cardId pinned) key (check_ok ''pin_tipcard''))"

definition deleteTipcard :: "codec \<Rightarrow> bytes \<Rightarrow> bigint \<Rightarrow> jsstring \<Rightarrow> Wire \<Rightarrow> (ApiFailure + jsstring \<times> unit) \<times> Wire" where
  "deleteTipcard cd random cardId key =
     positive_card ''delete_tipcard'' cardId
       (mutation_request cd random (OpDeleteTipcard cardId) key (check_ok ''delete_tipcard''))"

definition check_tips :: "ApiResult \<Rightarrow> ApiFailure + TipCardResponse list" where
  "check_tips result = (case result of ResultTips tips \<Rightarrow> Inr tips | _ \<Rightarrow> Inl (unexpected_case ''tips_v1'' result))"

definition createTips ::
    "codec \<Rightarrow> bytes \<Rightarrow> TipsRequestV1 \<Rightarrow> jsstring \<Rightarrow> Wire \<Rightarrow> (ApiFailure + jsstring \<times> TipCardResponse list) \<times> Wire" where
  "createTips cd random request key w =
     (if js_trim key = [] then (Inl (ApiTypeError ''tips_v1 requires a non-empty idempotency key''), w)
      else mutation_request cd random (OpTipsV1 request) key check_tips w)"

definition appendTipcardImages ::
    "codec \<Rightarrow> bytes \<Rightarrow> bigint \<Rightarrow> jsstring list \<Rightarrow> bigint list \<Rightarrow> jsstring list \<Rightarrow> jsstring \<Rightarrow> Wire \<Rightarrow>
     (ApiFailure + jsstring \<times> unit) \<times> Wire" where
  "appendTipcardImages cd random cardId imageData poolImageIds urls key =
     positive_card ''append_tipcard_images'' cardId (\<lambda>w.
       if imageData = [] \<and> poolImageIds = [] \<and> list_all (\<lambda>url. js_trim url = []) urls
       then (Inl (ApiTypeError ''append_tipcard_images requires at least one image input''), w)
       else mutation_request cd random
              (OpAppendTipcardImages \<lparr>api_cardId = cardId, api_imageData = imageData, api_poolImageIds = poolImageIds,
                                      api_urls = filter (\<lambda>u. u \<noteq> []) (map js_trim urls)\<rparr>)
              key (check_ok ''append_tipcard_images'') w)"

definition replaceTipcardImages ::
    "codec \<Rightarrow> bytes \<Rightarrow> bigint \<Rightarrow> jsstring list \<Rightarrow> jsstring \<Rightarrow> Wire \<Rightarrow> (ApiFailure + jsstring \<times> unit) \<times> Wire" where
  "replaceTipcardImages cd random cardId imageData key =
     positive_card ''replace_tipcard_images'' cardId
       (mutation_request cd random (OpReplaceTipcardImages \<lparr>rep_cardId = cardId, rep_imageData = imageData\<rparr>) key
          (check_ok ''replace_tipcard_images''))"

text \<open>A mutation on its way: its request is made when it starts, the cache is cleared when it settles well.\<close>

definition mutation_starts :: "(Wire \<Rightarrow> (ApiFailure + 'a) \<times> Wire) \<Rightarrow> ApiState \<Rightarrow> (ApiFailure + 'a) \<times> ApiState" where
  "mutation_starts call st =
     (let (result, w) = call (api_wire st)
      in (result, st\<lparr>api_wire := w, api_mutating := (api_mutating st)(api_sent st \<mapsto> (case result of Inr a \<Rightarrow> True | Inl e \<Rightarrow> False)),
                    api_sent := Suc (api_sent st)\<rparr>))"

definition mutation_settles :: "nat \<Rightarrow> ApiState \<Rightarrow> ApiState" where
  "mutation_settles m st =
     (case api_mutating st m of
        None \<Rightarrow> st
      | Some ok \<Rightarrow>
          st\<lparr>api_mutating := (api_mutating st)(m := None),
             api_cache := (if ok then invalidateReadCache (api_cache st) None else api_cache st)\<rparr>)"

section \<open>Lemmas\<close>

lemma lift_transport_Inr [simp]: "lift_transport r = Inr a \<longleftrightarrow> r = Inr a"
  by (cases r) (simp_all add: lift_transport_def)

lemma read_request_Inr:
  "read_request cd random op prefix check w = (Inr (rid, a), w') \<Longrightarrow> \<exists>result. check result = Inr a"
  by (auto simp: read_request_def buildEnvelope_def sum_bind_Inr split: prod.splits)

lemma check_card_Inr: "check_card i result = Inr c \<Longrightarrow> fc_id c = i"
  by (auto simp: check_card_def split: ApiResult.splits option.splits if_splits)

text \<open>What an answer must be to belong to a call.\<close>

fun answers :: "ReadCall \<Rightarrow> ReadAnswer \<Rightarrow> bool" where
  "answers CallApiInfo (AnswerInfo i info) = True"
| "answers (CallFlowPage n t) (AnswerPage i page) = True"
| "answers (CallTipcard n) (AnswerCard i c) = (fc_id c = n)"
| "answers call answer = False"

definition answered :: "ReadCall \<Rightarrow> ApiFailure + ReadAnswer \<Rightarrow> bool" where
  "answered call r \<longleftrightarrow> (case r of Inr a \<Rightarrow> answers call a | Inl e \<Rightarrow> True)"

lemma producer_answered: "answered call (fst (producer cd random call w))"
proof (cases call)
  case CallApiInfo
  then show ?thesis
    by (cases "fetchApiInfo cd random w"; cases "fst (fetchApiInfo cd random w)")
      (auto simp: answered_def producer_def)
next
  case (CallFlowPage n t)
  then show ?thesis
    by (cases "fetchFlowPage cd random n t w"; cases "fst (fetchFlowPage cd random n t w)")
      (auto simp: answered_def producer_def)
next
  case (CallTipcard n)
  obtain r w' where f: "fetchTipcard cd random n w = (r, w')" by fastforce
  show ?thesis
  proof (cases r)
    case (Inr p)
    obtain rid c where p: "p = (rid, c)" by fastforce
    obtain result where "check_card n result = Inr c"
      using read_request_Inr [of cd random "OpGetTipcard n" "''detail''" "check_card n" w rid c w'] f
      by (auto simp: Inr p fetchTipcard_def)
    then have "fc_id c = n" by (rule check_card_Inr)
    then show ?thesis using f Inr p CallTipcard by (simp add: answered_def producer_def)
  qed (use f CallTipcard in \<open>simp add: answered_def producer_def\<close>)
qed

text \<open>Two calls with the same key are answered alike: a page number and a card identifier hold no colon.\<close>

lemma dec_of_int_no_colon: "CHR '':'' \<notin> set (dec_of_int n)"
proof -
  have "\<not> is_digit CHR '':''" by code_simp
  then have "CHR '':'' \<notin> set (dec_of_nat m)" for m using dec_of_nat_digits [of m] by blast
  then show ?thesis by (simp add: dec_of_int_def)
qed

lemma before_colon: "CHR '':'' \<notin> set xs \<Longrightarrow> CHR '':'' \<notin> set ys \<Longrightarrow>
   xs @ CHR '':'' # us = ys @ CHR '':'' # vs \<Longrightarrow> xs = ys \<and> us = vs"
proof (induction xs arbitrary: ys)
  case Nil
  then show ?case by (cases ys) auto
next
  case (Cons x xs)
  then show ?case by (cases ys) auto
qed

lemma read_key_text [simp]:
  "read_key CallApiInfo = ''getApiInfo''"
  "read_key (CallFlowPage n t) = ''listFlowCards:'' @ dec_of_int n @ '':'' @ (case t of None \<Rightarrow> [] | Some s \<Rightarrow> s)"
  "read_key (CallTipcard n) = ''getTipcard:'' @ dec_of_int n"
  by (simp_all add: read_key_def readCacheKey_def)

lemma same_key_answers:
  assumes "read_key c = read_key c'" shows "answers c a = answers c' a"
  using assms by (cases c; cases c'; cases a) simp_all

section \<open>Runs\<close>

datatype ApiMutation =
    MutReview bigint int ReviewActionValue
  | MutContinue jsstring
  | MutPin bigint bool
  | MutDelete bigint
  | MutTips TipsRequestV1
  | MutAppend bigint "jsstring list" "bigint list" "jsstring list"
  | MutReplace bigint "jsstring list"

definition forget :: "(ApiFailure + 'a) \<times> Wire \<Rightarrow> (ApiFailure + unit) \<times> Wire" where
  "forget p = (sum_bind (fst p) (\<lambda>_. Inr ()), snd p)"

fun run_mutation :: "codec \<Rightarrow> bytes \<Rightarrow> jsstring \<Rightarrow> ApiMutation \<Rightarrow> Wire \<Rightarrow> (ApiFailure + unit) \<times> Wire" where
  "run_mutation cd random key (MutReview i grade action) w = forget (reviewAndAdvance cd random i grade action key w)"
| "run_mutation cd random key (MutContinue topic) w = forget (continueDailyReview cd random topic key w)"
| "run_mutation cd random key (MutPin i pinned) w = forget (pinTipcard cd random i pinned key w)"
| "run_mutation cd random key (MutDelete i) w = forget (deleteTipcard cd random i key w)"
| "run_mutation cd random key (MutTips request) w = forget (createTips cd random request key w)"
| "run_mutation cd random key (MutAppend i datas pool urls) w = forget (appendTipcardImages cd random i datas pool urls key w)"
| "run_mutation cd random key (MutReplace i datas) w = forget (replaceTipcardImages cd random i datas key w)"

datatype ApiEvent =
    ReadStarts bytes ReadCall int
  | ReadSettles nat int
  | MutationStarts bytes jsstring ApiMutation
  | MutationSettles nat

fun api_step :: "codec \<Rightarrow> ApiState \<Rightarrow> ApiEvent \<Rightarrow> ApiState" where
  "api_step cd st (ReadStarts random call now) = snd (cached_read cd random call now st)"
| "api_step cd st (ReadSettles p now) = read_settles p now st"
| "api_step cd st (MutationStarts random key m) = snd (mutation_starts (run_mutation cd random key m) st)"
| "api_step cd st (MutationSettles m) = mutation_settles m st"

definition initial_api :: "Wire \<Rightarrow> ApiState" where
  "initial_api w = \<lparr>api_wire = w, api_cache = empty_cache, api_pending = Map.empty, api_mutating = Map.empty, api_sent = 0\<rparr>"

text \<open>
  The producers that run are those whose answer waits; each answer, waiting or kept, belongs to a call
  with the key it is stored under.
\<close>

definition api_ok :: "ApiState \<Rightarrow> bool" where
  "api_ok st \<longleftrightarrow>
     cache_inv (api_cache st) \<and> dom (rc_flights (api_cache st)) = dom (api_pending st) \<and>
     (\<forall>p key ttl r. rc_flights (api_cache st) p = Some (key, ttl) \<longrightarrow> api_pending st p = Some r \<longrightarrow>
        (\<exists>call. key = read_key call \<and> answered call r)) \<and>
     (\<forall>key e v. rc_cache (api_cache st) key = Some e \<longrightarrow> ce_cached e = CacheDone v \<longrightarrow>
        (\<exists>call. key = read_key call \<and> answers call v))"

lemma api_ok_initial: "api_ok (initial_api w)"
  by (simp add: api_ok_def initial_api_def cache_inv_empty) (simp add: empty_cache_def)

lemma read_cache_cases:
  assumes "withReadCache st key ttl now = (result, st')"
  shows "(\<exists>e a. result = ReadValue a \<and> st' = st \<and> rc_cache st key = Some e \<and> ce_cached e = CacheDone a) \<or>
    (\<exists>e p. result = ReadJoined p \<and> st' = st \<and> rc_cache st key = Some e \<and> ce_cached e = CachePending p) \<or>
    (result = ReadLaunched (rc_next st) \<and>
     st' = st\<lparr>rc_cache := (rc_cache st)(key \<mapsto> \<lparr>ce_cached = CachePending (rc_next st), ce_expiresAt = MAX_SAFE_INTEGER\<rparr>),
              rc_flights := (rc_flights st)(rc_next st \<mapsto> (key, ttl)), rc_next := rc_next st + 1\<rparr>)"
  using assms by (auto simp: withReadCache_def Let_def split: option.splits if_splits CachedValue.splits)

lemma api_ok_read:
  assumes ok: "api_ok st" shows "api_ok (snd (cached_read cd random call now st))"
proof -
  obtain result cache where r: "withReadCache (api_cache st) (read_key call) READ_CACHE_DEFAULT_TTL_MS now = (result, cache)"
    by fastforce
  have inv: "cache_inv cache" using cache_inv_read [of "api_cache st" "read_key call" READ_CACHE_DEFAULT_TTL_MS now] ok r
    by (simp add: api_ok_def)
  from read_cache_cases [OF r] consider (same) "cache = api_cache st" "\<nexists>p. result = ReadLaunched p"
    | (launch) "result = ReadLaunched (rc_next (api_cache st))"
        "cache = api_cache st\<lparr>rc_cache := (rc_cache (api_cache st))(read_key call \<mapsto>
            \<lparr>ce_cached = CachePending (rc_next (api_cache st)), ce_expiresAt = MAX_SAFE_INTEGER\<rparr>),
          rc_flights := (rc_flights (api_cache st))(rc_next (api_cache st) \<mapsto> (read_key call, READ_CACHE_DEFAULT_TTL_MS)),
          rc_next := rc_next (api_cache st) + 1\<rparr>"
    by auto
  then show ?thesis
  proof cases
    case same
    then have "snd (cached_read cd random call now st) = st" using r by (cases result) (auto simp: cached_read_def)
    with ok show ?thesis by simp
  next
    case launch
    have "answered call (fst (producer cd random call (api_wire st)))" by (rule producer_answered)
    then show ?thesis using ok inv r
      by (auto simp: cached_read_def api_ok_def launch simp del: read_key_text split: prod.splits if_splits)
  qed
qed

lemma api_ok_settles:
  assumes ok: "api_ok st" shows "api_ok (read_settles p now st)"
proof (cases "api_pending st p")
  case None
  then show ?thesis using ok by (simp add: read_settles_def)
next
  case (Some r)
  have d: "dom (rc_flights (api_cache st)) = dom (api_pending st)" using ok unfolding api_ok_def by (elim conjE)
  with Some have "p \<in> dom (rc_flights (api_cache st))" by (simp add: domI)
  then obtain key ttl where f: "rc_flights (api_cache st) p = Some (key, ttl)" by auto
  obtain call where c: "key = read_key call" "answered call r" using ok f Some unfolding api_ok_def by blast
  show ?thesis
  proof (cases r)
    case (Inr a)
    then have st: "read_settles p now st =
        st\<lparr>api_cache := producerSettled (api_cache st) p a now, api_pending := (api_pending st)(p := None)\<rparr>"
      using Some by (simp add: read_settles_def)
    have "cache_inv (producerSettled (api_cache st) p a now)" using ok by (simp add: api_ok_def cache_inv_settled)
    with ok f c Inr d show ?thesis unfolding st
      by (auto simp: api_ok_def producerSettled_def answered_def split: if_splits)
  next
    case (Inl e)
    then have st: "read_settles p now st =
        st\<lparr>api_cache := producerFailed (api_cache st) p, api_pending := (api_pending st)(p := None)\<rparr>"
      using Some by (simp add: read_settles_def)
    have "cache_inv (producerFailed (api_cache st) p)" using ok by (simp add: api_ok_def cache_inv_failed)
    moreover have "rc_flights (producerFailed (api_cache st) p) = (rc_flights (api_cache st))(p := None)"
      using f by (simp add: producerFailed_def Let_def split: option.splits CachedValue.splits)
    moreover have "rc_cache (producerFailed (api_cache st) p) k = Some e' \<Longrightarrow> rc_cache (api_cache st) k = Some e'" for k e'
      using f by (auto simp: producerFailed_def Let_def split: option.splits CachedValue.splits if_splits)
    ultimately show ?thesis unfolding st using ok d by (fastforce simp: api_ok_def)
  qed
qed

lemma api_ok_step: "api_ok st \<Longrightarrow> api_ok (api_step cd st e)"
proof (cases e)
  case (MutationSettles m)
  assume ok: "api_ok st"
  have "cache_inv (invalidateReadCache (api_cache st) None)" using ok by (simp add: api_ok_def cache_inv_invalidate)
  then show ?thesis using ok MutationSettles
    by (auto simp: mutation_settles_def api_ok_def invalidateReadCache_def split: option.splits)
next
  case (MutationStarts random key m)
  assume "api_ok st"
  then show ?thesis using MutationStarts by (auto simp: mutation_starts_def api_ok_def split: prod.splits)
qed (simp_all add: api_ok_read api_ok_settles)

lemma api_ok_run: "api_ok st \<Longrightarrow> api_ok (foldl (api_step cd) st es)"
  by (induction es arbitrary: st) (simp_all add: api_ok_step)

definition served :: "ReadCall \<Rightarrow> ReadAnswer ReadResult \<Rightarrow> ApiState \<Rightarrow> bool" where
  "served call result st =
     (case result of
        ReadValue a \<Rightarrow> answers call a
      | ReadJoined p \<Rightarrow> (case api_pending st p of Some r \<Rightarrow> answered call r | None \<Rightarrow> False)
      | ReadLaunched p \<Rightarrow> (case api_pending st p of Some r \<Rightarrow> answered call r | None \<Rightarrow> False))"

lemma served_read:
  assumes ok: "api_ok st" and r: "cached_read cd random call now st = (result, st')"
  shows "served call result st'"
proof -
  obtain res cache where c: "withReadCache (api_cache st) (read_key call) READ_CACHE_DEFAULT_TTL_MS now = (res, cache)"
    by fastforce
  from read_cache_cases [OF c] consider
      (kept) e a where "res = ReadValue a" "cache = api_cache st" "rc_cache (api_cache st) (read_key call) = Some e"
        "ce_cached e = CacheDone a"
    | (join) e p where "res = ReadJoined p" "cache = api_cache st" "rc_cache (api_cache st) (read_key call) = Some e"
        "ce_cached e = CachePending p"
    | (launch) p where "res = ReadLaunched p" by blast
  then show ?thesis
  proof cases
    case kept
    with ok obtain d where "read_key call = read_key d" "answers d a" unfolding api_ok_def by blast
    then have "answers call a" using same_key_answers by blast
    then show ?thesis using r c kept(1,2) by (auto simp: cached_read_def served_def)
  next
    case join
    have inv: "cache_inv (api_cache st)" using ok by (simp add: api_ok_def)
    obtain ttl where t: "rc_flights (api_cache st) p = Some (read_key call, ttl)"
      using cache_invD(1) [OF inv join(3,4)] by blast
    moreover have "dom (rc_flights (api_cache st)) = dom (api_pending st)" using ok unfolding api_ok_def by (elim conjE)
    ultimately have "p \<in> dom (api_pending st)" by blast
    then obtain x where x: "api_pending st p = Some x" by blast
    then obtain d where "read_key call = read_key d" "answered d x" using ok t unfolding api_ok_def by blast
    then have "answered call x" using same_key_answers [of call d] by (cases x) (simp_all add: answered_def)
    then show ?thesis using r c x join(1,2) by (auto simp: cached_read_def served_def)
  next
    case launch
    then show ?thesis using r c producer_answered [of call cd random "api_wire st"]
      by (auto simp: served_def cached_read_def split: prod.splits)
  qed
qed

section \<open>Properties\<close>

text \<open>C5: a cached read is answered with what it asked for: in every run of reads, mutations and settlements, over
  any replies of the network, the value a read is served, or the answer it waits for, is of the right
  kind, and a card is the card whose identifier was asked for.\<close>

theorem reads_answer_their_call:
  "case cached_read cd random call now (foldl (api_step cd) (initial_api w) es) of
     (result, st) \<Rightarrow> served call result st"
  using served_read [OF api_ok_run [OF api_ok_initial]] by (auto split: prod.splits)

text \<open>Bad arguments are refused before anything is sent.\<close>

lemma rejected_before_sending:
  "i \<le> 0 \<Longrightarrow> snd (pinTipcard cd random i pinned key w) = w \<and> snd (deleteTipcard cd random i key w) = w \<and>
     snd (appendTipcardImages cd random i datas pool urls key w) = w \<and> snd (replaceTipcardImages cd random i datas key w) = w"
  "js_trim topic = [] \<Longrightarrow> snd (continueDailyReview cd random topic key w) = w"
  "js_trim key = [] \<Longrightarrow> snd (createTips cd random request key w) = w"
  by (simp_all add: pinTipcard_def deleteTipcard_def appendTipcardImages_def replaceTipcardImages_def positive_card_def
      continueDailyReview_def createTips_def)

lemma mutation_request_Inr:
  "fst (mutation_request cd random op key check w) = Inr (rid, a) \<longleftrightarrow>
   (\<exists>result. fst (callMutationWithKeyEnvelope cd random op key w) = Inr (rid, result) \<and> check result = Inr a)"
  by (cases "callMutationWithKeyEnvelope cd random op key w") (auto simp: mutation_request_def sum_bind_Inr)

lemma check_reviewed_Inr:
  "check_reviewed i result = Inr r \<longleftrightarrow> result = ResultReviewAndAdvance r \<and> rr_reviewedCardId r = i"
  by (cases result) (auto simp: check_reviewed_def)

lemma check_continued_Inr: "check_continued result = Inr outcome \<Longrightarrow> 0 < co_activeCardId outcome"
  by (cases result) (auto simp: check_continued_def split: option.splits if_splits)

text \<open>A review is accepted exactly when the server says it reviewed the very card that was sent.\<close>

lemma review_accepted:
  "fst (reviewAndAdvance cd random cardId grade action key w) = Inr (rid, r) \<longleftrightarrow>
   fst (callMutationWithKeyEnvelope cd random
     (OpReviewAndAdvance \<lparr>rar_cardId = cardId, rar_grade = grade, rar_action = action\<rparr>) key w) = Inr (rid, ResultReviewAndAdvance r) \<and>
   rr_reviewedCardId r = cardId"
  by (auto simp: reviewAndAdvance_def mutation_request_Inr check_reviewed_Inr)

lemma continue_positive:
  "fst (continueDailyReview cd random topic key w) = Inr (rid, outcome) \<Longrightarrow> 0 < co_activeCardId outcome \<and> js_trim topic \<noteq> []"
  by (auto simp: continueDailyReview_def mutation_request_Inr split: if_splits dest!: check_continued_Inr)

end
