(* ===== verification/Route_Ops.thy ===== *)
theory Route_Ops
  imports Operations
begin

text \<open>
  \<open>lib/api-v1/route-ops.ts\<close>: the operations of the pages beside Flow. They share the transport, not the read cache: a
  read always makes a request, and no mutation clears the cache of \<open>Operations\<close>.
\<close>

text \<open>\<open>readOperation\<close> and \<open>mutateOperation\<close> with the test of the result case that follows them.\<close>

definition readOperation ::
    "codec \<Rightarrow> bytes \<Rightarrow> ApiOp \<Rightarrow> jsstring \<Rightarrow> (ApiResult \<Rightarrow> ApiFailure + 'a) \<Rightarrow> Wire \<Rightarrow> (ApiFailure + jsstring \<times> 'a) \<times> Wire" where
  "readOperation cd random op prefix = read_request cd random op prefix"

definition mutateOperation ::
    "codec \<Rightarrow> bytes \<Rightarrow> ApiOp \<Rightarrow> jsstring \<Rightarrow> (ApiResult \<Rightarrow> ApiFailure + 'a) \<Rightarrow> Wire \<Rightarrow> (ApiFailure + jsstring \<times> 'a) \<times> Wire" where
  "mutateOperation cd random op key = mutation_request cd random op key"

definition unexpectedResult :: "jsstring \<Rightarrow> ApiResult \<Rightarrow> ApiFailure" where
  "unexpectedResult operation result =
     ApiTypeError (operation @ '' returned unexpected result case '' @ result_case result)"

definition requirePositiveId :: "bigint \<Rightarrow> jsstring \<Rightarrow> (Wire \<Rightarrow> (ApiFailure + 'a) \<times> Wire) \<Rightarrow> Wire \<Rightarrow> (ApiFailure + 'a) \<times> Wire" where
  "requirePositiveId i operation call w =
     (if i \<le> 0 then (Inl (ApiTypeError (operation @ '' requires a positive id, got '' @ dec_of_int i)), w) else call w)"

definition expect_ok :: "jsstring \<Rightarrow> ApiResult \<Rightarrow> ApiFailure + unit" where
  "expect_ok operation result = (if result = ResultOk then Inr () else Inl (unexpectedResult operation result))"

section \<open>Reads\<close>

definition expect_settings :: "ApiResult \<Rightarrow> ApiFailure + Settings" where
  "expect_settings result = (case result of ResultSettings v \<Rightarrow> Inr v | _ \<Rightarrow> Inl (unexpectedResult ''get_settings'' result))"

definition getSettings :: "codec \<Rightarrow> bytes \<Rightarrow> Wire \<Rightarrow> (ApiFailure + jsstring \<times> Settings) \<times> Wire" where
  "getSettings cd random =
     readOperation cd random OpGetSettings ''settings'' expect_settings"

definition expect_preview :: "ApiResult \<Rightarrow> ApiFailure + PreviewGroundingResult" where
  "expect_preview result = (case result of ResultPreviewGrounding v \<Rightarrow> Inr v | _ \<Rightarrow> Inl (unexpectedResult ''preview_grounding'' result))"

definition previewGrounding :: "codec \<Rightarrow> bytes \<Rightarrow> PreviewGroundingRequest \<Rightarrow> Wire \<Rightarrow> (ApiFailure + jsstring \<times> PreviewGroundingResult) \<times> Wire" where
  "previewGrounding cd random request =
     requirePositiveId (pq_topicId request) ''preview_grounding''
       (readOperation cd random (OpPreviewGrounding request) ''grounding-preview'' expect_preview)"

definition expect_keys :: "ApiResult \<Rightarrow> ApiFailure + ApiKeyInfo list" where
  "expect_keys result = (case result of ResultApiKeys v \<Rightarrow> Inr v | _ \<Rightarrow> Inl (unexpectedResult ''list_api_keys'' result))"

definition listApiKeys :: "codec \<Rightarrow> bytes \<Rightarrow> Wire \<Rightarrow> (ApiFailure + jsstring \<times> ApiKeyInfo list) \<times> Wire" where
  "listApiKeys cd random =
     readOperation cd random OpListApiKeys ''keys'' expect_keys"

definition expect_tipcards :: "ApiResult \<Rightarrow> ApiFailure + TipcardInfo list" where
  "expect_tipcards result = (case result of ResultTipcards v \<Rightarrow> Inr v | _ \<Rightarrow> Inl (unexpectedResult ''list_tipcards'' result))"

definition listTipcards :: "codec \<Rightarrow> bytes \<Rightarrow> Wire \<Rightarrow> (ApiFailure + jsstring \<times> TipcardInfo list) \<times> Wire" where
  "listTipcards cd random =
     readOperation cd random OpListTipcards ''tipcards'' expect_tipcards"

definition expect_summary :: "ApiResult \<Rightarrow> ApiFailure + AppSummary" where
  "expect_summary result = (case result of ResultSummary v \<Rightarrow> Inr v | _ \<Rightarrow> Inl (unexpectedResult ''get_summary'' result))"

definition getSummary :: "codec \<Rightarrow> bytes \<Rightarrow> Wire \<Rightarrow> (ApiFailure + jsstring \<times> AppSummary) \<times> Wire" where
  "getSummary cd random =
     readOperation cd random OpGetSummary ''summary'' expect_summary"

definition expect_topics :: "ApiResult \<Rightarrow> ApiFailure + AppTopicInfo list" where
  "expect_topics result = (case result of ResultAppTopics v \<Rightarrow> Inr v | _ \<Rightarrow> Inl (unexpectedResult ''list_app_topics'' result))"

definition listAppTopics :: "codec \<Rightarrow> bytes \<Rightarrow> Wire \<Rightarrow> (ApiFailure + jsstring \<times> AppTopicInfo list) \<times> Wire" where
  "listAppTopics cd random =
     readOperation cd random OpListAppTopics ''topics'' expect_topics"

definition expect_documents :: "ApiResult \<Rightarrow> ApiFailure + DocumentInfo list" where
  "expect_documents result = (case result of ResultDocuments v \<Rightarrow> Inr v | _ \<Rightarrow> Inl (unexpectedResult ''list_documents'' result))"

definition listDocuments :: "codec \<Rightarrow> bytes \<Rightarrow> Wire \<Rightarrow> (ApiFailure + jsstring \<times> DocumentInfo list) \<times> Wire" where
  "listDocuments cd random =
     readOperation cd random OpListDocuments ''documents'' expect_documents"

definition expect_document :: "ApiResult \<Rightarrow> ApiFailure + DocumentDetail" where
  "expect_document result = (case result of ResultDocumentDetail v \<Rightarrow> Inr v | _ \<Rightarrow> Inl (unexpectedResult ''get_document'' result))"

definition getDocument :: "codec \<Rightarrow> bytes \<Rightarrow> bigint \<Rightarrow> Wire \<Rightarrow> (ApiFailure + jsstring \<times> DocumentDetail) \<times> Wire" where
  "getDocument cd random i =
     requirePositiveId i ''get_document''
       (readOperation cd random (OpGetDocument i) ''document'' expect_document)"

definition expect_links :: "ApiResult \<Rightarrow> ApiFailure + ExploredLink list" where
  "expect_links result = (case result of ResultExploredLinks v \<Rightarrow> Inr v | _ \<Rightarrow> Inl (unexpectedResult ''explore_link'' result))"

definition exploreLink :: "codec \<Rightarrow> bytes \<Rightarrow> jsstring \<Rightarrow> Wire \<Rightarrow> (ApiFailure + jsstring \<times> ExploredLink list) \<times> Wire" where
  "exploreLink cd random url =
     readOperation cd random (OpExploreLink url) ''explore'' expect_links"

definition expect_prompt :: "ApiResult \<Rightarrow> ApiFailure + EnhancePromptTemplateResult" where
  "expect_prompt result = (case result of ResultEnhancePromptTemplate v \<Rightarrow> Inr v | _ \<Rightarrow> Inl (unexpectedResult ''enhance_prompt_template'' result))"

definition enhancePromptTemplate :: "codec \<Rightarrow> bytes \<Rightarrow> bigint \<Rightarrow> Wire \<Rightarrow> (ApiFailure + jsstring \<times> EnhancePromptTemplateResult) \<times> Wire" where
  "enhancePromptTemplate cd random topicId =
     readOperation cd random (OpEnhancePromptTemplate topicId) ''prompt'' expect_prompt"

definition expect_vision :: "ApiResult \<Rightarrow> ApiFailure + VisionModelTest" where
  "expect_vision result = (case result of ResultVisionModelTest v \<Rightarrow> Inr v | _ \<Rightarrow> Inl (unexpectedResult ''test_vision_model'' result))"

definition testVisionModel :: "codec \<Rightarrow> bytes \<Rightarrow> Wire \<Rightarrow> (ApiFailure + jsstring \<times> VisionModelTest) \<times> Wire" where
  "testVisionModel cd random =
     readOperation cd random OpTestVisionModel ''vision'' expect_vision"

definition expect_pool :: "ApiResult \<Rightarrow> ApiFailure + PoolImageInfo list" where
  "expect_pool result = (case result of ResultPoolImages v \<Rightarrow> Inr v | _ \<Rightarrow> Inl (unexpectedResult ''list_pool_images'' result))"

definition listPoolImages :: "codec \<Rightarrow> bytes \<Rightarrow> Wire \<Rightarrow> (ApiFailure + jsstring \<times> PoolImageInfo list) \<times> Wire" where
  "listPoolImages cd random =
     readOperation cd random OpListPoolImages ''pool'' expect_pool"

section \<open>Mutations\<close>

definition updateSettings :: "codec \<Rightarrow> bytes \<Rightarrow> UpdateSettingsRequest \<Rightarrow> jsstring \<Rightarrow> Wire \<Rightarrow> (ApiFailure + jsstring \<times> unit) \<times> Wire" where
  "updateSettings cd random patch key =
     mutateOperation cd random (OpUpdateSettings patch) key (expect_ok ''update_settings'')"

definition expect_created_key :: "ApiResult \<Rightarrow> ApiFailure + jsstring" where
  "expect_created_key result = (case result of ResultApiKeyCreated v \<Rightarrow> Inr v | _ \<Rightarrow> Inl (unexpectedResult ''create_api_key'' result))"

definition createApiKey :: "codec \<Rightarrow> bytes \<Rightarrow> jsstring \<Rightarrow> jsstring \<Rightarrow> Wire \<Rightarrow> (ApiFailure + jsstring \<times> jsstring) \<times> Wire" where
  "createApiKey cd random clientName key =
     mutateOperation cd random (OpCreateApiKey clientName) key expect_created_key"

definition deleteApiKey :: "codec \<Rightarrow> bytes \<Rightarrow> bigint \<Rightarrow> jsstring \<Rightarrow> Wire \<Rightarrow> (ApiFailure + jsstring \<times> unit) \<times> Wire" where
  "deleteApiKey cd random i key =
     requirePositiveId i ''delete_api_key''
       (mutateOperation cd random (OpDeleteApiKey i) key (expect_ok ''delete_api_key''))"

definition updateTopic :: "codec \<Rightarrow> bytes \<Rightarrow> UpdateTopicRequest \<Rightarrow> jsstring \<Rightarrow> Wire \<Rightarrow> (ApiFailure + jsstring \<times> unit) \<times> Wire" where
  "updateTopic cd random patch key =
     requirePositiveId (utr_id patch) ''update_topic''
       (mutateOperation cd random (OpUpdateTopic patch) key (expect_ok ''update_topic''))"

definition deleteTopic :: "codec \<Rightarrow> bytes \<Rightarrow> bigint \<Rightarrow> jsstring \<Rightarrow> Wire \<Rightarrow> (ApiFailure + jsstring \<times> unit) \<times> Wire" where
  "deleteTopic cd random i key =
     requirePositiveId i ''delete_topic''
       (mutateOperation cd random (OpDeleteTopic i) key (expect_ok ''delete_topic''))"

definition expect_refresh :: "ApiResult \<Rightarrow> ApiFailure + ForceDailyRefreshResponse" where
  "expect_refresh result = (case result of ResultForceDailyRefresh v \<Rightarrow> Inr v | _ \<Rightarrow> Inl (unexpectedResult ''force_daily_refresh'' result))"

definition forceDailyRefresh :: "codec \<Rightarrow> bytes \<Rightarrow> jsstring \<Rightarrow> jsstring \<Rightarrow> jsstring \<Rightarrow> Wire \<Rightarrow> (ApiFailure + jsstring \<times> ForceDailyRefreshResponse) \<times> Wire" where
  "forceDailyRefresh cd random topics tipcardType key =
     mutateOperation cd random (OpForceDailyRefresh topics tipcardType) key expect_refresh"

definition documentMutationResult :: "jsstring \<Rightarrow> ApiResult \<Rightarrow> ApiFailure + DocumentDetail" where
  "documentMutationResult operation result =
     (case result of ResultDocumentCreated v \<Rightarrow> Inr v | ResultDocumentDetail v \<Rightarrow> Inr v
      | _ \<Rightarrow> Inl (unexpectedResult operation result))"

definition createDocument :: "codec \<Rightarrow> bytes \<Rightarrow> AddDocumentRequest \<Rightarrow> jsstring \<Rightarrow> Wire \<Rightarrow> (ApiFailure + jsstring \<times> DocumentDetail) \<times> Wire" where
  "createDocument cd random request key =
     mutateOperation cd random (OpCreateDocument request) key (documentMutationResult ''create_document'')"

definition uploadDocument :: "codec \<Rightarrow> bytes \<Rightarrow> UploadDocumentRequest \<Rightarrow> jsstring \<Rightarrow> Wire \<Rightarrow> (ApiFailure + jsstring \<times> DocumentDetail) \<times> Wire" where
  "uploadDocument cd random request key =
     mutateOperation cd random (OpUploadDocument request) key (documentMutationResult ''upload_document'')"

definition deleteDocument :: "codec \<Rightarrow> bytes \<Rightarrow> bigint \<Rightarrow> jsstring \<Rightarrow> Wire \<Rightarrow> (ApiFailure + jsstring \<times> unit) \<times> Wire" where
  "deleteDocument cd random i key =
     requirePositiveId i ''delete_document''
       (mutateOperation cd random (OpDeleteDocument i) key (expect_ok ''delete_document''))"

definition updateDocumentTopic ::
    "bool \<Rightarrow> codec \<Rightarrow> bytes \<Rightarrow> bigint \<Rightarrow> bigint \<Rightarrow> jsstring \<Rightarrow> Wire \<Rightarrow> (ApiFailure + jsstring \<times> unit) \<times> Wire" where
  "updateDocumentTopic attach cd random documentId topicId key =
     (let operation = (if attach then ''attachDocumentTopic'' else ''detachDocumentTopic'')
      in requirePositiveId documentId operation (requirePositiveId topicId operation
           (mutateOperation cd random
              (if attach then OpAttachDocumentTopic documentId topicId else OpDetachDocumentTopic documentId topicId) key
              (expect_ok (if attach then ''attach_document_topic'' else ''detach_document_topic'')))))"

definition attachDocumentTopic ::
    "codec \<Rightarrow> bytes \<Rightarrow> bigint \<Rightarrow> bigint \<Rightarrow> jsstring \<Rightarrow> Wire \<Rightarrow> (ApiFailure + jsstring \<times> unit) \<times> Wire" where
  "attachDocumentTopic = updateDocumentTopic True"

definition detachDocumentTopic ::
    "codec \<Rightarrow> bytes \<Rightarrow> bigint \<Rightarrow> bigint \<Rightarrow> jsstring \<Rightarrow> Wire \<Rightarrow> (ApiFailure + jsstring \<times> unit) \<times> Wire" where
  "detachDocumentTopic = updateDocumentTopic False"

definition expect_created_image :: "ApiResult \<Rightarrow> ApiFailure + PoolImageCreated" where
  "expect_created_image result = (case result of ResultPoolImageCreated v \<Rightarrow> Inr v | _ \<Rightarrow> Inl (unexpectedResult ''create_pool_image'' result))"

definition createPoolImage :: "codec \<Rightarrow> bytes \<Rightarrow> AddPoolImageRequest \<Rightarrow> jsstring \<Rightarrow> Wire \<Rightarrow> (ApiFailure + jsstring \<times> PoolImageCreated) \<times> Wire" where
  "createPoolImage cd random request key =
     mutateOperation cd random (OpCreatePoolImage request) key expect_created_image"

definition deletePoolImage :: "codec \<Rightarrow> bytes \<Rightarrow> bigint \<Rightarrow> jsstring \<Rightarrow> Wire \<Rightarrow> (ApiFailure + jsstring \<times> unit) \<times> Wire" where
  "deletePoolImage cd random i key =
     requirePositiveId i ''delete_pool_image''
       (mutateOperation cd random (OpDeletePoolImage i) key (expect_ok ''delete_pool_image''))"

section \<open>Requests sent\<close>

text \<open>What a call sends: the messages the log grows by.\<close>

definition sends :: "(Wire \<Rightarrow> 'r \<times> Wire) \<Rightarrow> Wire \<Rightarrow> (jsstring \<times> bytes) list" where
  "sends call w = drop (length (wire_log w)) (wire_log (snd (call w)))"

lemma read_sends_once:
  "sends (read_request cd random op prefix check) w =
     [(API_V1_PATH, cd_toBin cd \<lparr>rq_requestId = newRequestId random prefix, rq_auth = [], rq_op = op, rq_idempotencyKey = []\<rparr>)]"
  by (auto simp: sends_def read_request_def buildEnvelope_def callEnvelope_def doFetch_def encodeRequest_def
      split: prod.splits)

lemma mutation_sends:
  "sends (mutation_request cd random op key check) w \<in>
     {replicate n (API_V1_PATH, cd_toBin cd (mutation_envelope random op key)) | n. n \<le> (if js_trim key = [] then 0 else 2)}"
proof -
  let ?m = "(API_V1_PATH, cd_toBin cd (mutation_envelope random op key))"
  have "sends (mutation_request cd random op key check) w \<in> {[], [?m], [?m, ?m]} \<and>
      (js_trim key = [] \<longrightarrow> sends (mutation_request cd random op key check) w = [])"
    by (auto simp: sends_def mutation_request_def callMutationWithKeyEnvelope_def buildEnvelope_mutation mutation_envelope_def
        callEnvelope_def doFetch_def encodeRequest_def Let_def split: sum.splits prod.splits)
  moreover have "[] = replicate 0 ?m" "[?m] = replicate 1 ?m" "[?m, ?m] = replicate 2 ?m"
    by (simp_all add: numeral_2_eq_2)
  ultimately show ?thesis by (smt (verit) insert_iff empty_iff mem_Collect_eq le_refl zero_le one_le_numeral)
qed

lemma nothing_sent: "i \<le> 0 \<Longrightarrow> sends (requirePositiveId i operation call) w = []"
  by (simp add: sends_def requirePositiveId_def)

end
