(* ===== verification/Comparators.thy ===== *)
theory Comparators
  imports Prelude Api_Messages
begin

text \<open>
  Comparators built with \<open>||\<close>, and the sorts of \<open>lib/pages/api-keys.ts\<close>. \<open>localeCompare\<close> belongs to the host's
  locale data, so it is an argument; what a sort relies on is that it is lawful, as ECMA-402 requires: a total
  preorder whose sign flips with its arguments.
\<close>

definition lawful_cmp :: "('a \<Rightarrow> 'a \<Rightarrow> int) \<Rightarrow> bool" where
  "lawful_cmp cmp \<longleftrightarrow> consistent_cmp cmp \<and> (\<forall>x y. sgn (cmp y x) = - sgn (cmp x y))"

text \<open>\<open>first || second\<close>, where zero is falsy.\<close>

definition cmp_or :: "('a \<Rightarrow> 'a \<Rightarrow> int) \<Rightarrow> ('a \<Rightarrow> 'a \<Rightarrow> int) \<Rightarrow> 'a \<Rightarrow> 'a \<Rightarrow> int" where
  "cmp_or first second x y = (if first x y \<noteq> 0 then first x y else second x y)"

definition cmp_on :: "('a \<Rightarrow> 'b) \<Rightarrow> ('b \<Rightarrow> 'b \<Rightarrow> int) \<Rightarrow> 'a \<Rightarrow> 'a \<Rightarrow> int" where
  "cmp_on key cmp x y = cmp (key x) (key y)"

definition cmp_swap :: "('a \<Rightarrow> 'a \<Rightarrow> int) \<Rightarrow> 'a \<Rightarrow> 'a \<Rightarrow> int" where
  "cmp_swap cmp x y = cmp y x"

definition cmp_less :: "'a::linorder \<Rightarrow> 'a \<Rightarrow> int" where
  "cmp_less x y = (if x < y then -1 else if y < x then 1 else 0)"

lemma sgn_flip_iff: "sgn (a::int) = - sgn b \<longleftrightarrow> (a < 0 \<longleftrightarrow> b > 0) \<and> (a > 0 \<longleftrightarrow> b < 0)"
  by (auto simp: sgn_if)

lemma lawful_sign:
  assumes "lawful_cmp cmp"
  shows "cmp x y < 0 \<longleftrightarrow> \<not> cmp y x \<le> 0" and "cmp x y = 0 \<longleftrightarrow> cmp x y \<le> 0 \<and> cmp y x \<le> 0"
  using assms unfolding lawful_cmp_def sgn_flip_iff by (meson linorder_not_le, smt (verit))

lemma lawful_less [intro]: "lawful_cmp cmp_less"
  by (auto simp: lawful_cmp_def consistent_cmp_def cmp_less_def)

lemma lawful_on [intro]: "lawful_cmp cmp \<Longrightarrow> lawful_cmp (cmp_on key cmp)"
  unfolding lawful_cmp_def consistent_cmp_def cmp_on_def by blast

lemma lawful_swap [intro]: "lawful_cmp cmp \<Longrightarrow> lawful_cmp (cmp_swap cmp)"
  unfolding lawful_cmp_def consistent_cmp_def cmp_swap_def by (meson equation_minus_iff)

lemma cmp_or_le:
  assumes "lawful_cmp first"
  shows "cmp_or first second x y \<le> 0 \<longleftrightarrow> first x y \<le> 0 \<and> (\<not> first y x \<le> 0 \<or> second x y \<le> 0)"
  using lawful_sign [OF assms, of x y] by (auto simp: cmp_or_def)

lemma lawful_or [intro]:
  assumes "lawful_cmp first" and "lawful_cmp second"
  shows "lawful_cmp (cmp_or first second)"
proof -
  have total: "first x y \<le> 0 \<or> first y x \<le> 0" "second x y \<le> 0 \<or> second y x \<le> 0" for x y
    using assms unfolding lawful_cmp_def consistent_cmp_def by blast+
  have trans: "first x y \<le> 0 \<Longrightarrow> first y z \<le> 0 \<Longrightarrow> first x z \<le> 0" "second x y \<le> 0 \<Longrightarrow> second y z \<le> 0 \<Longrightarrow> second x z \<le> 0" for x y z
    using assms unfolding lawful_cmp_def consistent_cmp_def by blast+
  have "consistent_cmp (cmp_or first second)"
    unfolding consistent_cmp_def cmp_or_le [OF assms(1)]
  proof (intro conjI allI impI)
    fix x y z
    show "first x y \<le> 0 \<and> (\<not> first y x \<le> 0 \<or> second x y \<le> 0) \<or> first y x \<le> 0 \<and> (\<not> first x y \<le> 0 \<or> second y x \<le> 0)"
      using total [of x y] by blast
    assume xy: "first x y \<le> 0 \<and> (\<not> first y x \<le> 0 \<or> second x y \<le> 0)" and yz: "first y z \<le> 0 \<and> (\<not> first z y \<le> 0 \<or> second y z \<le> 0)"
    then show "first x z \<le> 0" using trans(1) by blast
    show "\<not> first z x \<le> 0 \<or> second x z \<le> 0"
      using xy yz trans(1) [of y z x] trans(1) [of z x y] trans(2) [of x y z] by blast
  qed
  moreover have "sgn (cmp_or first second y x) = - sgn (cmp_or first second x y)" for x y
  proof -
    have f: "sgn (first y x) = - sgn (first x y)" and s: "sgn (second y x) = - sgn (second x y)"
      using assms unfolding lawful_cmp_def by blast+
    have "first y x = 0 \<longleftrightarrow> first x y = 0" using f by (metis neg_0_equal_iff_equal sgn_0_0)
    then show ?thesis unfolding cmp_or_def using f s by presburger
  qed
  ultimately show ?thesis unfolding lawful_cmp_def by blast
qed

text \<open>When ties are equal keys and keys are distinct, the sorted list does not depend on the order of the source.\<close>

lemma sort_order_irrelevant:
  assumes "lawful_cmp cmp" and "mset xs = mset ys" and "distinct (map key xs)"
    and "\<And>x y. cmp x y = 0 \<Longrightarrow> key x = key y"
  shows "js_sort cmp xs = js_sort cmp ys"
proof (rule sorted_wrt_unique [where P = "\<lambda>a b. cmp a b \<le> 0"])
  have c: "consistent_cmp cmp" using assms(1) by (simp add: lawful_cmp_def)
  show "sorted_wrt (\<lambda>a b. cmp a b \<le> 0) (js_sort cmp xs)" "sorted_wrt (\<lambda>a b. cmp a b \<le> 0) (js_sort cmp ys)"
    by (rule sorted_js_sort [OF c])+
  show "mset (js_sort cmp xs) = mset (js_sort cmp ys)" using assms(2) by simp
  show "x = y" if "x \<in> set (js_sort cmp xs)" "y \<in> set (js_sort cmp xs)" "cmp x y \<le> 0" "cmp y x \<le> 0" for x y
    using that assms(3) assms(4) [of x y] lawful_sign(2) [OF assms(1), of x y] by (auto simp: distinct_map dest: inj_onD)
  show "cmp x x \<le> 0" for x using c by (auto simp: consistent_cmp_def)
qed

section \<open>API keys\<close>

text \<open>\<open>right.id < left.id ? -1 : right.id > left.id ? 1 : 0\<close> is the swapped comparison.\<close>

definition api_key_cmp :: "(jsstring \<Rightarrow> jsstring \<Rightarrow> int) \<Rightarrow> ApiKeyInfo \<Rightarrow> ApiKeyInfo \<Rightarrow> int" where
  "api_key_cmp localeCompare =
     cmp_or (cmp_swap (cmp_on ak_createdAt localeCompare)) (cmp_swap (cmp_on ak_id cmp_less))"

definition sortApiKeys :: "(jsstring \<Rightarrow> jsstring \<Rightarrow> int) \<Rightarrow> ApiKeyInfo list \<Rightarrow> ApiKeyInfo list" where
  "sortApiKeys localeCompare keys = js_sort (api_key_cmp localeCompare) keys"

definition apiKeyDomId :: "bigint \<Rightarrow> jsstring" where
  "apiKeyDomId i = ''api-key-'' @ dec_of_int i"

text \<open>The date formatter of the host, \<open>None\<close> for an invalid date.\<close>

definition formatApiKeyDate :: "(jsstring \<Rightarrow> jsstring option) \<Rightarrow> jsstring \<Rightarrow> jsstring" where
  "formatApiKeyDate format v = (if js_trim v = [] then ''Never'' else case format v of None \<Rightarrow> v | Some d \<Rightarrow> d)"

lemma less_zero [simp]: "cmp_less x y = 0 \<longleftrightarrow> x = y"
  by (auto simp: cmp_less_def)

lemma api_keys_order_irrelevant:
  assumes "lawful_cmp localeCompare" and "mset keys = mset keys'" and "distinct (map ak_id keys)"
  shows "sortApiKeys localeCompare keys = sortApiKeys localeCompare keys'"
  unfolding sortApiKeys_def
proof (rule sort_order_irrelevant [OF _ assms(2,3)])
  show "lawful_cmp (api_key_cmp localeCompare)" unfolding api_key_cmp_def by (intro lawful_or lawful_swap lawful_on lawful_less assms(1))
  show "ak_id x = ak_id y" if "api_key_cmp localeCompare x y = 0" for x y
    using that by (auto simp: api_key_cmp_def cmp_or_def cmp_swap_def cmp_on_def split: if_splits)
qed

lemma dom_ids_distinct: "apiKeyDomId i = apiKeyDomId j \<longleftrightarrow> i = j"
  by (simp add: apiKeyDomId_def)

end
