(* ===== verification/Grounding_Policy.thy ===== *)
theory Grounding_Policy
  imports Prelude
begin

text \<open>
  \<open>lib/grounding-policy.ts\<close>: where the facts of a card come from. Source modes, behaviours and the settings of a
  search are strings of the protocol, so they are strings here; an empty one inherits. A \<open>switch\<close> that
  no case matches returns \<open>undefined\<close>, which is \<open>None\<close>.
\<close>

definition GROUNDING_SOURCE_MODES :: "jsstring list" where
  "GROUNDING_SOURCE_MODES = [''model'', ''web'', ''documents'', ''web_and_documents'']"

definition GROUNDING_BEHAVIORS :: "jsstring list" where
  "GROUNDING_BEHAVIORS = [''standard'', ''fact_check'', ''agentic'']"

definition GROUNDING_SEARCH_DEPTHS :: "jsstring list" where
  "GROUNDING_SEARCH_DEPTHS = [''quick'', ''balanced'', ''deep'']"

definition GROUNDING_FRESHNESS_OPTIONS :: "jsstring list" where
  "GROUNDING_FRESHNESS_OPTIONS = [''any'', ''week'', ''month'', ''year'']"

definition GROUNDING_FAILURE_POLICIES :: "jsstring list" where
  "GROUNDING_FAILURE_POLICIES = [''stop'', ''mark_unverified'']"

record GroundingPolicyDraft =
  gd_sourceMode :: jsstring
  gd_behavior :: jsstring
  gd_searchDepth :: jsstring
  gd_freshness :: jsstring
  gd_searchGuidance :: jsstring
  gd_includeDomains :: jsstring
  gd_failurePolicy :: jsstring

record ResolvedGroundingPolicy =
  gr_sourceMode :: jsstring
  gr_behavior :: jsstring
  gr_searchDepth :: jsstring
  gr_freshness :: jsstring
  gr_searchGuidance :: jsstring
  gr_includeDomains :: "jsstring list"
  gr_failurePolicy :: jsstring

text \<open>\<open>a || b\<close> on strings.\<close>

definition or_else :: "jsstring \<Rightarrow> jsstring \<Rightarrow> jsstring" where
  "or_else a b = (if a = [] then b else a)"

definition formatDomainList :: "jsstring list \<Rightarrow> jsstring" where
  "formatDomainList domains = js_join [CHR 0x0A] domains"

definition is_domain_separator :: "char \<Rightarrow> bool" where
  "is_domain_separator c \<longleftrightarrow> (of_char c :: nat) \<in> {10, 44}"

text \<open>The filter with its set \<open>seen\<close>.\<close>

fun new_domains :: "jsstring set \<Rightarrow> jsstring list \<Rightarrow> jsstring list" where
  "new_domains seen [] = []"
| "new_domains seen (d # ds) =
     (if d = [] \<or> d \<in> seen then new_domains seen ds else d # new_domains (insert d seen) ds)"

definition parseDomainList :: "jsstring \<Rightarrow> jsstring list" where
  "parseDomainList value = new_domains {} (map (\<lambda>d. js_lower (js_trim d)) (split_on is_domain_separator value))"

definition hasGroundingSearchOverride :: "GroundingPolicyDraft \<Rightarrow> bool" where
  "hasGroundingSearchOverride draft \<longleftrightarrow>
     gd_searchDepth draft \<noteq> [] \<or> gd_freshness draft \<noteq> [] \<or> js_trim (gd_searchGuidance draft) \<noteq> [] \<or>
     js_trim (gd_includeDomains draft) \<noteq> [] \<or> gd_failurePolicy draft \<noteq> []"

definition clearGroundingSearchOverride :: "GroundingPolicyDraft \<Rightarrow> GroundingPolicyDraft" where
  "clearGroundingSearchOverride draft =
     draft\<lparr>gd_searchDepth := [], gd_freshness := [], gd_searchGuidance := [], gd_includeDomains := [], gd_failurePolicy := []\<rparr>"

definition customizeGroundingSearch :: "GroundingPolicyDraft \<Rightarrow> ResolvedGroundingPolicy \<Rightarrow> GroundingPolicyDraft" where
  "customizeGroundingSearch draft effective =
     draft\<lparr>gd_searchDepth := gr_searchDepth effective, gd_freshness := gr_freshness effective,
           gd_searchGuidance := gr_searchGuidance effective, gd_includeDomains := formatDomainList (gr_includeDomains effective),
           gd_failurePolicy := gr_failurePolicy effective\<rparr>"

definition DEFAULT_POLICY :: ResolvedGroundingPolicy where
  "DEFAULT_POLICY = \<lparr>gr_sourceMode = ''model'', gr_behavior = ''standard'', gr_searchDepth = ''balanced'', gr_freshness = ''any'',
     gr_searchGuidance = [], gr_includeDomains = [], gr_failurePolicy = ''stop''\<rparr>"

text \<open>The pair of source mode and behaviour.\<close>

definition legacyGroundingPolicy :: "jsstring \<Rightarrow> jsstring \<times> jsstring" where
  "legacyGroundingPolicy strategy =
     (if strategy = ''agentic'' then (''web'', ''agentic'')
      else if strategy = ''create_and_ground'' then (''web'', ''fact_check'')
      else if strategy = ''rag'' then (''documents'', ''standard'')
      else (''model'', ''standard''))"

definition sourceUsesWeb :: "jsstring \<Rightarrow> bool" where
  "sourceUsesWeb sourceMode \<longleftrightarrow> sourceMode = ''web'' \<or> sourceMode = ''web_and_documents''"

definition sourceUsesDocuments :: "jsstring \<Rightarrow> bool" where
  "sourceUsesDocuments sourceMode \<longleftrightarrow> sourceMode = ''documents'' \<or> sourceMode = ''web_and_documents''"

definition normalizeBehavior :: "jsstring \<Rightarrow> jsstring \<Rightarrow> jsstring" where
  "normalizeBehavior sourceMode behavior = (if sourceMode = ''model'' then ''standard'' else behavior)"

definition behaviorFromLegacyVerification :: "jsstring \<Rightarrow> jsstring" where
  "behaviorFromLegacyVerification value = (if value = ''thorough'' then ''fact_check'' else ''standard'')"

definition legacyVerificationForBehavior :: "jsstring \<Rightarrow> jsstring" where
  "legacyVerificationForBehavior behavior = (if behavior = ''fact_check'' then ''thorough'' else ''standard'')"

definition resolveGroundingPolicy :: "GroundingPolicyDraft \<Rightarrow> ResolvedGroundingPolicy \<Rightarrow> ResolvedGroundingPolicy" where
  "resolveGroundingPolicy draft inherited =
     (let sourceMode = or_else (gd_sourceMode draft) (gr_sourceMode inherited)
      in \<lparr>gr_sourceMode = sourceMode,
          gr_behavior = normalizeBehavior sourceMode (or_else (gd_behavior draft) (gr_behavior inherited)),
          gr_searchDepth = or_else (gd_searchDepth draft) (gr_searchDepth inherited),
          gr_freshness = or_else (gd_freshness draft) (gr_freshness inherited),
          gr_searchGuidance = or_else (js_trim (gd_searchGuidance draft)) (gr_searchGuidance inherited),
          gr_includeDomains = (if js_trim (gd_includeDomains draft) = [] then gr_includeDomains inherited
                               else parseDomainList (gd_includeDomains draft)),
          gr_failurePolicy = or_else (gd_failurePolicy draft) (gr_failurePolicy inherited)\<rparr>)"

definition legacyStrategyForPolicy :: "jsstring \<Rightarrow> jsstring \<Rightarrow> jsstring option" where
  "legacyStrategyForPolicy sourceMode behavior =
     (if sourceMode = ''model'' then Some ''factual''
      else if sourceMode = ''documents'' then Some (if behavior = ''fact_check'' then ''create_and_ground'' else ''rag'')
      else if sourceMode = ''web'' \<or> sourceMode = ''web_and_documents''
      then Some (if behavior = ''fact_check'' then ''create_and_ground'' else ''agentic'')
      else None)"

section \<open>Domain lists\<close>

text \<open>A list as the parser makes it.\<close>

definition domain_list :: "jsstring list \<Rightarrow> bool" where
  "domain_list ds \<longleftrightarrow>
     distinct ds \<and> list_all (\<lambda>d. d \<noteq> [] \<and> js_lower (js_trim d) = d \<and> list_all (\<lambda>c. \<not> is_domain_separator c) d) ds"

lemma new_domains_set: "set (new_domains seen ds) = set ds - seen - {[]}"
  by (induction seen ds rule: new_domains.induct) auto

lemma new_domains_distinct: "distinct (new_domains seen ds)"
  by (induction seen ds rule: new_domains.induct) (auto simp: new_domains_set)

lemma new_domains_fixed: "distinct ds \<Longrightarrow> [] \<notin> set ds \<Longrightarrow> set ds \<inter> seen = {} \<Longrightarrow> new_domains seen ds = ds"
  by (induction seen ds rule: new_domains.induct) auto

lemma separator_lower [simp]: "is_domain_separator (js_lower_char c) = is_domain_separator c"
proof -
  have "(of_char c :: nat) < 256" by (rule of_char_bound)
  then show ?thesis by (auto simp: js_lower_char_def is_domain_separator_def Let_def of_char_of)
qed

lemma parsed_domain_list: "domain_list (parseDomainList s)"
proof -
  have "js_lower (js_trim w') = w' \<and> list_all (\<lambda>c. \<not> is_domain_separator c) w'"
    if "w \<in> set (split_on is_domain_separator s)" "w' = js_lower (js_trim w)" for w w'
  proof -
    have "\<forall>c \<in> set w. \<not> is_domain_separator c" using split_on_pieces [of is_domain_separator s] that(1) by blast
    then have "\<forall>c \<in> set (js_trim w). \<not> is_domain_separator c" using set_js_trim [of w] by blast
    then have "\<forall>c \<in> set w'. \<not> is_domain_separator c" by (auto simp: that(2) js_lower_def)
    then show ?thesis by (simp add: that(2) js_trim_lower list_all_iff)
  qed
  then show ?thesis
    by (auto simp: domain_list_def parseDomainList_def new_domains_distinct list_all_iff new_domains_set)
qed

lemma parse_format_domains:
  assumes "domain_list ds" and "ds \<noteq> []"
  shows "parseDomainList (formatDomainList ds) = ds"
proof -
  have "split_on is_domain_separator (js_join [CHR 0x0A] ds) = ds"
    using assms by (intro split_on_join) (auto simp: domain_list_def list_all_iff is_domain_separator_def)
  moreover have "map (\<lambda>d. js_lower (js_trim d)) ds = ds"
    using assms by (auto simp: domain_list_def list_all_iff intro: map_idI)
  ultimately show ?thesis
    using assms by (auto simp: parseDomainList_def formatDomainList_def domain_list_def list_all_iff intro!: new_domains_fixed)
qed

lemma js_trim_blank: "js_trim s = [] \<longleftrightarrow> (\<forall>c \<in> set s. is_js_space c)"
proof -
  have "(\<forall>c \<in> set s. is_js_space c) \<longleftrightarrow> (\<forall>c \<in> set (dropWhile is_js_space s). is_js_space c)"
    by (induction s) auto
  then show ?thesis by (simp add: js_trim_def js_trim_start_def js_trim_end_def dropWhile_eq_Nil_conv)
qed

lemma format_domains_blank:
  assumes "domain_list ds" shows "js_trim (formatDomainList ds) = [] \<longleftrightarrow> ds = []"
proof (cases "ds = []")
  case True
  then show ?thesis by (simp add: formatDomainList_def)
next
  case False
  have "js_trim (formatDomainList ds) \<noteq> []"
  proof
    assume blank: "js_trim (formatDomainList ds) = []"
    obtain d rest where ds: "ds = d # rest" using False by (cases ds) auto
    have "js_trim d \<noteq> []" using assms by (auto simp: ds domain_list_def js_lower_def)
    then obtain c where c: "c \<in> set d" "\<not> is_js_space c" by (auto simp: js_trim_blank)
    then have "c \<in> set (formatDomainList ds)" by (cases rest) (auto simp: ds formatDomainList_def)
    with blank c show False by (auto simp: js_trim_blank)
  qed
  with False show ?thesis by simp
qed

section \<open>Policies\<close>

text \<open>A policy that is in effect: nothing left to inherit.\<close>

definition effective_policy :: "ResolvedGroundingPolicy \<Rightarrow> bool" where
  "effective_policy r \<longleftrightarrow>
     gr_sourceMode r \<noteq> [] \<and> gr_behavior r \<noteq> [] \<and> gr_searchDepth r \<noteq> [] \<and> gr_freshness r \<noteq> [] \<and> gr_failurePolicy r \<noteq> [] \<and>
     js_trim (gr_searchGuidance r) = gr_searchGuidance r \<and> domain_list (gr_includeDomains r)"

lemma or_else_simps [simp]: "or_else [] b = b" "a \<noteq> [] \<Longrightarrow> or_else a b = a" "or_else a b = [] \<longleftrightarrow> a = [] \<and> b = []"
  by (auto simp: or_else_def)

lemma normalize_twice [simp]: "normalizeBehavior m (normalizeBehavior m b) = normalizeBehavior m b"
  by (simp add: normalizeBehavior_def)

lemma resolved_effective: "effective_policy inherited \<Longrightarrow> effective_policy (resolveGroundingPolicy draft inherited)"
  by (auto simp: effective_policy_def resolveGroundingPolicy_def Let_def normalizeBehavior_def or_else_def parsed_domain_list)

text \<open>Making the search settings of a topic its own does not change what is searched: the customised draft
  resolves to the very policy it was made from, and clearing it resolves to the inherited search.\<close>

theorem customize_keeps_policy:
  assumes "effective_policy inherited"
    and "gr_includeDomains (resolveGroundingPolicy draft inherited) = [] \<Longrightarrow> gr_includeDomains inherited = []"
    and "gr_searchGuidance (resolveGroundingPolicy draft inherited) = [] \<Longrightarrow> gr_searchGuidance inherited = []"
  shows "let effective = resolveGroundingPolicy draft inherited; custom = customizeGroundingSearch draft effective;
      cleared = resolveGroundingPolicy (clearGroundingSearchOverride custom) inherited
    in resolveGroundingPolicy custom inherited = effective \<and> hasGroundingSearchOverride custom \<and>
       gr_sourceMode cleared = gr_sourceMode effective \<and> gr_behavior cleared = gr_behavior effective \<and>
       gr_searchDepth cleared = gr_searchDepth inherited \<and> gr_freshness cleared = gr_freshness inherited \<and>
       gr_searchGuidance cleared = gr_searchGuidance inherited \<and> gr_includeDomains cleared = gr_includeDomains inherited \<and>
       gr_failurePolicy cleared = gr_failurePolicy inherited"
proof -
  define effective where "effective = resolveGroundingPolicy draft inherited"
  define custom where "custom = customizeGroundingSearch draft effective"
  have eff: "effective_policy effective" unfolding effective_def by (rule resolved_effective [OF assms(1)])
  have e: "gr_sourceMode effective = or_else (gd_sourceMode draft) (gr_sourceMode inherited)"
    "gr_behavior effective = normalizeBehavior (gr_sourceMode effective) (or_else (gd_behavior draft) (gr_behavior inherited))"
    by (simp_all add: effective_def resolveGroundingPolicy_def Let_def)
  have domains: "(if js_trim (formatDomainList (gr_includeDomains effective)) = [] then gr_includeDomains inherited
      else parseDomainList (formatDomainList (gr_includeDomains effective))) = gr_includeDomains effective"
    using eff assms(2) format_domains_blank [of "gr_includeDomains effective"] parse_format_domains [of "gr_includeDomains effective"]
    by (auto simp: effective_policy_def effective_def)
  have guidance: "or_else (js_trim (gr_searchGuidance effective)) (gr_searchGuidance inherited) = gr_searchGuidance effective"
    using eff assms(3) by (auto simp: effective_policy_def or_else_def effective_def)
  have "resolveGroundingPolicy custom inherited = effective"
    by (rule ResolvedGroundingPolicy.equality) (use eff e domains guidance in
      \<open>simp_all add: custom_def resolveGroundingPolicy_def customizeGroundingSearch_def effective_policy_def Let_def split: if_splits\<close>)
  moreover have "hasGroundingSearchOverride custom"
    using eff by (simp add: custom_def hasGroundingSearchOverride_def customizeGroundingSearch_def effective_policy_def)
  ultimately show ?thesis
    unfolding effective_def [symmetric] custom_def [symmetric] Let_def
    using e by (simp add: resolveGroundingPolicy_def clearGroundingSearchOverride_def custom_def customizeGroundingSearch_def Let_def)
qed

definition sample_draft :: GroundingPolicyDraft where
  "sample_draft = \<lparr>gd_sourceMode = ''web'', gd_behavior = [], gd_searchDepth = ''deep'', gd_freshness = [], gd_searchGuidance = [],
     gd_includeDomains = ''rust-lang.org'', gd_failurePolicy = []\<rparr>"

lemma customize_keeps_policy_witness:
  "resolveGroundingPolicy (customizeGroundingSearch sample_draft (resolveGroundingPolicy sample_draft DEFAULT_POLICY)) DEFAULT_POLICY =
     resolveGroundingPolicy sample_draft DEFAULT_POLICY"
proof -
  have "effective_policy DEFAULT_POLICY" by code_simp
  from customize_keeps_policy [OF this, of sample_draft] show ?thesis
    by (simp add: Let_def DEFAULT_POLICY_def)
qed

text \<open>The four old strategies survive the split into source mode and behaviour.\<close>

lemma legacy_strategy_kept:
  "s \<in> {''factual'', ''create_and_ground'', ''agentic'', ''rag''} \<Longrightarrow>
   legacyStrategyForPolicy (fst (legacyGroundingPolicy s)) (snd (legacyGroundingPolicy s)) = Some s"
  by (auto simp: legacyGroundingPolicy_def legacyStrategyForPolicy_def)

end
