(* ===== verification/Grounding_Server.thy ===== *)
theory Grounding_Server
  imports Grounding_Policy "HOL-Library.Char_ord" "HOL-Library.List_Lexorder"
begin

text \<open>
  The other side of \<open>lib/grounding-policy.ts\<close>: the enums of \<open>src/domain/grounding.rs\<close>, the grounding slice of
  \<open>Settings::apply_patch\<close> (\<open>src/config/store.rs\<close>) and that of \<open>update_topic_settings\<close> (\<open>src/services/topics.rs\<close>).
  The client keeps its own copy of the mapping between old strategies and policies; the theorem at the end
  says that the copies agree. The rest of the patch, field by field assignments, is left out.
\<close>

section \<open>The enums\<close>

datatype GroundingSourceMode = SourceModel | SourceWeb | SourceDocuments | SourceWebAndDocuments
datatype VerificationMode = VerifyStandard | VerifyThorough
datatype GroundingBehavior = BehaveStandard | BehaveFactCheck | BehaveAgentic
datatype SearchDepth = DepthQuick | DepthBalanced | DepthDeep
datatype Freshness = FreshAny | FreshWeek | FreshMonth | FreshYear
datatype FailurePolicy = FailStop | FailMarkUnverified
datatype GroundingStrategy = StrategyFactual | StrategyCreateAndGround | StrategyAgentic | StrategyRag

text \<open>\<open>str::trim\<close>: Unicode white space, which below 256 is JavaScript's and the NEL character.\<close>

definition is_rust_space :: "char \<Rightarrow> bool" where
  "is_rust_space c \<longleftrightarrow> is_js_space c \<or> (of_char c :: nat) = 133"

definition rust_trim :: "jsstring \<Rightarrow> jsstring" where
  "rust_trim s = rev (dropWhile is_rust_space (rev (dropWhile is_rust_space s)))"

definition ascii_lower_char :: "char \<Rightarrow> char" where
  "ascii_lower_char c = (let n = of_char c :: nat in if 65 \<le> n \<and> n \<le> 90 then char_of (n + 32) else c)"

text \<open>The macro: a table of strings, the variant of the first that matches, else the default.\<close>

definition enum_from :: "(jsstring \<times> 'a) list \<Rightarrow> 'a \<Rightarrow> jsstring \<Rightarrow> 'a" where
  "enum_from table other s = (case map_of table (rust_trim s) of Some v \<Rightarrow> v | None \<Rightarrow> other)"

fun source_str :: "GroundingSourceMode \<Rightarrow> jsstring" where
  "source_str SourceModel = ''model''"
| "source_str SourceWeb = ''web''"
| "source_str SourceDocuments = ''documents''"
| "source_str SourceWebAndDocuments = ''web_and_documents''"

definition source_from :: "jsstring \<Rightarrow> GroundingSourceMode" where
  "source_from = enum_from [(''model'', SourceModel), (''web'', SourceWeb), (''documents'', SourceDocuments),
     (''web_and_documents'', SourceWebAndDocuments)] SourceModel"

definition uses_web :: "GroundingSourceMode \<Rightarrow> bool" where
  "uses_web m \<longleftrightarrow> m \<in> {SourceWeb, SourceWebAndDocuments}"

definition uses_documents :: "GroundingSourceMode \<Rightarrow> bool" where
  "uses_documents m \<longleftrightarrow> m \<in> {SourceDocuments, SourceWebAndDocuments}"

fun verify_str :: "VerificationMode \<Rightarrow> jsstring" where
  "verify_str VerifyStandard = ''standard''"
| "verify_str VerifyThorough = ''thorough''"

definition verify_from :: "jsstring \<Rightarrow> VerificationMode" where
  "verify_from = enum_from [(''standard'', VerifyStandard), (''thorough'', VerifyThorough)] VerifyStandard"

fun behave_str :: "GroundingBehavior \<Rightarrow> jsstring" where
  "behave_str BehaveStandard = ''standard''"
| "behave_str BehaveFactCheck = ''fact_check''"
| "behave_str BehaveAgentic = ''agentic''"

definition behave_from :: "jsstring \<Rightarrow> GroundingBehavior" where
  "behave_from = enum_from [(''standard'', BehaveStandard), (''fact_check'', BehaveFactCheck), (''agentic'', BehaveAgentic)] BehaveStandard"

fun from_legacy_verification :: "VerificationMode \<Rightarrow> GroundingBehavior" where
  "from_legacy_verification VerifyStandard = BehaveStandard"
| "from_legacy_verification VerifyThorough = BehaveFactCheck"

fun legacy_verification :: "GroundingBehavior \<Rightarrow> VerificationMode" where
  "legacy_verification BehaveStandard = VerifyStandard"
| "legacy_verification BehaveAgentic = VerifyStandard"
| "legacy_verification BehaveFactCheck = VerifyThorough"

fun strategy_str :: "GroundingStrategy \<Rightarrow> jsstring" where
  "strategy_str StrategyFactual = ''factual''"
| "strategy_str StrategyCreateAndGround = ''create_and_ground''"
| "strategy_str StrategyAgentic = ''agentic''"
| "strategy_str StrategyRag = ''rag''"

definition strategy_from :: "jsstring \<Rightarrow> GroundingStrategy" where
  "strategy_from = enum_from [(''factual'', StrategyFactual), (''create_and_ground'', StrategyCreateAndGround),
     (''agentic'', StrategyAgentic), (''rag'', StrategyRag)] StrategyFactual"

section \<open>Policies\<close>

record SearchProfile =
  sp_depth :: SearchDepth
  sp_freshness :: Freshness
  sp_guidance :: jsstring
  sp_include_domains :: "jsstring list"
  sp_failure_policy :: FailurePolicy

definition default_profile :: SearchProfile where
  "default_profile = \<lparr>sp_depth = DepthBalanced, sp_freshness = FreshAny, sp_guidance = [], sp_include_domains = [],
     sp_failure_policy = FailStop\<rparr>"

definition normalized_profile :: "SearchProfile \<Rightarrow> SearchProfile" where
  "normalized_profile p =
     p\<lparr>sp_guidance := rust_trim (sp_guidance p),
       sp_include_domains := remdups_adj (sort (filter (\<lambda>d. d \<noteq> []) (map (\<lambda>d. map ascii_lower_char (rust_trim d)) (sp_include_domains p))))\<rparr>"

record GroundingPolicy =
  gp_source_mode :: GroundingSourceMode
  gp_behavior :: GroundingBehavior
  gp_search_profile :: SearchProfile

definition normalized_policy :: "GroundingPolicy \<Rightarrow> GroundingPolicy" where
  "normalized_policy p =
     (let p1 = (if gp_source_mode p = SourceModel then p\<lparr>gp_behavior := BehaveStandard\<rparr> else p)
      in p1\<lparr>gp_search_profile := normalized_profile (gp_search_profile p1)\<rparr>)"

fun legacy_pair :: "GroundingStrategy \<Rightarrow> GroundingSourceMode \<times> GroundingBehavior" where
  "legacy_pair StrategyFactual = (SourceModel, BehaveStandard)"
| "legacy_pair StrategyAgentic = (SourceWeb, BehaveAgentic)"
| "legacy_pair StrategyCreateAndGround = (SourceWeb, BehaveFactCheck)"
| "legacy_pair StrategyRag = (SourceDocuments, BehaveStandard)"

definition from_legacy :: "GroundingStrategy \<Rightarrow> GroundingPolicy" where
  "from_legacy s = \<lparr>gp_source_mode = fst (legacy_pair s), gp_behavior = snd (legacy_pair s), gp_search_profile = default_profile\<rparr>"

fun strategy_of :: "GroundingSourceMode \<Rightarrow> GroundingBehavior \<Rightarrow> GroundingStrategy" where
  "strategy_of SourceModel b = StrategyFactual"
| "strategy_of SourceDocuments BehaveStandard = StrategyRag"
| "strategy_of m BehaveFactCheck = StrategyCreateAndGround"
| "strategy_of SourceWeb b = StrategyAgentic"
| "strategy_of SourceWebAndDocuments b = StrategyAgentic"
| "strategy_of SourceDocuments BehaveAgentic = StrategyRag"

definition legacy_strategy :: "GroundingPolicy \<Rightarrow> GroundingStrategy" where
  "legacy_strategy p = strategy_of (gp_source_mode p) (gp_behavior p)"

section \<open>Settings::apply_patch\<close>

record GroundingSettings =
  gset_strategy :: jsstring
  gset_source_mode :: jsstring
  gset_verification_mode :: jsstring
  gset_behavior :: jsstring
  gset_profile :: SearchProfile

record GroundingPatch =
  gpat_strategy :: "jsstring option"
  gpat_source_mode :: "jsstring option"
  gpat_verification_mode :: "jsstring option"
  gpat_behavior :: "jsstring option"
  gpat_profile :: "SearchProfile option"

definition grounding_policy :: "GroundingSettings \<Rightarrow> GroundingPolicy" where
  "grounding_policy s = normalized_policy
     \<lparr>gp_source_mode = source_from (gset_source_mode s), gp_behavior = behave_from (gset_behavior s), gp_search_profile = gset_profile s\<rparr>"

definition typed_policy_present :: "GroundingPatch \<Rightarrow> bool" where
  "typed_policy_present p \<longleftrightarrow> gpat_source_mode p \<noteq> None \<or> gpat_verification_mode p \<noteq> None \<or> gpat_behavior p \<noteq> None"

definition patch_legacy :: "GroundingPatch \<Rightarrow> GroundingPolicy option" where
  "patch_legacy p = map_option (\<lambda>v. from_legacy (strategy_from v)) (gpat_strategy p)"

definition patch_strategy :: "GroundingPatch \<Rightarrow> GroundingSettings \<Rightarrow> GroundingSettings" where
  "patch_strategy p s = (case gpat_strategy p of None \<Rightarrow> s | Some v \<Rightarrow> s\<lparr>gset_strategy := strategy_str (strategy_from v)\<rparr>)"

definition patch_source_mode :: "GroundingPatch \<Rightarrow> GroundingSettings \<Rightarrow> GroundingSettings" where
  "patch_source_mode p s =
     (case gpat_source_mode p of
        Some v \<Rightarrow> s\<lparr>gset_source_mode := source_str (source_from v)\<rparr>
      | None \<Rightarrow> (case patch_legacy p of None \<Rightarrow> s | Some l \<Rightarrow> s\<lparr>gset_source_mode := source_str (gp_source_mode l)\<rparr>))"

definition patch_verification :: "GroundingPatch \<Rightarrow> GroundingSettings \<Rightarrow> GroundingSettings" where
  "patch_verification p s =
     (case gpat_verification_mode p of
        Some v \<Rightarrow> let s1 = s\<lparr>gset_verification_mode := verify_str (verify_from v)\<rparr>
          in if gpat_behavior p = None then s1\<lparr>gset_behavior := behave_str (from_legacy_verification (verify_from v))\<rparr> else s1
      | None \<Rightarrow> (case patch_legacy p of None \<Rightarrow> s
                 | Some l \<Rightarrow> s\<lparr>gset_verification_mode := verify_str (legacy_verification (gp_behavior l))\<rparr>))"

definition patch_behavior :: "GroundingPatch \<Rightarrow> GroundingSettings \<Rightarrow> GroundingSettings" where
  "patch_behavior p s =
     (case gpat_behavior p of
        Some v \<Rightarrow> s\<lparr>gset_behavior := behave_str (behave_from v),
                   gset_verification_mode := verify_str (legacy_verification (behave_from v))\<rparr>
      | None \<Rightarrow> (case patch_legacy p of None \<Rightarrow> s | Some l \<Rightarrow> s\<lparr>gset_behavior := behave_str (gp_behavior l)\<rparr>))"

definition patch_profile :: "GroundingPatch \<Rightarrow> GroundingSettings \<Rightarrow> GroundingSettings" where
  "patch_profile p s = (case gpat_profile p of None \<Rightarrow> s | Some v \<Rightarrow> s\<lparr>gset_profile := normalized_profile v\<rparr>)"

definition clamp_model :: "GroundingSettings \<Rightarrow> GroundingSettings" where
  "clamp_model s = (if gset_source_mode s = ''model''
     then s\<lparr>gset_behavior := ''standard'', gset_verification_mode := ''standard''\<rparr> else s)"

definition patch_typed :: "GroundingPatch \<Rightarrow> GroundingSettings \<Rightarrow> GroundingSettings" where
  "patch_typed p s = (if typed_policy_present p
     then s\<lparr>gset_strategy := strategy_str (legacy_strategy (grounding_policy s))\<rparr> else s)"

definition apply_patch :: "GroundingSettings \<Rightarrow> GroundingPatch \<Rightarrow> GroundingSettings" where
  "apply_patch s p = (patch_typed p \<circ> clamp_model \<circ> patch_profile p \<circ> patch_behavior p \<circ> patch_verification p \<circ>
     patch_source_mode p \<circ> patch_strategy p) s"

section \<open>Tables\<close>

lemma rust_trim_fixed:
  assumes "list_all (\<lambda>c. \<not> is_rust_space c) s"
  shows "rust_trim s = s"
proof -
  have "dropWhile is_rust_space t = t" if "set t \<subseteq> set s" for t
    using that assms by (cases t) (auto simp: list_all_iff)
  then show ?thesis by (simp add: rust_trim_def)
qed

lemma trim_words [simp]:
  "rust_trim ''model'' = ''model''" "rust_trim ''web'' = ''web''" "rust_trim ''documents'' = ''documents''"
  "rust_trim ''web_and_documents'' = ''web_and_documents''" "rust_trim ''standard'' = ''standard''"
  "rust_trim ''thorough'' = ''thorough''" "rust_trim ''fact_check'' = ''fact_check''" "rust_trim ''agentic'' = ''agentic''"
  "rust_trim ''factual'' = ''factual''" "rust_trim ''create_and_ground'' = ''create_and_ground''" "rust_trim ''rag'' = ''rag''"
  by (rule rust_trim_fixed, simp add: is_rust_space_def is_js_space_def)+

text \<open>Printing a variant and reading it again.\<close>

lemma enum_round_trips [simp]:
  "source_from (source_str m) = m" "verify_from (verify_str v) = v" "behave_from (behave_str b) = b" "strategy_from (strategy_str s) = s"
proof -
  show "source_from (source_str m) = m" by (cases m) (simp_all add: source_from_def enum_from_def)
  show "verify_from (verify_str v) = v" by (cases v) (simp_all add: verify_from_def enum_from_def)
  show "behave_from (behave_str b) = b" by (cases b) (simp_all add: behave_from_def enum_from_def)
  show "strategy_from (strategy_str s) = s" by (cases s) (simp_all add: strategy_from_def enum_from_def)
qed

lemma legacy_strategy_of_legacy: "legacy_strategy (from_legacy s) = s"
  by (cases s) (simp_all add: legacy_strategy_def from_legacy_def)

lemma source_model_iff [simp]: "source_str m = ''model'' \<longleftrightarrow> m = SourceModel"
  by (cases m) simp_all

text \<open>The strategy a policy is stored as reads back as this source mode.\<close>

definition source_lost :: "GroundingSourceMode \<Rightarrow> GroundingBehavior \<Rightarrow> bool" where
  "source_lost m b \<longleftrightarrow> m = SourceWebAndDocuments \<or> (m = SourceDocuments \<and> b = BehaveFactCheck)"

lemma strategy_source: "fst (legacy_pair (strategy_of m b)) = (if source_lost m b then SourceWeb else m)"
  by (cases m; cases b) (simp_all add: source_lost_def)

section \<open>Both sides agree\<close>

text \<open>C6: the client's grounding tables are the server's: both read an old strategy and an old verification mode as
  the same policy, store a policy under the same old names, drop the behaviour of the model source alike and ask the
  same sources.\<close>

theorem client_mirrors_server:
  "legacyStrategyForPolicy (source_str m) (behave_str b) = Some (strategy_str (strategy_of m b)) \<and>
   legacyGroundingPolicy (strategy_str s) = (source_str (gp_source_mode (from_legacy s)), behave_str (gp_behavior (from_legacy s))) \<and>
   behaviorFromLegacyVerification (verify_str v) = behave_str (from_legacy_verification v) \<and>
   legacyVerificationForBehavior (behave_str b) = verify_str (legacy_verification b) \<and>
   normalizeBehavior (source_str m) (behave_str b) =
     behave_str (gp_behavior (normalized_policy \<lparr>gp_source_mode = m, gp_behavior = b, gp_search_profile = p\<rparr>)) \<and>
   sourceUsesWeb (source_str m) = uses_web m \<and> sourceUsesDocuments (source_str m) = uses_documents m"
proof (intro conjI)
  show "legacyStrategyForPolicy (source_str m) (behave_str b) = Some (strategy_str (strategy_of m b))"
    by (cases m; cases b) (simp_all add: legacyStrategyForPolicy_def)
  show "legacyGroundingPolicy (strategy_str s) = (source_str (gp_source_mode (from_legacy s)), behave_str (gp_behavior (from_legacy s)))"
    by (cases s) (simp_all add: legacyGroundingPolicy_def from_legacy_def)
  show "behaviorFromLegacyVerification (verify_str v) = behave_str (from_legacy_verification v)"
    by (cases v) (simp_all add: behaviorFromLegacyVerification_def)
  show "legacyVerificationForBehavior (behave_str b) = verify_str (legacy_verification b)"
    by (cases b) (simp_all add: legacyVerificationForBehavior_def)
  show "normalizeBehavior (source_str m) (behave_str b) =
     behave_str (gp_behavior (normalized_policy \<lparr>gp_source_mode = m, gp_behavior = b, gp_search_profile = p\<rparr>))"
    by (simp add: normalizeBehavior_def normalized_policy_def Let_def)
  show "sourceUsesWeb (source_str m) = uses_web m" "sourceUsesDocuments (source_str m) = uses_documents m"
    by (cases m; simp add: sourceUsesWeb_def sourceUsesDocuments_def uses_web_def uses_documents_def)+
qed

text \<open>The server's own patches: a normalised patch is stored as it was meant.\<close>

lemma client_strategy: "legacyStrategyForPolicy (source_str m) (behave_str b) = Some (strategy_str (strategy_of m b))"
  by (cases m; cases b) (simp_all add: legacyStrategyForPolicy_def)

lemma client_verification: "legacyVerificationForBehavior (behave_str b) = verify_str (legacy_verification b)"
  by (cases b) (simp_all add: legacyVerificationForBehavior_def)

lemma typed_patch_stored:
  assumes "gpat_source_mode p = Some (source_str m)" and "gpat_behavior p = Some (behave_str b)"
  shows "gset_source_mode (apply_patch s p) = source_str m \<and>
    gset_behavior (apply_patch s p) = behave_str (if m = SourceModel then BehaveStandard else b)"
  using assms
  by (auto simp: apply_patch_def patch_typed_def clamp_model_def patch_profile_def patch_behavior_def patch_verification_def
      patch_source_mode_def patch_strategy_def Let_def split: option.splits)

text \<open>A patch with the behaviour and its old strategy, and without the source mode.\<close>

lemma behavior_patch_source:
  assumes "gpat_source_mode p = None" and "gpat_strategy p = Some (strategy_str (strategy_of m b))"
  shows "gset_source_mode (apply_patch s p) = source_str (if source_lost m b then SourceWeb else m)"
  using assms strategy_source [of m b]
  by (auto simp: apply_patch_def patch_typed_def clamp_model_def patch_profile_def patch_behavior_def patch_verification_def
      patch_source_mode_def patch_strategy_def patch_legacy_def from_legacy_def Let_def split: option.splits)

end
