(* ===== verification/Settings_Draft.thy ===== *)
theory Settings_Draft
  imports Grounding_Server Api_Messages
begin

text \<open>
  \<open>lib/pages/settings-page.ts\<close>: the settings as a form edits them, and the patch a save sends. The fields of the form
  are strings, numbers included; a field of the patch is \<open>Some\<close> when it is sent.
\<close>

record SettingsDraft =
  sd_model :: jsstring
  sd_compressModel :: jsstring
  sd_template :: jsstring
  sd_apiKey :: jsstring
  sd_baseUrl :: jsstring
  sd_compressBaseUrl :: jsstring
  sd_reasoningEffort :: jsstring
  sd_compressReasoningEffort :: jsstring
  sd_compressionLevel :: jsstring
  sd_groundingModel :: jsstring
  sd_groundingReasoningEffort :: jsstring
  sd_groundingStrategy :: jsstring
  sd_groundingSourceMode :: jsstring
  sd_groundingBehavior :: jsstring
  sd_groundingSearchDepth :: jsstring
  sd_groundingFreshness :: jsstring
  sd_groundingSearchGuidance :: jsstring
  sd_groundingIncludeDomains :: jsstring
  sd_groundingFailurePolicy :: jsstring
  sd_imageStrategy :: jsstring
  sd_searchProvider :: jsstring
  sd_scrapeProvider :: jsstring
  sd_searchApiKey :: jsstring
  sd_searchBaseUrl :: jsstring
  sd_visionModel :: jsstring
  sd_dailyTimeZone :: jsstring
  sd_dailyUpdateTime :: jsstring
  sd_maxActiveCards :: jsstring
  sd_colorScheme :: jsstring
  sd_transparency :: jsstring
  sd_blurIntensity :: jsstring
  sd_autoupdateEnabled :: bool
  sd_autoupdateRepo :: jsstring
  sd_autoupdateBranch :: jsstring
  sd_autoupdateCheckIntervalSecs :: jsstring
  sd_autoupdateCommand :: jsstring

text \<open>\<open>profile?.f ?? ""\<close>; with \<open>||\<close> an empty string takes the default, which \<open>or_else\<close> does.\<close>

definition profile_text :: "(GroundingSearchProfile \<Rightarrow> jsstring) \<Rightarrow> GroundingSearchProfile option \<Rightarrow> jsstring" where
  "profile_text f profile = (case profile of None \<Rightarrow> [] | Some p \<Rightarrow> f p)"

definition settingsDraft :: "Settings \<Rightarrow> SettingsDraft" where
  "settingsDraft settings =
     (let legacy = legacyGroundingPolicy (set_groundingStrategy settings); profile = set_groundingSearchProfile settings in \<lparr>
     sd_model = set_model settings,
     sd_compressModel = set_compressModel settings,
     sd_template = set_template settings,
     sd_apiKey = set_apiKey settings,
     sd_baseUrl = set_baseUrl settings,
     sd_compressBaseUrl = set_compressBaseUrl settings,
     sd_reasoningEffort = set_reasoningEffort settings,
     sd_compressReasoningEffort = set_compressReasoningEffort settings,
     sd_compressionLevel = set_compressionLevel settings,
     sd_groundingModel = set_groundingModel settings,
     sd_groundingReasoningEffort = set_groundingReasoningEffort settings,
     sd_groundingStrategy = set_groundingStrategy settings,
     sd_groundingSourceMode = or_else (set_groundingSourceMode settings) (fst legacy),
     sd_groundingBehavior = or_else (set_groundingBehavior settings)
       (if set_groundingVerificationMode settings \<noteq> [] then behaviorFromLegacyVerification (set_groundingVerificationMode settings) else snd legacy),
     sd_groundingSearchDepth = or_else (profile_text gs_depth profile) ''balanced'',
     sd_groundingFreshness = or_else (profile_text gs_freshness profile) ''any'',
     sd_groundingSearchGuidance = profile_text gs_guidance profile,
     sd_groundingIncludeDomains = formatDomainList (case profile of None \<Rightarrow> [] | Some p \<Rightarrow> gs_includeDomains p),
     sd_groundingFailurePolicy = or_else (profile_text gs_failurePolicy profile) ''stop'',
     sd_imageStrategy = set_imageStrategy settings,
     sd_searchProvider = set_searchProvider settings,
     sd_scrapeProvider = set_scrapeProvider settings,
     sd_searchApiKey = set_searchApiKey settings,
     sd_searchBaseUrl = set_searchBaseUrl settings,
     sd_visionModel = set_visionModel settings,
     sd_dailyTimeZone = set_dailyTimeZone settings,
     sd_dailyUpdateTime = set_dailyUpdateTime settings,
     sd_maxActiveCards = dec_of_int (set_maxActiveCards settings),
     sd_colorScheme = set_colorScheme settings,
     sd_transparency = set_transparency settings,
     sd_blurIntensity = set_blurIntensity settings,
     sd_autoupdateEnabled = set_autoupdateEnabled settings,
     sd_autoupdateRepo = set_autoupdateRepo settings,
     sd_autoupdateBranch = set_autoupdateBranch settings,
     sd_autoupdateCheckIntervalSecs = dec_of_int (set_autoupdateCheckIntervalSecs settings),
     sd_autoupdateCommand = set_autoupdateCommand settings\<rparr>)"

text \<open>A field that is not a run of digits counts as zero.\<close>

definition is_digits :: "jsstring \<Rightarrow> bool" where
  "is_digits s \<longleftrightarrow> s \<noteq> [] \<and> list_all is_digit s"

definition parseUnsignedSetting :: "jsstring \<Rightarrow> bigint" where
  "parseUnsignedSetting s = (let normalized = js_trim s in if is_digits normalized then int (nat_of_dec normalized) else 0)"

text \<open>One line of the patch: the current value when it differs.\<close>

definition if_changed :: "(SettingsDraft \<Rightarrow> 'a) \<Rightarrow> SettingsDraft \<Rightarrow> SettingsDraft \<Rightarrow> 'a option" where
  "if_changed f previous current = (if f current \<noteq> f previous then Some (f current) else None)"

definition profile_changed :: "SettingsDraft \<Rightarrow> SettingsDraft \<Rightarrow> bool" where
  "profile_changed previous current \<longleftrightarrow>
     sd_groundingSearchDepth current \<noteq> sd_groundingSearchDepth previous \<or>
     sd_groundingFreshness current \<noteq> sd_groundingFreshness previous \<or>
     sd_groundingSearchGuidance current \<noteq> sd_groundingSearchGuidance previous \<or>
     sd_groundingIncludeDomains current \<noteq> sd_groundingIncludeDomains previous \<or>
     sd_groundingFailurePolicy current \<noteq> sd_groundingFailurePolicy previous"

definition profile_of_draft :: "SettingsDraft \<Rightarrow> GroundingSearchProfile" where
  "profile_of_draft current = \<lparr>gs_depth = sd_groundingSearchDepth current, gs_freshness = sd_groundingFreshness current,
     gs_guidance = sd_groundingSearchGuidance current, gs_includeDomains = parseDomainList (sd_groundingIncludeDomains current),
     gs_failurePolicy = sd_groundingFailurePolicy current\<rparr>"

text \<open>The strategy is assigned twice; the second assignment wins, even when no strategy fits.\<close>

definition policy_changed :: "SettingsDraft \<Rightarrow> SettingsDraft \<Rightarrow> bool" where
  "policy_changed previous current \<longleftrightarrow>
     sd_groundingSourceMode current \<noteq> sd_groundingSourceMode previous \<or> sd_groundingBehavior current \<noteq> sd_groundingBehavior previous"

definition settingsPatch :: "SettingsDraft \<Rightarrow> SettingsDraft \<Rightarrow> UpdateSettingsRequest" where
  "settingsPatch previous current = \<lparr>
     usr_model = if_changed sd_model previous current,
     usr_compressModel = if_changed sd_compressModel previous current,
     usr_template = if_changed sd_template previous current,
     usr_apiKey = if_changed sd_apiKey previous current,
     usr_baseUrl = if_changed sd_baseUrl previous current,
     usr_compressBaseUrl = if_changed sd_compressBaseUrl previous current,
     usr_reasoningEffort = if_changed sd_reasoningEffort previous current,
     usr_compressReasoningEffort = if_changed sd_compressReasoningEffort previous current,
     usr_colorScheme = if_changed sd_colorScheme previous current,
     usr_autoupdateEnabled = if_changed sd_autoupdateEnabled previous current,
     usr_autoupdateRepo = if_changed sd_autoupdateRepo previous current,
     usr_autoupdateBranch = if_changed sd_autoupdateBranch previous current,
     usr_autoupdateCheckIntervalSecs = map_option parseUnsignedSetting (if_changed sd_autoupdateCheckIntervalSecs previous current),
     usr_autoupdateCommand = if_changed sd_autoupdateCommand previous current,
     usr_dailyTimeZone = if_changed sd_dailyTimeZone previous current,
     usr_dailyUpdateTime = if_changed sd_dailyUpdateTime previous current,
     usr_maxActiveCards = map_option parseUnsignedSetting (if_changed sd_maxActiveCards previous current),
     usr_compressionLevel = if_changed sd_compressionLevel previous current,
     usr_groundingStrategy = (if policy_changed previous current
       then legacyStrategyForPolicy (sd_groundingSourceMode current) (sd_groundingBehavior current)
       else if_changed sd_groundingStrategy previous current),
     usr_imageStrategy = if_changed sd_imageStrategy previous current,
     usr_searchApiKey = if_changed sd_searchApiKey previous current,
     usr_searchBaseUrl = if_changed sd_searchBaseUrl previous current,
     usr_imageSources = None,
     usr_groundingModel = if_changed sd_groundingModel previous current,
     usr_groundingReasoningEffort = if_changed sd_groundingReasoningEffort previous current,
     usr_searchProvider = if_changed sd_searchProvider previous current,
     usr_scrapeProvider = if_changed sd_scrapeProvider previous current,
     usr_visionModel = if_changed sd_visionModel previous current,
     usr_transparency = if_changed sd_transparency previous current,
     usr_blurIntensity = if_changed sd_blurIntensity previous current,
     usr_groundingSourceMode = if_changed sd_groundingSourceMode previous current,
     usr_groundingVerificationMode = map_option legacyVerificationForBehavior (if_changed sd_groundingBehavior previous current),
     usr_groundingSearchProfile = (if profile_changed previous current then Some (profile_of_draft current) else None),
     usr_groundingBehavior = if_changed sd_groundingBehavior previous current\<rparr>"

text \<open>Each key as the test \<open>patch[key] !== undefined\<close>.\<close>

definition SETTINGS_PATCH_KEYS :: "(UpdateSettingsRequest \<Rightarrow> bool) list" where
  "SETTINGS_PATCH_KEYS = [
     \<lambda>patch. usr_model patch \<noteq> None,
     \<lambda>patch. usr_compressModel patch \<noteq> None,
     \<lambda>patch. usr_template patch \<noteq> None,
     \<lambda>patch. usr_apiKey patch \<noteq> None,
     \<lambda>patch. usr_baseUrl patch \<noteq> None,
     \<lambda>patch. usr_compressBaseUrl patch \<noteq> None,
     \<lambda>patch. usr_reasoningEffort patch \<noteq> None,
     \<lambda>patch. usr_compressReasoningEffort patch \<noteq> None,
     \<lambda>patch. usr_compressionLevel patch \<noteq> None,
     \<lambda>patch. usr_groundingModel patch \<noteq> None,
     \<lambda>patch. usr_groundingReasoningEffort patch \<noteq> None,
     \<lambda>patch. usr_groundingStrategy patch \<noteq> None,
     \<lambda>patch. usr_groundingSourceMode patch \<noteq> None,
     \<lambda>patch. usr_groundingVerificationMode patch \<noteq> None,
     \<lambda>patch. usr_groundingBehavior patch \<noteq> None,
     \<lambda>patch. usr_groundingSearchProfile patch \<noteq> None,
     \<lambda>patch. usr_imageStrategy patch \<noteq> None,
     \<lambda>patch. usr_searchProvider patch \<noteq> None,
     \<lambda>patch. usr_scrapeProvider patch \<noteq> None,
     \<lambda>patch. usr_searchApiKey patch \<noteq> None,
     \<lambda>patch. usr_searchBaseUrl patch \<noteq> None,
     \<lambda>patch. usr_visionModel patch \<noteq> None,
     \<lambda>patch. usr_dailyTimeZone patch \<noteq> None,
     \<lambda>patch. usr_dailyUpdateTime patch \<noteq> None,
     \<lambda>patch. usr_maxActiveCards patch \<noteq> None,
     \<lambda>patch. usr_colorScheme patch \<noteq> None,
     \<lambda>patch. usr_transparency patch \<noteq> None,
     \<lambda>patch. usr_blurIntensity patch \<noteq> None,
     \<lambda>patch. usr_autoupdateEnabled patch \<noteq> None,
     \<lambda>patch. usr_autoupdateRepo patch \<noteq> None,
     \<lambda>patch. usr_autoupdateBranch patch \<noteq> None,
     \<lambda>patch. usr_autoupdateCheckIntervalSecs patch \<noteq> None,
     \<lambda>patch. usr_autoupdateCommand patch \<noteq> None]"

definition settingsPatchCount :: "UpdateSettingsRequest \<Rightarrow> nat" where
  "settingsPatchCount patch = length (filter (\<lambda>key. key patch) SETTINGS_PATCH_KEYS)"

definition hasSettingsPatch :: "UpdateSettingsRequest \<Rightarrow> bool" where
  "hasSettingsPatch patch \<longleftrightarrow> settingsPatchCount patch > 0"

section \<open>Numbers\<close>

lemma parse_printed [simp]: "parseUnsignedSetting (dec_of_int n) = max n 0"
proof (cases "n < 0")
  case True
  have "js_trim (dec_of_int n) = dec_of_int n"
    by (rule js_trim_no_space) (use dec_of_nat_digits is_digit_not_special in \<open>auto simp: dec_of_int_def True is_js_space_def\<close>)
  with True show ?thesis by (simp add: parseUnsignedSetting_def dec_of_int_def is_digits_def is_digit_def)
next
  case False
  have "js_trim (dec_of_int n) = dec_of_int n"
    by (rule js_trim_no_space) (use dec_of_nat_digits is_digit_not_special in \<open>auto simp: dec_of_int_def False\<close>)
  with False show ?thesis
    using dec_of_nat_digits [of "nat n"] by (simp add: parseUnsignedSetting_def dec_of_int_def is_digits_def list_all_iff)
qed

lemma parse_unsigned_nonneg: "0 \<le> parseUnsignedSetting s"
  by (simp add: parseUnsignedSetting_def Let_def)

section \<open>The patch\<close>

lemma if_changed_None [simp]: "if_changed f p c = None \<longleftrightarrow> f c = f p"
  by (simp add: if_changed_def)

lemma if_changed_same [simp]: "if_changed f p p = None"
  by simp


text \<open>Some key of the patch is there.\<close>

lemma has_patch_iff: "hasSettingsPatch patch \<longleftrightarrow> (\<exists>key \<in> set SETTINGS_PATCH_KEYS. key patch)"
  by (auto simp: hasSettingsPatch_def settingsPatchCount_def filter_empty_conv)

lemma patch_of_same: "\<not> hasSettingsPatch (settingsPatch previous previous)"
  by (simp add: has_patch_iff SETTINGS_PATCH_KEYS_def settingsPatch_def profile_changed_def policy_changed_def)

lemma patch_of_other: "\<not> hasSettingsPatch (settingsPatch previous current) \<Longrightarrow> current = previous"
  by (intro SettingsDraft.equality)
    (auto simp: has_patch_iff SETTINGS_PATCH_KEYS_def settingsPatch_def profile_changed_def policy_changed_def split: if_splits)

text \<open>A source mode the strategies know; the selects of the page offer no other.\<close>

lemma strategy_known: "m \<in> set GROUNDING_SOURCE_MODES \<Longrightarrow> legacyStrategyForPolicy m b \<noteq> None"
  by (auto simp: GROUNDING_SOURCE_MODES_def legacyStrategyForPolicy_def)

text \<open>C8: a save sends something exactly when the form differs from what was loaded; a form loaded from the server and
  left alone sends nothing, and a printed limit that is typed in is sent as that number.\<close>

theorem settings_patch_minimal:
  "(hasSettingsPatch (settingsPatch previous current) \<longleftrightarrow> current \<noteq> previous) \<and>
   \<not> hasSettingsPatch (settingsPatch (settingsDraft settings) (settingsDraft settings)) \<and>
   usr_maxActiveCards (settingsPatch (settingsDraft settings) (current\<lparr>sd_maxActiveCards := dec_of_int (int n)\<rparr>)) =
     (if set_maxActiveCards settings = int n then None else Some (int n))"
proof (intro conjI)
  show "hasSettingsPatch (settingsPatch previous current) \<longleftrightarrow> current \<noteq> previous"
    using patch_of_same patch_of_other by blast
  show "\<not> hasSettingsPatch (settingsPatch (settingsDraft settings) (settingsDraft settings))" by (rule patch_of_same)
  show "usr_maxActiveCards (settingsPatch (settingsDraft settings) (current\<lparr>sd_maxActiveCards := dec_of_int (int n)\<rparr>)) =
      (if set_maxActiveCards settings = int n then None else Some (int n))"
    by (simp add: settingsPatch_def if_changed_def settingsDraft_def Let_def)
qed

section \<open>A save that reaches the server\<close>

text \<open>\<open>update_settings_file\<close> of \<open>src/api/settings.rs\<close>, the grounding fields; the enums of the profile read their strings.\<close>

definition depth_from :: "jsstring \<Rightarrow> SearchDepth" where
  "depth_from = enum_from [(''quick'', DepthQuick), (''balanced'', DepthBalanced), (''deep'', DepthDeep)] DepthBalanced"

definition freshness_from :: "jsstring \<Rightarrow> Freshness" where
  "freshness_from = enum_from [(''any'', FreshAny), (''week'', FreshWeek), (''month'', FreshMonth), (''year'', FreshYear)] FreshAny"

definition failure_from :: "jsstring \<Rightarrow> FailurePolicy" where
  "failure_from = enum_from [(''stop'', FailStop), (''mark_unverified'', FailMarkUnverified)] FailStop"

definition profile_from_pb :: "GroundingSearchProfile \<Rightarrow> SearchProfile" where
  "profile_from_pb p = \<lparr>sp_depth = depth_from (gs_depth p), sp_freshness = freshness_from (gs_freshness p), sp_guidance = gs_guidance p,
     sp_include_domains = gs_includeDomains p, sp_failure_policy = failure_from (gs_failurePolicy p)\<rparr>"

definition grounding_patch :: "UpdateSettingsRequest \<Rightarrow> GroundingPatch" where
  "grounding_patch req = \<lparr>gpat_strategy = usr_groundingStrategy req, gpat_source_mode = usr_groundingSourceMode req,
     gpat_verification_mode = usr_groundingVerificationMode req, gpat_behavior = usr_groundingBehavior req,
     gpat_profile = map_option profile_from_pb (usr_groundingSearchProfile req)\<rparr>"

text \<open>C31: a save that changes the behaviour and not the source mode sends the old strategy of the new policy and leaves
  the source mode out, and the server then reads the source mode back from the strategy: documents with fact
  checking, and both sources with any behaviour, become web search alone.\<close>

theorem behaviour_edit_moves_source:
  assumes "sd_groundingSourceMode loaded = source_str m" and "sd_groundingBehavior loaded \<noteq> behave_str b"
  shows "gset_source_mode (apply_patch stored (grounding_patch (settingsPatch loaded (loaded\<lparr>sd_groundingBehavior := behave_str b\<rparr>)))) =
      source_str (if source_lost m b then SourceWeb else m)"
proof (rule behavior_patch_source)
  show "gpat_source_mode (grounding_patch (settingsPatch loaded (loaded\<lparr>sd_groundingBehavior := behave_str b\<rparr>))) = None"
    by (simp add: grounding_patch_def settingsPatch_def)
  show "gpat_strategy (grounding_patch (settingsPatch loaded (loaded\<lparr>sd_groundingBehavior := behave_str b\<rparr>))) =
      Some (strategy_str (strategy_of m b))"
    using assms by (simp add: grounding_patch_def settingsPatch_def policy_changed_def client_strategy)
qed

text \<open>When the source mode is sent as well, both are stored as meant.\<close>

lemma source_edit_stored:
  assumes "sd_groundingSourceMode loaded \<noteq> source_str m" and "sd_groundingBehavior loaded \<noteq> behave_str b"
  shows "gset_source_mode (apply_patch stored (grounding_patch (settingsPatch loaded
      (loaded\<lparr>sd_groundingSourceMode := source_str m, sd_groundingBehavior := behave_str b\<rparr>)))) = source_str m"
  using typed_patch_stored [of "grounding_patch (settingsPatch loaded
      (loaded\<lparr>sd_groundingSourceMode := source_str m, sd_groundingBehavior := behave_str b\<rparr>))" m b stored] assms
  by (simp add: grounding_patch_def settingsPatch_def if_changed_def)

definition sample_settings :: Settings where
  "sample_settings = \<lparr>set_model = [], set_compressModel = [], set_template = [], set_apiKey = [], set_baseUrl = [],
     set_compressBaseUrl = [], set_reasoningEffort = [], set_compressReasoningEffort = [], set_colorScheme = [],
     set_autoupdateEnabled = False, set_autoupdateRepo = [], set_autoupdateBranch = [],
     set_autoupdateCheckIntervalSecs = 0, set_autoupdateCommand = [], set_autoupdateLastSeenSha = [],
     set_dailyTimeZone = [], set_dailyUpdateTime = [], set_maxActiveCards = 0, set_compressionLevel = [],
     set_groundingStrategy = ''agentic'', set_imageStrategy = [], set_searchApiKey = [], set_searchBaseUrl = [],
     set_imageSources = [], set_groundingModel = [], set_groundingReasoningEffort = [], set_searchProvider = [],
     set_scrapeProvider = [], set_visionModel = [], set_transparency = [], set_blurIntensity = [],
     set_groundingSourceMode = ''web_and_documents'', set_groundingVerificationMode = [],
     set_groundingSearchProfile = None, set_groundingBehavior = ''agentic''\<rparr>"

lemma behaviour_edit_moves_source_witness:
  "let loaded = settingsDraft sample_settings
   in gset_source_mode (apply_patch
        \<lparr>gset_strategy = ''agentic'', gset_source_mode = ''web_and_documents'', gset_verification_mode = ''standard'',
         gset_behavior = ''agentic'', gset_profile = default_profile\<rparr>
        (grounding_patch (settingsPatch loaded (loaded\<lparr>sd_groundingBehavior := ''fact_check''\<rparr>)))) = ''web''"
  using behaviour_edit_moves_source [of "settingsDraft sample_settings" SourceWebAndDocuments BehaveFactCheck]
  by (simp add: settingsDraft_def sample_settings_def Let_def source_lost_def)

end

