(* ===== verification/Topic_Editor.thy ===== *)
theory Topic_Editor
  imports Settings_Draft
begin

text \<open>
  \<open>lib/pages/topic-editor.ts\<close>: the settings of one topic as the editor's form holds them, the patch a save sends,
  and the assignment of documents to the topic as attach and detach calls. An empty grounding field inherits
  the instance setting. \<open>Number.parseInt\<close> is exact here; a number of the source is an integer.
\<close>

datatype TopicSourceMutation = Attach bigint | Detach bigint

record TopicEditorDraft =
  td_promptTemplate :: jsstring
  td_dailyCardCount :: jsstring
  td_dailyTimeZone :: jsstring
  td_dailyUpdateTime :: jsstring
  td_compressionLevel :: jsstring
  td_groundingModel :: jsstring
  td_groundingReasoningEffort :: jsstring
  td_groundingStrategy :: jsstring
  td_groundingSourceMode :: jsstring
  td_groundingBehavior :: jsstring
  td_groundingSearchDepth :: jsstring
  td_groundingFreshness :: jsstring
  td_groundingSearchGuidance :: jsstring
  td_groundingIncludeDomains :: jsstring
  td_groundingFailurePolicy :: jsstring
  td_imageStrategy :: jsstring

definition profile_domains :: "GroundingSearchProfile option \<Rightarrow> jsstring" where
  "profile_domains profile = formatDomainList (case profile of None \<Rightarrow> [] | Some p \<Rightarrow> gs_includeDomains p)"

definition topicEditorDraft :: "AppTopicInfo \<Rightarrow> TopicEditorDraft" where
  "topicEditorDraft topic =
     (let legacy = (if at_groundingStrategy topic = [] then None else Some (legacyGroundingPolicy (at_groundingStrategy topic)));
          profile = at_groundingSearchProfile topic
      in \<lparr>td_promptTemplate = at_promptTemplate topic,
          td_dailyCardCount = dec_of_int (at_dailyCardCount topic),
          td_dailyTimeZone = at_dailyTimeZone topic,
          td_dailyUpdateTime = at_dailyUpdateTime topic,
          td_compressionLevel = at_compressionLevel topic,
          td_groundingModel = at_groundingModel topic,
          td_groundingReasoningEffort = at_groundingReasoningEffort topic,
          td_groundingStrategy = at_groundingStrategy topic,
          td_groundingSourceMode = or_else (at_groundingSourceMode topic) (case legacy of None \<Rightarrow> [] | Some l \<Rightarrow> fst l),
          td_groundingBehavior = or_else (at_groundingBehavior topic)
            (if at_groundingVerificationMode topic \<noteq> [] then behaviorFromLegacyVerification (at_groundingVerificationMode topic)
             else case legacy of None \<Rightarrow> [] | Some l \<Rightarrow> snd l),
          td_groundingSearchDepth = profile_text gs_depth profile,
          td_groundingFreshness = profile_text gs_freshness profile,
          td_groundingSearchGuidance = profile_text gs_guidance profile,
          td_groundingIncludeDomains = profile_domains profile,
          td_groundingFailurePolicy = profile_text gs_failurePolicy profile,
          td_imageStrategy = at_imageStrategy topic\<rparr>)"

definition parseDailyCount :: "jsstring \<Rightarrow> int" where
  "parseDailyCount s = (let normalized = js_trim s in if is_digits normalized then int (nat_of_dec normalized) else 0)"

definition sent_if :: "'a \<Rightarrow> 'a \<Rightarrow> 'a option" where
  "sent_if new old = (if new \<noteq> old then Some new else None)"

definition draft_policy :: "TopicEditorDraft \<Rightarrow> GroundingPolicyDraft" where
  "draft_policy draft = \<lparr>gd_sourceMode = td_groundingSourceMode draft, gd_behavior = td_groundingBehavior draft,
     gd_searchDepth = td_groundingSearchDepth draft, gd_freshness = td_groundingFreshness draft,
     gd_searchGuidance = td_groundingSearchGuidance draft, gd_includeDomains = td_groundingIncludeDomains draft,
     gd_failurePolicy = td_groundingFailurePolicy draft\<rparr>"

definition draft_profile :: "TopicEditorDraft \<Rightarrow> GroundingSearchProfile" where
  "draft_profile draft = \<lparr>gs_depth = td_groundingSearchDepth draft, gs_freshness = td_groundingFreshness draft,
     gs_guidance = td_groundingSearchGuidance draft, gs_includeDomains = parseDomainList (td_groundingIncludeDomains draft),
     gs_failurePolicy = td_groundingFailurePolicy draft\<rparr>"

definition topic_profile_changed :: "AppTopicInfo \<Rightarrow> TopicEditorDraft \<Rightarrow> bool" where
  "topic_profile_changed topic draft \<longleftrightarrow>
     (let currentProfile = at_groundingSearchProfile topic
      in td_groundingSearchDepth draft \<noteq> profile_text gs_depth currentProfile \<or>
         td_groundingFreshness draft \<noteq> profile_text gs_freshness currentProfile \<or>
         td_groundingSearchGuidance draft \<noteq> profile_text gs_guidance currentProfile \<or>
         td_groundingIncludeDomains draft \<noteq> profile_domains currentProfile \<or>
         td_groundingFailurePolicy draft \<noteq> profile_text gs_failurePolicy currentProfile)"

definition topic_policy_changed :: "AppTopicInfo \<Rightarrow> TopicEditorDraft \<Rightarrow> bool" where
  "topic_policy_changed topic draft \<longleftrightarrow> td_groundingSourceMode draft \<noteq> at_groundingSourceMode topic \<or>
     td_groundingBehavior draft \<noteq> td_groundingBehavior (topicEditorDraft topic)"

definition topicEditorPatch :: "AppTopicInfo \<Rightarrow> TopicEditorDraft \<Rightarrow> UpdateTopicRequest" where
  "topicEditorPatch topic draft =
     (let currentBehavior = td_groundingBehavior (topicEditorDraft topic); behavior = td_groundingBehavior draft
      in \<lparr>utr_id = at_id topic,
          utr_promptTemplate = sent_if (td_promptTemplate draft) (at_promptTemplate topic),
          utr_dailyCardCount = sent_if (parseDailyCount (td_dailyCardCount draft)) (at_dailyCardCount topic),
          utr_dailyTimeZone = sent_if (td_dailyTimeZone draft) (at_dailyTimeZone topic),
          utr_dailyUpdateTime = sent_if (td_dailyUpdateTime draft) (at_dailyUpdateTime topic),
          utr_compressionLevel = sent_if (td_compressionLevel draft) (at_compressionLevel topic),
          utr_groundingStrategy =
            (if topic_policy_changed topic draft
             then if td_groundingSourceMode draft = [] then Some []
                  else legacyStrategyForPolicy (td_groundingSourceMode draft) (or_else behavior ''standard'')
             else sent_if (td_groundingStrategy draft) (at_groundingStrategy topic)),
          utr_imageStrategy = sent_if (td_imageStrategy draft) (at_imageStrategy topic),
          utr_groundingModel = sent_if (td_groundingModel draft) (at_groundingModel topic),
          utr_groundingReasoningEffort = sent_if (td_groundingReasoningEffort draft) (at_groundingReasoningEffort topic),
          utr_groundingSourceMode = sent_if (td_groundingSourceMode draft) (at_groundingSourceMode topic),
          utr_groundingVerificationMode =
            map_option (\<lambda>b. if b \<noteq> [] then legacyVerificationForBehavior b else []) (sent_if behavior currentBehavior),
          utr_groundingSearchProfile =
            (if topic_profile_changed topic draft \<and> hasGroundingSearchOverride (draft_policy draft)
             then Some (draft_profile draft) else None),
          utr_clearGroundingSearchProfile =
            (if topic_profile_changed topic draft \<and> \<not> hasGroundingSearchOverride (draft_policy draft) \<and>
                at_groundingSearchProfile topic \<noteq> None
             then Some True else None),
          utr_groundingBehavior = sent_if behavior currentBehavior\<rparr>)"

definition hasTopicEditorPatch :: "UpdateTopicRequest \<Rightarrow> bool" where
  "hasTopicEditorPatch patch \<longleftrightarrow>
     utr_promptTemplate patch \<noteq> None \<or> utr_dailyCardCount patch \<noteq> None \<or> utr_dailyTimeZone patch \<noteq> None \<or>
     utr_dailyUpdateTime patch \<noteq> None \<or> utr_compressionLevel patch \<noteq> None \<or> utr_groundingModel patch \<noteq> None \<or>
     utr_groundingReasoningEffort patch \<noteq> None \<or> utr_groundingStrategy patch \<noteq> None \<or>
     utr_groundingSourceMode patch \<noteq> None \<or> utr_groundingVerificationMode patch \<noteq> None \<or>
     utr_groundingBehavior patch \<noteq> None \<or> utr_groundingSearchProfile patch \<noteq> None \<or>
     utr_clearGroundingSearchProfile patch \<noteq> None \<or> utr_imageStrategy patch \<noteq> None"

definition applyTopicEditorDraft :: "AppTopicInfo \<Rightarrow> TopicEditorDraft \<Rightarrow> AppTopicInfo" where
  "applyTopicEditorDraft topic draft = topic\<lparr>
     at_promptTemplate := td_promptTemplate draft,
     at_dailyCardCount := parseDailyCount (td_dailyCardCount draft),
     at_dailyTimeZone := td_dailyTimeZone draft,
     at_dailyUpdateTime := td_dailyUpdateTime draft,
     at_compressionLevel := td_compressionLevel draft,
     at_groundingModel := td_groundingModel draft,
     at_groundingReasoningEffort := td_groundingReasoningEffort draft,
     at_groundingStrategy := td_groundingStrategy draft,
     at_groundingSourceMode := td_groundingSourceMode draft,
     at_groundingBehavior := td_groundingBehavior draft,
     at_groundingVerificationMode :=
       (if td_groundingBehavior draft \<noteq> [] then legacyVerificationForBehavior (td_groundingBehavior draft) else []),
     at_groundingSearchProfile := (if hasGroundingSearchOverride (draft_policy draft) then Some (draft_profile draft) else None),
     at_imageStrategy := td_imageStrategy draft\<rparr>"

section \<open>Documents\<close>

definition topicSourceIds :: "DocumentInfo list \<Rightarrow> bigint \<Rightarrow> bigint list" where
  "topicSourceIds documents topicId = map di_id (filter (\<lambda>document. topicId \<in> set (di_topicIds document)) documents)"

definition setTopicSourceAssignment :: "bigint list \<Rightarrow> bigint \<Rightarrow> bool \<Rightarrow> bigint list" where
  "setTopicSourceAssignment sourceIds documentId assigned =
     (if assigned then if documentId \<in> set sourceIds then sourceIds else sourceIds @ [documentId]
      else filter (\<lambda>sourceId. sourceId \<noteq> documentId) sourceIds)"

definition topicSourceMutations :: "DocumentInfo list \<Rightarrow> bigint \<Rightarrow> bigint list \<Rightarrow> TopicSourceMutation list" where
  "topicSourceMutations documents topicId sourceIds = concat (map (\<lambda>document.
     let assigned = topicId \<in> set (di_topicIds document); selected = di_id document \<in> set sourceIds
     in if assigned = selected then [] else [if selected then Attach (di_id document) else Detach (di_id document)]) documents)"

definition applyTopicSourceIds :: "DocumentInfo list \<Rightarrow> bigint \<Rightarrow> bigint list \<Rightarrow> DocumentInfo list" where
  "applyTopicSourceIds documents topicId sourceIds = map (\<lambda>document.
     let topicIds = setTopicSourceAssignment (di_topicIds document) topicId (di_id document \<in> set sourceIds);
         unchanged = length topicIds = length (di_topicIds document) \<and>
           list_all (\<lambda>(i, n). i = n) (zip topicIds (di_topicIds document))
     in if unchanged then document else document\<lparr>di_topicIds := topicIds\<rparr>) documents"

text \<open>What one call does to the documents of the store: the document it names gains or loses the topic.\<close>

definition run_source_mutation :: "bigint \<Rightarrow> TopicSourceMutation \<Rightarrow> DocumentInfo list \<Rightarrow> DocumentInfo list" where
  "run_source_mutation topicId m documents = map (\<lambda>document. case m of
     Attach d \<Rightarrow> if di_id document = d then document\<lparr>di_topicIds := setTopicSourceAssignment (di_topicIds document) topicId True\<rparr> else document
   | Detach d \<Rightarrow> if di_id document = d then document\<lparr>di_topicIds := setTopicSourceAssignment (di_topicIds document) topicId False\<rparr> else document)
     documents"

lemma same_list: "length xs = length ys \<and> list_all (\<lambda>(i, n). i = n) (zip xs ys) \<longleftrightarrow> xs = ys"
  using list_all2_iff [of "(=)" xs ys] by (simp add: list.rel_eq list_all_iff case_prod_beta)

lemma assignment_same: "setTopicSourceAssignment ids d (d \<in> set ids) = ids"
  by (auto simp: setTopicSourceAssignment_def intro: filter_True)

lemma assignment_member: "d' \<in> set (setTopicSourceAssignment ids d a) \<longleftrightarrow> (if d' = d then a else d' \<in> set ids)"
  by (auto simp: setTopicSourceAssignment_def)

text \<open>\<open>applyTopicSourceIds\<close> without the test for an unchanged list.\<close>

definition assign :: "bigint \<Rightarrow> bigint list \<Rightarrow> DocumentInfo \<Rightarrow> DocumentInfo" where
  "assign topicId sourceIds document =
     document\<lparr>di_topicIds := setTopicSourceAssignment (di_topicIds document) topicId (di_id document \<in> set sourceIds)\<rparr>"

lemma apply_sources: "applyTopicSourceIds documents topicId sourceIds = map (assign topicId sourceIds) documents"
  unfolding applyTopicSourceIds_def same_list by (auto simp: Let_def assign_def)

lemma assign_id [simp]: "di_id (assign t ids document) = di_id document"
  by (simp add: assign_def)

lemma mutations_Cons:
  "topicSourceMutations (d # ds) t ids =
     (if (t \<in> set (di_topicIds d)) = (di_id d \<in> set ids) then []
      else [if di_id d \<in> set ids then Attach (di_id d) else Detach (di_id d)]) @ topicSourceMutations ds t ids"
  by (simp add: topicSourceMutations_def Let_def)

fun mutation_document :: "TopicSourceMutation \<Rightarrow> bigint" where
  "mutation_document (Attach d) = d"
| "mutation_document (Detach d) = d"

lemma mutations_documents: "mutation_document ` set (topicSourceMutations ds t ids) \<subseteq> di_id ` set ds"
  by (induction ds) (auto simp: mutations_Cons topicSourceMutations_def [of "[]"])

lemma run_other: "mutation_document m \<notin> di_id ` set ds \<Longrightarrow> run_source_mutation t m ds = ds"
  by (cases m) (auto simp: run_source_mutation_def intro!: map_idI)

lemma run_append: "run_source_mutation t m (ds @ es) = run_source_mutation t m ds @ run_source_mutation t m es"
  by (simp add: run_source_mutation_def)

lemma run_all_append:
  "fold (run_source_mutation t) ms (ds @ es) = fold (run_source_mutation t) ms ds @ fold (run_source_mutation t) ms es"
  by (induction ms arbitrary: ds es) (simp_all add: run_append)

lemma run_all_other: "mutation_document ` set ms \<inter> di_id ` set ds = {} \<Longrightarrow> fold (run_source_mutation t) ms ds = ds"
  by (induction ms) (auto simp: run_other)

lemma run_own:
  "(t \<in> set (di_topicIds d)) \<noteq> (di_id d \<in> set ids) \<Longrightarrow>
   run_source_mutation t (if di_id d \<in> set ids then Attach (di_id d) else Detach (di_id d)) [d] = [assign t ids d]"
  by (simp add: run_source_mutation_def assign_def)

lemma assign_unchanged: "(t \<in> set (di_topicIds d)) = (di_id d \<in> set ids) \<Longrightarrow> assign t ids d = d"
  using assignment_same [of "di_topicIds d" t] by (simp add: assign_def)

lemma run_mutations:
  "distinct (map di_id ds) \<Longrightarrow> fold (run_source_mutation t) (topicSourceMutations ds t ids) ds = map (assign t ids) ds"
proof (induction ds)
  case Nil
  then show ?case by (simp add: topicSourceMutations_def)
next
  case (Cons d ds)
  have own: "mutation_document ` set (topicSourceMutations ds t ids) \<inter> di_id ` set [assign t ids d] = {}"
    using mutations_documents [of ds t ids] Cons.prems by auto
  have IH: "fold (run_source_mutation t) (topicSourceMutations ds t ids) ds = map (assign t ids) ds"
    using Cons by simp
  have rest: "fold (run_source_mutation t) (topicSourceMutations ds t ids) ([assign t ids d] @ ds) = [assign t ids d] @ map (assign t ids) ds"
    unfolding run_all_append run_all_other [OF own] IH ..
  show ?case
  proof (cases "(t \<in> set (di_topicIds d)) = (di_id d \<in> set ids)")
    case True
    with rest show ?thesis by (simp add: mutations_Cons assign_unchanged)
  next
    case False
    let ?m = "if di_id d \<in> set ids then Attach (di_id d) else Detach (di_id d)"
    have "mutation_document ?m \<notin> di_id ` set ds" using Cons.prems by auto
    have "run_source_mutation t ?m ([d] @ ds) = [assign t ids d] @ ds"
      unfolding run_append run_own [OF False] by (simp only: run_other [OF \<open>mutation_document ?m \<notin> di_id ` set ds\<close>])
    with rest False show ?thesis by (simp add: mutations_Cons)
  qed
qed



section \<open>The patch of a topic\<close>

lemma sent_if_None [simp]: "sent_if a b = None \<longleftrightarrow> a = b"
  by (simp add: sent_if_def)

lemma daily_count_printed [simp]: "0 \<le> n \<Longrightarrow> parseDailyCount (dec_of_int n) = n"
  using parse_printed [of n] by (simp add: parseDailyCount_def parseUnsignedSetting_def Let_def max_def)

lemma draft_fields [simp]:
  "td_promptTemplate (topicEditorDraft topic) = at_promptTemplate topic"
  "td_dailyCardCount (topicEditorDraft topic) = dec_of_int (at_dailyCardCount topic)"
  "td_dailyTimeZone (topicEditorDraft topic) = at_dailyTimeZone topic"
  "td_dailyUpdateTime (topicEditorDraft topic) = at_dailyUpdateTime topic"
  "td_compressionLevel (topicEditorDraft topic) = at_compressionLevel topic"
  "td_groundingModel (topicEditorDraft topic) = at_groundingModel topic"
  "td_groundingReasoningEffort (topicEditorDraft topic) = at_groundingReasoningEffort topic"
  "td_groundingStrategy (topicEditorDraft topic) = at_groundingStrategy topic"
  "td_imageStrategy (topicEditorDraft topic) = at_imageStrategy topic"
  by (simp_all add: topicEditorDraft_def Let_def)

lemma profile_same [simp]: "\<not> topic_profile_changed topic (topicEditorDraft topic)"
  by (simp add: topic_profile_changed_def topicEditorDraft_def Let_def)

lemma legacy_policy_known [simp]:
  "fst (legacyGroundingPolicy s) \<noteq> []" "legacyStrategyForPolicy (fst (legacyGroundingPolicy s)) b \<noteq> None"
  by (simp_all add: legacyStrategyForPolicy_def legacyGroundingPolicy_def)

lemma draft_source:
  "td_groundingSourceMode (topicEditorDraft topic) =
     (if at_groundingSourceMode topic = [] \<and> at_groundingStrategy topic \<noteq> [] then fst (legacyGroundingPolicy (at_groundingStrategy topic))
      else at_groundingSourceMode topic)"
  by (simp add: topicEditorDraft_def Let_def or_else_def)

text \<open>A topic stored since the split of the old strategy: its source mode is there when its strategy is.\<close>

definition typed_topic :: "AppTopicInfo \<Rightarrow> bool" where
  "typed_topic topic \<longleftrightarrow> at_groundingSourceMode topic \<noteq> [] \<or> at_groundingStrategy topic = []"

text \<open>A topic opened and saved untouched sends nothing, exactly when it has a source mode or no strategy to derive one
  from: a topic stored with an old strategy alone sends its derived source mode and strategy, although no field of
  the form was changed.\<close>

theorem untouched_topic_patch:
  assumes "0 \<le> at_dailyCardCount topic"
  shows "hasTopicEditorPatch (topicEditorPatch topic (topicEditorDraft topic)) \<longleftrightarrow> \<not> typed_topic topic"
proof (cases "typed_topic topic")
  case True
  then have "td_groundingSourceMode (topicEditorDraft topic) = at_groundingSourceMode topic"
    by (auto simp: typed_topic_def draft_source)
  with True assms show ?thesis
    by (simp add: hasTopicEditorPatch_def topicEditorPatch_def Let_def topic_policy_changed_def)
next
  case False
  then have "td_groundingSourceMode (topicEditorDraft topic) \<noteq> at_groundingSourceMode topic"
    by (simp add: typed_topic_def draft_source)
  with False show ?thesis by (simp add: hasTopicEditorPatch_def topicEditorPatch_def Let_def)
qed

definition sample_topic :: AppTopicInfo where
  "sample_topic = \<lparr>at_id = 7, at_name = ''Rust'', at_tipcardType = ''topic'', at_promptTemplate = [], at_totalCards = 0, at_dueCards = 0,
     at_completedCards = 0, at_dailyCardCount = 5, at_dailyTimeZone = [], at_dailyUpdateTime = [], at_compressionLevel = [],
     at_groundingStrategy = ''rag'', at_imageStrategy = [], at_iconId = [], at_topicColor = [], at_pendingCards = 0,
     at_groundingModel = [], at_groundingReasoningEffort = [], at_groundingSourceMode = [], at_groundingVerificationMode = [],
     at_groundingSearchProfile = None, at_groundingBehavior = []\<rparr>"

lemma untouched_topic_patch_witness:
  "hasTopicEditorPatch (topicEditorPatch sample_topic (topicEditorDraft sample_topic))"
  using untouched_topic_patch [of sample_topic] by (simp add: sample_topic_def typed_topic_def)

end
