(* ===== verification/Prompt_Template.thy ===== *)
theory Prompt_Template
  imports Topic_Editor
begin

text \<open>
  \<open>lib/pages/prompt-template.ts\<close>: the suggestion of the server for a prompt, put into the form of the settings or of
  a topic, and the reset of a prompt. The template is kept line by line.
\<close>

definition DEFAULT_PROMPT_TEMPLATE :: jsstring where
  "DEFAULT_PROMPT_TEMPLATE = js_join [CHR 0x0A]
    [''Write useful daily tip cards about {topic}.'',
     '''',
     ''Each card should be practical, specific, and worth saving:'',
     ''- the core idea in plain language'',
     ''- why it matters'',
     ''- one concrete example, command, checklist, or mini workflow'',
     ''- one caveat or common mistake when useful'',
     '''',
     ''Keep each card focused. Markdown is allowed. Avoid filler, hype, and invented facts.'']"

text \<open>\<open>suggestedPolicy\<close>: nothing when the suggestion names no strategy.\<close>

definition suggested_policy :: "EnhancePromptTemplateResult \<Rightarrow> (jsstring \<times> jsstring) option" where
  "suggested_policy suggestion =
     (if epr_groundingStrategy suggestion \<noteq> [] then Some (legacyGroundingPolicy (epr_groundingStrategy suggestion)) else None)"

definition suggested :: "(jsstring \<times> jsstring \<Rightarrow> jsstring) \<Rightarrow> (jsstring \<times> jsstring) option \<Rightarrow> jsstring \<Rightarrow> jsstring" where
  "suggested part policy kept = (case policy of None \<Rightarrow> kept | Some p \<Rightarrow> part p)"

definition applyPromptSuggestionToSettings :: "SettingsDraft \<Rightarrow> EnhancePromptTemplateResult \<Rightarrow> SettingsDraft" where
  "applyPromptSuggestionToSettings draft suggestion =
     (let suggestedPolicy = suggested_policy suggestion
      in draft\<lparr>sd_template := epr_promptTemplate suggestion,
               sd_groundingStrategy := or_else (epr_groundingStrategy suggestion) (sd_groundingStrategy draft),
               sd_groundingSourceMode := suggested fst suggestedPolicy (sd_groundingSourceMode draft),
               sd_groundingBehavior := suggested snd suggestedPolicy (sd_groundingBehavior draft),
               sd_groundingModel := or_else (epr_groundingModel suggestion) (sd_groundingModel draft),
               sd_groundingReasoningEffort := or_else (epr_groundingReasoningEffort suggestion) (sd_groundingReasoningEffort draft),
               sd_imageStrategy := or_else (epr_imageStrategy suggestion) (sd_imageStrategy draft)\<rparr>)"

definition applyPromptSuggestionToTopic :: "TopicEditorDraft \<Rightarrow> EnhancePromptTemplateResult \<Rightarrow> TopicEditorDraft" where
  "applyPromptSuggestionToTopic draft suggestion =
     (let suggestedPolicy = suggested_policy suggestion
      in draft\<lparr>td_promptTemplate := epr_promptTemplate suggestion,
               td_groundingStrategy := or_else (epr_groundingStrategy suggestion) (td_groundingStrategy draft),
               td_groundingSourceMode := suggested fst suggestedPolicy (td_groundingSourceMode draft),
               td_groundingBehavior := suggested snd suggestedPolicy (td_groundingBehavior draft),
               td_groundingModel := or_else (epr_groundingModel suggestion) (td_groundingModel draft),
               td_groundingReasoningEffort := or_else (epr_groundingReasoningEffort suggestion) (td_groundingReasoningEffort draft),
               td_imageStrategy := or_else (epr_imageStrategy suggestion) (td_imageStrategy draft)\<rparr>)"

definition resetSettingsPrompt :: "SettingsDraft \<Rightarrow> SettingsDraft" where
  "resetSettingsPrompt draft = draft\<lparr>sd_template := DEFAULT_PROMPT_TEMPLATE\<rparr>"

definition resetTopicPrompt :: "TopicEditorDraft \<Rightarrow> jsstring \<Rightarrow> TopicEditorDraft" where
  "resetTopicPrompt draft currentPrompt = draft\<lparr>td_promptTemplate := or_else (js_trim currentPrompt) DEFAULT_PROMPT_TEMPLATE\<rparr>"

lemma suggestion_idem_settings:
  "applyPromptSuggestionToSettings (applyPromptSuggestionToSettings d s) s = applyPromptSuggestionToSettings d s"
  by (simp add: applyPromptSuggestionToSettings_def Let_def suggested_def or_else_def split: option.splits)

lemma suggestion_idem_topic:
  "applyPromptSuggestionToTopic (applyPromptSuggestionToTopic d s) s = applyPromptSuggestionToTopic d s"
  by (simp add: applyPromptSuggestionToTopic_def Let_def suggested_def or_else_def split: option.splits)

lemma reset_never_empty: "td_promptTemplate (resetTopicPrompt d p) \<noteq> []"
  by (simp add: resetTopicPrompt_def or_else_def DEFAULT_PROMPT_TEMPLATE_def)

text \<open>A suggested strategy and the policy a suggestion sets agree: the strategy derived from the policy is the one named.\<close>

lemma suggestion_consistent:
  assumes "epr_groundingStrategy s = strategy_str st"
  shows "legacyStrategyForPolicy (sd_groundingSourceMode (applyPromptSuggestionToSettings d s))
      (sd_groundingBehavior (applyPromptSuggestionToSettings d s)) = Some (sd_groundingStrategy (applyPromptSuggestionToSettings d s))"
  using assms by (cases st) (simp_all add: applyPromptSuggestionToSettings_def suggested_policy_def suggested_def
      legacyGroundingPolicy_def legacyStrategyForPolicy_def)

end
