(* ===== verification/Topic_Dialog.thy ===== *)
theory Topic_Dialog
  imports Prompt_Template I18n
begin

text \<open>
  \<open>components/pages/TopicEditorDialog.tsx\<close> with the \<open>editing\<close> state of \<open>GroundingPage.tsx\<close> it shows. The dialog is
  mounted once: its draft is not tied to a topic, and \<open>null\<close> means the topic as loaded. As on the settings
  page an \<open>await\<close> splits a handler, and what the closure captured is an argument of the second half.
\<close>

definition INHERIT :: jsstring where "INHERIT = ''inherit''"

definition compressionLabel :: "catalog \<Rightarrow> jsstring \<Rightarrow> jsstring" where
  "compressionLabel cat v =
     (if v = ''light'' then i18n_t cat ''common.light'' else if v = ''balanced'' then i18n_t cat ''settings.compression.balanced''
      else if v = ''strong'' then i18n_t cat ''settings.compression.strong'' else if v = ''ultra'' then i18n_t cat ''settings.compression.ultra''
      else v)"

definition storedStrategy :: "jsstring \<Rightarrow> jsstring" where
  "storedStrategy v = (if v = [] then INHERIT else v)"

definition selectedStrategy :: "jsstring \<Rightarrow> jsstring" where
  "selectedStrategy v = (if v = INHERIT then [] else v)"

definition imageStrategyLabel :: "catalog \<Rightarrow> jsstring \<Rightarrow> jsstring" where
  "imageStrategyLabel cat v =
     (if v = INHERIT then i18n_t cat ''grounding.topic_editor.inherit''
      else if v \<in> {''none'', ''pool'', ''bing_html'', ''bing_playwright'', ''ddgs_text_og''}
      then i18n_t cat (''grounding.image_strategy.'' @ v) else v)"

definition reasoningEffortLabel :: "catalog \<Rightarrow> jsstring \<Rightarrow> jsstring" where
  "reasoningEffortLabel cat v =
     (if v = INHERIT then i18n_t cat ''grounding.topic_editor.inherit''
      else if v = ''none'' then i18n_t cat ''common.none''
      else if v = ''minimal'' then i18n_t cat ''settings.reasoning.minimal''
      else if v = ''low'' then i18n_t cat ''common.low''
      else if v = ''medium'' then i18n_t cat ''common.medium''
      else if v = ''high'' then i18n_t cat ''common.high''
      else if v = ''xhigh'' then i18n_t cat ''settings.reasoning.extra_high''
      else v)"

definition topic_sourceTypeLabel :: "catalog \<Rightarrow> jsstring \<Rightarrow> jsstring" where
  "topic_sourceTypeLabel cat sourceType =
     (if sourceType = ''document'' then i18n_t cat ''format.source_type.document''
      else if sourceType = ''link'' then i18n_t cat ''format.source_type.link'' else sourceType)"

definition previewSourceLabel :: "catalog \<Rightarrow> jsstring \<Rightarrow> jsstring" where
  "previewSourceLabel cat sourceMode =
     (if sourceMode \<in> set GROUNDING_SOURCE_MODES then i18n_t cat (''grounding.policy.source_'' @ sourceMode) else sourceMode)"

definition previewBehaviorLabel :: "catalog \<Rightarrow> jsstring \<Rightarrow> jsstring" where
  "previewBehaviorLabel cat behavior =
     (if behavior \<in> set GROUNDING_BEHAVIORS then i18n_t cat (''grounding.policy.behavior_'' @ behavior) else behavior)"

datatype PreviewState = PreviewIdle | PreviewLoading | PreviewReady PreviewGroundingResult | PreviewError jsstring

text \<open>\<open>editorPolicy\<close> is the policy the patch tests as well.\<close>

definition editorPolicy :: "TopicEditorDraft \<Rightarrow> GroundingPolicyDraft" where
  "editorPolicy draft = \<lparr>gd_sourceMode = td_groundingSourceMode draft, gd_behavior = td_groundingBehavior draft,
     gd_searchDepth = td_groundingSearchDepth draft, gd_freshness = td_groundingFreshness draft,
     gd_searchGuidance = td_groundingSearchGuidance draft, gd_includeDomains = td_groundingIncludeDomains draft,
     gd_failurePolicy = td_groundingFailurePolicy draft\<rparr>"

definition inheritedPolicy :: "SettingsDraft \<Rightarrow> ResolvedGroundingPolicy" where
  "inheritedPolicy settings = \<lparr>gr_sourceMode = sd_groundingSourceMode settings, gr_behavior = sd_groundingBehavior settings,
     gr_searchDepth = sd_groundingSearchDepth settings, gr_freshness = sd_groundingFreshness settings,
     gr_searchGuidance = sd_groundingSearchGuidance settings, gr_includeDomains = parseDomainList (sd_groundingIncludeDomains settings),
     gr_failurePolicy = sd_groundingFailurePolicy settings\<rparr>"

record TopicDialog =
  dlg_topic :: "AppTopicInfo option"
  dlg_draft :: "TopicEditorDraft option"
  dlg_saving :: bool
  dlg_enhancing :: bool
  dlg_rationale :: jsstring
  dlg_defaults :: "ResolvedGroundingPolicy option"
  dlg_provider :: jsstring
  dlg_preview :: PreviewState
  dlg_sources :: "(bigint \<times> bigint list) option"

definition INITIAL_DIALOG :: TopicDialog where
  "INITIAL_DIALOG = \<lparr>dlg_topic = None, dlg_draft = None, dlg_saving = False, dlg_enhancing = False, dlg_rationale = [],
     dlg_defaults = None, dlg_provider = ''native'', dlg_preview = PreviewIdle, dlg_sources = None\<rparr>"

definition draft_or_topic :: "TopicEditorDraft option \<Rightarrow> AppTopicInfo \<Rightarrow> TopicEditorDraft" where
  "draft_or_topic draft topic = (case draft of None \<Rightarrow> topicEditorDraft topic | Some d \<Rightarrow> d)"

definition dialog_shown :: "TopicDialog \<Rightarrow> TopicEditorDraft option" where
  "dialog_shown d = map_option (draft_or_topic (dlg_draft d)) (dlg_topic d)"

definition shownSourceIds :: "DocumentInfo list \<Rightarrow> TopicDialog \<Rightarrow> bigint list" where
  "shownSourceIds documents d =
     (case dlg_topic d of
        None \<Rightarrow> []
      | Some topic \<Rightarrow> (case dlg_sources d of
          Some (topicId, sourceIds) \<Rightarrow> if topicId = at_id topic then sourceIds else topicSourceIds documents (at_id topic)
        | None \<Rightarrow> topicSourceIds documents (at_id topic)))"

text \<open>The page opens a topic; \<open>onClose\<close> only clears the page's state, and so does the Close button.\<close>

definition onEdit :: "AppTopicInfo \<Rightarrow> TopicDialog \<Rightarrow> TopicDialog" where
  "onEdit topic d = d\<lparr>dlg_topic := Some topic\<rparr>"

definition onClose :: "TopicDialog \<Rightarrow> TopicDialog" where
  "onClose d = d\<lparr>dlg_topic := None\<rparr>"

definition reset_dialog :: "TopicDialog \<Rightarrow> TopicDialog" where
  "reset_dialog d = d\<lparr>dlg_draft := None, dlg_sources := None, dlg_rationale := [], dlg_preview := PreviewIdle\<rparr>"

text \<open>Escape, the overlay and the cross.\<close>

definition onOpenChange :: "bool \<Rightarrow> TopicDialog \<Rightarrow> TopicDialog" where
  "onOpenChange nextOpen d = (if \<not> nextOpen \<and> \<not> dlg_saving d \<and> \<not> dlg_enhancing d then onClose (reset_dialog d) else d)"

definition close_button :: "TopicDialog \<Rightarrow> TopicDialog" where
  "close_button d = (if dlg_saving d \<or> dlg_enhancing d then d else onClose d)"

text \<open>The answer of the effect's \<open>getSettings\<close>, unless the effect was cancelled.\<close>

definition defaults_settled :: "bool \<Rightarrow> jsstring + Settings \<Rightarrow> TopicDialog \<Rightarrow> TopicDialog" where
  "defaults_settled cancelled answer d =
     (if cancelled then d
      else case answer of
        Inl _ \<Rightarrow> d\<lparr>dlg_defaults := None\<rparr>
      | Inr settings \<Rightarrow> d\<lparr>dlg_defaults := Some (inheritedPolicy (settingsDraft settings)),
                       dlg_provider := sd_searchProvider (settingsDraft settings)\<rparr>)"

definition topic_setField :: "(TopicEditorDraft \<Rightarrow> TopicEditorDraft) \<Rightarrow> TopicDialog \<Rightarrow> TopicDialog" where
  "topic_setField upd d =
     (case dlg_topic d of None \<Rightarrow> d | Some topic \<Rightarrow> d\<lparr>dlg_draft := Some (upd (draft_or_topic (dlg_draft d) topic))\<rparr>)"

definition topic_with_policy :: "GroundingPolicyDraft \<Rightarrow> TopicEditorDraft \<Rightarrow> TopicEditorDraft" where
  "topic_with_policy policy draft = draft\<lparr>
     td_groundingSourceMode := gd_sourceMode policy, td_groundingBehavior := gd_behavior policy,
     td_groundingSearchDepth := gd_searchDepth policy, td_groundingFreshness := gd_freshness policy,
     td_groundingSearchGuidance := gd_searchGuidance policy, td_groundingIncludeDomains := gd_includeDomains policy,
     td_groundingFailurePolicy := gd_failurePolicy policy,
     td_groundingStrategy :=
       (if gd_sourceMode policy = [] then []
        else case legacyStrategyForPolicy (gd_sourceMode policy) (or_else (gd_behavior policy) ''standard'') of
            None \<Rightarrow> ''undefined'' | Some s \<Rightarrow> s)\<rparr>"

definition setPolicy :: "GroundingPolicyDraft \<Rightarrow> TopicDialog \<Rightarrow> TopicDialog" where
  "setPolicy policy d =
     (case dlg_topic d of None \<Rightarrow> d | Some _ \<Rightarrow> (topic_setField (topic_with_policy policy) d)\<lparr>dlg_preview := PreviewIdle\<rparr>)"

definition setSource :: "DocumentInfo list \<Rightarrow> bigint \<Rightarrow> bool \<Rightarrow> TopicDialog \<Rightarrow> TopicDialog" where
  "setSource documents documentId checked d =
     (case dlg_topic d of None \<Rightarrow> d
      | Some topic \<Rightarrow> d\<lparr>dlg_sources := Some (at_id topic, setTopicSourceAssignment (shownSourceIds documents d) documentId checked)\<rparr>)"

text \<open>\<open>runPreview\<close>: the request of the preview.\<close>

definition preview_started :: "DocumentInfo list \<Rightarrow> TopicDialog \<Rightarrow> TopicDialog \<times> PreviewGroundingRequest option" where
  "preview_started documents d =
     (case dlg_topic d of
        None \<Rightarrow> (d, None)
      | Some topic \<Rightarrow>
          let effective = resolveGroundingPolicy (editorPolicy (draft_or_topic (dlg_draft d) topic))
                (case dlg_defaults d of None \<Rightarrow> DEFAULT_POLICY | Some p \<Rightarrow> p)
          in (d\<lparr>dlg_preview := PreviewLoading\<rparr>,
              Some \<lparr>pq_topicId = at_id topic, pq_groundingSourceMode = Some (gr_sourceMode effective),
                    pq_groundingVerificationMode = Some (legacyVerificationForBehavior (gr_behavior effective)),
                    pq_groundingSearchProfile = Some \<lparr>gs_depth = gr_searchDepth effective, gs_freshness = gr_freshness effective,
                      gs_guidance = gr_searchGuidance effective, gs_includeDomains = gr_includeDomains effective,
                      gs_failurePolicy = gr_failurePolicy effective\<rparr>,
                    pq_documentIds = shownSourceIds documents d, pq_groundingBehavior = Some (gr_behavior effective)\<rparr>))"

definition preview_settled :: "jsstring + PreviewGroundingResult \<Rightarrow> TopicDialog \<Rightarrow> TopicDialog" where
  "preview_settled answer d = d\<lparr>dlg_preview := (case answer of Inl message \<Rightarrow> PreviewError message | Inr preview \<Rightarrow> PreviewReady preview)\<rparr>"

text \<open>\<open>resetPrompt\<close> and \<open>enhancePrompt\<close> after their answer, for the topic the closure holds; a toast may show.\<close>

definition topic_resetPrompt :: "AppTopicInfo \<Rightarrow> jsstring + Settings \<Rightarrow> TopicDialog \<Rightarrow> TopicDialog \<times> jsstring option" where
  "topic_resetPrompt topic answer d =
     (case answer of
        Inl message \<Rightarrow> (d, Some message)
      | Inr settings \<Rightarrow>
          (d\<lparr>dlg_draft := Some (resetTopicPrompt (draft_or_topic (dlg_draft d) topic) (set_template settings)), dlg_rationale := []\<rparr>, None))"

definition topic_enhance_started :: "TopicDialog \<Rightarrow> TopicDialog" where
  "topic_enhance_started d = (case dlg_topic d of None \<Rightarrow> d | Some _ \<Rightarrow> d\<lparr>dlg_enhancing := True\<rparr>)"

definition topic_enhance_settled ::
    "catalog \<Rightarrow> AppTopicInfo \<Rightarrow> jsstring + EnhancePromptTemplateResult \<Rightarrow> TopicDialog \<Rightarrow> TopicDialog \<times> jsstring" where
  "topic_enhance_settled cat topic answer d =
     (case answer of
        Inl message \<Rightarrow> (d\<lparr>dlg_enhancing := False\<rparr>, message)
      | Inr suggestion \<Rightarrow>
          (d\<lparr>dlg_draft := Some (applyPromptSuggestionToTopic (draft_or_topic (dlg_draft d) topic) suggestion),
             dlg_rationale := epr_rationale suggestion, dlg_enhancing := False\<rparr>,
           i18n_t cat ''grounding.topic_editor.prompt_enhanced''))"

text \<open>\<open>save\<close>: the calls it makes, the patch first and only when there is one, and what it hands to \<open>onSaved\<close>.\<close>

record TopicSave =
  tsv_topic :: AppTopicInfo
  tsv_draft :: TopicEditorDraft
  tsv_patch :: "UpdateTopicRequest option"
  tsv_mutations :: "TopicSourceMutation list"
  tsv_sourceIds :: "bigint list"

definition topic_save_started :: "DocumentInfo list \<Rightarrow> TopicDialog \<Rightarrow> TopicDialog \<times> TopicSave option" where
  "topic_save_started documents d =
     (case dlg_topic d of
        None \<Rightarrow> (d, None)
      | Some topic \<Rightarrow>
          let next = draft_or_topic (dlg_draft d) topic; patch = topicEditorPatch topic next
          in (d\<lparr>dlg_saving := True\<rparr>,
              Some \<lparr>tsv_topic = topic, tsv_draft = next,
                    tsv_patch = (if hasTopicEditorPatch patch then Some patch else None),
                    tsv_mutations = topicSourceMutations documents (at_id topic) (shownSourceIds documents d),
                    tsv_sourceIds = shownSourceIds documents d\<rparr>))"

text \<open>The page's \<open>onSaved\<close> closes the dialog and puts the saved topic and assignments in place of the loaded ones.\<close>

definition page_onSaved :: "AppTopicInfo \<Rightarrow> bigint list \<Rightarrow> AppTopicInfo list \<times> DocumentInfo list \<Rightarrow> AppTopicInfo list \<times> DocumentInfo list" where
  "page_onSaved topic sourceIds page =
     (map (\<lambda>item. if at_id item = at_id topic then topic else item) (fst page), applyTopicSourceIds (snd page) (at_id topic) sourceIds)"

definition topic_save_settled ::
    "catalog \<Rightarrow> TopicSave \<Rightarrow> jsstring + unit \<Rightarrow> TopicDialog \<Rightarrow> AppTopicInfo list \<times> DocumentInfo list \<Rightarrow>
     TopicDialog \<times> (AppTopicInfo list \<times> DocumentInfo list) \<times> jsstring" where
  "topic_save_settled cat sent answer d page =
     (case answer of
        Inl message \<Rightarrow> (d\<lparr>dlg_saving := False\<rparr>, page, message)
      | Inr _ \<Rightarrow> ((reset_dialog (onClose d))\<lparr>dlg_saving := False\<rparr>,
                   page_onSaved (applyTopicEditorDraft (tsv_topic sent) (tsv_draft sent)) (tsv_sourceIds sent) page,
                   i18n_t cat ''grounding.topic_editor.saved''))"

section \<open>What a save sends and shows\<close>

lemma strategies_round_trip: "v \<noteq> INHERIT \<Longrightarrow> selectedStrategy (storedStrategy v) = v"
  by (simp add: selectedStrategy_def storedStrategy_def INHERIT_def)

lemma draft_or_topic_simps [simp]: "draft_or_topic None topic = topicEditorDraft topic" "draft_or_topic (Some x) topic = x"
  by (simp_all add: draft_or_topic_def)

text \<open>A save of the documents reaches the server and the page alike: the calls bring the server's documents to the
  assignment the dialog showed, and after it the page shows that assignment and the dialog is closed and clean.\<close>

theorem topic_save_documents:
  assumes "distinct (map di_id documents)" and "dlg_topic d = Some topic"
  shows "\<exists>sent. snd (topic_save_started documents d) = Some sent \<and>
      (let (d', page, toast) = topic_save_settled cat sent (Inr ()) (fst (topic_save_started documents d)) (topics, documents)
       in snd page = fold (run_source_mutation (at_id topic)) (tsv_mutations sent) documents \<and>
          dlg_topic d' = None \<and> dlg_draft d' = None \<and> dlg_sources d' = None \<and> \<not> dlg_saving d')"
  using assms(2) run_mutations [OF assms(1), of "at_id topic" "shownSourceIds documents d"]
  by (simp add: topic_save_started_def topic_save_settled_def page_onSaved_def apply_sources reset_dialog_def onClose_def
      applyTopicEditorDraft_def Let_def)

lemma topic_save_documents_witness:
  "\<exists>sent. snd (topic_save_started [] (onEdit sample_topic INITIAL_DIALOG)) = Some sent"
  using topic_save_documents [of "[]" "onEdit sample_topic INITIAL_DIALOG" sample_topic "\<lambda>k. k" "[]"]
  by (auto simp: onEdit_def)

text \<open>C32: the Close button leaves the edited draft behind: the next topic that is opened shows the first topic's draft as its
  own, and saving it sends the first topic's values under the second topic's id.\<close>

theorem close_button_carries_draft:
  assumes "\<not> dlg_saving d" and "\<not> dlg_enhancing d" and "dlg_topic d = Some first" and "template \<noteq> at_promptTemplate second"
  shows "let edited = topic_setField (\<lambda>x. x\<lparr>td_promptTemplate := template\<rparr>) d;
             reopened = onEdit second (close_button edited)
         in dialog_shown reopened = dlg_draft edited \<and>
            (\<exists>sent patch. snd (topic_save_started documents reopened) = Some sent \<and> tsv_patch sent = Some patch \<and>
               utr_id patch = at_id second \<and> utr_promptTemplate patch = Some template)"
  using assms
  by (auto simp: topic_setField_def close_button_def onClose_def onEdit_def dialog_shown_def topic_save_started_def Let_def
      topicEditorPatch_def hasTopicEditorPatch_def sent_if_def)

lemma close_button_carries_draft_witness:
  "dialog_shown (onEdit (sample_topic\<lparr>at_id := 8\<rparr>) (close_button
      (topic_setField (\<lambda>x. x\<lparr>td_promptTemplate := ''p''\<rparr>) (onEdit sample_topic INITIAL_DIALOG)))) =
   Some ((topicEditorDraft sample_topic)\<lparr>td_promptTemplate := ''p''\<rparr>)"
  using close_button_carries_draft [of "onEdit sample_topic INITIAL_DIALOG" sample_topic "''p''" "sample_topic\<lparr>at_id := 8\<rparr>" "[]"]
  by (simp add: onEdit_def INITIAL_DIALOG_def sample_topic_def topic_setField_def Let_def)

text \<open>The other ways to leave reset the draft: the topic opened next is shown as it was loaded.\<close>

lemma dismissed_draft_gone:
  assumes "\<not> dlg_saving d" and "\<not> dlg_enhancing d"
  shows "dialog_shown (onEdit second (onOpenChange False d)) = Some (topicEditorDraft second)"
  using assms by (simp add: onOpenChange_def onClose_def reset_dialog_def onEdit_def dialog_shown_def)

text \<open>A late answer of the prompt reset puts the draft of the topic it was asked for into the dialog of another.\<close>

lemma late_reset_crosses_topics:
  assumes "\<not> dlg_saving d" and "\<not> dlg_enhancing d"
  shows "dialog_shown (fst (topic_resetPrompt first (Inr settings) (onEdit second (onOpenChange False d)))) =
    Some (resetTopicPrompt (topicEditorDraft first) (set_template settings))"
  using assms by (simp add: topic_resetPrompt_def onOpenChange_def onClose_def reset_dialog_def onEdit_def dialog_shown_def)

text \<open>The draft the dialog keeps has the strategy its policy stands for, so the page shows what the server stores.\<close>

lemma set_policy_strategy:
  assumes "dlg_topic d = Some topic" and "gd_sourceMode policy \<noteq> []" and "gd_behavior policy \<noteq> []"
    and "dlg_draft (setPolicy policy d) = Some next" and "topic_policy_changed topic next"
    and "legacyStrategyForPolicy (gd_sourceMode policy) (gd_behavior policy) = Some s"
  shows "utr_groundingStrategy (topicEditorPatch topic next) = Some (at_groundingStrategy (applyTopicEditorDraft topic next))"
  using assms by (auto simp: setPolicy_def topic_setField_def topic_with_policy_def topicEditorPatch_def applyTopicEditorDraft_def Let_def)

end
