(* ===== verification/Policy_Editor.thy ===== *)
theory Policy_Editor
  imports Grounding_Policy I18n
begin

text \<open>
  \<open>components/pages/GroundingPolicyEditor.tsx\<close>: what its toggles make of the policy draft. A toggle hands over the value
  of the pressed item, or nothing when the pressed item was released; a select hands over one of its options.
\<close>

definition sourceChoice :: "jsstring option \<Rightarrow> jsstring option" where
  "sourceChoice v = (case v of Some s \<Rightarrow> if s \<in> {''inherit'', ''model'', ''web'', ''documents'', ''web_and_documents''} then Some s else None
     | None \<Rightarrow> None)"

definition behaviorChoice :: "jsstring option \<Rightarrow> jsstring option" where
  "behaviorChoice v = (case v of Some s \<Rightarrow> if s \<in> {''inherit'', ''standard'', ''fact_check'', ''agentic''} then Some s else None
     | None \<Rightarrow> None)"

definition sourceDescription :: "catalog \<Rightarrow> jsstring \<Rightarrow> jsstring option" where
  "sourceDescription cat v =
     (if v \<in> set GROUNDING_SOURCE_MODES then Some (i18n_t cat (''grounding.policy.source_'' @ v @ ''_description'')) else None)"

definition behaviorDescription :: "catalog \<Rightarrow> jsstring \<Rightarrow> jsstring option" where
  "behaviorDescription cat v =
     (if v \<in> set GROUNDING_BEHAVIORS then Some (i18n_t cat (''grounding.policy.behavior_'' @ v @ ''_description'')) else None)"

text \<open>\<open>resolveGroundingPolicy\<close> with its default argument.\<close>

definition policyValue :: "GroundingPolicyDraft \<Rightarrow> ResolvedGroundingPolicy option \<Rightarrow> ResolvedGroundingPolicy" where
  "policyValue draft inherited = resolveGroundingPolicy draft (case inherited of None \<Rightarrow> DEFAULT_POLICY | Some p \<Rightarrow> p)"

text \<open>The changes the editor reports; nothing when the press is ignored.\<close>

definition choose_source :: "GroundingPolicyDraft \<Rightarrow> jsstring option \<Rightarrow> GroundingPolicyDraft option" where
  "choose_source draft next = map_option (\<lambda>selected.
     draft\<lparr>gd_sourceMode := (if selected = ''inherit'' then [] else selected),
           gd_behavior := (if selected = ''model'' then ''standard'' else gd_behavior draft)\<rparr>) (sourceChoice next)"

definition choose_behavior :: "GroundingPolicyDraft \<Rightarrow> jsstring option \<Rightarrow> GroundingPolicyDraft option" where
  "choose_behavior draft next = map_option (\<lambda>selected.
     draft\<lparr>gd_behavior := (if selected = ''inherit'' then [] else selected)\<rparr>) (behaviorChoice next)"

definition choose_search :: "GroundingPolicyDraft \<Rightarrow> ResolvedGroundingPolicy option \<Rightarrow> jsstring option \<Rightarrow> GroundingPolicyDraft option" where
  "choose_search draft inherited next =
     (if next = Some ''inherit'' then Some (clearGroundingSearchOverride draft)
      else if next = Some ''custom'' then Some (customizeGroundingSearch draft (policyValue draft inherited))
      else None)"

text \<open>What the toggles show pressed.\<close>

definition shown_source :: "GroundingPolicyDraft \<Rightarrow> jsstring" where
  "shown_source draft = or_else (gd_sourceMode draft) ''inherit''"

definition shown_behavior :: "GroundingPolicyDraft \<Rightarrow> ResolvedGroundingPolicy option \<Rightarrow> jsstring" where
  "shown_behavior draft inherited =
     (if gr_sourceMode (policyValue draft inherited) = ''model'' then ''standard'' else or_else (gd_behavior draft) ''inherit'')"

definition shown_search :: "GroundingPolicyDraft \<Rightarrow> jsstring" where
  "shown_search draft = (if hasGroundingSearchOverride draft then ''custom'' else ''inherit'')"

text \<open>\<open>PolicySelect\<close>: the option with the value the select hands over.\<close>

definition policy_selected :: "('v \<times> jsstring) list \<Rightarrow> 'v option \<Rightarrow> 'v option" where
  "policy_selected options next = map_option fst (find (\<lambda>option. Some (fst option) = next) options)"

section \<open>Pressing and showing\<close>

lemma choose_source_Some:
  "choose_source draft (Some s) = Some draft' \<longleftrightarrow>
     s \<in> {''inherit'', ''model'', ''web'', ''documents'', ''web_and_documents''} \<and>
     draft' = draft\<lparr>gd_sourceMode := (if s = ''inherit'' then [] else s),
       gd_behavior := (if s = ''model'' then ''standard'' else gd_behavior draft)\<rparr>"
  unfolding choose_source_def sourceChoice_def by (simp split: if_split) blast

lemma choose_behavior_Some:
  "choose_behavior draft (Some s) = Some draft' \<longleftrightarrow>
     s \<in> {''inherit'', ''standard'', ''fact_check'', ''agentic''} \<and> draft' = draft\<lparr>gd_behavior := (if s = ''inherit'' then [] else s)\<rparr>"
  unfolding choose_behavior_def behaviorChoice_def by (simp split: if_split) blast

lemma source_press_shown:
  assumes "choose_source draft (Some s) = Some draft'"
  shows "shown_source draft' = s" and "gd_searchDepth draft' = gd_searchDepth draft"
  using assms unfolding choose_source_Some by (auto simp: shown_source_def or_else_def)

lemma behavior_press_shown:
  assumes "choose_behavior draft (Some s) = Some draft'" and "gr_sourceMode (policyValue draft inherited) \<noteq> ''model''"
  shows "shown_behavior draft' inherited = s"
proof -
  have "gr_sourceMode (policyValue draft' inherited) = gr_sourceMode (policyValue draft inherited)"
    using assms(1) unfolding choose_behavior_Some by (simp add: policyValue_def resolveGroundingPolicy_def Let_def)
  moreover have "or_else (gd_behavior draft') ''inherit'' = s"
    using assms(1) unfolding choose_behavior_Some by (auto simp: or_else_def)
  ultimately show ?thesis using assms(2) by (simp add: shown_behavior_def)
qed

lemma search_clear_shown: "choose_search draft inherited (Some ''inherit'') = Some draft' \<Longrightarrow> shown_search draft' = ''inherit''"
  by (auto simp: choose_search_def shown_search_def clearGroundingSearchOverride_def hasGroundingSearchOverride_def)

lemma search_custom_shown:
  assumes "effective_policy (case inherited of None \<Rightarrow> DEFAULT_POLICY | Some p \<Rightarrow> p)"
    and "choose_search draft inherited (Some ''custom'') = Some draft'"
  shows "shown_search draft' = ''custom''"
  using assms(2) resolved_effective [OF assms(1), of draft]
  by (auto simp: choose_search_def shown_search_def customizeGroundingSearch_def hasGroundingSearchOverride_def policyValue_def
      effective_policy_def)

text \<open>The model as a source never leaves another behaviour selected.\<close>

lemma model_press_standard:
  "choose_source draft (Some ''model'') = Some draft' \<Longrightarrow> gr_behavior (policyValue draft' inherited) = ''standard''"
  unfolding choose_source_Some by (simp add: policyValue_def resolveGroundingPolicy_def or_else_def normalizeBehavior_def Let_def)

end
