(* ===== verification/Grounding_Page.thy ===== *)
theory Grounding_Page
  imports Topic_Dialog Policy_Editor Http_Session
begin

text \<open>
  \<open>components/pages/GroundingPage.tsx\<close>: the four lists of the page, the mutation that is under way and the topic that is
  being edited (the dialog of \<open>Topic_Dialog\<close>). While the page loads, its lists are gone and the dialog, which stays
  open, gets an empty list of documents. The icon picker is \<open>Icon_Picker\<close>.
\<close>

record GroundingData =
  grd_summary :: AppSummary
  grd_topics :: "AppTopicInfo list"
  grd_documents :: "DocumentInfo list"
  grd_images :: "PoolImageInfo list"

datatype GroundingState = GroundLoading | GroundReady GroundingData | GroundError jsstring

datatype MutationState = MutationIdle | MutationSaving jsstring | MutationSuccess jsstring | MutationError jsstring

record GroundingPage =
  grp_state :: GroundingState
  grp_mutation :: MutationState
  grp_tokenSpend :: "TokenSpend option"
  grp_dialog :: TopicDialog

definition INITIAL_GROUNDING_PAGE :: GroundingPage where
  "INITIAL_GROUNDING_PAGE = \<lparr>grp_state = GroundLoading, grp_mutation = MutationIdle, grp_tokenSpend = None, grp_dialog = INITIAL_DIALOG\<rparr>"

definition ground_load_started :: "GroundingPage \<Rightarrow> GroundingPage" where
  "ground_load_started p = p\<lparr>grp_state := GroundLoading\<rparr>"

text \<open>\<open>Promise.all\<close>: the first call that failed, or all the answers; the spend is \<open>None\<close> when its call failed.\<close>

definition ground_load_settled :: "jsstring + GroundingData \<times> TokenSpend option \<Rightarrow> GroundingPage \<Rightarrow> GroundingPage" where
  "ground_load_settled answer p =
     (case answer of
        Inl message \<Rightarrow> p\<lparr>grp_state := GroundError message\<rparr>
      | Inr (data, spend) \<Rightarrow> p\<lparr>grp_tokenSpend := spend, grp_state := GroundReady data\<rparr>)"

text \<open>\<open>run\<close>: the action starts at once; its success starts a load, whose errors \<open>load\<close> itself shows.\<close>

definition run_started :: "jsstring \<Rightarrow> GroundingPage \<Rightarrow> GroundingPage" where
  "run_started label p = p\<lparr>grp_mutation := MutationSaving label\<rparr>"

definition run_settled :: "catalog \<Rightarrow> jsstring \<Rightarrow> jsstring + unit \<Rightarrow> GroundingPage \<Rightarrow> GroundingPage" where
  "run_settled cat label answer p =
     (case answer of
        Inl message \<Rightarrow> p\<lparr>grp_mutation := MutationError message\<rparr>
      | Inr _ \<Rightarrow> ground_load_started
          (p\<lparr>grp_mutation := MutationSuccess (i18n_tf cat ''grounding.action_complete'' [(''action'', label)])\<rparr>))"

definition ground_busy :: "GroundingPage \<Rightarrow> bool" where
  "ground_busy p = (case grp_mutation p of MutationSaving _ \<Rightarrow> True | _ \<Rightarrow> False)"

text \<open>The action of the vision test fails when the model does.\<close>

definition vision_action :: "jsstring + VisionModelTest \<Rightarrow> jsstring + unit" where
  "vision_action answer = (case answer of Inl m \<Rightarrow> Inl m | Inr r \<Rightarrow> if vm_ok r then Inr () else Inl (vm_message r))"

definition shown_documents :: "GroundingPage \<Rightarrow> DocumentInfo list" where
  "shown_documents p = (case grp_state p of GroundReady data \<Rightarrow> grd_documents data | _ \<Rightarrow> [])"

definition icon_applied :: "catalog \<Rightarrow> bigint \<Rightarrow> jsstring \<Rightarrow> GroundingPage \<Rightarrow> GroundingPage" where
  "icon_applied cat topicId iconId p =
     (let p1 = (case grp_state p of
          GroundReady data \<Rightarrow> p\<lparr>grp_state := GroundReady (data\<lparr>grd_topics :=
            map (\<lambda>topic. if at_id topic = topicId then topic\<lparr>at_iconId := iconId\<rparr> else topic) (grd_topics data)\<rparr>)\<rparr>
        | _ \<Rightarrow> p)
      in p1\<lparr>grp_mutation := MutationSuccess (i18n_t cat ''grounding.icon_picker.updated'')\<rparr>)"

text \<open>The dialog's \<open>save\<close> on the page, and the page's \<open>onSaved\<close>, which finds the state of the moment.\<close>

definition ground_save_started :: "GroundingPage \<Rightarrow> GroundingPage \<times> TopicSave option" where
  "ground_save_started p =
     (let (d, sent) = topic_save_started (shown_documents p) (grp_dialog p) in (p\<lparr>grp_dialog := d\<rparr>, sent))"

definition ground_save_settled :: "catalog \<Rightarrow> TopicSave \<Rightarrow> jsstring + unit \<Rightarrow> GroundingPage \<Rightarrow> GroundingPage" where
  "ground_save_settled cat sent answer p =
     (let lists = (case grp_state p of GroundReady data \<Rightarrow> (grd_topics data, grd_documents data) | _ \<Rightarrow> ([], []));
          (d, lists', toast) = topic_save_settled cat sent answer (grp_dialog p) lists
      in p\<lparr>grp_dialog := d, grp_state := (case grp_state p of
             GroundReady data \<Rightarrow> GroundReady (data\<lparr>grd_topics := fst lists', grd_documents := snd lists'\<rparr>)
           | other \<Rightarrow> other)\<rparr>)"

section \<open>Sources and images\<close>

text \<open>\<open>BigInt\<close> of the select's value, a topic's printed id.\<close>

definition js_BigInt :: "jsstring \<Rightarrow> bigint" where
  "js_BigInt s = (if s \<noteq> [] \<and> hd s = CHR ''-'' then - int (nat_of_dec (tl s)) else int (nat_of_dec s))"

record SourceForm =
  sf_title :: jsstring
  sf_url :: jsstring
  sf_content :: jsstring
  sf_topicId :: jsstring

definition source_request :: "SourceForm \<Rightarrow> AddDocumentRequest" where
  "source_request f = \<lparr>adr_topicIdOpt = sf_topicId f, adr_sourceType = (if js_trim (sf_url f) = [] then ''document'' else ''link''),
     adr_title = sf_title f, adr_url = sf_url f, adr_content = sf_content f,
     adr_topicIds = (if sf_topicId f = [] then [] else [js_BigInt (sf_topicId f)])\<rparr>"

definition source_added :: "SourceForm \<Rightarrow> SourceForm" where
  "source_added f = f\<lparr>sf_title := [], sf_url := [], sf_content := []\<rparr>"

definition source_submit_enabled :: "bool \<Rightarrow> SourceForm \<Rightarrow> bool" where
  "source_submit_enabled busy f \<longleftrightarrow> \<not> busy \<and> js_trim (sf_title f) \<noteq> []"

definition image_add_enabled :: "bool \<Rightarrow> jsstring \<Rightarrow> jsstring \<Rightarrow> bool" where
  "image_add_enabled busy imageData name \<longleftrightarrow> \<not> busy \<and> imageData \<noteq> [] \<and> js_trim name \<noteq> []"

lemma bigint_printed [simp]: "js_BigInt (dec_of_int n) = n"
proof (cases "n < 0")
  case False
  have "js_BigInt (dec_of_nat m) = int m" for m
  proof -
    have "hd (dec_of_nat m) \<noteq> CHR ''-''" using dec_of_nat_not_minus [of m "tl (dec_of_nat m)"] by (metis dec_of_nat_nonempty list.collapse)
    then show ?thesis by (simp add: js_BigInt_def)
  qed
  with False show ?thesis by (simp add: dec_of_int_def)
qed (simp add: js_BigInt_def dec_of_int_def)

lemma source_topic: "sf_topicId f = dec_of_int (at_id topic) \<Longrightarrow> adr_topicIds (source_request f) = [at_id topic]"
  by (auto simp: source_request_def) (simp add: dec_of_int_def split: if_splits)

section \<open>The dialog over a page that reloads\<close>

lemma loading_no_documents [simp]: "shown_documents (ground_load_started p) = []"
  by (simp add: shown_documents_def ground_load_started_def)

text \<open>A topic saved while the page reloads, its documents untouched, makes no call on them; if the load ends before the
  save does, the page nevertheless takes the topic off every document it has just loaded.\<close>

theorem save_during_reload_hides_sources:
  assumes "dlg_topic (grp_dialog p) = Some topic" and "dlg_sources (grp_dialog p) = None"
  shows "\<exists>sent. snd (ground_save_started (ground_load_started p)) = Some sent \<and> tsv_mutations sent = [] \<and>
      topicSourceIds (shown_documents (ground_save_settled cat sent (Inr ())
        (ground_load_settled (Inr (data, spend)) (fst (ground_save_started (ground_load_started p)))))) (at_id topic) = []"
proof -
  have "topicSourceIds (map (assign t []) documents) t = []" for t and documents :: "DocumentInfo list"
    by (simp add: topicSourceIds_def assign_def assignment_member)
  then show ?thesis
    using assms
    by (simp add: ground_save_started_def topic_save_started_def shownSourceIds_def shown_documents_def ground_load_started_def
        topicSourceMutations_def topicSourceIds_def [of "[]"] ground_save_settled_def ground_load_settled_def topic_save_settled_def
        page_onSaved_def apply_sources applyTopicEditorDraft_def Let_def)
qed

lemma save_during_reload_hides_sources_witness:
  "snd (ground_save_started (ground_load_started (INITIAL_GROUNDING_PAGE\<lparr>grp_dialog := onEdit sample_topic INITIAL_DIALOG\<rparr>))) \<noteq> None"
  using save_during_reload_hides_sources [of "INITIAL_GROUNDING_PAGE\<lparr>grp_dialog := onEdit sample_topic INITIAL_DIALOG\<rparr>" sample_topic
      "\<lambda>k. k" "\<lparr>grd_summary = \<lparr>sm_topics = 0, sm_totalCards = 0, sm_dueCards = 0, sm_activeCards = 0\<rparr>, grd_topics = [], grd_documents = [],
        grd_images = []\<rparr>" None]
  by (auto simp: onEdit_def INITIAL_DIALOG_def)

text \<open>A mutation that fails leaves the lists alone; one that succeeds ends in a load.\<close>

lemma failed_run_keeps_lists: "grp_state (run_settled cat label (Inl m) (run_started label p)) = grp_state p"
  by (simp add: run_settled_def run_started_def)

lemma run_reloads: "grp_state (run_settled cat label (Inr ()) p) = GroundLoading \<and> \<not> ground_busy (run_settled cat label (Inr ()) p)"
  by (simp add: run_settled_def ground_load_started_def ground_busy_def)

end
