(* ===== verification/Account_Pages.thy ===== *)
theory Account_Pages
  imports Comparators Auth_Client Http_Session Add_Form I18n Grounding_Page
begin

text \<open>
  The pages of keys, users and the account: \<open>ApiKeysPage.tsx\<close>, \<open>AdminPage.tsx\<close>, \<open>AccountPage.tsx\<close>, and the
  dialog of a card's images, \<open>CardImageManager.tsx\<close>. As in the other pages an \<open>await\<close> splits a handler; a toast is a
  kind and a message. What a started handler sends is its second result, nothing when its guard stops it.
\<close>

section \<open>API keys\<close>

record KeysPage =
  ks_keys :: "ApiKeyInfo list"
  ks_loading :: bool
  ks_busy :: bool
  ks_error :: "jsstring option"
  ks_clientName :: jsstring
  ks_secret :: "jsstring option"
  ks_copied :: bool
  ks_deleteTarget :: "ApiKeyInfo option"

definition keys_refresh_started :: "KeysPage \<Rightarrow> KeysPage" where
  "keys_refresh_started p = p\<lparr>ks_loading := True, ks_error := None\<rparr>"

definition keys_refresh_settled :: "(jsstring \<Rightarrow> jsstring \<Rightarrow> int) \<Rightarrow> jsstring + ApiKeyInfo list \<Rightarrow> KeysPage \<Rightarrow> KeysPage" where
  "keys_refresh_settled localeCompare answer p =
     (case answer of
        Inl message \<Rightarrow> p\<lparr>ks_error := Some message, ks_loading := False\<rparr>
      | Inr keys \<Rightarrow> p\<lparr>ks_keys := sortApiKeys localeCompare keys, ks_loading := False\<rparr>)"

text \<open>\<open>handleCreate\<close> sends the trimmed name.\<close>

definition create_key_started :: "KeysPage \<Rightarrow> KeysPage \<times> jsstring" where
  "create_key_started p = (p\<lparr>ks_busy := True, ks_error := None, ks_secret := None, ks_copied := False\<rparr>, js_trim (ks_clientName p))"

text \<open>The second result says that a refresh starts; the page stays busy until it ends.\<close>

definition create_key_called :: "jsstring + jsstring \<Rightarrow> KeysPage \<Rightarrow> KeysPage \<times> bool" where
  "create_key_called answer p =
     (case answer of
        Inl message \<Rightarrow> (p\<lparr>ks_error := Some message, ks_busy := False\<rparr>, False)
      | Inr apiKey \<Rightarrow> (keys_refresh_started (p\<lparr>ks_clientName := [], ks_secret := Some apiKey\<rparr>), True))"

definition keys_mutation_refreshed ::
    "(jsstring \<Rightarrow> jsstring \<Rightarrow> int) \<Rightarrow> jsstring + ApiKeyInfo list \<Rightarrow> KeysPage \<Rightarrow> KeysPage" where
  "keys_mutation_refreshed localeCompare answer p = (keys_refresh_settled localeCompare answer p)\<lparr>ks_busy := False\<rparr>"

definition delete_key_started :: "KeysPage \<Rightarrow> KeysPage \<times> bigint option" where
  "delete_key_started p =
     (case ks_deleteTarget p of None \<Rightarrow> (p, None)
      | Some target \<Rightarrow> (p\<lparr>ks_busy := True, ks_error := None\<rparr>, Some (ak_id target)))"

definition delete_key_called :: "jsstring + unit \<Rightarrow> KeysPage \<Rightarrow> KeysPage \<times> bool" where
  "delete_key_called answer p =
     (case answer of
        Inl message \<Rightarrow> (p\<lparr>ks_error := Some message, ks_busy := False\<rparr>, False)
      | Inr _ \<Rightarrow> (keys_refresh_started (p\<lparr>ks_deleteTarget := None\<rparr>), True))"

text \<open>\<open>copySecret\<close> and the clipboard's answer.\<close>

definition copy_secret :: "bool \<Rightarrow> KeysPage \<Rightarrow> jsstring option" where
  "copy_secret clipboard p = (if clipboard then ks_secret p else None)"

definition copy_settled :: "bool \<Rightarrow> KeysPage \<Rightarrow> KeysPage" where
  "copy_settled ok p = p\<lparr>ks_copied := ok\<rparr>"

datatype KeysEvent =
    KeysRefresh | KeysRefreshed "jsstring + ApiKeyInfo list" | KeysName jsstring | KeysCreate | KeysCreated "jsstring + jsstring"
  | KeysTarget "ApiKeyInfo option" | KeysDelete | KeysDeleted "jsstring + unit" | KeysCopied bool

fun keys_step :: "(jsstring \<Rightarrow> jsstring \<Rightarrow> int) \<Rightarrow> KeysPage \<Rightarrow> KeysEvent \<Rightarrow> KeysPage" where
  "keys_step cmp p KeysRefresh = keys_refresh_started p"
| "keys_step cmp p (KeysRefreshed r) = keys_mutation_refreshed cmp r p"
| "keys_step cmp p (KeysName n) = p\<lparr>ks_clientName := n\<rparr>"
| "keys_step cmp p KeysCreate = fst (create_key_started p)"
| "keys_step cmp p (KeysCreated r) = fst (create_key_called r p)"
| "keys_step cmp p (KeysTarget t) = p\<lparr>ks_deleteTarget := t\<rparr>"
| "keys_step cmp p KeysDelete = fst (delete_key_started p)"
| "keys_step cmp p (KeysDeleted r) = fst (delete_key_called r p)"
| "keys_step cmp p (KeysCopied ok) = copy_settled ok p"

lemmas keys_defs = keys_refresh_started_def keys_mutation_refreshed_def keys_refresh_settled_def create_key_started_def
  create_key_called_def delete_key_started_def delete_key_called_def copy_settled_def

fun last_secret :: "KeysEvent list \<Rightarrow> jsstring option \<Rightarrow> jsstring option" where
  "last_secret [] s = s"
| "last_secret (KeysCreate # es) s = last_secret es None"
| "last_secret (KeysCreated (Inr k) # es) s = last_secret es (Some k)"
| "last_secret (e # es) s = last_secret es s"

text \<open>The secret on the page is the one the last creation answered with, and none while a later creation runs or after
  it failed; no refresh and no deletion brings an older secret back.\<close>

theorem secret_is_the_last: "ks_secret (foldl (keys_step cmp) p es) = last_secret es (ks_secret p)"
  by (induction es "ks_secret p" arbitrary: p rule: last_secret.induct)
    (simp_all add: keys_defs split: sum.splits option.splits)

section \<open>Users\<close>

record AdminPage =
  ap_users :: "AdminUser list"
  ap_loading :: bool
  ap_busy :: bool
  ap_error :: "jsstring option"
  ap_username :: jsstring
  ap_password :: jsstring
  ap_displayName :: jsstring
  ap_role :: jsstring
  ap_editing :: "AdminUser option"
  ap_editRole :: jsstring
  ap_editPassword :: jsstring
  ap_deleteTarget :: "AdminUser option"

definition users_refresh_started :: "AdminPage \<Rightarrow> AdminPage" where
  "users_refresh_started p = p\<lparr>ap_loading := True, ap_error := None\<rparr>"

definition users_refresh_settled :: "jsstring + AdminUser list \<Rightarrow> AdminPage \<Rightarrow> AdminPage" where
  "users_refresh_settled answer p =
     (case answer of Inl message \<Rightarrow> p\<lparr>ap_error := Some message, ap_loading := False\<rparr>
      | Inr users \<Rightarrow> p\<lparr>ap_users := users, ap_loading := False\<rparr>)"

type_synonym page_toast = "jsstring \<times> jsstring"

text \<open>\<open>create\<close>: the arguments of \<open>createAdminUser\<close>, or the toast of the check.\<close>

definition create_user_started ::
    "catalog \<Rightarrow> AdminPage \<Rightarrow> AdminPage \<times> (page_toast + jsstring \<times> jsstring \<times> jsstring \<times> jsstring)" where
  "create_user_started cat p =
     (if js_trim (ap_username p) = [] \<or> length (ap_password p) < 8
      then (p, Inl (''error'', i18n_t cat ''admin.validation_username_password''))
      else (p\<lparr>ap_busy := True\<rparr>, Inr (js_trim (ap_username p), ap_password p, ap_role p, ap_displayName p)))"

definition create_user_called :: "catalog \<Rightarrow> jsstring + AdminUser \<Rightarrow> AdminPage \<Rightarrow> AdminPage \<times> page_toast" where
  "create_user_called cat answer p =
     (case answer of
        Inl message \<Rightarrow> (p\<lparr>ap_busy := False\<rparr>, (''error'', message))
      | Inr _ \<Rightarrow> (users_refresh_started (p\<lparr>ap_username := [], ap_password := [], ap_displayName := [], ap_role := ''user''\<rparr>),
                   (''success'', i18n_t cat ''admin.user_created'')))"

definition users_mutation_refreshed :: "jsstring + AdminUser list \<Rightarrow> AdminPage \<Rightarrow> AdminPage" where
  "users_mutation_refreshed answer p = (users_refresh_settled answer p)\<lparr>ap_busy := False\<rparr>"

definition save_edit_started :: "AdminPage \<Rightarrow> AdminPage \<times> (jsstring \<times> jsstring \<times> jsstring) option" where
  "save_edit_started p =
     (case ap_editing p of None \<Rightarrow> (p, None)
      | Some u \<Rightarrow> (p\<lparr>ap_busy := True\<rparr>, Some (au_id u, ap_editRole p, ap_editPassword p)))"

definition save_edit_called :: "catalog \<Rightarrow> jsstring + AdminUser \<Rightarrow> AdminPage \<Rightarrow> AdminPage \<times> page_toast" where
  "save_edit_called cat answer p =
     (case answer of
        Inl message \<Rightarrow> (p\<lparr>ap_busy := False\<rparr>, (''error'', message))
      | Inr _ \<Rightarrow> (users_refresh_started (p\<lparr>ap_editing := None, ap_editPassword := []\<rparr>), (''success'', i18n_t cat ''admin.user_updated'')))"

definition remove_started :: "catalog \<Rightarrow> SessionUser \<Rightarrow> AdminPage \<Rightarrow> AdminPage \<times> (page_toast + jsstring) option" where
  "remove_started cat user p =
     (case ap_deleteTarget p of
        None \<Rightarrow> (p, None)
      | Some target \<Rightarrow>
          if au_id target = su_id user then (p, Some (Inl (''error'', i18n_t cat ''admin.cannot_delete_self'')))
          else (p\<lparr>ap_busy := True\<rparr>, Some (Inr (au_id target))))"

definition remove_called :: "catalog \<Rightarrow> jsstring + unit \<Rightarrow> AdminPage \<Rightarrow> AdminPage \<times> page_toast" where
  "remove_called cat answer p =
     (case answer of
        Inl message \<Rightarrow> (p\<lparr>ap_busy := False\<rparr>, (''error'', message))
      | Inr _ \<Rightarrow> (users_refresh_started (p\<lparr>ap_deleteTarget := None\<rparr>), (''success'', i18n_t cat ''admin.user_deleted'')))"

text \<open>What the user page sends is allowed: an account is created with a name that is not blank and a password of eight
  characters or more, and the administrator never deletes the account of the session.\<close>

theorem admin_requests_guarded:
  "(\<forall>username password role displayName. snd (create_user_started cat p) = Inr (username, password, role, displayName) \<longrightarrow>
      username \<noteq> [] \<and> js_trim username = username \<and> 8 \<le> length password) \<and>
   snd (remove_started cat user p) \<noteq> Some (Inr (su_id user))"
  by (auto simp: create_user_started_def remove_started_def split: if_splits option.splits)

definition sample_admin_page :: AdminPage where
  "sample_admin_page = \<lparr>ap_users = [], ap_loading = False, ap_busy = False, ap_error = None, ap_username = '' ann '',
     ap_password = ''longenough'', ap_displayName = [], ap_role = ''user'', ap_editing = None, ap_editRole = ''user'',
     ap_editPassword = [], ap_deleteTarget = None\<rparr>"

lemma admin_requests_guarded_witness: "js_trim ''ann'' = ''ann'' \<and> 8 \<le> length ''longenough''"
proof -
  have "snd (create_user_started (\<lambda>k. k) sample_admin_page) = Inr (''ann'', ''longenough'', ''user'', [])" by code_simp
  then show ?thesis
    using admin_requests_guarded [of "\<lambda>k. k" sample_admin_page "\<lparr>su_id = [], su_username = [], su_role = [], su_display_name = None,
      su_avatar_data = None, su_build_sha = []\<rparr>"] by blast
qed

section \<open>The account\<close>

definition passkeyName :: "catalog \<Rightarrow> PasskeyInfo \<Rightarrow> jsstring" where
  "passkeyName cat passkey =
     (if pi_name passkey \<noteq> [] then i18n_tf cat ''account.passkey_name'' [(''name'', pi_name passkey)]
      else i18n_t cat ''account.passkey_default'')"

definition account_roleLabel :: "catalog \<Rightarrow> jsstring \<Rightarrow> jsstring" where
  "account_roleLabel cat role =
     (if role = ''admin'' then i18n_t cat ''account.role_admin'' else if role = ''user'' then i18n_t cat ''account.role_user''
      else i18n_t cat ''account.role_unknown'')"

record AccountPage =
  acp_passkeys :: "PasskeyInfo list"
  acp_loading :: bool
  acp_registering :: bool
  acp_deletingId :: "jsstring option"
  acp_pendingDeletion :: "PasskeyInfo option"
  acp_confirmAccount :: bool
  acp_displayName :: jsstring
  acp_avatarData :: jsstring
  acp_avatarDirty :: bool
  acp_password :: jsstring
  acp_savingProfile :: bool
  acp_deletingAccount :: bool
  acp_error :: "jsstring option"
  acp_notice :: "jsstring option"

definition passkeys_refresh_settled :: "PasskeyListResult \<Rightarrow> AccountPage \<Rightarrow> AccountPage" where
  "passkeys_refresh_settled result p =
     (case result of
        Passkeys ks \<Rightarrow> p\<lparr>acp_passkeys := ks, acp_error := None, acp_loading := False\<rparr>
      | PasskeysError message \<Rightarrow> p\<lparr>acp_error := Some message, acp_loading := False\<rparr>)"

text \<open>The effect on the user.\<close>

definition account_user_effect :: "SessionUser \<Rightarrow> AccountPage \<Rightarrow> AccountPage" where
  "account_user_effect user p =
     p\<lparr>acp_displayName := (case su_display_name user of None \<Rightarrow> [] | Some n \<Rightarrow> n),
       acp_avatarData := (case su_avatar_data user of None \<Rightarrow> [] | Some d \<Rightarrow> d), acp_avatarDirty := False\<rparr>"

definition avatar_selected :: "catalog \<Rightarrow> jsstring + jsstring \<Rightarrow> AccountPage \<Rightarrow> AccountPage" where
  "avatar_selected cat answer p =
     (case answer of
        Inl message \<Rightarrow> p\<lparr>acp_error := Some message\<rparr>
      | Inr data \<Rightarrow>
          if length data > 2 * 1024 * 1024 then p\<lparr>acp_error := Some (i18n_t cat ''account.avatar_too_large'')\<rparr>
          else p\<lparr>acp_avatarData := data, acp_avatarDirty := True, acp_error := None\<rparr>)"

definition save_profile_started :: "AccountPage \<Rightarrow> AccountPage \<times> ProfileUpdateInput" where
  "save_profile_started p =
     (p\<lparr>acp_savingProfile := True, acp_error := None, acp_notice := None\<rparr>,
      \<lparr>pu_displayName = (if js_trim (acp_displayName p) = [] then None else Some (js_trim (acp_displayName p))),
       pu_avatarData = (if acp_avatarDirty p then Some (acp_avatarData p) else None),
       pu_password = (if acp_password p = [] then None else Some (acp_password p))\<rparr>)"

definition save_profile_settled :: "catalog \<Rightarrow> ProfileUpdateResult \<Rightarrow> AccountPage \<Rightarrow> AccountPage \<times> SessionUser option" where
  "save_profile_settled cat result p =
     (case result of
        ProfileError message \<Rightarrow> (p\<lparr>acp_savingProfile := False, acp_error := Some message\<rparr>, None)
      | ProfileUpdated user \<Rightarrow>
          (p\<lparr>acp_savingProfile := False, acp_password := [], acp_avatarDirty := False,
             acp_notice := Some (i18n_t cat ''toast.profile_updated'')\<rparr>, Some user))"

definition delete_account_started :: "AccountPage \<Rightarrow> AccountPage" where
  "delete_account_started p = p\<lparr>acp_deletingAccount := True, acp_error := None, acp_notice := None\<rparr>"

text \<open>The second result: the account is gone.\<close>

definition delete_account_settled :: "PasskeyMutationResult \<Rightarrow> AccountPage \<Rightarrow> AccountPage \<times> bool" where
  "delete_account_settled result p =
     (let p1 = p\<lparr>acp_deletingAccount := False, acp_confirmAccount := False\<rparr>
      in case result of PasskeyError message \<Rightarrow> (p1\<lparr>acp_error := Some message\<rparr>, False) | PasskeySuccess \<Rightarrow> (p1, True))"

text \<open>\<open>registerPasskey\<close>: whether it starts, and its end after the browser and the server have answered.\<close>

definition register_passkey_started :: "catalog \<Rightarrow> bool \<Rightarrow> AccountPage \<Rightarrow> AccountPage \<times> bool" where
  "register_passkey_started cat creator p =
     (if acp_registering p \<or> acp_deletingId p \<noteq> None then (p, False)
      else if \<not> creator then (p\<lparr>acp_error := Some (i18n_t cat ''account.passkeys_unavailable'')\<rparr>, False)
      else (p\<lparr>acp_registering := True, acp_error := None, acp_notice := None\<rparr>, True))"

text \<open>The three answers in their order; a later one is only asked for when the earlier is there.\<close>

definition registration_outcome ::
    "'r ChallengeResult \<Rightarrow> ('r \<Rightarrow> 'a CredentialResult) \<Rightarrow> ('a \<Rightarrow> PasskeyMutationResult) \<Rightarrow> jsstring option" where
  "registration_outcome started ask finish =
     (case started of
        ChallengeError _ message \<Rightarrow> Some message
      | Challenge request \<Rightarrow>
          (case ask request of
             CredentialCancelled message \<Rightarrow> Some message
           | CredentialError message \<Rightarrow> Some message
           | CredentialGiven registration \<Rightarrow>
               (case finish registration of PasskeyError message \<Rightarrow> Some message | PasskeySuccess \<Rightarrow> None)))"

definition register_passkey_settled :: "catalog \<Rightarrow> jsstring option \<Rightarrow> AccountPage \<Rightarrow> AccountPage \<times> bool" where
  "register_passkey_settled cat failure p =
     (case failure of
        Some message \<Rightarrow> (p\<lparr>acp_error := Some message, acp_registering := False\<rparr>, False)
      | None \<Rightarrow> (p\<lparr>acp_notice := Some (i18n_t cat ''toast.passkey_added''), acp_registering := False, acp_loading := True\<rparr>, True))"

definition delete_passkey_started :: "AccountPage \<Rightarrow> AccountPage \<times> jsstring option" where
  "delete_passkey_started p =
     (case (acp_pendingDeletion p, acp_deletingId p) of
        (Some passkey, None) \<Rightarrow> (p\<lparr>acp_deletingId := Some (pi_id passkey), acp_error := None, acp_notice := None\<rparr>, Some (pi_id passkey))
      | _ \<Rightarrow> (p, None))"

definition delete_passkey_settled :: "catalog \<Rightarrow> PasskeyMutationResult \<Rightarrow> AccountPage \<Rightarrow> AccountPage \<times> bool" where
  "delete_passkey_settled cat result p =
     (let p1 = p\<lparr>acp_deletingId := None, acp_pendingDeletion := None\<rparr>
      in case result of
           PasskeyError message \<Rightarrow> (p1\<lparr>acp_error := Some message\<rparr>, False)
         | PasskeySuccess \<Rightarrow> (p1\<lparr>acp_notice := Some (i18n_t cat ''toast.passkey_deleted''), acp_loading := True\<rparr>, True))"

lemma one_passkey_operation:
  "snd (register_passkey_started cat creator (fst (delete_passkey_started p))) = True \<Longrightarrow> snd (delete_passkey_started p) = None"
  by (auto simp: register_passkey_started_def delete_passkey_started_def split: option.splits if_splits)

lemma profile_fields_unchanged:
  assumes "su_display_name user = Some (js_trim n)" and "js_trim n \<noteq> []"
  shows "snd (save_profile_started (account_user_effect user (p\<lparr>acp_password := []\<rparr>))) =
    \<lparr>pu_displayName = su_display_name user, pu_avatarData = None, pu_password = None\<rparr>"
  using assms by (simp add: save_profile_started_def account_user_effect_def)

section \<open>The images of a card\<close>

datatype ManagerState = ManagerIdle | ManagerSaving | ManagerError jsstring

record ImageManager =
  img_open :: bool
  img_files :: "ImageFile list"
  img_url :: jsstring
  img_pool :: "PoolImageInfo list"
  img_selected :: "jsstring list"
  img_state :: ManagerState

definition images_available :: "FlowCardInfo \<Rightarrow> nat" where
  "images_available c = 4 - length (fc_images c)"

definition selection_count :: "ImageManager \<Rightarrow> nat" where
  "selection_count m = length (img_files m) + length (img_selected m) + (if js_trim (img_url m) = [] then 0 else 1)"

definition attach_disabled :: "FlowCardInfo \<Rightarrow> ImageManager \<Rightarrow> bool" where
  "attach_disabled c m \<longleftrightarrow> img_state m = ManagerSaving \<or> selection_count m = 0 \<or> selection_count m > images_available c"

definition pool_settled :: "jsstring + PoolImageInfo list \<Rightarrow> ImageManager \<Rightarrow> ImageManager" where
  "pool_settled answer m = (case answer of Inl message \<Rightarrow> m\<lparr>img_state := ManagerError message\<rparr> | Inr images \<Rightarrow> m\<lparr>img_pool := images\<rparr>)"

text \<open>\<open>save\<close> up to the call: the arguments of \<open>appendTipcardImages\<close> (data, pool ids, URLs), or the error of the files.\<close>

definition attach_arguments ::
    "(ImageFile \<Rightarrow> js_error + jsstring) \<Rightarrow> FlowCardInfo \<Rightarrow> ImageManager \<Rightarrow> js_error + jsstring list \<times> bigint list \<times> jsstring list" where
  "attach_arguments compress c m =
     sum_bind (if img_files m \<noteq> [] then validateImageFiles (img_files m) (int (length (fc_images c))) else Inr ()) (\<lambda>_.
     sum_bind (if img_files m = [] then Inr [] else map_result compress (img_files m)) (\<lambda>imageData.
       Inr (imageData, map js_BigInt (img_selected m), if js_trim (img_url m) = [] then [] else [img_url m])))"

definition attach_started :: "ImageManager \<Rightarrow> ImageManager" where
  "attach_started m = m\<lparr>img_state := ManagerSaving\<rparr>"

text \<open>After the call and the read of the card; the second result is the card handed to \<open>onChanged\<close>.\<close>

definition attach_settled :: "jsstring + FlowCardInfo \<Rightarrow> ImageManager \<Rightarrow> ImageManager \<times> FlowCardInfo option" where
  "attach_settled answer m =
     (case answer of
        Inl message \<Rightarrow> (m\<lparr>img_state := ManagerError message\<rparr>, None)
      | Inr c \<Rightarrow> (m\<lparr>img_files := [], img_selected := [], img_url := [], img_state := ManagerIdle, img_open := False\<rparr>, Some c))"

definition clear_settled :: "jsstring + FlowCardInfo \<Rightarrow> ImageManager \<Rightarrow> ImageManager \<times> FlowCardInfo option" where
  "clear_settled answer m =
     (case answer of
        Inl message \<Rightarrow> (m\<lparr>img_state := ManagerError message\<rparr>, None)
      | Inr c \<Rightarrow> (m\<lparr>img_state := ManagerIdle, img_open := False\<rparr>, Some c))"

text \<open>A card never gets more than four images: what the enabled button sends, with the images the card has, is at most four.\<close>

theorem attach_within_limit:
  assumes "\<not> attach_disabled c m" and "attach_arguments compress c m = Inr (imageData, poolIds, urls)"
  shows "length (fc_images c) + length imageData + length poolIds + length urls \<le> 4 \<and>
    0 < length imageData + length poolIds + length urls"
proof -
  have "length imageData = length (img_files m)"
    using assms(2) map_result_Inr [of compress "img_files m"] by (auto simp: attach_arguments_def sum_bind_Inr split: if_splits)
  moreover have "length poolIds = length (img_selected m)" "length urls = (if js_trim (img_url m) = [] then 0 else 1)"
    using assms(2) by (auto simp: attach_arguments_def sum_bind_Inr)
  ultimately have n: "length imageData + length poolIds + length urls = selection_count m" by (simp add: selection_count_def)
  have "0 < selection_count m" "selection_count m \<le> 4 - length (fc_images c)"
    using assms(1) by (auto simp: attach_disabled_def images_available_def)
  with n show ?thesis by linarith
qed

definition sample_manager :: ImageManager where
  "sample_manager = \<lparr>img_open = True, img_files = [], img_url = ''https://a/b.png'', img_pool = [], img_selected = [''7''], img_state = ManagerIdle\<rparr>"

definition bare_card :: FlowCardInfo where
  "bare_card = \<lparr>fc_id = 1, fc_topicName = [], fc_topicIcon = [], fc_topicColor = [], fc_title = [], fc_fullContent = [],
     fc_compressedContent = [], fc_createdAt = [], fc_tipcardType = [], fc_status = [], fc_nextReviewAt = [], fc_repeatCount = 0,
     fc_pinned = False, fc_pendingCount = 0, fc_images = [], fc_sources = [], fc_groundingStatus = [], fc_groundingSourceMode = [],
     fc_groundingEvidence = []\<rparr>"

lemma attach_within_limit_witness: "length (fc_images bare_card) + length [7::int] + length [''https://a/b.png''] \<le> 4"
proof -
  have "\<not> attach_disabled bare_card sample_manager" by code_simp
  moreover have "attach_arguments (\<lambda>f. Inr []) bare_card sample_manager = Inr ([], [7], [''https://a/b.png''])" by code_simp
  ultimately show ?thesis using attach_within_limit [of bare_card sample_manager "\<lambda>f. Inr []" "[]" "[7]" "[''https://a/b.png'']"] by simp
qed

end
