(* ===== verification/Settings_Page.thy ===== *)
theory Settings_Page
  imports Prompt_Template I18n
begin

text \<open>
  The state of \<open>components/pages/SettingsPage.tsx\<close>: the settings as loaded, the draft being edited, the mark that
  there are unsaved edits, and the requests that are under way. A handler with an \<open>await\<close> is two definitions, what
  it does at once and what it does when the answer is there; the answer is the message of an error or the
  value. A closure over the state of a render is an argument. The text fields stay enabled during a save.
\<close>

datatype Feedback = FbIdle | FbLoading jsstring | FbSaving jsstring | FbSuccess jsstring | FbError jsstring

record SettingsPage =
  stp_baseline :: "SettingsDraft option"
  stp_draft :: "SettingsDraft option"
  stp_feedback :: Feedback
  stp_vision :: Feedback
  stp_enhancing :: bool
  stp_rationale :: jsstring
  stp_dirty :: bool

definition INITIAL_SETTINGS_PAGE :: "catalog \<Rightarrow> SettingsPage" where
  "INITIAL_SETTINGS_PAGE cat = \<lparr>stp_baseline = None, stp_draft = None, stp_feedback = FbLoading (i18n_t cat ''settings.loading''),
     stp_vision = FbIdle, stp_enhancing = False, stp_rationale = [], stp_dirty = False\<rparr>"

definition loadSettings_started :: "catalog \<Rightarrow> SettingsPage \<Rightarrow> SettingsPage" where
  "loadSettings_started cat p = p\<lparr>stp_feedback := FbLoading (i18n_t cat ''settings.loading'')\<rparr>"

definition loadSettings_settled :: "jsstring + Settings \<Rightarrow> SettingsPage \<Rightarrow> SettingsPage" where
  "loadSettings_settled answer p =
     (case answer of
        Inl message \<Rightarrow> p\<lparr>stp_feedback := FbError message\<rparr>
      | Inr settings \<Rightarrow> p\<lparr>stp_baseline := Some (settingsDraft settings), stp_draft := Some (settingsDraft settings), stp_feedback := FbIdle\<rparr>)"

text \<open>The refresh of a view: whether a load starts.\<close>

definition refreshIfClean :: "catalog \<Rightarrow> SettingsPage \<Rightarrow> SettingsPage \<times> bool" where
  "refreshIfClean cat p = (if stp_dirty p then (p, False) else (loadSettings_started cat p, True))"

definition clear_feedback :: "SettingsPage \<Rightarrow> SettingsPage" where
  "clear_feedback p = (case stp_feedback p of FbSuccess _ \<Rightarrow> p\<lparr>stp_feedback := FbIdle\<rparr> | FbError _ \<Rightarrow> p\<lparr>stp_feedback := FbIdle\<rparr> | _ \<Rightarrow> p)"

definition edit_draft :: "(SettingsDraft \<Rightarrow> SettingsDraft) \<Rightarrow> SettingsPage \<Rightarrow> SettingsPage" where
  "edit_draft upd p = p\<lparr>stp_dirty := True, stp_draft := map_option upd (stp_draft p)\<rparr>"

text \<open>\<open>setField\<close>, the assignment of one field.\<close>

definition setField :: "(SettingsDraft \<Rightarrow> SettingsDraft) \<Rightarrow> SettingsPage \<Rightarrow> SettingsPage" where
  "setField upd p = clear_feedback (edit_draft upd p)"

definition strategy_or_undefined :: "jsstring option \<Rightarrow> jsstring" where
  "strategy_or_undefined s = (case s of None \<Rightarrow> ''undefined'' | Some v \<Rightarrow> v)"

definition with_policy :: "GroundingPolicyDraft \<Rightarrow> SettingsDraft \<Rightarrow> SettingsDraft" where
  "with_policy policy current =
     (let sourceMode = or_else (gd_sourceMode policy) ''model''; behavior = or_else (gd_behavior policy) ''standard''
      in current\<lparr>sd_groundingSourceMode := sourceMode, sd_groundingBehavior := behavior,
           sd_groundingSearchDepth := or_else (gd_searchDepth policy) ''balanced'',
           sd_groundingFreshness := or_else (gd_freshness policy) ''any'',
           sd_groundingSearchGuidance := gd_searchGuidance policy, sd_groundingIncludeDomains := gd_includeDomains policy,
           sd_groundingFailurePolicy := or_else (gd_failurePolicy policy) ''stop'',
           sd_groundingStrategy := strategy_or_undefined (legacyStrategyForPolicy sourceMode behavior)\<rparr>)"

definition setGroundingPolicy :: "GroundingPolicyDraft \<Rightarrow> SettingsPage \<Rightarrow> SettingsPage" where
  "setGroundingPolicy policy p = clear_feedback (edit_draft (with_policy policy) p)"

text \<open>\<open>save\<close>: the page and, when there is something to send, the patch and the draft the closure holds.\<close>

definition save_started :: "catalog \<Rightarrow> SettingsPage \<Rightarrow> SettingsPage \<times> (UpdateSettingsRequest \<times> SettingsDraft) option" where
  "save_started cat p =
     (case (stp_baseline p, stp_draft p) of
        (Some baseline, Some draft) \<Rightarrow>
          let patch = settingsPatch baseline draft
          in if \<not> hasSettingsPatch patch then (p\<lparr>stp_feedback := FbSuccess (i18n_t cat ''settings.no_changes'')\<rparr>, None)
             else (p\<lparr>stp_feedback := FbSaving (i18n_t cat ''settings.saving'')\<rparr>, Some (patch, draft))
      | _ \<Rightarrow> (p, None))"

definition save_settled :: "catalog \<Rightarrow> UpdateSettingsRequest \<times> SettingsDraft \<Rightarrow> jsstring + unit \<Rightarrow> SettingsPage \<Rightarrow> SettingsPage" where
  "save_settled cat sent answer p =
     (case answer of
        Inl message \<Rightarrow> p\<lparr>stp_feedback := FbError message\<rparr>
      | Inr _ \<Rightarrow>
          let fieldCount = settingsPatchCount (fst sent)
          in p\<lparr>stp_dirty := False, stp_baseline := Some (snd sent),
               stp_feedback := FbSuccess (i18n_tf cat ''settings.saved_count''
                 [(''count'', dec_of_nat fieldCount), (''suffix'', if fieldCount = 1 then [] else ''s'')])\<rparr>)"

definition page_resetPrompt :: "SettingsPage \<Rightarrow> SettingsPage" where
  "page_resetPrompt p = clear_feedback (edit_draft resetSettingsPrompt p\<lparr>stp_rationale := []\<rparr>)"

definition enhance_started :: "SettingsPage \<Rightarrow> SettingsPage" where
  "enhance_started p = p\<lparr>stp_enhancing := True\<rparr>"

text \<open>The second component is the toast.\<close>

definition enhance_settled ::
    "catalog \<Rightarrow> jsstring + EnhancePromptTemplateResult \<Rightarrow> SettingsPage \<Rightarrow> SettingsPage \<times> jsstring" where
  "enhance_settled cat answer p =
     (case answer of
        Inl message \<Rightarrow> (p\<lparr>stp_enhancing := False\<rparr>, message)
      | Inr suggestion \<Rightarrow>
          ((edit_draft (\<lambda>d. applyPromptSuggestionToSettings d suggestion) p)
             \<lparr>stp_rationale := epr_rationale suggestion, stp_enhancing := False\<rparr>,
           i18n_t cat ''settings.models.prompt_enhanced''))"

definition vision_started :: "catalog \<Rightarrow> SettingsPage \<Rightarrow> SettingsPage" where
  "vision_started cat p = p\<lparr>stp_vision := FbSaving (i18n_t cat ''settings.vision.testing'')\<rparr>"

definition vision_settled :: "catalog \<Rightarrow> jsstring + VisionModelTest \<Rightarrow> SettingsPage \<Rightarrow> SettingsPage" where
  "vision_settled cat answer p = p\<lparr>stp_vision :=
     (case answer of
        Inl message \<Rightarrow> FbError message
      | Inr result \<Rightarrow>
          let message = i18n_tf cat ''settings.vision.result'' [(''model'', vm_model result), (''message'', vm_message result)]
          in if vm_ok result then FbSuccess message else FbError message)\<rparr>"

text \<open>What the render derives: the save button is on when something changed and no save runs.\<close>

definition page_saving :: "SettingsPage \<Rightarrow> bool" where
  "page_saving p = (case stp_feedback p of FbSaving _ \<Rightarrow> True | _ \<Rightarrow> False)"

definition page_changed :: "SettingsPage \<Rightarrow> bool" where
  "page_changed p = (case (stp_baseline p, stp_draft p) of
     (Some baseline, Some draft) \<Rightarrow> hasSettingsPatch (settingsPatch baseline draft) | _ \<Rightarrow> False)"

section \<open>Edits and refreshes\<close>

datatype PageEvent =
    EditField "SettingsDraft \<Rightarrow> SettingsDraft"
  | EditPolicy GroundingPolicyDraft
  | ResetThePrompt
  | Suggestion "jsstring + EnhancePromptTemplateResult"
  | VisionAnswer "jsstring + VisionModelTest"
  | RefreshTick
  | SaveFailed "UpdateSettingsRequest \<times> SettingsDraft" jsstring

fun settings_step :: "catalog \<Rightarrow> SettingsPage \<Rightarrow> PageEvent \<Rightarrow> SettingsPage" where
  "settings_step cat p (EditField upd) = setField upd p"
| "settings_step cat p (EditPolicy policy) = setGroundingPolicy policy p"
| "settings_step cat p ResetThePrompt = page_resetPrompt p"
| "settings_step cat p (Suggestion r) = fst (enhance_settled cat r p)"
| "settings_step cat p (VisionAnswer r) = vision_settled cat r p"
| "settings_step cat p RefreshTick = fst (refreshIfClean cat p)"
| "settings_step cat p (SaveFailed sent m) = save_settled cat sent (Inl m) p"

lemmas page_simps = setField_def setGroundingPolicy_def page_resetPrompt_def enhance_settled_def vision_settled_def
  refreshIfClean_def save_settled_def edit_draft_def clear_feedback_def loadSettings_started_def

lemma clear_feedback_keeps [simp]:
  "stp_dirty (clear_feedback p) = stp_dirty p" "stp_draft (clear_feedback p) = stp_draft p" "stp_baseline (clear_feedback p) = stp_baseline p"
  by (simp_all add: clear_feedback_def split: Feedback.splits)

lemma step_keeps_dirty: "stp_dirty p \<Longrightarrow> stp_dirty (settings_step cat p e)"
  by (cases e) (simp_all add: setField_def setGroundingPolicy_def page_resetPrompt_def enhance_settled_def vision_settled_def
      refreshIfClean_def save_settled_def edit_draft_def split: sum.splits)

text \<open>A draft that differs from what was loaded is marked: no load starts over it.\<close>

definition page_ok :: "SettingsPage \<Rightarrow> bool" where
  "page_ok p \<longleftrightarrow> stp_dirty p \<or> stp_draft p = stp_baseline p"

lemma step_page_ok: "page_ok p \<Longrightarrow> page_ok (settings_step cat p e)"
  by (cases e) (auto simp: page_ok_def setField_def setGroundingPolicy_def page_resetPrompt_def enhance_settled_def vision_settled_def
      refreshIfClean_def save_settled_def edit_draft_def loadSettings_started_def split: sum.splits)

lemma run_page_ok: "page_ok p \<Longrightarrow> page_ok (foldl (settings_step cat) p es)"
  by (induction es arbitrary: p) (simp_all add: step_page_ok)

text \<open>C33: as long as no save succeeds, a tick of the refresh never starts a load over edits: from a loaded page, after any
  edits, suggestions, ticks and failed saves, a load starts only when the draft is what was loaded.\<close>

theorem refresh_spares_edits:
  "let p = foldl (settings_step cat) (loadSettings_settled (Inr settings) (INITIAL_SETTINGS_PAGE cat)) es
   in snd (refreshIfClean cat p) \<longrightarrow> stp_draft p = stp_baseline p \<and> \<not> page_changed p"
proof -
  have "page_ok (loadSettings_settled (Inr settings) (INITIAL_SETTINGS_PAGE cat))"
    by (simp add: page_ok_def loadSettings_settled_def)
  then have "page_ok (foldl (settings_step cat) (loadSettings_settled (Inr settings) (INITIAL_SETTINGS_PAGE cat)) es)"
    by (rule run_page_ok)
  moreover have "\<not> hasSettingsPatch (settingsPatch d d)" for d by (rule patch_of_same)
  ultimately show ?thesis
    unfolding Let_def by (auto simp: refreshIfClean_def page_ok_def page_changed_def split: if_splits option.splits)
qed

lemma refresh_spares_edits_witness:
  "let p = foldl (settings_step (\<lambda>k. k)) (loadSettings_settled (Inr sample_settings) (INITIAL_SETTINGS_PAGE (\<lambda>k. k))) [RefreshTick]
   in stp_draft p = stp_baseline p"
  using refresh_spares_edits [of "\<lambda>k. k" sample_settings "[RefreshTick]"]
  by (simp add: Let_def refreshIfClean_def loadSettings_settled_def INITIAL_SETTINGS_PAGE_def loadSettings_started_def)

text \<open>Edits made while a save is under way are lost: the save that succeeds clears the mark although the draft has
  moved on, the next tick starts a load, and its answer replaces the draft. Here an edit of the model field.\<close>

theorem edits_during_save_lost:
  assumes "stp_baseline p = Some baseline" and "stp_draft p = Some draft" and "draft \<noteq> baseline"
  shows "\<exists>sent. snd (save_started cat p) = Some sent \<and>
      (let edited = setField (\<lambda>d. d\<lparr>sd_model := typed\<rparr>) (fst (save_started cat p));
           saved = save_settled cat sent (Inr ()) edited;
           (ticked, loading) = refreshIfClean cat saved;
           reloaded = loadSettings_settled (Inr settings) ticked
       in stp_draft saved = Some (draft\<lparr>sd_model := typed\<rparr>) \<and> stp_baseline saved = Some draft \<and> loading \<and>
          stp_draft reloaded = Some (settingsDraft settings))"
proof -
  have "hasSettingsPatch (settingsPatch baseline draft)" using patch_of_other [of baseline draft] assms(3) by blast
  then have started: "save_started cat p = (p\<lparr>stp_feedback := FbSaving (i18n_t cat ''settings.saving'')\<rparr>, Some (settingsPatch baseline draft, draft))"
    by (simp add: save_started_def assms(1,2))
  show ?thesis
    unfolding started
    by (simp add: assms(2) setField_def edit_draft_def save_settled_def refreshIfClean_def loadSettings_settled_def loadSettings_started_def
        Let_def clear_feedback_def)
qed

lemma edits_during_save_lost_witness:
  "\<exists>sent. snd (save_started (\<lambda>k. k) (setField (\<lambda>d. d\<lparr>sd_apiKey := ''k''\<rparr>)
      (loadSettings_settled (Inr sample_settings) (INITIAL_SETTINGS_PAGE (\<lambda>k. k))))) = Some sent"
  using edits_during_save_lost [of "setField (\<lambda>d. d\<lparr>sd_apiKey := ''k''\<rparr>)
      (loadSettings_settled (Inr sample_settings) (INITIAL_SETTINGS_PAGE (\<lambda>k. k)))" "settingsDraft sample_settings"
      "(settingsDraft sample_settings)\<lparr>sd_apiKey := ''k''\<rparr>" "\<lambda>k. k" "''m''" sample_settings]
  by (force simp: setField_def edit_draft_def loadSettings_settled_def settingsDraft_def sample_settings_def Let_def)

end
