(* ===== verification/Url_Params.thy ===== *)
theory Url_Params
  imports Http_Session
begin

text \<open>
  The part of \<open>URLSearchParams\<close> the pages use: the form decoding of the URL standard and the form encoding, on code
  units below 256, whose UTF-8 has one or two bytes. Byte sequences that decode to anything else are decoded by
  the argument \<open>wide\<close>, from there to the end. What reads a query only needs of the encoder that it is an
  escape, the contract of the locale, which both \<open>encodeURIComponent\<close> and the form encoding meet.
\<close>

definition utf8_char :: "char \<Rightarrow> nat list" where
  "utf8_char c = (let n = of_char c :: nat in if n < 128 then [n] else [192 + n div 64, 128 + n mod 64])"

text \<open>Percent-decoding; a \<open>%\<close> that no two hex digits follow stays.\<close>

fun percent_decode :: "jsstring \<Rightarrow> nat list" where
  "percent_decode (c # a # b # s) =
     (if c = CHR ''%'' then
        (case (hex_val a, hex_val b) of
           (Some x, Some y) \<Rightarrow> (16 * x + y) # percent_decode s
         | _ \<Rightarrow> 37 # percent_decode (a # b # s))
      else utf8_char c @ percent_decode (a # b # s))"
| "percent_decode s = concat (map utf8_char s)"

fun utf8_decode :: "(nat list \<Rightarrow> jsstring) \<Rightarrow> nat list \<Rightarrow> jsstring" where
  "utf8_decode wide [] = []"
| "utf8_decode wide [b] = (if b < 128 then [char_of b] else wide [b])"
| "utf8_decode wide (b # b' # bs) =
     (if b < 128 then char_of b # utf8_decode wide (b' # bs)
      else if (b = 194 \<or> b = 195) \<and> 128 \<le> b' \<and> b' < 192 then char_of ((b - 192) * 64 + (b' - 128)) # utf8_decode wide bs
      else wide (b # b' # bs))"

definition plus_to_space :: "char \<Rightarrow> char" where
  "plus_to_space c = (if c = CHR ''+'' then CHR '' '' else c)"

definition form_decode :: "(nat list \<Rightarrow> jsstring) \<Rightarrow> jsstring \<Rightarrow> jsstring" where
  "form_decode wide s = utf8_decode wide (percent_decode (map plus_to_space s))"

text \<open>One piece of the query: the name before the first \<open>=\<close>, the value after it.\<close>

definition form_pair :: "(nat list \<Rightarrow> jsstring) \<Rightarrow> jsstring \<Rightarrow> jsstring \<times> jsstring" where
  "form_pair wide piece =
     (form_decode wide (takeWhile (\<lambda>c. c \<noteq> CHR ''='') piece), form_decode wide (drop 1 (dropWhile (\<lambda>c. c \<noteq> CHR ''='') piece)))"

definition parse_params :: "(nat list \<Rightarrow> jsstring) \<Rightarrow> jsstring \<Rightarrow> (jsstring \<times> jsstring) list" where
  "parse_params wide search =
     (let query = (case search of CHR ''?'' # rest \<Rightarrow> rest | _ \<Rightarrow> search)
      in map (form_pair wide) (filter (\<lambda>piece. piece \<noteq> []) (split_on (\<lambda>c. c = CHR ''&'') query)))"

text \<open>\<open>params.get(name)\<close>, \<open>params.set(name, value)\<close> on a name that is not there, and \<open>params.toString()\<close>.\<close>

definition params_get :: "(jsstring \<times> jsstring) list \<Rightarrow> jsstring \<Rightarrow> jsstring option" where
  "params_get params name = map_of params name"

definition form_unreserved :: "char \<Rightarrow> bool" where
  "form_unreserved c \<longleftrightarrow> c \<in> set ''ABCDEFGHIJKLMNOPQRSTUVWXYZabcdefghijklmnopqrstuvwxyz0123456789*-._''"

definition form_escape :: "char \<Rightarrow> jsstring" where
  "form_escape c =
     (if c = CHR '' '' then ''+'' else if form_unreserved c then [c] else concat (map percent_byte (utf8_char c)))"

definition params_string :: "(jsstring \<times> jsstring) list \<Rightarrow> jsstring" where
  "params_string params =
     js_join ''&'' (map (\<lambda>(n, v). concat (map form_escape n) @ ''='' @ concat (map form_escape v)) params)"

section \<open>Decoding what was encoded\<close>

lemma utf8_bytes: "b \<in> set (utf8_char c) \<Longrightarrow> b < 256"
proof -
  assume b: "b \<in> set (utf8_char c)"
  have "(of_char c :: nat) < 256" by (rule of_char_bound)
  then have "(of_char c :: nat) div 64 < 64" by (intro less_mult_imp_div_less) linarith
  with b \<open>(of_char c :: nat) < 256\<close> show ?thesis by (auto simp: utf8_char_def Let_def split: if_splits)
qed

lemma utf8_decode_pair:
  "q = 2 \<or> q = 3 \<Longrightarrow> r < 64 \<Longrightarrow> utf8_decode wide ((192 + q) # (128 + r) # bs) = char_of (q * 64 + r) # utf8_decode wide bs"
  by auto

lemma utf8_decode_char: "utf8_decode wide (utf8_char c @ bs) = c # utf8_decode wide bs"
proof (cases "(of_char c :: nat) < 128")
  case True
  have "utf8_decode wide (n # bs) = char_of n # utf8_decode wide bs" if "n < 128" for n
    using that by (cases bs) simp_all
  with True show ?thesis by (simp add: utf8_char_def Let_def)
next
  case False
  let ?n = "of_char c :: nat"
  have "?n < 256" by (rule of_char_bound)
  with False have d: "?n div 64 = 2 \<or> ?n div 64 = 3" by (cases "?n < 192") (auto intro!: div_nat_eqI)
  have "utf8_char c = [192 + ?n div 64, 128 + ?n mod 64]" using False by (simp add: utf8_char_def Let_def)
  then have "utf8_decode wide (utf8_char c @ bs) = char_of (?n div 64 * 64 + ?n mod 64) # utf8_decode wide bs"
    using utf8_decode_pair [OF d, of "?n mod 64"] by simp
  also have "?n div 64 * 64 + ?n mod 64 = ?n" by (rule div_mult_mod_eq)
  finally show ?thesis by simp
qed

lemma utf8_decode_string: "utf8_decode wide (concat (map utf8_char s)) = s"
  by (induction s) (simp_all add: utf8_decode_char)

lemma hex_digit: "k < 16 \<Longrightarrow> hex_val (''0123456789ABCDEF'' ! k) = Some k"
proof -
  assume "k < 16"
  then have "k \<in> {0, 1, 2, 3, 4, 5, 6, 7, 8, 9, 10, 11, 12, 13, 14, 15}" unfolding insert_iff empty_iff by presburger
  then show ?thesis by (auto simp: hex_val_def Let_def)
qed

lemma percent_decode_byte: "n < 256 \<Longrightarrow> percent_decode (percent_byte n @ s) = n # percent_decode s"
  by (simp add: percent_byte_def hex_digit)

lemma percent_decode_plain:
  "c \<noteq> CHR ''%'' \<Longrightarrow> percent_decode (c # s) = utf8_char c @ percent_decode s"
  by (cases s; cases "tl s") auto

lemma percent_decode_bytes:
  "\<forall>b \<in> set bs. b < 256 \<Longrightarrow> percent_decode (concat (map percent_byte bs) @ s) = bs @ percent_decode s"
  by (induction bs) (simp_all add: percent_decode_byte)

lemma hex_digit_chars: "k < 16 \<Longrightarrow> ''0123456789ABCDEF'' ! k \<in> set ''0123456789ABCDEF''"
  by (rule nth_mem) simp

lemma percent_byte_chars: "n < 256 \<Longrightarrow> set (percent_byte n) \<subseteq> set ''%0123456789ABCDEF''"
proof -
  assume "n < 256"
  then have "n div 16 < 16" "n mod 16 < 16" by auto
  then show ?thesis using hex_digit_chars [of "n div 16"] hex_digit_chars [of "n mod 16"] by (auto simp: percent_byte_def)
qed

lemma plus_fixed: "CHR ''+'' \<notin> set s \<Longrightarrow> map plus_to_space s = s"
  by (induction s) (auto simp: plus_to_space_def)

lemma bytes_chars: "\<forall>b \<in> set bs. b < 256 \<Longrightarrow> set (concat (map percent_byte bs)) \<subseteq> set ''%0123456789ABCDEF''"
  using percent_byte_chars by fastforce

locale url_escape =
  fixes escape :: "char \<Rightarrow> jsstring"
  assumes decodes: "percent_decode (map plus_to_space (escape c) @ s) = utf8_char c @ percent_decode s"
    and no_delimiter: "CHR ''&'' \<notin> set (escape c)" "CHR ''='' \<notin> set (escape c)"
begin

lemma decode_escaped: "form_decode wide (concat (map escape s)) = s"
proof -
  have "percent_decode (map plus_to_space (concat (map escape s))) = concat (map utf8_char s)"
  proof (induction s)
    case Nil
    show ?case by simp
  next
    case (Cons c s)
    then show ?case by (simp add: decodes)
  qed
  then show ?thesis by (simp add: form_decode_def utf8_decode_string)
qed

lemma escaped_clean: "CHR ''&'' \<notin> set (concat (map escape s))" "CHR ''='' \<notin> set (concat (map escape s))"
  using no_delimiter by auto

lemma pair_escaped:
  assumes "CHR ''='' \<notin> set k" shows "form_pair wide (k @ CHR ''='' # concat (map escape v)) = (form_decode wide k, v)"
proof -
  have "takeWhile (\<lambda>c. c \<noteq> CHR ''='') (k @ CHR ''='' # concat (map escape v)) = k"
    "dropWhile (\<lambda>c. c \<noteq> CHR ''='') (k @ CHR ''='' # concat (map escape v)) = CHR ''='' # concat (map escape v)"
    using assms by (induction k) auto
  then show ?thesis by (simp add: form_pair_def decode_escaped)
qed

lemma clean_amp: "CHR ''&'' \<notin> set k \<Longrightarrow> \<forall>c \<in> set (k @ CHR ''='' # concat (map escape v)). c \<noteq> CHR ''&''"
  using escaped_clean(1) [of v] by auto

lemma parse_one:
  assumes "CHR ''='' \<notin> set k" "CHR ''&'' \<notin> set k"
  shows "parse_params wide (CHR ''?'' # k @ CHR ''='' # concat (map escape v)) = [(form_decode wide k, v)]"
proof -
  have "split_on (\<lambda>c. c = CHR ''&'') (k @ CHR ''='' # concat (map escape v)) = [k @ CHR ''='' # concat (map escape v)]"
    using clean_amp [OF assms(2), of v] by (rule split_on_none)
  then show ?thesis by (simp add: parse_params_def pair_escaped [OF assms(1)])
qed

lemma parse_two:
  assumes "CHR ''='' \<notin> set k" "CHR ''&'' \<notin> set k" "CHR ''='' \<notin> set l" "CHR ''&'' \<notin> set l"
  shows "parse_params wide (CHR ''?'' # (k @ CHR ''='' # concat (map escape v)) @ CHR ''&'' # (l @ CHR ''='' # concat (map escape w))) =
    [(form_decode wide k, v), (form_decode wide l, w)]"
proof -
  have "split_on (\<lambda>c. c = CHR ''&'') ((k @ CHR ''='' # concat (map escape v)) @ CHR ''&'' # (l @ CHR ''='' # concat (map escape w))) =
      [k @ CHR ''='' # concat (map escape v), l @ CHR ''='' # concat (map escape w)]"
    using clean_amp [OF assms(2), of v] clean_amp [OF assms(4), of w] by (simp only: split_on_append_sep split_on_none simp_thms)
  then show ?thesis by (simp add: parse_params_def pair_escaped [OF assms(1)] pair_escaped [OF assms(3)])
qed

end

lemma uri_escape_bytes: "\<not> uri_unreserved c \<Longrightarrow> uri_escape c = concat (map percent_byte (utf8_char c))"
  by (simp add: uri_escape_def utf8_char_def Let_def)

lemma escape_bytes_ok:
  "percent_decode (map plus_to_space (concat (map percent_byte (utf8_char c))) @ s) = utf8_char c @ percent_decode s"
  "CHR ''&'' \<notin> set (concat (map percent_byte (utf8_char c)))" "CHR ''='' \<notin> set (concat (map percent_byte (utf8_char c)))"
proof -
  have bytes: "\<forall>b \<in> set (utf8_char c). b < 256" using utf8_bytes by blast
  then have chars: "set (concat (map percent_byte (utf8_char c))) \<subseteq> set ''%0123456789ABCDEF''" by (rule bytes_chars)
  then have "CHR ''+'' \<notin> set (concat (map percent_byte (utf8_char c)))" by (auto dest!: subsetD)
  then have "map plus_to_space (concat (map percent_byte (utf8_char c))) = concat (map percent_byte (utf8_char c))" by (rule plus_fixed)
  then show "percent_decode (map plus_to_space (concat (map percent_byte (utf8_char c))) @ s) = utf8_char c @ percent_decode s"
    using percent_decode_bytes [OF bytes] by simp
  show "CHR ''&'' \<notin> set (concat (map percent_byte (utf8_char c)))" "CHR ''='' \<notin> set (concat (map percent_byte (utf8_char c)))"
    using chars by (auto dest!: subsetD)
qed

lemma plain_char_ok: "c \<noteq> CHR ''%'' \<Longrightarrow> c \<noteq> CHR ''+'' \<Longrightarrow> percent_decode (map plus_to_space [c] @ s) = utf8_char c @ percent_decode s"
  by (simp add: plus_to_space_def percent_decode_plain)

interpretation uri: url_escape uri_escape
proof
  fix c s
  show "percent_decode (map plus_to_space (uri_escape c) @ s) = utf8_char c @ percent_decode s"
  proof (cases "uri_unreserved c")
    case True
    then have "uri_escape c = [c]" "c \<noteq> CHR ''%''" "c \<noteq> CHR ''+''" by (auto simp: uri_escape_def Let_def uri_unreserved_def)
    then show ?thesis using plain_char_ok by simp
  next
    case False
    show ?thesis unfolding uri_escape_bytes [OF False] by (rule escape_bytes_ok(1))
  qed
  show "CHR ''&'' \<notin> set (uri_escape c)" "CHR ''='' \<notin> set (uri_escape c)"
    using escape_bytes_ok(2,3) [of c] uri_escape_bytes [of c] by (cases "uri_unreserved c"; auto simp: uri_escape_def Let_def uri_unreserved_def)+
qed

interpretation form: url_escape form_escape
proof
  fix c s
  have space: "percent_decode (map plus_to_space ''+'' @ s) = utf8_char (CHR '' '') @ percent_decode s" for s
    by (simp add: plus_to_space_def percent_decode_plain)
  show "percent_decode (map plus_to_space (form_escape c) @ s) = utf8_char c @ percent_decode s"
  proof (cases "c = CHR '' ''")
    case True
    with space show ?thesis by (simp add: form_escape_def)
  next
    case ns: False
    show ?thesis
    proof (cases "form_unreserved c")
      case True
      then have "form_escape c = [c]" "c \<noteq> CHR ''%''" "c \<noteq> CHR ''+''" using ns by (auto simp: form_escape_def form_unreserved_def)
      then show ?thesis using plain_char_ok by simp
    next
      case False
      then have "form_escape c = concat (map percent_byte (utf8_char c))" using ns by (simp add: form_escape_def)
      then show ?thesis using escape_bytes_ok(1) by simp
    qed
  qed
  show "CHR ''&'' \<notin> set (form_escape c)" "CHR ''='' \<notin> set (form_escape c)"
    using escape_bytes_ok(2,3) [of c] by (auto simp: form_escape_def form_unreserved_def split: if_splits)
qed

text \<open>A query of several parameters reads back as written.\<close>

lemma parse_params_string:
  assumes "ps \<noteq> []" shows "parse_params wide (CHR ''?'' # params_string ps) = ps"
proof -
  let ?piece = "\<lambda>(n, v). concat (map form_escape n) @ ''='' @ concat (map form_escape v)"
  have amp: "\<forall>c \<in> set (?piece p). c \<noteq> CHR ''&''" for p
    using form.escaped_clean(1) [of "fst p"] form.escaped_clean(1) [of "snd p"] by (cases p) auto
  have "split_on (\<lambda>c. c = CHR ''&'') (js_join ''&'' (map ?piece ps)) = map ?piece ps"
    by (rule split_on_join) (use assms amp in auto)
  moreover have "filter (\<lambda>piece. piece \<noteq> []) (map ?piece ps) = map ?piece ps"
    by (auto intro!: filter_True)
  moreover have "form_pair wide (?piece p) = p" for p
    using form.pair_escaped [OF form.escaped_clean(2), of wide "fst p" "snd p"] by (cases p) (simp add: form.decode_escaped)
  ultimately show ?thesis by (simp add: parse_params_def params_string_def comp_def)
qed

end
