(* ===== verification/Archive.thy ===== *)
theory Archive
  imports Comparators Url_Params I18n
begin

text \<open>
  \<open>lib/pages/archive.ts\<close> and the state of \<open>components/pages/ArchivePage.tsx\<close>: the inventory of cards, its filters and
  sorts, the deep link that carries the filters, and the handlers of the page. The collations of the host are
  arguments (\<open>base\<close> ignores case and accents, \<open>plain\<close> does not), as are the lower case of the locale, the
  date formatter and the ellipsis, which is outside the code units modelled.
\<close>

datatype ArchiveStatus = ArchiveAll | ArchiveActive | ArchiveCompleted | ArchivePending | ArchiveScheduled | ArchiveCustom
datatype ArchiveSort = ArchiveByTopic | ArchiveByDate

record ArchiveFilters =
  af_query :: jsstring
  af_status :: ArchiveStatus
  af_topic :: jsstring
  af_sort :: ArchiveSort

fun status_name :: "ArchiveStatus \<Rightarrow> jsstring" where
  "status_name ArchiveAll = ''all''"
| "status_name ArchiveActive = ''active''"
| "status_name ArchiveCompleted = ''completed''"
| "status_name ArchivePending = ''pending''"
| "status_name ArchiveScheduled = ''scheduled''"
| "status_name ArchiveCustom = ''custom''"

definition archiveStatuses :: "ArchiveStatus list" where
  "archiveStatuses = [ArchiveAll, ArchiveActive, ArchiveCompleted, ArchivePending, ArchiveScheduled, ArchiveCustom]"

text \<open>The list names every status once, so it enumerates the type.\<close>

instantiation ArchiveStatus :: enum
begin

definition enum_ArchiveStatus :: "ArchiveStatus list" where
  "enum_ArchiveStatus = archiveStatuses"

definition enum_all_ArchiveStatus :: "(ArchiveStatus \<Rightarrow> bool) \<Rightarrow> bool" where
  "enum_all_ArchiveStatus P = list_all P archiveStatuses"

definition enum_ex_ArchiveStatus :: "(ArchiveStatus \<Rightarrow> bool) \<Rightarrow> bool" where
  "enum_ex_ArchiveStatus P = list_ex P archiveStatuses"

instance
proof
  have all: "status \<in> set archiveStatuses" for status by (cases status) (simp_all add: archiveStatuses_def)
  show "(UNIV :: ArchiveStatus set) = set Enum.enum" using all by (auto simp: enum_ArchiveStatus_def)
  show "distinct (Enum.enum :: ArchiveStatus list)" by (simp add: enum_ArchiveStatus_def archiveStatuses_def)
  show "Enum.enum_all P \<longleftrightarrow> Ball UNIV P" for P :: "ArchiveStatus \<Rightarrow> bool"
    using all by (auto simp: enum_all_ArchiveStatus_def list_all_iff)
  show "Enum.enum_ex P \<longleftrightarrow> Bex UNIV P" for P :: "ArchiveStatus \<Rightarrow> bool"
    using all by (auto simp: enum_ex_ArchiveStatus_def list_ex_iff)
qed

end

text \<open>\<open>isArchiveStatus\<close>, with the status it recognises.\<close>

definition archive_status_of :: "jsstring option \<Rightarrow> ArchiveStatus option" where
  "archive_status_of v = (case v of None \<Rightarrow> None | Some s \<Rightarrow> find (\<lambda>status. status_name status = s) archiveStatuses)"

definition parseArchiveSearch :: "(nat list \<Rightarrow> jsstring) \<Rightarrow> jsstring \<Rightarrow> ArchiveStatus \<times> jsstring" where
  "parseArchiveSearch wide search =
     (let params = parse_params wide search
      in ((case archive_status_of (params_get params ''status'') of Some status \<Rightarrow> status | None \<Rightarrow> ArchiveAll),
          (case params_get params ''topic'' of Some topic \<Rightarrow> js_trim topic | None \<Rightarrow> [])))"

definition archiveSearch :: "ArchiveStatus \<Rightarrow> jsstring \<Rightarrow> jsstring" where
  "archiveSearch status topic =
     (let params = (if status \<noteq> ArchiveAll then [(''status'', status_name status)] else []) @
            (if js_trim topic \<noteq> [] then [(''topic'', js_trim topic)] else []);
          s = params_string params
      in if s = [] then [] else ''?'' @ s)"

definition statusMatches :: "TipcardInfo \<Rightarrow> ArchiveStatus \<Rightarrow> bool" where
  "statusMatches c status =
     (case status of
        ArchiveAll \<Rightarrow> True
      | ArchiveScheduled \<Rightarrow> tci_status c = ''active'' \<and> tci_repeatCount c > 0
      | _ \<Rightarrow> tci_status c = status_name status)"

definition textMatches :: "(jsstring \<Rightarrow> jsstring) \<Rightarrow> TipcardInfo \<Rightarrow> jsstring \<Rightarrow> bool" where
  "textMatches lower c query =
     (let needle = lower (js_trim query)
      in needle = [] \<or>
         list_ex (\<lambda>v. js_includes needle (lower v)) [tci_title c, tci_topicName c, tci_fullContent c, tci_compressedContent c])"

type_synonym collation = "jsstring \<Rightarrow> jsstring \<Rightarrow> int"

definition archive_matches :: "(jsstring \<Rightarrow> jsstring) \<Rightarrow> collation \<Rightarrow> ArchiveFilters \<Rightarrow> TipcardInfo \<Rightarrow> bool" where
  "archive_matches lower base filters c \<longleftrightarrow>
     statusMatches c (af_status filters) \<and> textMatches lower c (af_query filters) \<and>
     (af_topic filters = [] \<or> base (tci_topicName c) (af_topic filters) = 0)"

definition archive_cmp :: "collation \<Rightarrow> collation \<Rightarrow> ArchiveSort \<Rightarrow> TipcardInfo \<Rightarrow> TipcardInfo \<Rightarrow> int" where
  "archive_cmp base plain sorting =
     (case sorting of
        ArchiveByDate \<Rightarrow> cmp_or (cmp_swap (cmp_on tci_createdAt plain)) (cmp_swap (cmp_on tci_id cmp_less))
      | ArchiveByTopic \<Rightarrow> cmp_or (cmp_on tci_topicName base) (cmp_or (cmp_on tci_title base) (cmp_on tci_id cmp_less)))"

definition filterArchiveCards ::
    "(jsstring \<Rightarrow> jsstring) \<Rightarrow> collation \<Rightarrow> collation \<Rightarrow> TipcardInfo list \<Rightarrow> ArchiveFilters \<Rightarrow> TipcardInfo list" where
  "filterArchiveCards lower base plain cards filters =
     js_sort (archive_cmp base plain (af_sort filters)) (filter (archive_matches lower base filters) cards)"

definition HEADING_MAX :: nat where "HEADING_MAX = 80"
definition ARCHIVE_EAGER_HYDRATE_COUNT :: int where "ARCHIVE_EAGER_HYDRATE_COUNT = 9"
definition PREVIEW_CHARS :: nat where "PREVIEW_CHARS = 280"

definition shouldEagerHydrateArchiveCard :: "int \<Rightarrow> bool" where
  "shouldEagerHydrateArchiveCard index \<longleftrightarrow> 0 \<le> index \<and> index < ARCHIVE_EAGER_HYDRATE_COUNT"

text \<open>\<open>replace(/\s+/g, " ")\<close>; \<open>in_space\<close> says that the last character was one.\<close>

fun collapse_spaces :: "bool \<Rightarrow> jsstring \<Rightarrow> jsstring" where
  "collapse_spaces in_space [] = []"
| "collapse_spaces in_space (c # s) =
     (if is_js_space c then if in_space then collapse_spaces True s else CHR '' '' # collapse_spaces True s
      else c # collapse_spaces False s)"

definition clip :: "jsstring \<Rightarrow> nat \<Rightarrow> jsstring \<Rightarrow> jsstring" where
  "clip ellipsis limit s = (if length s \<le> limit then s else js_trim_end (take (limit - 1) s) @ ellipsis)"

definition archiveCardPreview :: "jsstring \<Rightarrow> jsstring \<Rightarrow> jsstring" where
  "archiveCardPreview ellipsis content = clip ellipsis PREVIEW_CHARS (js_trim (collapse_spaces False content))"

text \<open>\<open>split(/\r?\n/)\<close>: a carriage return right before the line feed goes with it.\<close>

definition drop_cr :: "jsstring \<Rightarrow> jsstring" where
  "drop_cr line = (if line \<noteq> [] \<and> last line = CHR 0x0D then butlast line else line)"

definition split_lines :: "jsstring \<Rightarrow> jsstring list" where
  "split_lines s = (let pieces = split_on (\<lambda>c. c = CHR 0x0A) s in map drop_cr (butlast pieces) @ [last pieces])"

definition strip_heading :: "jsstring \<Rightarrow> jsstring" where
  "strip_heading line =
     (case line of CHR ''#'' # _ \<Rightarrow> dropWhile is_js_space (dropWhile (\<lambda>c. c = CHR ''#'') line) | _ \<Rightarrow> line)"

fun first_line :: "jsstring list \<Rightarrow> jsstring" where
  "first_line [] = []"
| "first_line (line # ls) = (let stripped = js_trim (strip_heading line) in if stripped \<noteq> [] then stripped else first_line ls)"

definition archiveCardHeading :: "jsstring \<Rightarrow> TipcardInfo \<Rightarrow> jsstring" where
  "archiveCardHeading ellipsis c =
     (let titled = js_trim (tci_title c)
      in if titled \<noteq> [] then titled
         else let content = (if js_trim (tci_fullContent c) \<noteq> [] then js_trim (tci_fullContent c) else js_trim (tci_compressedContent c))
              in if content = [] then []
                 else clip ellipsis HEADING_MAX (first_line (split_lines content)))"

text \<open>\<open>new Set(...)\<close> keeps the first of equal names.\<close>

definition archiveTopics :: "collation \<Rightarrow> TipcardInfo list \<Rightarrow> jsstring list" where
  "archiveTopics base cards = js_sort base (rev (remdups (rev (filter (\<lambda>n. n \<noteq> []) (map tci_topicName cards)))))"

fun archiveStatusLabel :: "ArchiveStatus \<Rightarrow> jsstring" where
  "archiveStatusLabel ArchiveAll = ''All cards''"
| "archiveStatusLabel ArchiveActive = ''Active''"
| "archiveStatusLabel ArchiveCompleted = ''Completed''"
| "archiveStatusLabel ArchivePending = ''Pending''"
| "archiveStatusLabel ArchiveScheduled = ''Scheduled''"
| "archiveStatusLabel ArchiveCustom = ''Custom''"

definition inventoryToFlowCard :: "TipcardInfo \<Rightarrow> FlowCardInfo" where
  "inventoryToFlowCard c = \<lparr>fc_id = tci_id c, fc_topicName = tci_topicName c, fc_topicIcon = tci_topicIcon c,
     fc_topicColor = tci_topicColor c, fc_title = tci_title c, fc_fullContent = tci_fullContent c,
     fc_compressedContent = tci_compressedContent c, fc_createdAt = tci_createdAt c, fc_tipcardType = tci_tipcardType c,
     fc_status = tci_status c, fc_nextReviewAt = tci_nextReviewAt c, fc_repeatCount = tci_repeatCount c,
     fc_pinned = tci_pinned c, fc_pendingCount = 0, fc_images = tci_images c, fc_sources = [],
     fc_groundingStatus = [], fc_groundingSourceMode = [], fc_groundingEvidence = []\<rparr>"

text \<open>The link of \<open>GroundingPage.tsx\<close> to the cards of a topic.\<close>

definition topicArchiveHref :: "ArchiveStatus \<Rightarrow> jsstring \<Rightarrow> jsstring" where
  "topicArchiveHref status topic =
     ''/archive?status='' @ status_name status @ ''&topic='' @ encodeURIComponent topic"

section \<open>The page\<close>

record ArchivePage =
  arc_cards :: "TipcardInfo list"
  arc_loading :: bool
  arc_busyId :: "bigint option"
  arc_error :: "jsstring option"
  arc_filters :: ArchiveFilters
  arc_deleteTarget :: "TipcardInfo option"
  arc_detail :: "TipcardInfo option"
  arc_lightbox :: bool

definition archive_mount :: "(nat list \<Rightarrow> jsstring) \<Rightarrow> jsstring \<Rightarrow> ArchivePage" where
  "archive_mount wide search =
     (let location = parseArchiveSearch wide search
      in \<lparr>arc_cards = [], arc_loading = True, arc_busyId = None, arc_error = None,
          arc_filters = \<lparr>af_query = [], af_status = fst location, af_topic = snd location, af_sort = ArchiveByTopic\<rparr>,
          arc_deleteTarget = None, arc_detail = None, arc_lightbox = False\<rparr>)"

definition archive_refresh_started :: "ArchivePage \<Rightarrow> ArchivePage" where
  "archive_refresh_started p = p\<lparr>arc_loading := True, arc_error := None\<rparr>"

definition archive_refresh_settled :: "jsstring + TipcardInfo list \<Rightarrow> ArchivePage \<Rightarrow> ArchivePage" where
  "archive_refresh_settled answer p =
     (case answer of Inl message \<Rightarrow> p\<lparr>arc_error := Some message, arc_loading := False\<rparr>
      | Inr cards \<Rightarrow> p\<lparr>arc_cards := cards, arc_loading := False\<rparr>)"

definition archive_hidden :: "ArchivePage \<Rightarrow> ArchivePage" where
  "archive_hidden p = p\<lparr>arc_detail := None, arc_lightbox := False, arc_deleteTarget := None\<rparr>"

text \<open>The search of the location after the effect on the filters.\<close>

definition archive_location :: "ArchivePage \<Rightarrow> jsstring" where
  "archive_location p = archiveSearch (af_status (arc_filters p)) (af_topic (arc_filters p))"

datatype ArchiveAction = ArchivePin | ArchiveDelete

definition mutate_started :: "TipcardInfo \<Rightarrow> ArchivePage \<Rightarrow> ArchivePage" where
  "mutate_started c p = p\<lparr>arc_busyId := Some (tci_id c), arc_error := None\<rparr>"

text \<open>After the call: a failure shows its message; a success closes what shows a deleted card and starts a refresh. \<open>detail\<close> is
  the detail card of the render that made the closure. After the refresh the card is no longer busy.\<close>

definition mutate_called ::
    "TipcardInfo \<Rightarrow> ArchiveAction \<Rightarrow> TipcardInfo option \<Rightarrow> jsstring + unit \<Rightarrow> ArchivePage \<Rightarrow> ArchivePage \<times> bool" where
  "mutate_called c action detail answer p =
     (case answer of
        Inl message \<Rightarrow> (p\<lparr>arc_error := Some message, arc_busyId := None\<rparr>, False)
      | Inr _ \<Rightarrow>
          let p1 = (if action = ArchiveDelete
                then (let p2 = p\<lparr>arc_deleteTarget := None\<rparr>
                      in if map_option tci_id detail = Some (tci_id c) then p2\<lparr>arc_detail := None\<rparr> else p2)
                else p)
          in (archive_refresh_started p1, True))"

definition mutate_refreshed :: "jsstring + TipcardInfo list \<Rightarrow> ArchivePage \<Rightarrow> ArchivePage" where
  "mutate_refreshed answer p = (archive_refresh_settled answer p)\<lparr>arc_busyId := None\<rparr>"

definition clear_filters :: "ArchivePage \<Rightarrow> ArchivePage" where
  "clear_filters p = p\<lparr>arc_filters := \<lparr>af_query = [], af_status = ArchiveAll, af_topic = [], af_sort = ArchiveByTopic\<rparr>\<rparr>"

definition archiveImageUrls :: "TipcardInfo \<Rightarrow> jsstring list" where
  "archiveImageUrls c = map (\<lambda>image. if im_downloadPath image \<noteq> [] then im_downloadPath image
     else ''/api/v1/tipcard-images/'' @ dec_of_int (im_id image)) (tci_images c)"

definition displayCardTitle :: "catalog \<Rightarrow> jsstring \<Rightarrow> TipcardInfo \<Rightarrow> jsstring" where
  "displayCardTitle cat ellipsis c =
     (let heading = archiveCardHeading ellipsis c in if heading = [] then i18n_t cat ''archive.untitled_card'' else heading)"

definition archive_humanDate :: "catalog \<Rightarrow> (jsstring \<Rightarrow> jsstring option) \<Rightarrow> jsstring \<Rightarrow> jsstring" where
  "archive_humanDate cat format v =
     (if js_trim v = [] then i18n_t cat ''format.unknown_date'' else case format v of None \<Rightarrow> v | Some d \<Rightarrow> d)"

definition archiveStatusText :: "catalog \<Rightarrow> ArchiveStatus \<Rightarrow> jsstring" where
  "archiveStatusText cat status = i18n_t cat (''archive.status_'' @ status_name status)"

definition cardStatusText :: "catalog \<Rightarrow> TipcardInfo \<Rightarrow> jsstring" where
  "cardStatusText cat c =
     (let status = tci_status c
      in if status = ''active'' \<and> tci_repeatCount c > 0 then i18n_t cat ''archive.status_scheduled''
         else if status \<in> {''active'', ''completed'', ''pending'', ''custom'', ''reviewed'', ''learned'', ''dismissed'', ''archived''}
         then i18n_t cat (''archive.status_'' @ status)
         else if status = ''known'' then i18n_t cat ''archive.status_learned''
         else if status = [] then i18n_t cat ''archive.status_unknown''
         else i18n_tf cat ''archive.status_other'' [(''status'', status)])"

section \<open>Deep links\<close>

lemma status_of_name: "archive_status_of (Some (status_name status)) = Some status"
  by (cases status) (simp_all add: archive_status_of_def archiveStatuses_def)

lemma key_words:
  "concat (map form_escape ''status'') = ''status''" "concat (map form_escape ''topic'') = ''topic''"
  by (simp_all add: form_escape_def form_unreserved_def)

lemma key_names: "form_decode wide ''status'' = ''status''" "form_decode wide ''topic'' = ''topic''"
  using form.decode_escaped [of wide "''status''"] form.decode_escaped [of wide "''topic''"] unfolding key_words by simp_all

lemma params_words:
  "params_string [] = []"
  "params_string [(''topic'', v)] = ''topic='' @ concat (map form_escape v)"
  "params_string [(''status'', v)] = ''status='' @ concat (map form_escape v)"
  "params_string [(''status'', v), (''topic'', w)] = ''status='' @ concat (map form_escape v) @ ''&topic='' @ concat (map form_escape w)"
  by (simp_all add: params_string_def form_escape_def form_unreserved_def)

lemma status_plain: "concat (map uri_escape (status_name status)) = status_name status"
  by (cases status) (simp_all add: uri_escape_def uri_unreserved_def)


section \<open>Filtering and sorting\<close>

lemma archive_cmp_lawful:
  assumes "lawful_cmp base" and "lawful_cmp plain"
  shows "lawful_cmp (archive_cmp base plain sorting)"
  by (cases sorting) (simp_all add: archive_cmp_def assms lawful_or lawful_swap lawful_on lawful_less)

lemma archive_cmp_tie: "archive_cmp base plain sorting x y = 0 \<Longrightarrow> tci_id x = tci_id y"
  by (auto simp: archive_cmp_def cmp_or_def cmp_on_def cmp_swap_def split: ArchiveSort.splits if_splits)

lemma sorted_strict:
  "sorted_wrt R xs \<Longrightarrow> distinct (map key xs) \<Longrightarrow> (\<And>x y. R x y \<Longrightarrow> key x \<noteq> key y \<Longrightarrow> S x y) \<Longrightarrow> sorted_wrt S xs"
proof (induction xs)
  case (Cons x xs)
  then have "S x y" if "y \<in> set xs" for y using that by force
  with Cons show ?case by simp
qed simp

text \<open>The archive shows exactly the matching cards, sorted, and its order does not depend on the order in which the
  server lists them.\<close>

theorem archive_order_stable:
  assumes "lawful_cmp base" and "lawful_cmp plain" and "distinct (map tci_id cards)" and "mset cards = mset cards'"
  shows "filterArchiveCards lower base plain cards filters = filterArchiveCards lower base plain cards' filters \<and>
    set (filterArchiveCards lower base plain cards filters) = {c \<in> set cards. archive_matches lower base filters c} \<and>
    sorted_wrt (\<lambda>x y. archive_cmp base plain (af_sort filters) x y < 0) (filterArchiveCards lower base plain cards filters)"
proof (intro conjI)
  let ?cmp = "archive_cmp base plain (af_sort filters)" and ?cs = "filter (archive_matches lower base filters) cards"
  have law: "lawful_cmp ?cmp" by (rule archive_cmp_lawful [OF assms(1,2)])
  have dist: "distinct (map tci_id ?cs)" using assms(3) by (rule distinct_map_filter)
  show "filterArchiveCards lower base plain cards filters = filterArchiveCards lower base plain cards' filters"
    unfolding filterArchiveCards_def
    by (rule sort_order_irrelevant [OF law _ dist archive_cmp_tie]) (simp add: assms(4))
  show "set (filterArchiveCards lower base plain cards filters) = {c \<in> set cards. archive_matches lower base filters c}"
    by (simp add: filterArchiveCards_def)
  have "sorted_wrt (\<lambda>x y. ?cmp x y \<le> 0) (js_sort ?cmp ?cs)"
    using law by (intro sorted_js_sort) (simp add: lawful_cmp_def)
  moreover have "distinct (map tci_id (js_sort ?cmp ?cs))"
    using dist mset_eq_imp_distinct_iff [of "map tci_id (js_sort ?cmp ?cs)" "map tci_id ?cs"] by simp
  ultimately have "sorted_wrt (\<lambda>x y. ?cmp x y < 0) (js_sort ?cmp ?cs)"
    by (rule sorted_strict) (use archive_cmp_tie in \<open>fastforce simp: order_le_less\<close>)
  then show "sorted_wrt (\<lambda>x y. ?cmp x y < 0) (filterArchiveCards lower base plain cards filters)"
    by (simp add: filterArchiveCards_def)
qed

definition sample_tip :: "bigint \<Rightarrow> jsstring \<Rightarrow> TipcardInfo" where
  "sample_tip i topic = \<lparr>tci_id = i, tci_topicName = topic, tci_fullContent = ''text'', tci_compressedContent = [], tci_createdAt = [],
     tci_tipcardType = [], tci_status = ''active'', tci_nextReviewAt = [], tci_repeatCount = 0, tci_pinned = False, tci_title = [],
     tci_topicIcon = [], tci_topicColor = [], tci_images = [], tci_groundingStatus = [], tci_groundingSourceMode = [],
     tci_groundingEvidence = []\<rparr>"

lemma archive_order_stable_witness:
  "let filters = \<lparr>af_query = [], af_status = ArchiveActive, af_topic = [], af_sort = ArchiveByTopic\<rparr>
   in filterArchiveCards js_lower cmp_less cmp_less [sample_tip 1 ''zig'', sample_tip 2 ''ada''] filters =
      filterArchiveCards js_lower cmp_less cmp_less [sample_tip 2 ''ada'', sample_tip 1 ''zig''] filters"
  using archive_order_stable [of cmp_less cmp_less "[sample_tip 1 ''zig'', sample_tip 2 ''ada'']"
      "[sample_tip 2 ''ada'', sample_tip 1 ''zig'']" js_lower]
  by (simp add: lawful_less sample_tip_def)

section \<open>Previews\<close>

lemma collapse_fixed: "collapse_spaces b (collapse_spaces b s) = collapse_spaces b s"
  by (induction b s rule: collapse_spaces.induct) (auto simp: is_js_space_def)

lemma js_trim_end_length: "length (js_trim_end s) \<le> length s"
  using length_dropWhile_le [of is_js_space "rev s"] by (simp add: js_trim_end_def)

lemma clip_length: "length (clip ellipsis limit s) \<le> max limit (limit - 1 + length ellipsis)"
  using js_trim_end_length [of "take (limit - 1) s"] by (auto simp: clip_def)

lemma preview_length: "length (archiveCardPreview ellipsis content) \<le> max 280 (279 + length ellipsis)"
  using clip_length [of ellipsis PREVIEW_CHARS] by (simp add: archiveCardPreview_def PREVIEW_CHARS_def)

lemma heading_length: "js_trim (tci_title c) = [] \<Longrightarrow> length (archiveCardHeading ellipsis c) \<le> max 80 (79 + length ellipsis)"
  using clip_length [of ellipsis HEADING_MAX] by (simp add: archiveCardHeading_def HEADING_MAX_def Let_def)

lemma topics_complete: "set (archiveTopics base cards) = {n. n \<noteq> [] \<and> n \<in> tci_topicName ` set cards}"
  by (auto simp: archiveTopics_def)

end
