(* ===== verification/Lightbox.thy ===== *)
theory Lightbox
  imports Complex_Main Prelude
begin

text \<open>
  \<open>lib/image-lightbox.ts\<close>, \<open>lib/image-thumbnail.ts\<close> and the state of \<open>ImageLightbox.tsx\<close> and \<open>LoadedImage.tsx\<close>: the
  images shown large, and the object URLs of the small ones. A \<open>number\<close> that measures is a real number, so the
  rounding of doubles is left out; an index is an integer, on which \<open>Math.trunc\<close> is the identity.
\<close>

definition LIGHTBOX_MIN_ZOOM :: real where "LIGHTBOX_MIN_ZOOM = 1"
definition LIGHTBOX_MAX_ZOOM :: real where "LIGHTBOX_MAX_ZOOM = 4"
definition LIGHTBOX_ZOOM_STEP :: real where "LIGHTBOX_ZOOM_STEP = 1 / 4"
definition LIGHTBOX_ZOOM_WHEEL_EXP_FACTOR :: real where "LIGHTBOX_ZOOM_WHEEL_EXP_FACTOR = 14 / 10000"

definition clampLightboxIndex :: "int \<Rightarrow> int \<Rightarrow> int" where
  "clampLightboxIndex index images = (if images \<le> 0 then 0 else min (max 0 index) (images - 1))"

definition nextLightboxIndex :: "int \<Rightarrow> int \<Rightarrow> int" where
  "nextLightboxIndex index images = (if images \<le> 0 then 0 else (clampLightboxIndex index images + 1) mod images)"

definition previousLightboxIndex :: "int \<Rightarrow> int \<Rightarrow> int" where
  "previousLightboxIndex index images = (if images \<le> 0 then 0 else (clampLightboxIndex index images + images - 1) mod images)"

definition clampLightboxZoom :: "real \<Rightarrow> real" where
  "clampLightboxZoom v = min LIGHTBOX_MAX_ZOOM (max LIGHTBOX_MIN_ZOOM v)"

definition doubleClickZoom :: "real \<Rightarrow> real" where
  "doubleClickZoom v = (if v > LIGHTBOX_MIN_ZOOM then LIGHTBOX_MIN_ZOOM else 2)"

type_synonym point = "real \<times> real"

definition panFromPointer :: "point \<Rightarrow> point \<Rightarrow> point \<Rightarrow> point" where
  "panFromPointer origin start current = (fst origin + fst current - fst start, snd origin + snd current - snd start)"

definition scaleWheelDelta :: "real \<Rightarrow> int \<Rightarrow> real" where
  "scaleWheelDelta delta mode = (if mode = 1 then delta * 18 else if mode = 2 then delta * 120 else delta)"

text \<open>The rectangle of the stage is its left and top with its width and height.\<close>

definition cursorOffsetInStage :: "point \<times> point \<Rightarrow> point \<Rightarrow> point" where
  "cursorOffsetInStage rect client =
     (fst client - (fst (fst rect) + fst (snd rect) / 2), snd client - (snd (fst rect) + snd (snd rect) / 2))"

definition panForZoomAtFocal :: "real \<Rightarrow> real \<Rightarrow> point \<Rightarrow> point \<Rightarrow> point" where
  "panForZoomAtFocal oldZoom newZoom pan focal =
     (let old = max oldZoom LIGHTBOX_MIN_ZOOM; ratio = newZoom / old
      in (fst focal - (fst focal - fst pan) * ratio, snd focal - (snd focal - snd pan) * ratio))"

definition nextWheelViewport :: "real \<Rightarrow> point \<Rightarrow> real \<Rightarrow> int \<Rightarrow> point \<Rightarrow> real \<times> point" where
  "nextWheelViewport zoom pan deltaY deltaMode focal =
     (let nextZoom = clampLightboxZoom (zoom * exp (- scaleWheelDelta deltaY deltaMode * LIGHTBOX_ZOOM_WHEEL_EXP_FACTOR))
      in if nextZoom \<le> LIGHTBOX_MIN_ZOOM then (LIGHTBOX_MIN_ZOOM, (0, 0))
         else (nextZoom, panForZoomAtFocal zoom nextZoom pan focal))"

definition shouldCloseLightboxOnStageClick :: "bool \<Rightarrow> bool \<Rightarrow> bool" where
  "shouldCloseLightboxOnStageClick dragged hitInteractive \<longleftrightarrow> \<not> dragged \<and> \<not> hitInteractive"

definition containedImageSize :: "real \<Rightarrow> real \<Rightarrow> real \<Rightarrow> real \<Rightarrow> real \<times> real" where
  "containedImageSize naturalWidth naturalHeight stageWidth stageHeight =
     (if naturalWidth \<le> 0 \<or> naturalHeight \<le> 0 \<or> stageWidth \<le> 0 \<or> stageHeight \<le> 0 then (0, 0)
      else let scale = min (stageWidth / naturalWidth) (stageHeight / naturalHeight)
           in (naturalWidth * scale, naturalHeight * scale))"

section \<open>The dialog\<close>

record LightboxState =
  lb_index :: int
  lb_zoom :: real
  lb_pan :: point
  lb_pointer :: "(int \<times> point \<times> point) option"
  lb_dragged :: bool

definition resetViewport :: "LightboxState \<Rightarrow> LightboxState" where
  "resetViewport s = s\<lparr>lb_zoom := LIGHTBOX_MIN_ZOOM, lb_pan := (0, 0), lb_pointer := None, lb_dragged := False\<rparr>"

definition lightbox_opened :: "int \<Rightarrow> int \<Rightarrow> LightboxState \<Rightarrow> LightboxState" where
  "lightbox_opened initialIndex images s = resetViewport (s\<lparr>lb_index := clampLightboxIndex initialIndex images\<rparr>)"

definition lightbox_select :: "int \<Rightarrow> int \<Rightarrow> LightboxState \<Rightarrow> LightboxState" where
  "lightbox_select images next s = resetViewport (s\<lparr>lb_index := clampLightboxIndex next images\<rparr>)"

definition lightbox_next :: "int \<Rightarrow> LightboxState \<Rightarrow> LightboxState" where
  "lightbox_next images s = lightbox_select images (nextLightboxIndex (lb_index s) images) s"

definition lightbox_previous :: "int \<Rightarrow> LightboxState \<Rightarrow> LightboxState" where
  "lightbox_previous images s = lightbox_select images (previousLightboxIndex (lb_index s) images) s"

definition adjustZoom :: "real \<Rightarrow> LightboxState \<Rightarrow> LightboxState" where
  "adjustZoom amount s =
     (let nextZoom = clampLightboxZoom (lb_zoom s + amount)
      in s\<lparr>lb_zoom := nextZoom, lb_pan := (if nextZoom = LIGHTBOX_MIN_ZOOM then (0, 0) else lb_pan s)\<rparr>)"

definition wheel_flush :: "real \<Rightarrow> point \<Rightarrow> LightboxState \<Rightarrow> LightboxState" where
  "wheel_flush pendingY focal s =
     (if pendingY = 0 then s
      else let (z, p) = nextWheelViewport (lb_zoom s) (lb_pan s) pendingY 0 focal in s\<lparr>lb_zoom := z, lb_pan := p\<rparr>)"

definition pointer_down :: "int \<Rightarrow> point \<Rightarrow> LightboxState \<Rightarrow> LightboxState" where
  "pointer_down pointerId client s =
     (let s1 = s\<lparr>lb_dragged := False\<rparr>
      in if lb_zoom s \<le> LIGHTBOX_MIN_ZOOM then s1 else s1\<lparr>lb_pointer := Some (pointerId, client, lb_pan s)\<rparr>)"

definition pointer_move :: "int \<Rightarrow> point \<Rightarrow> LightboxState \<Rightarrow> LightboxState" where
  "pointer_move pointerId client s =
     (case lb_pointer s of
        Some (i, start, pan) \<Rightarrow>
          if i \<noteq> pointerId then s
          else s\<lparr>lb_dragged := (lb_dragged s \<or> client \<noteq> start), lb_pan := panFromPointer pan start client\<rparr>
      | None \<Rightarrow> s)"

definition pointer_up :: "int \<Rightarrow> LightboxState \<Rightarrow> LightboxState" where
  "pointer_up pointerId s =
     (case lb_pointer s of Some (i, _) \<Rightarrow> if i = pointerId then s\<lparr>lb_pointer := None\<rparr> else s | None \<Rightarrow> s)"

definition double_click :: "LightboxState \<Rightarrow> LightboxState" where
  "double_click s =
     (let nextZoom = doubleClickZoom (lb_zoom s)
      in s\<lparr>lb_zoom := nextZoom, lb_pan := (if nextZoom = LIGHTBOX_MIN_ZOOM then (0, 0) else lb_pan s)\<rparr>)"

section \<open>Bounds and focus\<close>

lemma index_bounds: "0 < images \<Longrightarrow> 0 \<le> clampLightboxIndex i images \<and> clampLightboxIndex i images < images"
  by (auto simp: clampLightboxIndex_def)

lemma index_fixed: "0 \<le> i \<Longrightarrow> i < images \<Longrightarrow> clampLightboxIndex i images = i"
  by (auto simp: clampLightboxIndex_def)

lemma next_previous:
  assumes "0 \<le> i" "i < images" shows "previousLightboxIndex (nextLightboxIndex i images) images = i"
proof -
  have r: "0 \<le> (i + 1) mod images" "(i + 1) mod images < images" using assms by simp_all
  have "previousLightboxIndex (nextLightboxIndex i images) images = ((i + 1) mod images + images - 1) mod images"
    using assms r by (simp add: previousLightboxIndex_def nextLightboxIndex_def index_fixed)
  also have "\<dots> = i"
  proof (cases "i + 1 = images")
    case True
    then have "(i + 1) mod images + images - 1 = i" by simp
    then show ?thesis using assms by (simp only: mod_pos_pos_trivial)
  next
    case False
    then have "(i + 1) mod images = i + 1" using assms by simp
    then show ?thesis using assms by simp
  qed
  finally show ?thesis .
qed

lemma zoom_bounds: "1 \<le> clampLightboxZoom v \<and> clampLightboxZoom v \<le> 4"
  by (simp add: clampLightboxZoom_def LIGHTBOX_MIN_ZOOM_def LIGHTBOX_MAX_ZOOM_def)

text \<open>The image point under the cursor stays there: in coordinates of the unzoomed image it is the same before and after.\<close>

lemma focal_point_fixed:
  assumes "1 \<le> oldZoom" "0 < newZoom"
  shows "(fst focal - fst (panForZoomAtFocal oldZoom newZoom pan focal)) / newZoom = (fst focal - fst pan) / oldZoom"
    and "(snd focal - snd (panForZoomAtFocal oldZoom newZoom pan focal)) / newZoom = (snd focal - snd pan) / oldZoom"
  using assms by (simp_all add: panForZoomAtFocal_def Let_def LIGHTBOX_MIN_ZOOM_def max_def field_simps)

lemma contained_fits:
  assumes "0 < w" "0 < h" "0 < sw" "0 < sh"
  shows "fst (containedImageSize w h sw sh) \<le> sw \<and> snd (containedImageSize w h sw sh) \<le> sh \<and>
    (fst (containedImageSize w h sw sh) = sw \<or> snd (containedImageSize w h sw sh) = sh) \<and>
    fst (containedImageSize w h sw sh) * h = snd (containedImageSize w h sw sh) * w"
proof -
  define k where "k = min (sw / w) (sh / h)"
  have size: "containedImageSize w h sw sh = (w * k, h * k)" using assms by (simp add: containedImageSize_def k_def Let_def)
  have "k \<le> sw / w" "k \<le> sh / h" by (simp_all add: k_def)
  then have "w * k \<le> sw" "h * k \<le> sh" using assms by (simp_all add: pos_le_divide_eq mult.commute)
  moreover have "w * k = sw \<or> h * k = sh" using assms by (cases "sw / w \<le> sh / h") (simp_all add: k_def min_def)
  ultimately show ?thesis unfolding size by simp
qed

definition lightbox_ok :: "int \<Rightarrow> LightboxState \<Rightarrow> bool" where
  "lightbox_ok images s \<longleftrightarrow> 0 \<le> lb_index s \<and> lb_index s < images \<and> 1 \<le> lb_zoom s \<and> lb_zoom s \<le> 4"

datatype LightboxEvent =
    LbOpen int | LbSelect int | LbNext | LbPrevious | LbZoom real | LbWheel real point | LbDown int point | LbMove int point | LbReset
  | LbUp int | LbDoubleClick

fun lightbox_step :: "int \<Rightarrow> LightboxState \<Rightarrow> LightboxEvent \<Rightarrow> LightboxState" where
  "lightbox_step n s (LbOpen i) = lightbox_opened i n s"
| "lightbox_step n s (LbSelect i) = lightbox_select n i s"
| "lightbox_step n s LbNext = lightbox_next n s"
| "lightbox_step n s LbPrevious = lightbox_previous n s"
| "lightbox_step n s (LbZoom a) = adjustZoom a s"
| "lightbox_step n s (LbWheel y focal) = wheel_flush y focal s"
| "lightbox_step n s (LbDown i c) = pointer_down i c s"
| "lightbox_step n s (LbMove i c) = pointer_move i c s"
| "lightbox_step n s LbReset = resetViewport s"
| "lightbox_step n s (LbUp i) = pointer_up i s"
| "lightbox_step n s LbDoubleClick = double_click s"

lemma wheel_zoom_bounds: "1 \<le> fst (nextWheelViewport z p y m f) \<and> fst (nextWheelViewport z p y m f) \<le> 4"
  using zoom_bounds by (auto simp: nextWheelViewport_def Let_def LIGHTBOX_MIN_ZOOM_def)

lemma lightbox_step_ok:
  assumes "lightbox_ok n s" shows "lightbox_ok n (lightbox_step n s e)"
proof -
  have n: "0 < n" using assms by (simp add: lightbox_ok_def)
  note clamp = index_bounds [OF n]
  show ?thesis
  proof (cases e)
    case (LbWheel y focal)
    then show ?thesis
      using assms wheel_zoom_bounds [of "lb_zoom s" "lb_pan s" y 0 focal]
      by (simp add: lightbox_ok_def wheel_flush_def case_prod_beta)
  qed (use assms clamp zoom_bounds in \<open>auto simp: lightbox_ok_def lightbox_opened_def lightbox_select_def lightbox_next_def
      lightbox_previous_def resetViewport_def adjustZoom_def pointer_down_def pointer_move_def
      pointer_up_def double_click_def doubleClickZoom_def LIGHTBOX_MIN_ZOOM_def Let_def
      split: option.splits\<close>)
qed

text \<open>C35: whatever is clicked, dragged or scrolled, the lightbox shows an image it has, at a zoom between one and four.\<close>

theorem lightbox_stays_in_bounds:
  assumes "0 < images"
  shows "let s = foldl (lightbox_step images) (lightbox_opened initialIndex images s0) es
    in 0 \<le> lb_index s \<and> lb_index s < images \<and> 1 \<le> lb_zoom s \<and> lb_zoom s \<le> 4"
proof -
  have "lightbox_ok images (lightbox_opened initialIndex images s0)"
    using index_bounds [OF assms] by (simp add: lightbox_ok_def lightbox_opened_def resetViewport_def LIGHTBOX_MIN_ZOOM_def)
  then have "lightbox_ok images (foldl (lightbox_step images) (lightbox_opened initialIndex images s0) es)"
    by (induction es rule: rev_induct) (simp_all add: lightbox_step_ok)
  then show ?thesis by (simp add: lightbox_ok_def Let_def)
qed

lemma lightbox_stays_in_bounds_witness:
  "lb_index (lightbox_step 3 (lightbox_opened 2 3 \<lparr>lb_index = 0, lb_zoom = 1, lb_pan = (0, 0), lb_pointer = None, lb_dragged = False\<rparr>) LbNext) < 3"
  using lightbox_stays_in_bounds [of 3 2 "\<lparr>lb_index = 0, lb_zoom = 1, lb_pan = (0, 0), lb_pointer = None, lb_dragged = False\<rparr>" "[LbNext]"]
  by (simp add: Let_def)

section \<open>Thumbnails\<close>

definition LIST_IMAGE_MAX_EDGE_PX :: int where "LIST_IMAGE_MAX_EDGE_PX = 640"

text \<open>\<open>Math.round\<close> rounds halves up.\<close>

definition js_round :: "real \<Rightarrow> int" where
  "js_round x = \<lfloor>x + 1 / 2\<rfloor>"

definition thumbnailSize :: "int \<Rightarrow> int \<Rightarrow> int \<Rightarrow> int \<times> int" where
  "thumbnailSize width height maxEdge =
     (if width \<le> 0 \<or> height \<le> 0 \<or> maxEdge \<le> 0 then (0, 0)
      else let edge = max width height
           in if edge \<le> maxEdge then (width, height)
              else let scale = real_of_int maxEdge / real_of_int edge
                   in (max 1 (js_round (real_of_int width * scale)), max 1 (js_round (real_of_int height * scale))))"

lemma js_round_le: "x \<le> of_int n \<Longrightarrow> js_round x \<le> n"
  by (simp add: js_round_def floor_le_iff)

lemma thumbnail_bounds:
  assumes "0 < w" "0 < h" "0 < m"
  shows "1 \<le> fst (thumbnailSize w h m) \<and> fst (thumbnailSize w h m) \<le> m \<and> 1 \<le> snd (thumbnailSize w h m) \<and> snd (thumbnailSize w h m) \<le> m"
proof (cases "max w h \<le> m")
  case True
  with assms show ?thesis by (auto simp: thumbnailSize_def Let_def)
next
  case False
  have "real_of_int e * (real_of_int m / real_of_int (max w h)) \<le> of_int m" if "0 < e" "e \<le> max w h" for e
  proof -
    have "real_of_int e / real_of_int (max w h) \<le> 1" using that by simp
    then have "real_of_int e / real_of_int (max w h) * real_of_int m \<le> 1 * real_of_int m"
      using assms by (intro mult_right_mono) simp_all
    then show ?thesis by (simp add: field_simps)
  qed
  then have "js_round (real_of_int w * (real_of_int m / real_of_int (max w h))) \<le> m"
    "js_round (real_of_int h * (real_of_int m / real_of_int (max w h))) \<le> m"
    using assms by (auto intro!: js_round_le)
  with False assms show ?thesis by (auto simp: thumbnailSize_def Let_def)
qed

text \<open>\<open>listImageObjectUrl\<close> decodes to the width of the list, and again when the result is too high: the sizes of its bitmaps.
  A decode keeps the aspect ratio, which the argument rounds.\<close>

definition list_image_sizes :: "(int \<Rightarrow> int) \<Rightarrow> int \<Rightarrow> (int \<times> int) list" where
  "list_image_sizes height_at maxEdge =
     (let bitmap = (maxEdge, height_at maxEdge); sized = thumbnailSize (fst bitmap) (snd bitmap) maxEdge
      in if sized \<noteq> bitmap then [bitmap, sized] else [bitmap])"

lemma list_image_fits:
  assumes "0 < maxEdge" "0 < height_at maxEdge"
  shows "fst (last (list_image_sizes height_at maxEdge)) \<le> maxEdge \<and> snd (last (list_image_sizes height_at maxEdge)) \<le> maxEdge"
  using thumbnail_bounds [OF assms(1) assms(2) assms(1)] by (auto simp: list_image_sizes_def Let_def)

section \<open>Object URLs\<close>

text \<open>One run of the effect of \<open>LoadedImage\<close>: what it shows, the URL it has created, whether it was cleaned up. \<open>lim_live\<close>
  are the object URLs that exist: a load that settles makes one, a revocation removes one.\<close>

record LoadedImage =
  lim_display :: jsstring
  lim_created :: "jsstring option"
  lim_cancelled :: bool
  lim_settled :: bool
  lim_live :: "jsstring list"

definition revokeBlobUrl :: "jsstring \<Rightarrow> jsstring list \<Rightarrow> jsstring list" where
  "revokeBlobUrl url live = (if js_starts_with ''blob:'' url then remove1 url live else live)"

definition image_effect :: "jsstring \<Rightarrow> bool \<Rightarrow> jsstring list \<Rightarrow> LoadedImage" where
  "image_effect src downsample live =
     \<lparr>lim_display = (if src = [] \<or> \<not> downsample then src else []), lim_created = None, lim_cancelled = False,
      lim_settled = (src = [] \<or> \<not> downsample), lim_live = live\<rparr>"

text \<open>The promise settles once: with the URL of a new blob, or with a failure that shows the source itself.\<close>

definition image_loaded :: "jsstring \<Rightarrow> LoadedImage \<Rightarrow> LoadedImage" where
  "image_loaded url s =
     (if lim_settled s then s
      else let s1 = s\<lparr>lim_settled := True, lim_live := url # lim_live s\<rparr>
           in if lim_cancelled s then s1\<lparr>lim_live := revokeBlobUrl url (lim_live s1)\<rparr>
              else s1\<lparr>lim_created := Some url, lim_display := url\<rparr>)"

definition image_failed :: "jsstring \<Rightarrow> LoadedImage \<Rightarrow> LoadedImage" where
  "image_failed src s =
     (if lim_settled s then s else let s1 = s\<lparr>lim_settled := True\<rparr> in if lim_cancelled s then s1 else s1\<lparr>lim_display := src\<rparr>)"

definition image_cleanup :: "LoadedImage \<Rightarrow> LoadedImage" where
  "image_cleanup s =
     (if lim_cancelled s then s
      else s\<lparr>lim_cancelled := True, lim_live := (case lim_created s of None \<Rightarrow> lim_live s | Some url \<Rightarrow> revokeBlobUrl url (lim_live s))\<rparr>)"

datatype ImageEvent = ImageLoaded jsstring | ImageFailed | ImageCleanup

fun image_step :: "jsstring \<Rightarrow> LoadedImage \<Rightarrow> ImageEvent \<Rightarrow> LoadedImage" where
  "image_step src s (ImageLoaded url) = image_loaded url s"
| "image_step src s ImageFailed = image_failed src s"
| "image_step src s ImageCleanup = image_cleanup s"

definition image_inv :: "jsstring list \<Rightarrow> LoadedImage \<Rightarrow> bool" where
  "image_inv live s \<longleftrightarrow>
     (if lim_cancelled s then lim_live s = live
      else case lim_created s of None \<Rightarrow> lim_live s = live | Some url \<Rightarrow> lim_live s = url # live \<and> js_starts_with ''blob:'' url)"

fun blob_event :: "ImageEvent \<Rightarrow> bool" where
  "blob_event (ImageLoaded url) = js_starts_with ''blob:'' url"
| "blob_event e = True"

lemma image_step_inv:
  assumes "blob_event e" "image_inv live s" "lim_created s \<noteq> None \<Longrightarrow> lim_settled s"
  shows "image_inv live (image_step src s e) \<and> (lim_created (image_step src s e) \<noteq> None \<longrightarrow> lim_settled (image_step src s e))"
  using assms
  by (cases e) (auto simp: image_inv_def image_loaded_def image_failed_def image_cleanup_def revokeBlobUrl_def Let_def
      split: if_splits option.splits)

text \<open>C36: no thumbnail leaks: in whatever order the decode ends and the image goes away, once it is gone the object URLs are
  those there were before it.\<close>

theorem thumbnails_revoked:
  assumes "list_all blob_event es"
  shows "lim_cancelled (foldl (image_step src) (image_effect src downsample live) es) \<longrightarrow>
    lim_live (foldl (image_step src) (image_effect src downsample live) es) = live"
proof -
  have "image_inv live (foldl (image_step src) (image_effect src downsample live) es) \<and>
      (lim_created (foldl (image_step src) (image_effect src downsample live) es) \<noteq> None \<longrightarrow>
       lim_settled (foldl (image_step src) (image_effect src downsample live) es))"
    using assms
  proof (induction es rule: rev_induct)
    case Nil
    show ?case by (simp add: image_inv_def image_effect_def)
  next
    case (snoc e es)
    then show ?case using image_step_inv [of e live "foldl (image_step src) (image_effect src downsample live) es" src] by simp
  qed
  then show ?thesis by (simp add: image_inv_def)
qed

lemma thumbnails_revoked_witness:
  "lim_live (foldl (image_step ''/a.png'') (image_effect ''/a.png'' True []) [ImageCleanup, ImageLoaded ''blob:1'']) = []"
  using thumbnails_revoked [of "[ImageCleanup, ImageLoaded ''blob:1'']" "''/a.png''" True "[]"]
  by (simp add: js_starts_with_def image_loaded_def image_cleanup_def image_effect_def Let_def)

end
