(* ===== verification/Lab.thy ===== *)
theory Lab
  imports Url_Params Flow_View Review_State
begin

text \<open>
  The lab of cards: \<open>lib/lab-review.ts\<close> (two runs of a bench side by side, and the file of judgments), \<open>lab-card-view.ts\<close>
  and \<open>lab-card-state.ts\<close> (fixtures as cards, and what the buttons of the gallery do to them) and
  \<open>lab-gallery-controls.ts\<close> (the settings of the gallery in the address). Numbers of a fixture are integers.
\<close>

section \<open>Review payloads\<close>

definition LAB_REVIEW_DIMENSIONS :: "jsstring list" where
  "LAB_REVIEW_DIMENSIONS = [''overall'', ''correctness'', ''learnability'', ''compression'', ''image_relevance'', ''ui_fit'']"

record LabReviewPromptArtifact =
  lpa_title :: jsstring
  lpa_fullContent :: jsstring
  lpa_compressedContent :: jsstring
  lpa_useImage :: bool
  lpa_imageQuery :: jsstring

record LabReviewCommon =
  lrc_key :: jsstring
  lrc_caseId :: jsstring
  lrc_expected :: jsstring
  lrc_metrics :: "(jsstring \<times> json) list"

datatype LabReviewRow =
    LabPrompt LabReviewCommon "LabReviewPromptArtifact option"
  | LabImage LabReviewCommon jsstring "jsstring option"

record LabReviewRun =
  lrr_side :: jsstring
  lrr_bench :: jsstring
  lrr_label :: jsstring
  lrr_source :: jsstring
  lrr_manifest :: "(jsstring \<times> json) list option"
  lrr_rows :: "LabReviewRow list"

record LabReviewPayload =
  lrp_baseline :: LabReviewRun
  lrp_candidate :: LabReviewRun

record LabReviewJudgment =
  lrj_key :: jsstring
  lrj_dimensions :: "(jsstring \<times> jsstring) list"
  lrj_note :: jsstring

record LabReviewFile =
  lrf_baselineSource :: jsstring
  lrf_candidateSource :: jsstring
  lrf_updatedAt :: jsstring
  lrf_judgments :: "LabReviewJudgment list"

definition stringField :: "(jsstring \<times> json) list \<Rightarrow> jsstring \<Rightarrow> js_error + jsstring" where
  "stringField v key = (case json_field v key of Some (JStr s) \<Rightarrow> Inr s | _ \<Rightarrow> Inl (PlainError (''missing string '' @ key)))"

definition nullableStringField :: "(jsstring \<times> json) list \<Rightarrow> jsstring \<Rightarrow> js_error + jsstring option" where
  "nullableStringField v key =
     (case json_field v key of
        Some JNull \<Rightarrow> Inr None | Some (JStr s) \<Rightarrow> Inr (Some s) | _ \<Rightarrow> Inl (PlainError (''invalid '' @ key)))"

fun is_scalar :: "json \<Rightarrow> bool" where
  "is_scalar JNull = True"
| "is_scalar (JBool b) = True"
| "is_scalar (JNum r) = True"
| "is_scalar (JInf b) = True"
| "is_scalar (JStr s) = True"
| "is_scalar j = False"

definition parseMetrics :: "json option \<Rightarrow> js_error + (jsstring \<times> json) list" where
  "parseMetrics v =
     (case v of
        Some (JObj obj) \<Rightarrow>
          map_result (\<lambda>(key, metric). if is_scalar metric then Inr (key, metric) else Inl (PlainError (''invalid metric '' @ key))) obj
      | _ \<Rightarrow> Inl (PlainError ''metrics must be an object''))"

definition parsePromptArtifact :: "json option \<Rightarrow> js_error + LabReviewPromptArtifact option" where
  "parsePromptArtifact v =
     (case v of
        Some JNull \<Rightarrow> Inr None
      | Some (JObj obj) \<Rightarrow>
          (case json_field obj ''useImage'' of
             Some (JBool useImage) \<Rightarrow>
               sum_bind (stringField obj ''title'') (\<lambda>title.
               sum_bind (stringField obj ''fullContent'') (\<lambda>fullContent.
               sum_bind (stringField obj ''compressedContent'') (\<lambda>compressedContent.
               sum_bind (stringField obj ''imageQuery'') (\<lambda>imageQuery.
                 Inr (Some \<lparr>lpa_title = title, lpa_fullContent = fullContent, lpa_compressedContent = compressedContent,
                            lpa_useImage = useImage, lpa_imageQuery = imageQuery\<rparr>)))))
           | _ \<Rightarrow> Inl (PlainError ''invalid useImage''))
      | _ \<Rightarrow> Inl (PlainError ''prompt artifact must be an object''))"

definition parseRow :: "json \<Rightarrow> js_error + LabReviewRow" where
  "parseRow v =
     (case v of
        JObj obj \<Rightarrow>
          sum_bind (stringField obj ''key'') (\<lambda>key.
          sum_bind (stringField obj ''caseId'') (\<lambda>caseId.
          sum_bind (stringField obj ''expected'') (\<lambda>expected.
          sum_bind (parseMetrics (json_field obj ''metrics'')) (\<lambda>metrics.
            let common = \<lparr>lrc_key = key, lrc_caseId = caseId, lrc_expected = expected, lrc_metrics = metrics\<rparr>
            in if json_field obj ''kind'' = Some (JStr ''prompt'') then
                 sum_bind (parsePromptArtifact (json_field obj ''artifact'')) (\<lambda>artifact. Inr (LabPrompt common artifact))
               else if json_field obj ''kind'' = Some (JStr ''image'') then
                 sum_bind (stringField obj ''strategy'') (\<lambda>strategy.
                 sum_bind (nullableStringField obj ''artifact'') (\<lambda>artifact. Inr (LabImage common strategy artifact)))
               else Inl (PlainError ''review row has an unknown kind'')))))
      | _ \<Rightarrow> Inl (PlainError ''review row must be an object''))"

definition parseRun :: "json option \<Rightarrow> js_error + LabReviewRun" where
  "parseRun v =
     (case v of
        Some (JObj obj) \<Rightarrow>
          (case json_field obj ''rows'' of
             Some (JArr rows) \<Rightarrow>
               (case json_field obj ''side'' of
                  Some (JStr side) \<Rightarrow>
                    if side \<noteq> ''baseline'' \<and> side \<noteq> ''candidate'' then Inl (PlainError ''invalid review side'')
                    else (case json_field obj ''bench'' of
                       Some (JStr bench) \<Rightarrow>
                         if bench \<noteq> ''images'' \<and> bench \<noteq> ''prompts'' then Inl (PlainError ''invalid review bench'')
                         else sum_bind (case json_field obj ''manifest'' of
                                  Some JNull \<Rightarrow> Inr None | Some (JObj m) \<Rightarrow> Inr (Some m) | _ \<Rightarrow> Inl (PlainError ''invalid review manifest''))
                                (\<lambda>manifest.
                              sum_bind (stringField obj ''label'') (\<lambda>label.
                              sum_bind (stringField obj ''source'') (\<lambda>source.
                              sum_bind (map_result parseRow rows) (\<lambda>parsed.
                                Inr \<lparr>lrr_side = side, lrr_bench = bench, lrr_label = label, lrr_source = source,
                                     lrr_manifest = manifest, lrr_rows = parsed\<rparr>))))
                     | _ \<Rightarrow> Inl (PlainError ''invalid review bench''))
                | _ \<Rightarrow> Inl (PlainError ''invalid review side''))
           | _ \<Rightarrow> Inl (PlainError ''review run must contain rows''))
      | _ \<Rightarrow> Inl (PlainError ''review run must contain rows''))"

definition parseLabReviewPayload :: "json \<Rightarrow> js_error + LabReviewPayload" where
  "parseLabReviewPayload v =
     (case v of
        JObj obj \<Rightarrow>
          if json_field obj ''version'' \<noteq> Some (JNum 1) then Inl (PlainError ''unsupported lab review payload'')
          else sum_bind (parseRun (json_field obj ''baseline'')) (\<lambda>baseline.
               sum_bind (parseRun (json_field obj ''candidate'')) (\<lambda>candidate.
                 if lrr_side baseline \<noteq> ''baseline'' \<or> lrr_side candidate \<noteq> ''candidate''
                 then Inl (PlainError ''lab review sides are reversed'')
                 else if lrr_bench baseline \<noteq> lrr_bench candidate then Inl (PlainError ''cannot review different bench types'')
                 else Inr \<lparr>lrp_baseline = baseline, lrp_candidate = candidate\<rparr>))
      | _ \<Rightarrow> Inl (PlainError ''unsupported lab review payload''))"

fun row_key :: "LabReviewRow \<Rightarrow> jsstring" where
  "row_key (LabPrompt common _) = lrc_key common"
| "row_key (LabImage common _ _) = lrc_key common"

definition rows_by_key :: "LabReviewRow list \<Rightarrow> jsstring \<rightharpoonup> LabReviewRow" where
  "rows_by_key rows = map_of (rev (map (\<lambda>row. (row_key row, row)) rows))"

definition pairedReviewRows :: "LabReviewPayload \<Rightarrow> (jsstring \<times> LabReviewRow option \<times> LabReviewRow option) list" where
  "pairedReviewRows payload =
     (let baseline = lrr_rows (lrp_baseline payload); candidate = lrr_rows (lrp_candidate payload);
          keys = sort (remdups (map row_key baseline @ map row_key candidate))
      in map (\<lambda>key. (key, rows_by_key baseline key, rows_by_key candidate key)) keys)"

definition promptArtifactToFlowCard :: "LabReviewPromptArtifact \<Rightarrow> bigint \<Rightarrow> FlowCardInfo" where
  "promptArtifactToFlowCard artifact i = \<lparr>fc_id = i, fc_topicName = ''Lab candidate'', fc_topicIcon = ''radix-icons:bookmark'',
     fc_topicColor = [], fc_title = lpa_title artifact, fc_fullContent = lpa_fullContent artifact,
     fc_compressedContent = lpa_compressedContent artifact, fc_createdAt = [], fc_tipcardType = ''casual_tip'',
     fc_status = ''active'', fc_nextReviewAt = [], fc_repeatCount = 0, fc_pinned = False, fc_pendingCount = 0, fc_images = [],
     fc_sources = [], fc_groundingStatus = [], fc_groundingSourceMode = [], fc_groundingEvidence = []\<rparr>"

definition reviewStorageKey :: "LabReviewPayload \<Rightarrow> jsstring" where
  "reviewStorageKey payload = ''denpie-lab-review:'' @ lrr_source (lrp_baseline payload) @ '':'' @ lrr_source (lrp_candidate payload)"

definition verdict_of :: "json option \<Rightarrow> jsstring option" where
  "verdict_of v = (case v of Some (JStr s) \<Rightarrow> if s \<in> {''baseline'', ''tie'', ''candidate''} then Some s else None | _ \<Rightarrow> None)"

definition read_dimensions :: "(jsstring \<times> json) list \<Rightarrow> (jsstring \<times> jsstring) list" where
  "read_dimensions dims = List.map_filter (\<lambda>d. map_option (\<lambda>v. (d, v)) (verdict_of (json_field dims d))) LAB_REVIEW_DIMENSIONS"

definition parse_judgment :: "json \<Rightarrow> js_error + LabReviewJudgment" where
  "parse_judgment entry =
     (case entry of
        JObj obj \<Rightarrow>
          (case json_field obj ''dimensions'' of
             Some (JObj dims) \<Rightarrow>
               sum_bind (stringField obj ''key'') (\<lambda>key.
               sum_bind (stringField obj ''note'') (\<lambda>note.
                 Inr \<lparr>lrj_key = key, lrj_dimensions = read_dimensions dims, lrj_note = note\<rparr>))
           | _ \<Rightarrow> Inl (PlainError ''invalid review judgment''))
      | _ \<Rightarrow> Inl (PlainError ''invalid review judgment''))"

definition parseLabReviewFile :: "json \<Rightarrow> js_error + LabReviewFile" where
  "parseLabReviewFile v =
     (case v of
        JObj obj \<Rightarrow>
          (case (json_field obj ''version'' = Some (JNum 1), json_field obj ''judgments'') of
             (True, Some (JArr entries)) \<Rightarrow>
               sum_bind (map_result parse_judgment entries) (\<lambda>judgments.
               sum_bind (stringField obj ''baselineSource'') (\<lambda>baselineSource.
               sum_bind (stringField obj ''candidateSource'') (\<lambda>candidateSource.
               sum_bind (stringField obj ''updatedAt'') (\<lambda>updatedAt.
                 Inr \<lparr>lrf_baselineSource = baselineSource, lrf_candidateSource = candidateSource, lrf_updatedAt = updatedAt,
                      lrf_judgments = judgments\<rparr>))))
           | _ \<Rightarrow> Inl (PlainError ''unsupported review file''))
      | _ \<Rightarrow> Inl (PlainError ''unsupported review file''))"

text \<open>The file as the workbench's \<open>JSON.stringify\<close> writes it.\<close>

definition judgment_json :: "LabReviewJudgment \<Rightarrow> json" where
  "judgment_json j = JObj [(''key'', JStr (lrj_key j)), (''dimensions'', JObj (map (\<lambda>(d, v). (d, JStr v)) (lrj_dimensions j))),
     (''note'', JStr (lrj_note j))]"

definition file_json :: "LabReviewFile \<Rightarrow> json" where
  "file_json f = JObj [(''version'', JNum 1), (''baselineSource'', JStr (lrf_baselineSource f)),
     (''candidateSource'', JStr (lrf_candidateSource f)), (''updatedAt'', JStr (lrf_updatedAt f)),
     (''judgments'', JArr (map judgment_json (lrf_judgments f)))]"

section \<open>What a read file writes\<close>

lemma stringField_head: "stringField ((k, JStr s) # obj) k = Inr s" "k \<noteq> l \<Longrightarrow> stringField ((l, j) # obj) k = stringField obj k"
  by (simp_all add: stringField_def json_field_def)

lemma map_filter_pairs:
  "distinct ds \<Longrightarrow> d \<in> set ds \<Longrightarrow>
   map_of (map (\<lambda>(d, v). (d, JStr v)) (List.map_filter (\<lambda>d. map_option (\<lambda>v. (d, v)) (f d)) ds)) d = map_option JStr (f d)"
proof (induction ds)
  case Nil
  then show ?case by simp
next
  case (Cons e ds)
  have "map_of (map (\<lambda>(d, v). (d, JStr v)) (List.map_filter (\<lambda>d. map_option (\<lambda>v. (d, v)) (f d)) ds)) e = None"
    using Cons.prems(1) by (induction ds) (auto simp: List.map_filter_simps split: option.splits)
  with Cons show ?case by (auto simp: List.map_filter_simps split: option.splits)
qed

lemma verdict_again: "verdict_of (map_option JStr (verdict_of v)) = verdict_of v"
  by (auto simp: verdict_of_def split: option.splits json.splits)

lemma map_filter_cong:
  "\<forall>d \<in> set ds. f d = g d \<Longrightarrow> List.map_filter f ds = List.map_filter g ds"
  by (induction ds) (simp_all add: List.map_filter_simps split: option.splits)

lemma read_dimensions_again: "read_dimensions (map (\<lambda>(d, v). (d, JStr v)) (read_dimensions dims)) = read_dimensions dims"
proof -
  let ?f = "\<lambda>d. verdict_of (json_field dims d)"
  have "distinct LAB_REVIEW_DIMENSIONS" by code_simp
  note same = map_filter_pairs [OF this, of _ ?f]
  have "\<forall>d \<in> set LAB_REVIEW_DIMENSIONS. verdict_of (json_field (map (\<lambda>(d, v). (d, JStr v)) (read_dimensions dims)) d) = ?f d"
    unfolding read_dimensions_def using same by (simp add: json_field_def verdict_again)
  then show ?thesis
    unfolding read_dimensions_def [of "map _ _"] by (subst map_filter_cong) (auto simp: read_dimensions_def)
qed

lemma judgment_again: "parse_judgment entry = Inr j \<Longrightarrow> parse_judgment (judgment_json j) = Inr j"
  by (auto simp: parse_judgment_def judgment_json_def json_field_def stringField_def sum_bind_Inr
      read_dimensions_again [unfolded json_field_def] split: json.splits option.splits)

lemma judgments_again:
  "map_result parse_judgment entries = Inr js \<Longrightarrow> map_result parse_judgment (map judgment_json js) = Inr js"
  by (induction entries arbitrary: js) (auto simp: sum_bind_Inr judgment_again)

text \<open>The review file that \<open>parseLabReviewFile\<close> accepts, written out again, reads back as the same judgments.\<close>

theorem lab_file_round_trip: "parseLabReviewFile v = Inr f \<Longrightarrow> parseLabReviewFile (file_json f) = Inr f"
  by (auto simp: parseLabReviewFile_def file_json_def json_field_def stringField_def sum_bind_Inr judgments_again
      split: json.splits option.splits bool.splits)

section \<open>Fixtures as cards\<close>

record LabFixtureSource =
  lfs_document_id :: int
  lfs_source_type :: jsstring
  lfs_title :: jsstring
  lfs_url :: "jsstring option"

text \<open>\<open>review_message\<close> is absent, \<open>null\<close> or a string.\<close>

record LabCardFixtureJson =
  lf_id :: jsstring
  lf_topic_name :: jsstring
  lf_title :: jsstring
  lf_full_content :: jsstring
  lf_compressed_content :: jsstring
  lf_tipcard_type :: jsstring
  lf_status :: jsstring
  lf_pinned :: bool
  lf_pending_count :: int
  lf_created_at :: "jsstring option"
  lf_next_review_at :: "jsstring option"
  lf_repeat_count :: "int option"
  lf_topic_color :: "jsstring option"
  lf_topic_icon :: "jsstring option"
  lf_sources :: "LabFixtureSource list option"
  lf_images :: "jsstring list option"
  lf_review_message :: "jsstring option option"
  lf_notes :: jsstring

definition fixtureImage :: "nat \<Rightarrow> jsstring \<Rightarrow> TipcardImageInfo" where
  "fixtureImage index downloadPath = \<lparr>im_id = int index + 1, im_position = int index, im_mimeType = ''image/png'',
     im_byteSize = 0, im_downloadPath = downloadPath\<rparr>"

definition fixtureToFlowCard :: "LabCardFixtureJson \<Rightarrow> nat \<Rightarrow> FlowCardInfo" where
  "fixtureToFlowCard fixture index =
     \<lparr>fc_id = int index + 1, fc_topicName = lf_topic_name fixture,
      fc_topicIcon = (case lf_topic_icon fixture of None \<Rightarrow> ''radix-icons:bookmark'' | Some icon \<Rightarrow> icon),
      fc_topicColor = (case lf_topic_color fixture of None \<Rightarrow> [] | Some color \<Rightarrow> color), fc_title = lf_title fixture,
      fc_fullContent = lf_full_content fixture, fc_compressedContent = lf_compressed_content fixture,
      fc_createdAt = (case lf_created_at fixture of None \<Rightarrow> [] | Some t \<Rightarrow> t), fc_tipcardType = lf_tipcard_type fixture,
      fc_status = lf_status fixture, fc_nextReviewAt = (case lf_next_review_at fixture of None \<Rightarrow> [] | Some t \<Rightarrow> t),
      fc_repeatCount = (case lf_repeat_count fixture of None \<Rightarrow> 0 | Some n \<Rightarrow> n), fc_pinned = lf_pinned fixture,
      fc_pendingCount = lf_pending_count fixture,
      fc_images = (let paths = (case lf_images fixture of None \<Rightarrow> [] | Some ps \<Rightarrow> ps)
                   in map (\<lambda>(path, position). fixtureImage position path) (zip paths [0..<length paths])),
      fc_sources = map (\<lambda>source. \<lparr>cs_documentId = lfs_document_id source, cs_sourceType = lfs_source_type source,
                                  cs_title = lfs_title source, cs_url = lfs_url source\<rparr>)
                       (case lf_sources fixture of None \<Rightarrow> [] | Some ss \<Rightarrow> ss),
      fc_groundingStatus = [], fc_groundingSourceMode = [], fc_groundingEvidence = []\<rparr>"

definition repeatableStackLayersFromCount :: "jsstring \<Rightarrow> bigint \<Rightarrow> int" where
  "repeatableStackLayersFromCount tipcardType pendingCount =
     (if tipcardType \<noteq> ''repeatable_tip'' \<or> pendingCount \<le> 0 then 0 else if pendingCount \<ge> 3 then 3 else pendingCount)"

record LabCardView =
  lv_fixtureId :: jsstring
  lv_notes :: jsstring
  lv_reviewMessage :: "jsstring option"
  lv_stackLayers :: int
  lv_view :: FlowCardView

definition labCardViews :: "LabCardFixtureJson list \<Rightarrow> LabCardView list" where
  "labCardViews fixtures = map (\<lambda>(fixture, index).
     \<lparr>lv_fixtureId = lf_id fixture, lv_notes = lf_notes fixture,
      lv_reviewMessage = (case lf_review_message fixture of None \<Rightarrow> None | Some m \<Rightarrow> m),
      lv_stackLayers = repeatableStackLayersFromCount (lf_tipcard_type fixture) (lf_pending_count fixture),
      lv_view = toFlowCardView (fixtureToFlowCard fixture index)\<rparr>) (zip fixtures [0..<length fixtures])"

text \<open>The layers of the fixture are those the Flow draws for its card.\<close>

lemma fixture_stack_layers: "repeatableStackLayers (fixtureToFlowCard fixture index) =
    repeatableStackLayersFromCount (lf_tipcard_type fixture) (lf_pending_count fixture)"
  by (simp add: repeatableStackLayers_def repeatableStackLayersFromCount_def fixtureToFlowCard_def)

section \<open>What the gallery's buttons do\<close>

text \<open>A \<open>card\<close> holds a live slot, a \<open>followUp\<close> one of the four others and the card that was reviewed.\<close>

datatype LabCardState =
    LabCard (lab_fixtureId: jsstring) (lab_notes: jsstring) (lab_slot: ReviewSlot)
  | LabFollowUp (lab_fixtureId: jsstring) (lab_notes: jsstring) (lab_slot: ReviewSlot) (lab_reviewedCard: FlowCardInfo)

definition reviewedIdentity :: "FlowCardInfo \<Rightarrow> ReviewedSlotIdentity" where
  "reviewedIdentity fcard = \<lparr>ri_reviewedCardId = fc_id fcard, ri_topicName = fc_topicName fcard, ri_title = fc_title fcard,
     ri_createdAt = fc_createdAt fcard, ri_tipcardType = fc_tipcardType fcard, ri_pinned = fc_pinned fcard\<rparr>"

definition fixtureState :: "LabCardFixtureJson \<Rightarrow> nat \<Rightarrow> LabCardState" where
  "fixtureState fixture index =
     (let fcard = fixtureToFlowCard fixture index
      in if fc_status fcard \<noteq> ''reviewed'' \<or> lf_review_message fixture = Some (Some ''Review saved'')
         then LabCard (lf_id fixture) (lf_notes fixture) (SlotIdle fcard)
         else if lf_review_message fixture \<noteq> Some None
         then LabFollowUp (lf_id fixture) (lf_notes fixture) (SlotCompleted (reviewedIdentity fcard)) fcard
         else LabFollowUp (lf_id fixture) (lf_notes fixture) (SlotAwaitingRefill 1 0 (reviewedIdentity fcard)) fcard)"

definition labCardsFromFixtures :: "LabCardFixtureJson list \<Rightarrow> LabCardState list" where
  "labCardsFromFixtures fixtures = map (\<lambda>(fixture, index). fixtureState fixture index) (zip fixtures [0..<length fixtures])"

fun labCardId :: "LabCardState \<Rightarrow> bigint" where
  "labCardId (LabCard _ _ slot) = fc_id (slot_card slot)"
| "labCardId (LabFollowUp _ _ slot _) = ri_reviewedCardId (slot_reviewed slot)"

fun with_slot_card :: "FlowCardInfo \<Rightarrow> ReviewSlot \<Rightarrow> ReviewSlot" where
  "with_slot_card fcard (SlotIdle _) = SlotIdle fcard"
| "with_slot_card fcard (SlotReviewing _ g a) = SlotReviewing fcard g a"
| "with_slot_card fcard (SlotError _ g a i m) = SlotError fcard g a i m"
| "with_slot_card fcard slot = slot"

definition pinLabCard :: "LabCardState list \<Rightarrow> bigint \<Rightarrow> bool \<Rightarrow> LabCardState list" where
  "pinLabCard cards i pinned = map (\<lambda>item. case item of
       LabCard f n slot \<Rightarrow>
         if fc_id (slot_card slot) = i then LabCard f n (with_slot_card ((slot_card slot)\<lparr>fc_pinned := pinned\<rparr>) slot) else item
     | LabFollowUp _ _ _ _ \<Rightarrow> item) cards"

definition deleteLabCard :: "LabCardState list \<Rightarrow> bigint \<Rightarrow> LabCardState list" where
  "deleteLabCard cards i = filter (\<lambda>item. labCardId item \<noteq> i) cards"

definition reviewLabCard :: "LabCardState list \<Rightarrow> bigint \<Rightarrow> LabCardState list" where
  "reviewLabCard cards i = map (\<lambda>item. case item of
       LabCard f n (SlotIdle fcard) \<Rightarrow>
         if fc_id fcard = i then LabFollowUp f n (SlotCompleted (reviewedIdentity fcard)) fcard else item
     | _ \<Rightarrow> item) cards"

definition continueLabCard :: "LabCardState list \<Rightarrow> bigint \<Rightarrow> LabCardState list" where
  "continueLabCard cards i = map (\<lambda>item. case item of
       LabFollowUp f n (SlotCompleted r) reviewed \<Rightarrow>
         if ri_reviewedCardId r = i then LabCard f n (SlotIdle (reviewed\<lparr>fc_status := ''active''\<rparr>)) else item
     | _ \<Rightarrow> item) cards"

definition live_slot :: "ReviewSlot \<Rightarrow> bool" where
  "live_slot slot = (case slot of SlotIdle _ \<Rightarrow> True | SlotReviewing _ _ _ \<Rightarrow> True | SlotError _ _ _ _ _ \<Rightarrow> True | _ \<Rightarrow> False)"

definition lab_ok :: "LabCardState \<Rightarrow> bool" where
  "lab_ok item = (case item of
       LabCard _ _ slot \<Rightarrow> live_slot slot
     | LabFollowUp _ _ slot reviewed \<Rightarrow> \<not> live_slot slot \<and> slot_reviewed slot = reviewedIdentity reviewed)"

definition gallery_ok :: "LabCardState list \<Rightarrow> bool" where
  "gallery_ok cards = (list_all lab_ok cards \<and> distinct (map labCardId cards))"

inductive lab_step :: "LabCardState list \<Rightarrow> LabCardState list \<Rightarrow> bool" where
  lab_pin: "lab_step cards (pinLabCard cards i pinned)"
| lab_delete: "lab_step cards (deleteLabCard cards i)"
| lab_review: "lab_step cards (reviewLabCard cards i)"
| lab_continue: "lab_step cards (continueLabCard cards i)"

inductive lab_reachable :: "LabCardFixtureJson list \<Rightarrow> LabCardState list \<Rightarrow> bool" for fixtures where
  lab_start: "lab_reachable fixtures (labCardsFromFixtures fixtures)"
| lab_next: "lab_reachable fixtures cards \<Longrightarrow> lab_step cards cards' \<Longrightarrow> lab_reachable fixtures cards'"

lemma reviewedIdentity_id [simp]: "ri_reviewedCardId (reviewedIdentity fcard) = fc_id fcard"
  by (simp add: reviewedIdentity_def)

lemma with_slot_card_live [simp]:
  "live_slot slot \<Longrightarrow> slot_card (with_slot_card fcard slot) = fcard" "live_slot (with_slot_card fcard slot) = live_slot slot"
  by (cases slot; simp add: live_slot_def)+

lemma live_slot_simps [simp]: "live_slot (SlotIdle c)" "\<not> live_slot (SlotCompleted r)" "\<not> live_slot (SlotAwaitingRefill t a r)"
  by (simp_all add: live_slot_def)

text \<open>A step that maps the items keeps the gallery, when it keeps each item's identifier and shape.\<close>

lemma gallery_map:
  assumes "gallery_ok cards" "\<And>item. lab_ok item \<Longrightarrow> lab_ok (f item) \<and> labCardId (f item) = labCardId item"
  shows "gallery_ok (map f cards)"
proof -
  have "map labCardId (map f cards) = map labCardId cards"
    using assms by (auto simp: gallery_ok_def list_all_iff)
  then show ?thesis using assms unfolding gallery_ok_def by (metis (no_types, lifting) list.pred_map list_all_iff comp_apply)
qed

lemma gallery_step: "lab_step cards cards' \<Longrightarrow> gallery_ok cards \<Longrightarrow> gallery_ok cards'"
proof (induction rule: lab_step.induct)
  case (lab_pin cards i pinned)
  then show ?case unfolding pinLabCard_def
    by (rule gallery_map) (auto simp: lab_ok_def split: LabCardState.splits)
next
  case (lab_delete cards i)
  then show ?case by (auto simp: gallery_ok_def deleteLabCard_def list_all_iff distinct_map_filter)
next
  case (lab_review cards i)
  then show ?case unfolding reviewLabCard_def
    by (rule gallery_map) (auto simp: lab_ok_def split: LabCardState.splits ReviewSlot.splits)
next
  case (lab_continue cards i)
  then show ?case unfolding continueLabCard_def
    by (rule gallery_map) (auto simp: lab_ok_def split: LabCardState.splits ReviewSlot.splits)
qed

lemma fixtureState_ok: "lab_ok (fixtureState fixture index)" "labCardId (fixtureState fixture index) = int index + 1"
  by (auto simp: fixtureState_def Let_def lab_ok_def fixtureToFlowCard_def)

lemma fixtures_ok: "gallery_ok (labCardsFromFixtures fixtures)"
proof -
  have "map labCardId (labCardsFromFixtures fixtures) = map (\<lambda>i. int i + 1) [0..<length fixtures]"
    by (rule nth_equalityI) (simp_all add: labCardsFromFixtures_def fixtureState_ok)
  then have "distinct (map labCardId (labCardsFromFixtures fixtures))" by (simp add: distinct_map inj_on_def)
  then show ?thesis by (auto simp: gallery_ok_def labCardsFromFixtures_def list_all_iff fixtureState_ok)
qed

text \<open>Whatever the buttons of the gallery do, the cards keep distinct identifiers and each follow-up names its own card.\<close>

theorem lab_gallery_invariant: "lab_reachable fixtures cards \<Longrightarrow> gallery_ok cards"
  by (induction rule: lab_reachable.induct) (auto simp: fixtures_ok gallery_step)

definition continue_reviewed :: "bigint \<Rightarrow> LabCardState \<Rightarrow> LabCardState" where
  "continue_reviewed i item = hd (continueLabCard (reviewLabCard [item] i) i)"

lemma continue_reviewed_map: "continueLabCard (reviewLabCard cards i) i = map (continue_reviewed i) cards"
  by (simp add: continueLabCard_def reviewLabCard_def continue_reviewed_def)

lemma continue_reviewed_idle:
  "continue_reviewed (fc_id fcard) (LabCard f n (SlotIdle fcard)) = LabCard f n (SlotIdle (fcard\<lparr>fc_status := ''active''\<rparr>))"
  by (simp add: continueLabCard_def reviewLabCard_def continue_reviewed_def)

lemma continue_reviewed_other: "labCardId item \<noteq> i \<Longrightarrow> continue_reviewed i item = item"
  by (cases item; cases "lab_slot item") (simp_all add: continueLabCard_def reviewLabCard_def continue_reviewed_def)

text \<open>In a gallery that was reached, continuing after a review gives the reviewed card back as active, and nothing else moves.\<close>

theorem continue_undoes_review:
  assumes "gallery_ok cards" "j < length cards" "cards ! j = LabCard f n (SlotIdle fcard)"
  shows "continueLabCard (reviewLabCard cards (fc_id fcard)) (fc_id fcard) = cards[j := LabCard f n (SlotIdle (fcard\<lparr>fc_status := ''active''\<rparr>))]"
  unfolding continue_reviewed_map
proof (rule nth_equalityI)
  fix k assume "k < length (map (continue_reviewed (fc_id fcard)) cards)"
  then have k: "k < length cards" by simp
  have here: "labCardId (cards ! k) = fc_id fcard \<longleftrightarrow> k = j"
    using assms k nth_eq_iff_index_eq [of "map labCardId cards" k j] by (simp add: gallery_ok_def)
  show "map (continue_reviewed (fc_id fcard)) cards ! k = cards[j := LabCard f n (SlotIdle (fcard\<lparr>fc_status := ''active''\<rparr>))] ! k"
  proof (cases "k = j")
    case True
    then show ?thesis using assms(2,3) continue_reviewed_idle [of fcard f n] by simp
  next
    case False
    then have "labCardId (cards ! k) \<noteq> fc_id fcard" using here by simp
    from continue_reviewed_other [OF this] False show ?thesis using k by simp
  qed
qed simp

section \<open>The settings of the gallery in the address\<close>

record LabGallerySettings =
  gs_filter :: jsstring
  gs_layout :: jsstring
  gs_columns :: int
  gs_viewport :: jsstring
  gs_theme :: jsstring

definition DEFAULT_LAB_GALLERY_SETTINGS :: LabGallerySettings where
  "DEFAULT_LAB_GALLERY_SETTINGS = \<lparr>gs_filter = [], gs_layout = ''grid'', gs_columns = 2, gs_viewport = ''fluid'', gs_theme = ''dark''\<rparr>"

definition gallery_columns :: "jsstring option \<Rightarrow> int" where
  "gallery_columns v = (if v = Some ''1'' then 1 else if v = Some ''3'' then 3 else if v = Some ''4'' then 4 else 2)"

definition parseLabGallerySettings :: "(nat list \<Rightarrow> jsstring) \<Rightarrow> jsstring \<Rightarrow> LabGallerySettings" where
  "parseLabGallerySettings wide search =
     (let query = parse_params wide search; viewport = params_get query ''viewport''
      in \<lparr>gs_filter = (case params_get query ''fixture'' of None \<Rightarrow> [] | Some f \<Rightarrow> js_trim f),
          gs_layout = (if params_get query ''layout'' = Some ''list'' then ''list'' else ''grid''),
          gs_columns = gallery_columns (params_get query ''columns''),
          gs_viewport = (if viewport = Some ''mobile'' then ''mobile'' else if viewport = Some ''tablet'' then ''tablet'' else ''fluid''),
          gs_theme = (if params_get query ''theme'' = Some ''light'' then ''light'' else ''dark'')\<rparr>)"

definition gallery_params :: "LabGallerySettings \<Rightarrow> (jsstring \<times> jsstring) list" where
  "gallery_params settings =
     (if gs_filter settings \<noteq> [] then [(''fixture'', gs_filter settings)] else [])
     @ (if gs_layout settings \<noteq> gs_layout DEFAULT_LAB_GALLERY_SETTINGS then [(''layout'', gs_layout settings)] else [])
     @ (if gs_columns settings \<noteq> gs_columns DEFAULT_LAB_GALLERY_SETTINGS then [(''columns'', dec_of_int (gs_columns settings))] else [])
     @ (if gs_viewport settings \<noteq> gs_viewport DEFAULT_LAB_GALLERY_SETTINGS then [(''viewport'', gs_viewport settings)] else [])
     @ (if gs_theme settings \<noteq> gs_theme DEFAULT_LAB_GALLERY_SETTINGS then [(''theme'', gs_theme settings)] else [])"

definition labGallerySearch :: "LabGallerySettings \<Rightarrow> jsstring" where
  "labGallerySearch settings =
     (let serialized = params_string (gallery_params settings) in if serialized = [] then [] else CHR ''?'' # serialized)"

definition gallery_settings_ok :: "LabGallerySettings \<Rightarrow> bool" where
  "gallery_settings_ok s = (js_trim (gs_filter s) = gs_filter s \<and> gs_layout s \<in> {''grid'', ''list''} \<and> gs_columns s \<in> {1, 2, 3, 4}
     \<and> gs_viewport s \<in> {''fluid'', ''mobile'', ''tablet''} \<and> gs_theme s \<in> {''light'', ''dark''})"

lemma params_string_Nil [simp]: "params_string [] = []" "params_string ((n, v) # ps) \<noteq> []"
  by (cases ps; simp add: params_string_def)+

lemma column_digits: "dec_of_int 1 = ''1''" "dec_of_int 3 = ''3''" "dec_of_int 4 = ''4''"
  by code_simp+

lemma parse_gallery_params: "parse_params wide (labGallerySearch settings) = gallery_params settings"
proof (cases "gallery_params settings = []")
  case True
  then show ?thesis by (simp add: labGallerySearch_def) (simp add: parse_params_def)
next
  case False
  then have "params_string (gallery_params settings) \<noteq> []" by (cases "gallery_params settings") auto
  with parse_params_string [OF False, of wide] show ?thesis by (simp add: labGallerySearch_def)
qed

lemma default_settings [simp]:
  "gs_layout DEFAULT_LAB_GALLERY_SETTINGS = ''grid''" "gs_columns DEFAULT_LAB_GALLERY_SETTINGS = 2"
  "gs_viewport DEFAULT_LAB_GALLERY_SETTINGS = ''fluid''" "gs_theme DEFAULT_LAB_GALLERY_SETTINGS = ''dark''"
  by (simp_all add: DEFAULT_LAB_GALLERY_SETTINGS_def)

lemma get_here: "params_get ((if b then [(n, v)] else []) @ ps) n = (if b then Some v else params_get ps n)"
  by (simp add: params_get_def)

lemma get_later: "m \<noteq> n \<Longrightarrow> params_get ((if b then [(m, v)] else []) @ ps) n = params_get ps n"
  by (simp add: params_get_def)

lemma get_last: "params_get (if b then [(m, v)] else []) n = (if b \<and> m = n then Some v else None)"
  by (simp add: params_get_def)

lemma get_params:
  "params_get (gallery_params s) ''fixture'' = (if gs_filter s \<noteq> [] then Some (gs_filter s) else None)"
  "params_get (gallery_params s) ''layout'' = (if gs_layout s \<noteq> ''grid'' then Some (gs_layout s) else None)"
  "params_get (gallery_params s) ''columns'' = (if gs_columns s \<noteq> 2 then Some (dec_of_int (gs_columns s)) else None)"
  "params_get (gallery_params s) ''viewport'' = (if gs_viewport s \<noteq> ''fluid'' then Some (gs_viewport s) else None)"
  "params_get (gallery_params s) ''theme'' = (if gs_theme s \<noteq> ''dark'' then Some (gs_theme s) else None)"
  unfolding gallery_params_def default_settings by (simp_all only: get_here) (simp_all add: get_here get_later get_last)

lemma read_columns: "c \<in> {1, 2, 3, 4} \<Longrightarrow> gallery_columns (if c \<noteq> 2 then Some (dec_of_int c) else None) = c"
  by (auto simp: gallery_columns_def column_digits)

lemma read_layout: "s \<in> {''grid'', ''list''} \<Longrightarrow> (if (if s \<noteq> ''grid'' then Some s else None) = Some ''list'' then ''list'' else ''grid'') = s"
  by auto

lemma read_viewport: "s \<in> {''fluid'', ''mobile'', ''tablet''} \<Longrightarrow>
    (if (if s \<noteq> ''fluid'' then Some s else None) = Some ''mobile'' then ''mobile''
     else if (if s \<noteq> ''fluid'' then Some s else None) = Some ''tablet'' then ''tablet'' else ''fluid'') = s"
  by auto

lemma read_theme: "s \<in> {''light'', ''dark''} \<Longrightarrow> (if (if s \<noteq> ''dark'' then Some s else None) = Some ''light'' then ''light'' else ''dark'') = s"
  by auto

text \<open>The gallery's settings read back from the address that \<open>labGallerySearch\<close> writes, whatever the filter's characters.\<close>

theorem gallery_settings_round_trip:
  "gallery_settings_ok settings \<Longrightarrow> parseLabGallerySettings wide (labGallerySearch settings) = settings"
  unfolding parseLabGallerySettings_def parse_gallery_params Let_def get_params
  by (rule LabGallerySettings.equality)
     (simp_all only: LabGallerySettings.select_convs gallery_settings_ok_def read_columns read_layout read_viewport read_theme, auto)

lemma gallery_settings_round_trip_witness:
  "parseLabGallerySettings (\<lambda>_. []) (labGallerySearch \<lparr>gs_filter = ''a=b & c'', gs_layout = ''list'', gs_columns = 3, gs_viewport = ''tablet'', gs_theme = ''light''\<rparr>)
   = \<lparr>gs_filter = ''a=b & c'', gs_layout = ''list'', gs_columns = 3, gs_viewport = ''tablet'', gs_theme = ''light''\<rparr>"
  by (rule gallery_settings_round_trip) code_simp

text \<open>\<open>replaceAll(/[-_]+/g, " ")\<close>: each run of dashes and underscores becomes one space.\<close>

definition is_dash :: "char \<Rightarrow> bool" where
  "is_dash c = (c = CHR ''-'' \<or> c = CHR ''_'')"

fun dashes_to_space :: "jsstring \<Rightarrow> jsstring" where
  "dashes_to_space [] = []"
| "dashes_to_space [c] = (if is_dash c then '' '' else [c])"
| "dashes_to_space (c # d # s) =
     (if is_dash c then (if is_dash d then dashes_to_space (d # s) else CHR '' '' # dashes_to_space (d # s)) else c # dashes_to_space (d # s))"

definition normalize_fixture :: "jsstring \<Rightarrow> jsstring" where
  "normalize_fixture s = dashes_to_space (js_lower (js_trim s))"

definition matchesLabFixture :: "jsstring \<Rightarrow> jsstring list \<Rightarrow> bool" where
  "matchesLabFixture filt values =
     (let needle = normalize_fixture filt in needle = [] \<or> list_ex (\<lambda>v. js_includes needle (normalize_fixture v)) values)"

lemma js_includes_self: "js_includes s s"
  by (cases s) simp_all

lemma fixture_matches_itself: "v \<in> set vs \<Longrightarrow> matchesLabFixture v vs"
  by (auto simp: matchesLabFixture_def list_ex_iff Let_def intro: js_includes_self)

end
