(* ===== verification/Lab_Workbench.thy ===== *)
theory Lab_Workbench
  imports Lab "HOL-Library.Word"
begin

text \<open>
  \<open>components/content/LabReviewWorkbench.tsx\<close>: two runs are shown side by side, blinded by a hash of the case, and judged by
  buttons and keys; the judgments are stored as text, exported and imported. The properties of an object keep the order
  in which they were set. \<open>localeCompare\<close> and the time are parameters.
\<close>

section \<open>The workbench\<close>

record Workbench =
  wkb_selectedKey :: jsstring
  wkb_blind :: bool
  wkb_judgments :: "(jsstring \<times> LabReviewJudgment) list"

type_synonym pair_row = "jsstring \<times> LabReviewRow option \<times> LabReviewRow option"

definition judgmentMap :: "LabReviewFile \<Rightarrow> (jsstring \<times> LabReviewJudgment) list" where
  "judgmentMap f = foldl (\<lambda>m j. AList.update (lrj_key j) j m) [] (lrf_judgments f)"

definition fileFromJudgments ::
    "(jsstring \<Rightarrow> jsstring \<Rightarrow> int) \<Rightarrow> jsstring \<Rightarrow> LabReviewPayload \<Rightarrow> (jsstring \<times> LabReviewJudgment) list \<Rightarrow> LabReviewFile" where
  "fileFromJudgments localeCompare now payload judgments = \<lparr>
     lrf_baselineSource = lrr_source (lrp_baseline payload), lrf_candidateSource = lrr_source (lrp_candidate payload),
     lrf_updatedAt = now,
     lrf_judgments = js_sort (\<lambda>left right. localeCompare (lrj_key left) (lrj_key right)) (map snd judgments)\<rparr>"

text \<open>\<open>(hash * 31 + code) | 0\<close>: the double is exact below \<open>2 ^ 53\<close>, and \<open>| 0\<close> keeps its low 32 bits.\<close>

definition swap_hash :: "jsstring \<Rightarrow> 32 word" where
  "swap_hash key = foldl (\<lambda>hash c. hash * 31 + of_nat (of_char c)) 0 key"

definition shouldSwap :: "jsstring \<Rightarrow> bool" where
  "shouldSwap key = bit (swap_hash key) 0"

definition INITIAL_WORKBENCH :: "pair_row list \<Rightarrow> Workbench" where
  "INITIAL_WORKBENCH pairs = \<lparr>wkb_selectedKey = (case pairs of [] \<Rightarrow> [] | p # _ \<Rightarrow> fst p), wkb_blind = True, wkb_judgments = []\<rparr>"

definition selected_pair :: "pair_row list \<Rightarrow> Workbench \<Rightarrow> pair_row option" where
  "selected_pair pairs w =
     (case find (\<lambda>p. fst p = wkb_selectedKey w) pairs of
        Some p \<Rightarrow> Some p
      | None \<Rightarrow> (case pairs of [] \<Rightarrow> None | p # _ \<Rightarrow> Some p))"

definition swapped :: "pair_row list \<Rightarrow> Workbench \<Rightarrow> bool" where
  "swapped pairs w = (case selected_pair pairs w of None \<Rightarrow> False | Some p \<Rightarrow> wkb_blind w \<and> shouldSwap (fst p))"

definition left_row :: "pair_row list \<Rightarrow> Workbench \<Rightarrow> LabReviewRow option" where
  "left_row pairs w =
     (case selected_pair pairs w of None \<Rightarrow> None
      | Some (key, baseline, candidate) \<Rightarrow> if swapped pairs w then candidate else baseline)"

definition right_row :: "pair_row list \<Rightarrow> Workbench \<Rightarrow> LabReviewRow option" where
  "right_row pairs w =
     (case selected_pair pairs w of None \<Rightarrow> None
      | Some (key, baseline, candidate) \<Rightarrow> if swapped pairs w then baseline else candidate)"

definition updateJudgment ::
    "jsstring \<Rightarrow> (LabReviewJudgment \<Rightarrow> LabReviewJudgment) \<Rightarrow> Workbench \<Rightarrow> Workbench" where
  "updateJudgment key update w =
     (let existing = (case map_of (wkb_judgments w) key of
                        Some j \<Rightarrow> j | None \<Rightarrow> \<lparr>lrj_key = key, lrj_dimensions = [], lrj_note = []\<rparr>)
      in w\<lparr>wkb_judgments := AList.update key (update existing) (wkb_judgments w)\<rparr>)"

definition setVerdict :: "pair_row list \<Rightarrow> jsstring \<Rightarrow> jsstring \<Rightarrow> Workbench \<Rightarrow> Workbench" where
  "setVerdict pairs dimension verdict w =
     (case selected_pair pairs w of
        None \<Rightarrow> w
      | Some p \<Rightarrow> updateJudgment (fst p)
          (\<lambda>current. current\<lparr>lrj_dimensions := AList.update dimension verdict (lrj_dimensions current)\<rparr>) w)"

definition setNote :: "pair_row list \<Rightarrow> jsstring \<Rightarrow> Workbench \<Rightarrow> Workbench" where
  "setNote pairs note w =
     (case selected_pair pairs w of None \<Rightarrow> w | Some p \<Rightarrow> updateJudgment (fst p) (\<lambda>current. current\<lparr>lrj_note := note\<rparr>) w)"

text \<open>The three buttons of a dimension, from left to right.\<close>

definition verdict_buttons :: "bool \<Rightarrow> jsstring list" where
  "verdict_buttons swap =
     (let left = (if swap then ''candidate'' else ''baseline''); right = (if swap then ''baseline'' else ''candidate'')
      in [left, ''tie'', right])"

definition press_button :: "pair_row list \<Rightarrow> jsstring \<Rightarrow> nat \<Rightarrow> Workbench \<Rightarrow> Workbench" where
  "press_button pairs dimension i w = setVerdict pairs dimension (verdict_buttons (swapped pairs w) ! i) w"

definition onKeyDown :: "pair_row list \<Rightarrow> bool \<Rightarrow> jsstring \<Rightarrow> Workbench \<Rightarrow> Workbench" where
  "onKeyDown pairs inInput key w =
     (let visible = (if key = ''1'' then Some ''left'' else if key = ''2'' then Some ''tie'' else if key = ''3'' then Some ''right'' else None)
      in if inInput \<or> visible = None \<or> selected_pair pairs w = None then w
         else setVerdict pairs ''overall''
           (if visible = Some ''tie'' then ''tie''
            else if visible = Some ''left'' then (if swapped pairs w then ''candidate'' else ''baseline'')
            else (if swapped pairs w then ''baseline'' else ''candidate'')) w)"

definition load_stored :: "jsstring option \<Rightarrow> Workbench \<Rightarrow> Workbench \<times> jsstring option" where
  "load_stored stored w =
     (case stored of
        None \<Rightarrow> (w, None)
      | Some content \<Rightarrow>
          (case json_parse content of
             None \<Rightarrow> (w, None)
           | Some v \<Rightarrow> (case parseLabReviewFile v of Inl _ \<Rightarrow> (w, None) | Inr f \<Rightarrow> (w\<lparr>wkb_judgments := judgmentMap f\<rparr>, stored))))"

definition stored_text :: "(jsstring \<Rightarrow> jsstring \<Rightarrow> int) \<Rightarrow> jsstring \<Rightarrow> LabReviewPayload \<Rightarrow> Workbench \<Rightarrow> jsstring" where
  "stored_text localeCompare now payload w = json_text (file_json (fileFromJudgments localeCompare now payload (wkb_judgments w)))"

definition importReview :: "LabReviewPayload \<Rightarrow> json \<Rightarrow> Workbench \<Rightarrow> js_error + Workbench" where
  "importReview payload v w =
     sum_bind (parseLabReviewFile v) (\<lambda>parsed.
       if lrf_baselineSource parsed \<noteq> lrr_source (lrp_baseline payload) \<or> lrf_candidateSource parsed \<noteq> lrr_source (lrp_candidate payload)
       then Inl (PlainError ''review file belongs to different runs'')
       else Inr (w\<lparr>wkb_judgments := judgmentMap parsed\<rparr>))"

definition reviewed_count :: "Workbench \<Rightarrow> nat" where
  "reviewed_count w = length (filter (\<lambda>(k, j). map_of (lrj_dimensions j) ''overall'' \<noteq> None) (wkb_judgments w))"

section \<open>Blinding\<close>

lemma odd_hash: "odd (foldl (\<lambda>hash c. hash * 31 + of_nat (of_char c)) h key :: 32 word) \<longleftrightarrow> (odd h \<noteq> odd (\<Sum>c\<leftarrow>key. of_char c :: nat))"
  by (induction key arbitrary: h) auto

text \<open>The 32-bit hash of a case, with all its wrap-around, swaps the sides exactly when the sum of its character codes is
  odd: the order of the characters does not matter.\<close>

theorem swap_is_parity: "shouldSwap key \<longleftrightarrow> odd (\<Sum>c\<leftarrow>key. of_char c :: nat)"
  by (simp add: shouldSwap_def swap_hash_def bit_0 odd_hash)

text \<open>A button or key records the run whose artifact it stands for: the verdict of the left button names the run shown on
  the left, that of the right button the run shown on the right, blinded or not, and the keys 1, 2 and 3 press the
  buttons of the overall dimension.\<close>

definition row_of :: "jsstring \<Rightarrow> pair_row \<Rightarrow> LabReviewRow option" where
  "row_of side p = (if side = ''baseline'' then fst (snd p) else snd (snd p))"

theorem verdict_names_shown_run:
  assumes "selected_pair pairs w = Some p"
  shows "left_row pairs w = row_of (verdict_buttons (swapped pairs w) ! 0) p \<and>
    right_row pairs w = row_of (verdict_buttons (swapped pairs w) ! 2) p \<and>
    onKeyDown pairs False ''1'' w = press_button pairs ''overall'' 0 w \<and>
    onKeyDown pairs False ''2'' w = press_button pairs ''overall'' 1 w \<and>
    onKeyDown pairs False ''3'' w = press_button pairs ''overall'' 2 w"
  using assms by (cases p)
    (simp add: left_row_def right_row_def row_of_def verdict_buttons_def onKeyDown_def press_button_def Let_def)

section \<open>What is stored and exported reads back\<close>

datatype WorkbenchEvent =
    WbSelect jsstring
  | WbBlind
  | WbPress jsstring nat
  | WbKey bool jsstring
  | WbNote jsstring
  | WbImport json

fun workbench_step :: "pair_row list \<Rightarrow> LabReviewPayload \<Rightarrow> Workbench \<Rightarrow> WorkbenchEvent \<Rightarrow> Workbench" where
  "workbench_step pairs payload w (WbSelect key) = w\<lparr>wkb_selectedKey := key\<rparr>"
| "workbench_step pairs payload w WbBlind = w\<lparr>wkb_blind := \<not> wkb_blind w\<rparr>"
| "workbench_step pairs payload w (WbPress dimension i) =
     (if dimension \<in> set LAB_REVIEW_DIMENSIONS \<and> i < 3 then press_button pairs dimension i w else w)"
| "workbench_step pairs payload w (WbKey inInput key) = onKeyDown pairs inInput key w"
| "workbench_step pairs payload w (WbNote content) = setNote pairs content w"
| "workbench_step pairs payload w (WbImport v) = (case importReview payload v w of Inl _ \<Rightarrow> w | Inr w' \<Rightarrow> w')"

definition is_verdict :: "jsstring \<Rightarrow> bool" where
  "is_verdict v = (v = ''baseline'' \<or> v = ''tie'' \<or> v = ''candidate'')"

definition dimensions_ok :: "(jsstring \<times> jsstring) list \<Rightarrow> bool" where
  "dimensions_ok ds \<longleftrightarrow> distinct (map fst ds) \<and>
     (\<forall>(d, v) \<in> set ds. d \<in> set LAB_REVIEW_DIMENSIONS \<and> is_verdict v)"

definition judgments_ok :: "(jsstring \<times> LabReviewJudgment) list \<Rightarrow> bool" where
  "judgments_ok m \<longleftrightarrow> distinct (map fst m) \<and> (\<forall>(k, j) \<in> set m. lrj_key j = k \<and> dimensions_ok (lrj_dimensions j))"

lemma set_update_sub: "set (AList.update k v xs) \<subseteq> insert (k, v) (set xs)"
  by (induction xs) auto

lemma judgments_update:
  "judgments_ok m \<Longrightarrow> lrj_key j = k \<Longrightarrow> dimensions_ok (lrj_dimensions j) \<Longrightarrow> judgments_ok (AList.update k j m)"
  using set_update_sub [of k j m] distinct_update [of m k j] by (fastforce simp: judgments_ok_def)

lemma dimensions_update:
  "dimensions_ok ds \<Longrightarrow> d \<in> set LAB_REVIEW_DIMENSIONS \<Longrightarrow> is_verdict v \<Longrightarrow>
   dimensions_ok (AList.update d v ds)"
  unfolding dimensions_ok_def using set_update_sub [of d v ds] distinct_update [of ds d v] by fastforce

lemma dimensions_Nil [simp]: "dimensions_ok []"
  by (simp add: dimensions_ok_def)

lemma update_judgment_ok:
  assumes "judgments_ok (wkb_judgments w)"
    and "\<And>j. lrj_key (f j) = lrj_key j" and "\<And>j. dimensions_ok (lrj_dimensions j) \<Longrightarrow> dimensions_ok (lrj_dimensions (f j))"
  shows "judgments_ok (wkb_judgments (updateJudgment key f w))"
proof -
  have "lrj_key j = key \<and> dimensions_ok (lrj_dimensions j)" if "map_of (wkb_judgments w) key = Some j" for j
    using assms(1) that by (auto simp: judgments_ok_def dest!: map_of_SomeD)
  then show ?thesis
    using assms by (auto simp: updateJudgment_def Let_def split: option.split intro!: judgments_update)
qed

lemma set_verdict_ok:
  "judgments_ok (wkb_judgments w) \<Longrightarrow> d \<in> set LAB_REVIEW_DIMENSIONS \<Longrightarrow> is_verdict v \<Longrightarrow>
   judgments_ok (wkb_judgments (setVerdict pairs d v w))"
  by (auto simp: setVerdict_def split: option.split intro!: update_judgment_ok dimensions_update)

lemma button_verdicts: "i < 3 \<Longrightarrow> is_verdict (verdict_buttons b ! i)"
  by (cases b; auto simp: verdict_buttons_def is_verdict_def less_Suc_eq numeral_3_eq_3)

lemma overall_dimension: "''overall'' \<in> set LAB_REVIEW_DIMENSIONS"
  by (simp add: LAB_REVIEW_DIMENSIONS_def)

lemma read_dimensions_ok: "dimensions_ok (read_dimensions dims)"
proof -
  have "distinct (map fst (List.map_filter (\<lambda>d. map_option (\<lambda>v. (d, v)) (verdict_of (json_field dims d))) ds)) \<and>
      set (map fst (List.map_filter (\<lambda>d. map_option (\<lambda>v. (d, v)) (verdict_of (json_field dims d))) ds)) \<subseteq> set ds"
    if "distinct ds" for ds
    using that by (induction ds) (auto simp: List.map_filter_simps split: option.splits)
  moreover have "distinct LAB_REVIEW_DIMENSIONS" by code_simp
  moreover have "verdict_of v = Some s \<Longrightarrow> is_verdict s" for v s
    by (auto simp: verdict_of_def is_verdict_def split: option.splits json.splits if_splits)
  ultimately show ?thesis
    by (fastforce simp: dimensions_ok_def read_dimensions_def List.map_filter_def)
qed

lemma parsed_dimensions: "parse_judgment entry = Inr j \<Longrightarrow> dimensions_ok (lrj_dimensions j)"
  by (auto simp: parse_judgment_def sum_bind_Inr read_dimensions_ok split: json.splits option.splits)

lemma judgment_map_ok:
  assumes "\<forall>j \<in> set js. dimensions_ok (lrj_dimensions j)" "judgments_ok m"
  shows "judgments_ok (foldl (\<lambda>m j. AList.update (lrj_key j) j m) m js)"
  using assms by (induction js arbitrary: m) (auto intro: judgments_update)

lemma import_ok:
  assumes "importReview payload v w = Inr w'" shows "judgments_ok (wkb_judgments w')"
proof -
  obtain f where f: "parseLabReviewFile v = Inr f" "w' = w\<lparr>wkb_judgments := judgmentMap f\<rparr>"
    using assms by (auto simp: importReview_def sum_bind_Inr split: if_splits)
  obtain entries where "map_result parse_judgment entries = Inr (lrf_judgments f)"
    using f(1) by (auto simp: parseLabReviewFile_def sum_bind_Inr split: json.splits option.splits bool.splits)
  then have "\<forall>j \<in> set (lrf_judgments f). dimensions_ok (lrj_dimensions j)"
    using map_result_Inr [of parse_judgment entries] parsed_dimensions by (metis in_set_conv_nth)
  moreover have "judgments_ok []" by (simp add: judgments_ok_def)
  ultimately show ?thesis using f(2) by (simp add: judgmentMap_def judgment_map_ok)
qed

lemma workbench_step_ok: "judgments_ok (wkb_judgments w) \<Longrightarrow> judgments_ok (wkb_judgments (workbench_step pairs payload w e))"
proof (cases e)
  case (WbPress d i)
  then show "judgments_ok (wkb_judgments w) \<Longrightarrow> ?thesis"
    using button_verdicts by (simp add: press_button_def set_verdict_ok)
next
  case (WbKey b key)
  then show "judgments_ok (wkb_judgments w) \<Longrightarrow> ?thesis"
    by (auto simp: onKeyDown_def Let_def is_verdict_def intro!: set_verdict_ok overall_dimension)
next
  case (WbNote content)
  then show "judgments_ok (wkb_judgments w) \<Longrightarrow> ?thesis"
    by (auto simp: setNote_def split: option.split intro!: update_judgment_ok)
next
  case (WbImport v)
  then show "judgments_ok (wkb_judgments w) \<Longrightarrow> ?thesis" by (auto intro: import_ok split: sum.split)
qed simp_all

lemma workbench_run_ok: "judgments_ok (wkb_judgments (foldl (workbench_step pairs payload) (INITIAL_WORKBENCH pairs) es))"
proof -
  have "judgments_ok (wkb_judgments w) \<Longrightarrow> judgments_ok (wkb_judgments (foldl (workbench_step pairs payload) w es))" for w
    by (induction es arbitrary: w) (simp_all add: workbench_step_ok)
  moreover have "judgments_ok (wkb_judgments (INITIAL_WORKBENCH pairs))" by (simp add: INITIAL_WORKBENCH_def judgments_ok_def)
  ultimately show ?thesis .
qed

text \<open>What a judgment says, apart from the order of its properties.\<close>

definition opinions :: "(jsstring \<times> LabReviewJudgment) list \<Rightarrow> jsstring \<Rightarrow> (jsstring \<times> (jsstring \<rightharpoonup> jsstring)) option" where
  "opinions m k = map_option (\<lambda>j. (lrj_note j, map_of (lrj_dimensions j))) (map_of m k)"

definition read_judgment :: "LabReviewJudgment \<Rightarrow> LabReviewJudgment" where
  "read_judgment j = j\<lparr>lrj_dimensions := read_dimensions (map (\<lambda>(d, v). (d, JStr v)) (lrj_dimensions j))\<rparr>"

lemma judgment_reads: "parse_judgment (judgment_json j) = Inr (read_judgment j)"
  by (simp add: parse_judgment_def judgment_json_def json_field_def stringField_def read_judgment_def)

lemma judgments_read: "map_result parse_judgment (map judgment_json js) = Inr (map read_judgment js)"
  by (induction js) (simp_all add: judgment_reads)

lemma file_reads: "parseLabReviewFile (file_json f) = Inr (f\<lparr>lrf_judgments := map read_judgment (lrf_judgments f)\<rparr>)"
  by (simp add: parseLabReviewFile_def file_json_def json_field_def stringField_def judgments_read)

lemma map_of_filter_dims:
  "map_of (List.map_filter (\<lambda>d. map_option (\<lambda>v. (d, v)) (f d)) ds) d = (if d \<in> set ds then f d else None)"
  by (induction ds) (auto simp: List.map_filter_simps split: option.splits)

lemma read_dimensions_same:
  assumes "dimensions_ok ds" shows "map_of (read_dimensions (map (\<lambda>(d, v). (d, JStr v)) ds)) = map_of ds"
proof
  fix d
  have "json_field (map (\<lambda>(d, v). (d, JStr v)) ds) d = map_option JStr (map_of ds d)"
    using map_of_map [of JStr ds] by (simp add: json_field_def)
  moreover have "d \<in> set LAB_REVIEW_DIMENSIONS \<and> is_verdict v" if "map_of ds d = Some v" for v
    using assms map_of_SomeD [OF that] by (auto simp: dimensions_ok_def)
  ultimately show "map_of (read_dimensions (map (\<lambda>(d, v). (d, JStr v)) ds)) d = map_of ds d"
    by (cases "map_of ds d") (auto simp: read_dimensions_def map_of_filter_dims verdict_of_def is_verdict_def)
qed

lemma map_of_update_list:
  assumes "distinct (map lrj_key js)"
  shows "map_of (foldl (\<lambda>m j. AList.update (lrj_key j) j m) m js) k =
    (case find (\<lambda>j. lrj_key j = k) js of Some j \<Rightarrow> Some j | None \<Rightarrow> map_of m k)"
  using assms
proof (induction js arbitrary: m)
  case (Cons j js)
  have "find (\<lambda>j'. lrj_key j' = k) js = None" if "lrj_key j = k" using Cons.prems that unfolding find_None_iff by (metis distinct.simps(2) image_eqI list.map(2) list.set_map)
  with Cons show ?case by (auto simp: update_conv split: option.split)
qed simp

lemma find_unique_row:
  "distinct (map lrj_key js) \<Longrightarrow> j \<in> set js \<Longrightarrow> find (\<lambda>i. lrj_key i = lrj_key j) js = Some j"
  by (induction js) auto

lemma stored_judgments:
  assumes "judgments_ok m"
  shows "opinions (foldl (\<lambda>m j. AList.update (lrj_key j) j m) [] (map read_judgment (js_sort cmp (map snd m)))) = opinions m"
proof
  fix k
  let ?js = "map read_judgment (js_sort cmp (map snd m))"
  have keys: "map lrj_key (map snd m) = map fst m" using assms by (auto simp: judgments_ok_def)
  have "map lrj_key ?js = map lrj_key (js_sort cmp (map snd m))" by (simp add: read_judgment_def)
  then have "mset (map lrj_key ?js) = mset (map lrj_key (map snd m))" by (simp only: mset_map mset_js_sort)
  then have dist: "distinct (map lrj_key ?js)"
    using assms keys unfolding judgments_ok_def by (metis mset_eq_imp_distinct_iff)
  show "opinions (foldl (\<lambda>m j. AList.update (lrj_key j) j m) [] ?js) k = opinions m k"
  proof (cases "map_of m k")
    case None
    then have "k \<notin> lrj_key ` set ?js" using keys by (force simp: map_of_eq_None_iff read_judgment_def judgments_ok_def assms [unfolded judgments_ok_def])
    then have "find (\<lambda>j. lrj_key j = k) ?js = None" by (auto simp: find_None_iff)
    then show ?thesis using map_of_update_list [OF dist] None by (simp add: opinions_def)
  next
    case (Some j)
    then have j: "(k, j) \<in> set m" "lrj_key j = k" "dimensions_ok (lrj_dimensions j)"
      using assms by (auto simp: judgments_ok_def dest: map_of_SomeD)
    then have "read_judgment j \<in> set ?js" by force
    from find_unique_row [OF dist this] have "find (\<lambda>i. lrj_key i = k) ?js = Some (read_judgment j)"
      using j(2) by (simp add: read_judgment_def)
    then show ?thesis
      using map_of_update_list [OF dist] Some read_dimensions_same [OF j(3)] by (simp add: opinions_def read_judgment_def)
  qed
qed

lemma file_printable: "judgments_ok m \<Longrightarrow> printable (file_json (fileFromJudgments cmp now payload m))"
  by (auto simp: file_json_def fileFromJudgments_def judgment_json_def judgments_ok_def dimensions_ok_def list_all_iff comp_def split_def)

text \<open>After any use of the workbench, the text it stores reads back, when the page is opened again, as the same verdicts
  and notes, and so does the file it exports, which is accepted for the same pair of runs.\<close>

theorem workbench_file_round_trip:
  "let w = foldl (workbench_step pairs payload) (INITIAL_WORKBENCH pairs) es;
       f = fileFromJudgments localeCompare now payload (wkb_judgments w)
   in (case importReview payload (file_json f) (INITIAL_WORKBENCH pairs) of
         Inl _ \<Rightarrow> False | Inr w' \<Rightarrow> opinions (wkb_judgments w') = opinions (wkb_judgments w)) \<and>
      opinions (wkb_judgments (fst (load_stored (Some (stored_text localeCompare now payload w)) (INITIAL_WORKBENCH pairs)))) =
        opinions (wkb_judgments w)"
proof -
  define w where "w = foldl (workbench_step pairs payload) (INITIAL_WORKBENCH pairs) es"
  have ok: "judgments_ok (wkb_judgments w)" unfolding w_def by (rule workbench_run_ok)
  let ?f = "fileFromJudgments localeCompare now payload (wkb_judgments w)"
  have same: "opinions (judgmentMap (?f\<lparr>lrf_judgments := map read_judgment (lrf_judgments ?f)\<rparr>)) = opinions (wkb_judgments w)"
    using stored_judgments [OF ok] by (simp add: judgmentMap_def fileFromJudgments_def)
  have "case importReview payload (file_json ?f) (INITIAL_WORKBENCH pairs) of
         Inl _ \<Rightarrow> False | Inr w' \<Rightarrow> opinions (wkb_judgments w') = opinions (wkb_judgments w)"
    using same by (simp add: importReview_def file_reads) (simp add: fileFromJudgments_def)
  moreover have "opinions (wkb_judgments (fst (load_stored (Some (stored_text localeCompare now payload w)) (INITIAL_WORKBENCH pairs)))) =
      opinions (wkb_judgments w)"
    using same by (simp add: load_stored_def stored_text_def json_round_trip [OF file_printable [OF ok]] file_reads)
  ultimately show ?thesis by (simp only: w_def [symmetric] Let_def)
qed

end
