(* ===== verification/Slot_Card.thy ===== *)
theory Slot_Card
  imports Flow_Machine Flow_View Detail_State
begin

text \<open>
  What \<open>components/flow/Flow.tsx\<close> shows for one slot: the texts and the content of a card (\<open>CardBodies\<close>), the controls it
  offers (\<open>SlotReviewControls\<close>, \<open>PinControl\<close>, \<open>DeleteControl\<close>, \<open>FollowUpActions\<close>), each with the condition that disables
  it, and the local state of \<open>ReviewSlotCard\<close>. A control is a value; pressing it is the page handler it is wired to.
\<close>

section \<open>Texts\<close>

definition hyphens_to_underscores :: "jsstring \<Rightarrow> jsstring" where
  "hyphens_to_underscores = map (\<lambda>c. if c = CHR ''-'' then CHR ''_'' else c)"

definition reviewActionLabel :: "catalog \<Rightarrow> ReviewChoice \<Rightarrow> jsstring" where
  "reviewActionLabel cat chosen =
     (if rc_id chosen \<in> {''dismiss'', ''acknowledge'', ''again'', ''learned'', ''known'', ''not-interested'', ''too-difficult'',
                         ''good'', ''easy''}
      then i18n_t cat (''flow.review_action.'' @ hyphens_to_underscores (rc_id chosen))
      else i18n_t cat ''common.unspecified'')"

datatype ReviewSwipeDirection = SwipeLeft | SwipeRight

definition repeatableReviewSwipe :: "ReviewSlot \<Rightarrow> ReviewSwipeDirection option" where
  "repeatableReviewSwipe slot =
     (if \<not> is_SlotReviewing slot \<or> fc_tipcardType (slot_card slot) \<noteq> ''repeatable_tip'' then None
      else if ra_action (slot_attempt slot) = ActionAgain then Some SwipeLeft else Some SwipeRight)"

definition slotIsRepeatable :: "ReviewSlot \<Rightarrow> bool" where
  "slotIsRepeatable slot \<longleftrightarrow>
     (if is_live slot then fc_tipcardType (slot_card slot) = ''repeatable_tip''
      else ri_tipcardType (slot_reviewed slot) = ''repeatable_tip'')"

section \<open>The content of a card\<close>

definition hasCompact :: "FlowCardInfo \<Rightarrow> bool" where
  "hasCompact c \<longleftrightarrow>
     js_trim (fc_compressedContent c) \<noteq> [] \<and> js_trim (fc_fullContent c) \<noteq> [] \<and> fc_compressedContent c \<noteq> fc_fullContent c"

definition shown_content :: "bool \<Rightarrow> FlowCardInfo \<Rightarrow> jsstring" where
  "shown_content expanded c = (if expanded then fc_fullContent c else cv_content (hd (toFlowCardViews [c])))"

definition card_known :: "FlowCardInfo \<Rightarrow> bool" where
  "card_known c \<longleftrightarrow> fc_status c \<noteq> ''pending'' \<and> (fc_repeatCount c > 0 \<or> fc_status c = ''reviewed'' \<or> fc_status c = ''dismissed'')"

definition badgeLabel :: "catalog \<Rightarrow> FlowCardInfo \<Rightarrow> jsstring" where
  "badgeLabel cat c =
     i18n_t cat
       (if fc_tipcardType c = ''manual_tip'' then ''card.kind.manual''
        else if fc_tipcardType c = ''custom_tip'' then ''card.kind.custom''
        else if card_known c then ''card.state.known'' else ''card.state.new'')"

definition scheduledRepeat :: "(jsstring \<Rightarrow> jsstring option) \<Rightarrow> FlowCardInfo \<Rightarrow> jsstring option" where
  "scheduledRepeat format c =
     (if fc_status c = ''active'' \<and> fc_repeatCount c > 0 then humanDetailDate format (fc_nextReviewAt c) else None)"

definition card_contentKind :: "FlowCardInfo \<Rightarrow> CardContentKind" where
  "card_contentKind c = detectCardContentKind (fc_fullContent c @ [CHR 0x0A] @ fc_compressedContent c)"

definition card_errorDetail :: "FlowCardInfo \<Rightarrow> jsstring" where
  "card_errorDetail c = cardErrorDetail (card_contentKind c) (fc_fullContent c) (fc_compressedContent c)"

text \<open>\<open>expanded\<close> and \<open>lightboxIndex\<close>; another card in the same place resets both. The toggle is there only for a card
  with a compact form, and only when the content is not an error.\<close>

record CardBody =
  cb_expanded :: bool
  cb_lightboxIndex :: "nat option"

definition INITIAL_BODY :: CardBody where
  "INITIAL_BODY = \<lparr>cb_expanded = False, cb_lightboxIndex = None\<rparr>"

definition body_card_changed :: "CardBody \<Rightarrow> CardBody" where
  "body_card_changed body = body\<lparr>cb_expanded := False, cb_lightboxIndex := None\<rparr>"

definition expand_offered :: "FlowCardInfo \<Rightarrow> bool" where
  "expand_offered c \<longleftrightarrow> card_contentKind c = ContentNormal \<and> hasCompact c"

definition toggle_expanded :: "FlowCardInfo \<Rightarrow> CardBody \<Rightarrow> CardBody" where
  "toggle_expanded c body = (if expand_offered c then body\<lparr>cb_expanded := \<not> cb_expanded body\<rparr> else body)"

section \<open>Controls\<close>

datatype SlotControl =
    ReviewCtl ReviewChoice
  | ReviewRetryCtl
  | PinCtl bool
  | PinRetryCtl
  | DeleteMenuCtl
  | DeleteConfirmCtl
  | DeleteRetryCtl
  | ContinueCtl

text \<open>A list of the controls on screen, each with whether it can be pressed.\<close>

definition slotReviewControls :: "FlowCardInfo \<Rightarrow> bool \<Rightarrow> (SlotControl \<times> bool) list" where
  "slotReviewControls c controlsBusy =
     (let actions = reviewActionsFor c
      in map (\<lambda>chosen. (ReviewCtl chosen, \<not> controlsBusy))
           (ras_primary actions @ (case ras_skipGroup actions of None \<Rightarrow> [] | Some choices \<Rightarrow> choices)))"

definition pinControl :: "FlowCardInfo \<Rightarrow> PinCardState \<Rightarrow> bool \<Rightarrow> (SlotControl \<times> bool) list" where
  "pinControl c pinState disabled =
     (if is_PinError pinState then [(PinRetryCtl, True)]
      else [(PinCtl (\<not> fc_pinned c), \<not> (disabled \<or> pinState \<noteq> PinIdle))])"

definition deleteControl :: "DeleteCardState \<Rightarrow> bool \<Rightarrow> bool \<Rightarrow> (SlotControl \<times> bool) list" where
  "deleteControl deleteState disabled confirmOpen =
     (if is_DeleteError deleteState then [(DeleteRetryCtl, True)]
      else (DeleteMenuCtl, \<not> disabled) # (if confirmOpen then [(DeleteConfirmCtl, True)] else []))"

definition liveCardControls :: "ReviewSlot \<Rightarrow> PinCardState \<Rightarrow> DeleteCardState \<Rightarrow> bool \<Rightarrow> (SlotControl \<times> bool) list" where
  "liveCardControls slot pinState deleteState confirmOpen =
     (let pinBusy = pinState \<noteq> PinIdle; deleteBusy = is_Deleting deleteState; controlsBusy = pinBusy \<or> deleteBusy
      in (if is_SlotIdle slot \<and> fc_status (slot_card slot) = ''active''
          then slotReviewControls (slot_card slot) controlsBusy else []) @
         pinControl (slot_card slot) pinState (\<not> is_SlotIdle slot \<or> deleteBusy) @
         deleteControl deleteState (\<not> is_SlotIdle slot \<or> pinBusy \<or> deleteBusy) confirmOpen)"

text \<open>\<open>t("flow.review_saved")\<close> stands where the review buttons are not.\<close>

definition review_saved_shown :: "ReviewSlot \<Rightarrow> bool" where
  "review_saved_shown slot \<longleftrightarrow> is_live slot \<and> \<not> (is_SlotIdle slot \<and> fc_status (slot_card slot) = ''active'')"

definition followUpActions :: "ReviewSlot \<Rightarrow> (SlotControl \<times> bool) list" where
  "followUpActions slot =
     (if is_SlotCompleted slot \<and> ri_tipcardType (slot_reviewed slot) = ''repeatable_tip'' \<or> is_SlotContinueError slot
      then [(ContinueCtl, True)] else [])"

definition card_controls :: "FlowPage \<Rightarrow> bool \<Rightarrow> ReviewSlot \<Rightarrow> (SlotControl \<times> bool) list" where
  "card_controls page confirmOpen slot =
     (if is_live slot
      then (if is_SlotError slot then [(ReviewRetryCtl, True)] else []) @
           liveCardControls slot (pinCardState (fp_pins page) (slotCardId slot)) (deleteCardState (fp_deletes page) (slotCardId slot))
             confirmOpen
      else followUpActions slot)"

datatype SlotRequest =
    ReviewSent ReviewLaunch | PinSent PinAttempt | DeleteSent DeleteAttempt | ContinueSent ContinueLaunch

definition sent :: "('a \<Rightarrow> SlotRequest) \<Rightarrow> FlowPage \<times> 'a option \<Rightarrow> FlowPage \<times> SlotRequest option" where
  "sent f r = (fst r, map_option f (snd r))"

fun press :: "int \<Rightarrow> FlowPage \<Rightarrow> ReviewSlot \<Rightarrow> jsstring \<Rightarrow> SlotControl \<Rightarrow> FlowPage \<times> SlotRequest option" where
  "press now page slot key (ReviewCtl chosen) = sent ReviewSent (onReview page (slotCardId slot) chosen key)"
| "press now page slot key ReviewRetryCtl = sent ReviewSent (onRetry page (slotCardId slot) key)"
| "press now page slot key (PinCtl target) = sent PinSent (onPinToggle page (slotCardId slot) target key)"
| "press now page slot key PinRetryCtl = sent PinSent (onPinRetry page (slotCardId slot) key)"
| "press now page slot key DeleteMenuCtl = (page, None)"
| "press now page slot key DeleteConfirmCtl = sent DeleteSent (onDeleteConfirm page (slotCardId slot) key)"
| "press now page slot key DeleteRetryCtl = sent DeleteSent (onDeleteRetry page (slotCardId slot) key)"
| "press now page slot key ContinueCtl = sent ContinueSent (onContinue now page (slotCardId slot) key)"

section \<open>The local state of a slot's card\<close>

record SlotLocal =
  sl_card :: "FlowCardInfo option"
  sl_detailOpen :: bool

definition liveCard :: "ReviewSlot \<Rightarrow> FlowCardInfo option" where
  "liveCard slot = (if is_live slot then Some (slot_card slot) else None)"

definition mount_slot :: "ReviewSlot \<Rightarrow> SlotLocal" where
  "mount_slot slot = \<lparr>sl_card = liveCard slot, sl_detailOpen = False\<rparr>"

text \<open>The two effects after a render with the slot. The first runs when the live card is another object than before
  (\<open>renewed\<close>), which it may be with equal contents.\<close>

definition slot_effects :: "bool \<Rightarrow> ReviewSlot \<Rightarrow> SlotLocal \<Rightarrow> SlotLocal" where
  "slot_effects renewed slot local =
     (let taken = (if renewed \<and> liveCard slot \<noteq> None then local\<lparr>sl_card := liveCard slot\<rparr> else local)
      in if \<not> is_live slot \<and> \<not> slotIsRepeatable slot then taken\<lparr>sl_detailOpen := False\<rparr> else taken)"

definition onDetailOpenChange :: "bool \<Rightarrow> jsstring option \<Rightarrow> SlotLocal \<Rightarrow> SlotLocal" where
  "onDetailOpenChange next reason local =
     (if \<not> next \<and> (case reason of None \<Rightarrow> False | Some r \<Rightarrow> \<not> isUserFullscreenDismiss r) then local
      else local\<lparr>sl_detailOpen := next\<rparr>)"

definition onCardChanged :: "FlowCardInfo \<Rightarrow> SlotLocal \<Rightarrow> SlotLocal" where
  "onCardChanged changed local = local\<lparr>sl_card := Some changed\<rparr>"

text \<open>\<open>card ?? slot.card\<close>.\<close>

definition rendered_card :: "SlotLocal \<Rightarrow> ReviewSlot \<Rightarrow> FlowCardInfo" where
  "rendered_card local slot = (case sl_card local of None \<Rightarrow> slot_card slot | Some c \<Rightarrow> c)"

definition showDetail :: "SlotLocal \<Rightarrow> ReviewSlot \<Rightarrow> bool" where
  "showDetail local slot \<longleftrightarrow> sl_card local \<noteq> None \<and> (is_live slot \<or> slotIsRepeatable slot)"

section \<open>Entries stay under their card\<close>

fun pin_entry :: "jsstring \<times> PinCardState \<Rightarrow> bool" where
  "pin_entry (k, PinIdle) = True"
| "pin_entry (k, PinSaving a) = (k = pinKey (pa_cardId a))"
| "pin_entry (k, PinError a b m) = (k = pinKey (pa_cardId a))"

fun delete_entry :: "jsstring \<times> DeleteCardState \<Rightarrow> bool" where
  "delete_entry (k, DeleteIdle) = True"
| "delete_entry (k, Deleting a) = (k = deleteKey (da_cardId a))"
| "delete_entry (k, DeleteError a b m) = (k = deleteKey (da_cardId a))"

definition entries_keyed :: "FlowPage \<Rightarrow> bool" where
  "entries_keyed page \<longleftrightarrow> list_all pin_entry (fp_pins page) \<and> list_all delete_entry (fp_deletes page)"

lemma list_all_update: "list_all P xs \<Longrightarrow> P (k, v) \<Longrightarrow> list_all P (AList.update k v xs)"
  by (induction xs) (auto split: if_splits)

lemma list_all_delete: "list_all P xs \<Longrightarrow> list_all P (AList.delete k xs)"
  by (auto simp: list_all_iff AList.delete_eq)

lemma commit_maps [simp]:
  "fp_pins (apply_state page st) = fp_pins page" "fp_deletes (apply_state page st) = fp_deletes page"
  "fp_pins (applyPinnedOrder page order) = fp_pins page" "fp_deletes (applyPinnedOrder page order) = fp_deletes page"
  "fp_pins (saveReadySnapshot now page slots cursor) = fp_pins page"
  "fp_deletes (saveReadySnapshot now page slots cursor) = fp_deletes page"
  "fp_pins (setStateOnly page st) = fp_pins page" "fp_deletes (setStateOnly page st) = fp_deletes page"
  by (simp_all add: apply_state_def applyPinnedOrder_def saveReadySnapshot_def setStateOnly_def Let_def)

lemma produce_maps [simp]: "fp_pins (produce_state page f) = fp_pins page" "fp_deletes (produce_state page f) = fp_deletes page"
  by (simp_all add: produce_state_def split: option.split)

lemma commit_slots_maps [simp]:
  "fp_pins (commit_slots page f) = fp_pins page" "fp_deletes (commit_slots page f) = fp_deletes page"
  by (simp_all add: commit_slots_def split: option.split)

lemma entries_same: "fp_pins page' = fp_pins page \<Longrightarrow> fp_deletes page' = fp_deletes page \<Longrightarrow> entries_keyed page' = entries_keyed page"
  by (simp add: entries_keyed_def)

lemma keyed_pin_begin: "entries_keyed page \<Longrightarrow> entries_keyed (fst (beginPin page a))"
  by (auto simp: beginPin_def startPin_def entries_keyed_def list_all_update split: option.split PinCardState.split)

lemma keyed_delete_begin: "entries_keyed page \<Longrightarrow> entries_keyed (fst (beginDelete page a))"
  by (auto simp: beginDelete_def startDelete_def entries_keyed_def list_all_update split: option.split DeleteCardState.split)

lemma keyed_clicks:
  assumes "entries_keyed page"
  shows "entries_keyed (fst (onPinToggle page k target key))" "entries_keyed (fst (onPinRetry page k key))"
    "entries_keyed (fst (onDeleteConfirm page k key))" "entries_keyed (fst (onDeleteRetry page k key))"
  using assms keyed_pin_begin keyed_delete_begin
  by (auto simp: onPinToggle_def onPinRetry_def onDeleteConfirm_def onDeleteRetry_def Let_def
      split: option.split PinRetryDecision.split DeleteRetryDecision.split)

lemma keyed_pin_answers:
  assumes "entries_keyed page"
  shows "entries_keyed (pinResolved page a)" "entries_keyed (pinRejected page a error)"
  using assms
  by (auto simp: pinResolved_def pinRejected_def applyPinSuccess_def applyPinFailure_def entries_keyed_def Let_def
      list_all_update list_all_delete split: option.split PinCardState.split)

lemma keyed_delete_answers:
  assumes "entries_keyed page"
  shows "entries_keyed (deleteResolved page a)" "entries_keyed (deleteRejected page a error)"
  using assms
  by (auto simp: deleteResolved_def deleteRejected_def applyDeleteSuccess_def applyDeleteFailure_def entries_keyed_def Let_def
      list_all_update list_all_delete split: option.split DeleteCardState.split)

text \<open>Every other handler leaves both maps alone.\<close>

definition same_maps :: "FlowPage \<Rightarrow> FlowPage \<Rightarrow> bool" where
  "same_maps page page' \<longleftrightarrow> fp_pins page' = fp_pins page \<and> fp_deletes page' = fp_deletes page"

lemma same_maps_commit [simp]:
  "same_maps page page" "same_maps page (commit_slots page f)" "same_maps page (apply_state page st)"
  "same_maps page (applyPinnedOrder page order)" "same_maps page (saveReadySnapshot now page slots cursor)"
  by (simp_all add: same_maps_def)

lemma same_maps_review:
  "same_maps page (fst (onReview page k chosen key))" "same_maps page (fst (onRetry page k key))"
  "same_maps page (reviewResolved page launch k r)" "same_maps page (reviewRejected page launch error)"
  "same_maps page (fst (onContinue now page k key))" "same_maps page (continueResolved page cl c n)"
  "same_maps page (continueRejected page cl returned error)" "same_maps page (refillPolled page slot cancelled answer)"
  by (simp_all add: onReview_def onRetry_def beginReview_def reviewResolved_def reviewRejected_def onContinue_def
      continueResolved_def continueRejected_def refillPolled_def Let_def split: option.split sum.split RetryDecision.split)

lemma same_maps_pager:
  "same_maps page (fst (loadInitial page))" "same_maps page (loadInitialResolved now page g fetched)"
  "same_maps page (loadInitialRejected page g message)" "same_maps page (fst (loadMore page))"
  "same_maps page (fst (loadMoreRetry page))" "same_maps page (loadMoreResolved now page g tok fetched)"
  "same_maps page (loadMoreRejected page g tok message)" "same_maps page (fst (onPinnedDrop page source target_id))"
  "same_maps page (reconcilePinnedOrder page)"
  by (simp_all add: same_maps_def loadInitial_def loadInitialResolved_def loadInitialRejected_def loadMore_def loadMoreFrom_def
      loadMoreRetry_def loadMoreResolved_def loadMoreRejected_def onPinnedDrop_def reconcilePinnedOrder_def pager_launch_def
      integrateFreshPage_def Let_def split: option.split FlowState.split FlowCursor.split)

lemma same_maps_cards: "same_maps page (fst (commitIntegratedCards page run cards))"
  by (simp add: same_maps_def commitIntegratedCards_def Let_def split: option.split)

lemma same_maps_settle: "same_maps page page' \<Longrightarrow> same_maps page (settle_run page' run)"
  by (simp add: same_maps_def settle_run_def Let_def)

lemma same_maps_add:
  "\<nexists>state order pins deletes. e = AddPageEv state order pins deletes \<Longrightarrow> same_maps page (fst (add_step (page, out) e))"
  using same_maps_cards [of page]
  by (cases e; cases out)
    (auto simp: same_maps_def add_step_def case_prod_beta' onAddSubmit_def onAddRetryMutation_def onAddRetryResolve_def
      addMutationResolved_def addMutationRejected_def addReconcileFailed_def addReconciled_def addDetailsSettled_def
      settle_run_def Let_def split: option.split)

lemma same_maps_keyed: "same_maps page page' \<Longrightarrow> entries_keyed page \<Longrightarrow> entries_keyed page'"
  by (simp add: same_maps_def entries_keyed_def)

lemma same_maps_unmount: "same_maps page (page\<lparr>fp_mounted := b\<rparr>)"
  by (simp add: same_maps_def)

lemma keyed_step: "page_step page page' \<Longrightarrow> entries_keyed page \<Longrightarrow> entries_keyed page'"
proof (induction rule: page_step.induct)
  case (add e page out)
  then show ?case using same_maps_keyed same_maps_add by blast
qed (erule keyed_clicks keyed_pin_answers keyed_delete_answers |
  erule same_maps_keyed [rotated], rule same_maps_review same_maps_pager same_maps_unmount)+

lemma reachable_keyed: "page_reachable page \<Longrightarrow> entries_keyed page"
proof (induction rule: page_reachable.induct)
  case (initial saved order)
  then show ?case by (simp add: initial_page_def entries_keyed_def EMPTY_PIN_STATE_def EMPTY_DELETE_STATE_def Let_def)
qed (rule keyed_step)

section \<open>What a press launches\<close>

lemma changed_at: "i < length xs \<Longrightarrow> p (xs ! i) \<Longrightarrow> f (xs ! i) \<noteq> xs ! i \<Longrightarrow> map_where p f xs \<noteq> xs"
  by (metis nth_map_where)

lemma find_changed: "x \<in> set xs \<Longrightarrow> p x \<Longrightarrow> q (f x) \<Longrightarrow> find q (map_where p f xs) \<noteq> None"
  by (auto simp: find_None_iff map_where_def)

lemma begin_review_launches:
  assumes "slotsStateOf (fp_ref page) = Some slots" and "distinct_cards slots" and "slot \<in> set slots"
    and "is_SlotIdle slot \<or> is_SlotError slot"
  shows "snd (beginReview page slots (slotCardId slot) a) \<noteq> None"
proof -
  have st: "startable (slotCardId slot) slot" using assms(4) by (cases slot) (auto simp: startable_def)
  have "find (startable (slotCardId slot)) slots = Some slot"
    by (rule distinct_find [where s = slot]) (use assms(2,3) st in \<open>auto simp: startable_def slotCardId_def is_live_def\<close>)
  then obtain g where start: "startReview slots (slotCardId slot) a =
      map_where (startable (slotCardId slot)) (\<lambda>current. SlotReviewing (slot_card current) g a) slots"
    by (auto simp: startReview_def Let_def)
  obtain i where i: "i < length slots" "slots ! i = slot" using assms(3) by (metis in_set_conv_nth)
  have "startReview slots (slotCardId slot) a \<noteq> slots"
    unfolding start by (rule changed_at [of i]) (use i st assms(4) in \<open>cases slot; simp\<close>)+
  moreover have "find (reviewing_card (slotCardId slot)) (startReview slots (slotCardId slot) a) \<noteq> None"
    unfolding start
    by (rule find_changed [where x = slot]) (use assms(3) st in \<open>auto simp: reviewing_card_def startable_def\<close>)
  ultimately show ?thesis by (auto simp: beginReview_def launchReview_def Let_def)
qed

lemma review_press:
  assumes "slotsStateOf (fp_ref page) = Some slots" and "distinct_cards slots" and "slot \<in> set slots" and "is_SlotIdle slot"
    and "pinIdle page (slotCardId slot)"
  shows "snd (onReview page (slotCardId slot) chosen key) \<noteq> None"
  using begin_review_launches [of page slots slot] assms by (simp add: onReview_def getState_def)

lemma review_retry_press:
  assumes "slotsStateOf (fp_ref page) = Some slots" and "distinct_cards slots" and "slot \<in> set slots" and "is_SlotError slot"
  shows "snd (onRetry page (slotCardId slot) key) \<noteq> None \<longleftrightarrow> pinIdle page (slotCardId slot)"
proof -
  have "find (\<lambda>s. is_SlotError s \<and> fc_id (slot_card s) = slotCardId slot) slots = Some slot"
    by (rule distinct_find [where s = slot]) (use assms in \<open>auto simp: slotCardId_def is_live_def\<close>)
  then show ?thesis
    using begin_review_launches [of page slots slot] assms
    by (auto simp: onRetry_def getState_def retryDecision_def)
qed

lemma idle_index:
  assumes "distinct_cards slots" and "slot \<in> set slots"
  shows "findLiveIdleSlotIndex slots (slotCardId slot) \<noteq> None \<longleftrightarrow> is_SlotIdle slot"
proof
  assume "findLiveIdleSlotIndex slots (slotCardId slot) \<noteq> None"
  then obtain s where s: "s \<in> set slots" "is_SlotIdle s" "fc_id (slot_card s) = slotCardId slot"
    by (auto simp: findLiveIdleSlotIndex_def find_index_None live_idle_def)
  then have "slotCardId s = slotCardId slot" by (simp add: slotCardId_def is_live_def)
  then have "s = slot" using distinct_cards_unique assms s(1) by blast
  with s show "is_SlotIdle slot" by simp
next
  assume "is_SlotIdle slot"
  then show "findLiveIdleSlotIndex slots (slotCardId slot) \<noteq> None"
    using assms(2) by (auto simp: findLiveIdleSlotIndex_def find_index_None live_idle_def slotCardId_def is_live_def)
qed

lemma pin_begins:
  assumes "slotsStateOf (fp_ref page) = Some slots" and "distinct_cards slots" and "slot \<in> set slots"
    and "pa_cardId a = slotCardId slot" and "\<not> is_PinSaving (pinCardState (fp_pins page) (slotCardId slot))"
  shows "snd (beginPin page a) \<noteq> None \<longleftrightarrow> is_SlotIdle slot"
  using assms idle_index [OF assms(2,3)]
  by (auto simp: beginPin_def getState_def startPin_def pinCardState_def split: option.split PinCardState.split)

lemma delete_begins:
  assumes "slotsStateOf (fp_ref page) = Some slots" and "distinct_cards slots" and "slot \<in> set slots"
    and "da_cardId a = slotCardId slot"
  shows "snd (beginDelete page a) \<noteq> None \<longleftrightarrow>
    is_SlotIdle slot \<and> \<not> is_Deleting (deleteCardState (fp_deletes page) (slotCardId slot))"
  using assms idle_index [OF assms(2,3)]
  by (auto simp: beginDelete_def getState_def startDelete_def deleteCardState_def split: option.split DeleteCardState.split)

lemma pin_press:
  assumes "slotsStateOf (fp_ref page) = Some slots" and "distinct_cards slots" and "slot \<in> set slots"
    and "pinCardState (fp_pins page) (slotCardId slot) = PinIdle"
  shows "snd (onPinToggle page (slotCardId slot) target key) \<noteq> None \<longleftrightarrow> is_SlotIdle slot"
  using pin_begins [OF assms(1-3)] assms(4) by (simp add: onPinToggle_def Let_def)

lemma pin_retry_press:
  assumes "slotsStateOf (fp_ref page) = Some slots" and "distinct_cards slots" and "slot \<in> set slots"
    and "is_PinError (pinCardState (fp_pins page) (slotCardId slot))" and "entries_keyed page"
  shows "snd (onPinRetry page (slotCardId slot) key) \<noteq> None \<longleftrightarrow> is_SlotIdle slot"
proof -
  obtain a b m where e: "pinCardState (fp_pins page) (slotCardId slot) = PinError a b m" using assms(4) by (auto simp: is_PinError_def)
  then have "(pinKey (slotCardId slot), PinError a b m) \<in> set (fp_pins page)"
    by (auto simp: pinCardState_def split: option.splits dest: map_of_SomeD)
  then have "pa_cardId a = slotCardId slot" using assms(5) by (fastforce simp: entries_keyed_def list_all_iff)
  then show ?thesis using pin_begins [OF assms(1-3)] e by (simp add: onPinRetry_def)
qed

lemma delete_press:
  assumes "slotsStateOf (fp_ref page) = Some slots" and "distinct_cards slots" and "slot \<in> set slots"
  shows "snd (onDeleteConfirm page (slotCardId slot) key) \<noteq> None \<longleftrightarrow>
    is_SlotIdle slot \<and> \<not> is_Deleting (deleteCardState (fp_deletes page) (slotCardId slot))"
  using delete_begins [OF assms] by (simp add: onDeleteConfirm_def Let_def)

lemma delete_retry_press:
  assumes "slotsStateOf (fp_ref page) = Some slots" and "distinct_cards slots" and "slot \<in> set slots"
    and "is_DeleteError (deleteCardState (fp_deletes page) (slotCardId slot))" and "entries_keyed page"
  shows "snd (onDeleteRetry page (slotCardId slot) key) \<noteq> None \<longleftrightarrow> is_SlotIdle slot"
proof -
  obtain a b m where e: "deleteCardState (fp_deletes page) (slotCardId slot) = DeleteError a b m"
    using assms(4) by (auto simp: is_DeleteError_def)
  then have "(deleteKey (slotCardId slot), DeleteError a b m) \<in> set (fp_deletes page)"
    by (auto simp: deleteCardState_def split: option.splits dest: map_of_SomeD)
  then have "da_cardId a = slotCardId slot" using assms(5) by (fastforce simp: entries_keyed_def list_all_iff)
  then show ?thesis using delete_begins [OF assms(1-3)] e by (simp add: onDeleteRetry_def)
qed

lemma continue_press:
  assumes "slotsStateOf (fp_ref page) = Some slots" and "slots_inv slots" and "slot \<in> set slots"
    and "followUpActions slot \<noteq> []"
  shows "snd (onContinue now page (slotCardId slot) key) \<noteq> None"
proof -
  let ?k = "slotCardId slot"
  have d: "distinct_cards slots" and ok: "slot_ok slot" using assms(2,3) by (auto simp: slots_inv_def)
  have kind: "is_SlotCompleted slot \<and> ri_tipcardType (slot_reviewed slot) = ''repeatable_tip'' \<or> is_SlotContinueError slot"
    using assms(4) by (simp add: followUpActions_def split: if_splits)
  have c: "continuable ?k slot" using kind by (cases slot) (auto simp: continuable_def)
  have found: "find (continuable ?k) slots = Some slot"
    by (rule distinct_find [OF d assms(3), where q = "continuable ?k"])
      (use c in \<open>auto simp: continuable_def slotCardId_def is_live_def\<close>)
  have rep: "ri_tipcardType (slot_reviewed slot) = ''repeatable_tip''"
    using kind ok by (cases slot) (auto simp: continues_topic_def)
  have "\<exists>attempt. continue_attempt slot key = Some attempt \<and> ca_topicName attempt = ri_topicName (slot_reviewed slot)"
  proof (cases slot)
    case (SlotContinueError g a b m ri)
    then show ?thesis using ok by (cases b) (simp_all add: continue_attempt_def continueRetryDecision_def continues_topic_def)
  qed (use kind in \<open>simp_all add: continue_attempt_def\<close>)
  then obtain attempt where at: "continue_attempt slot key = Some attempt" "ca_topicName attempt = ri_topicName (slot_reviewed slot)"
    by blast
  let ?f = "\<lambda>current. if is_SlotCompleted current then SlotContinuing 1 attempt now (slot_reviewed current)
      else SlotContinuing (slot_generation current + 1) attempt now (slot_reviewed current)"
  have start: "startContinue now slots ?k attempt = map_where (continuable ?k) ?f slots"
    using found rep at(2) by (simp add: startContinue_def)
  obtain i where i: "i < length slots" "slots ! i = slot" using assms(3) by (metis in_set_conv_nth)
  have "?f slot \<noteq> slot" using kind by (cases slot) auto
  then have "startContinue now slots ?k attempt \<noteq> slots"
    unfolding start using i c by (intro changed_at [of i]) (auto split: if_splits)
  moreover have "find (is_continuing ?k) (startContinue now slots ?k attempt) \<noteq> None"
    unfolding start by (rule find_changed [where x = slot]) (use assms(3) c in \<open>simp_all add: is_continuing_def continuable_def\<close>)
  then obtain target where "find (is_continuing ?k) (startContinue now slots ?k attempt) = Some target" by blast
  ultimately show ?thesis using assms(1) found at(1) by (simp add: onContinue_def getState_def launchContinue_def Let_def)
qed

lemma sent_None [simp]: "snd (sent f r) = None \<longleftrightarrow> snd r = None"
  by (simp add: sent_def)

text \<open>When an enabled control does what it says.\<close>

fun does_launch :: "FlowPage \<Rightarrow> ReviewSlot \<Rightarrow> SlotControl \<Rightarrow> bool" where
  "does_launch page slot ReviewRetryCtl = pinIdle page (slotCardId slot)"
| "does_launch page slot PinRetryCtl = is_SlotIdle slot"
| "does_launch page slot DeleteRetryCtl = is_SlotIdle slot"
| "does_launch page slot DeleteConfirmCtl =
     (is_SlotIdle slot \<and> \<not> is_Deleting (deleteCardState (fp_deletes page) (slotCardId slot)))"
| "does_launch page slot DeleteMenuCtl = False"
| "does_launch page slot _ = True"

lemma live_controls_idle:
  assumes "(ctl, True) \<in> set (card_controls page confirmOpen slot)"
  shows "ctl = ReviewCtl chosen \<Longrightarrow> is_SlotIdle slot \<and> pinIdle page (slotCardId slot)"
    "ctl = ReviewRetryCtl \<Longrightarrow> is_SlotError slot"
    "ctl = PinCtl target \<Longrightarrow> is_SlotIdle slot \<and> pinCardState (fp_pins page) (slotCardId slot) = PinIdle"
    "ctl = PinRetryCtl \<Longrightarrow> is_PinError (pinCardState (fp_pins page) (slotCardId slot))"
    "ctl = DeleteRetryCtl \<Longrightarrow> is_DeleteError (deleteCardState (fp_deletes page) (slotCardId slot))"
    "ctl = ContinueCtl \<Longrightarrow> followUpActions slot \<noteq> []"
  using assms
  by (auto simp: card_controls_def liveCardControls_def slotReviewControls_def pinControl_def deleteControl_def
      followUpActions_def pinIdle_def Let_def split: if_splits)


lemma demo_page_reachable: "page_reachable demo_page"
  unfolding demo_page_def by (rule page_reachable.initial)

lemma demo_deletes [simp]: "fp_deletes demo_page = []"
  by (simp add: demo_page_def initial_page_def EMPTY_DELETE_STATE_def Let_def)


text \<open>While a review runs, and after it failed, the card shows "review saved" in place of the buttons.\<close>

lemma failed_review_shown_as_saved: "review_saved_shown (SlotError c g a b m)" "review_saved_shown (SlotReviewing c g a)"
  by (simp_all add: review_saved_shown_def)

section \<open>What is on screen\<close>

lemma toggles: "cb_expanded ((toggle_expanded c ^^ n) INITIAL_BODY) \<Longrightarrow> expand_offered c"
  by (induction n) (auto simp: toggle_expanded_def INITIAL_BODY_def split: if_splits)

text \<open>With the toggle the full text of a card can be brought on screen unless the compact text is blank without being empty:
  then the blank text is shown, and no toggle.\<close>

theorem full_text_reachable:
  "card_contentKind c = ContentNormal \<Longrightarrow>
   (\<exists>n. shown_content (cb_expanded ((toggle_expanded c ^^ n) INITIAL_BODY)) c = fc_fullContent c) \<longleftrightarrow>
   fc_compressedContent c = [] \<or> fc_compressedContent c = fc_fullContent c \<or>
   js_trim (fc_compressedContent c) \<noteq> [] \<and> js_trim (fc_fullContent c) \<noteq> []"
  (is "_ \<Longrightarrow> ?reached \<longleftrightarrow> ?texts")
proof
  assume ?reached
  then obtain n where n: "shown_content (cb_expanded ((toggle_expanded c ^^ n) INITIAL_BODY)) c = fc_fullContent c" ..
  show ?texts
  proof (cases "cb_expanded ((toggle_expanded c ^^ n) INITIAL_BODY)")
    case True
    then show ?thesis using toggles by (auto simp: expand_offered_def hasCompact_def)
  next
    case False
    then show ?thesis using n by (auto simp: shown_content_def toFlowCardViews_def toFlowCardView_def split: if_splits)
  qed
next
  assume normal: "card_contentKind c = ContentNormal" and ?texts
  then consider "fc_compressedContent c = [] \<or> fc_compressedContent c = fc_fullContent c" | "hasCompact c"
    by (auto simp: hasCompact_def)
  then show ?reached
  proof cases
    case 1
    then show ?thesis
      by (intro exI [of _ 0]) (auto simp: INITIAL_BODY_def shown_content_def toFlowCardViews_def toFlowCardView_def)
  next
    case 2
    then show ?thesis using normal
      by (intro exI [of _ 1]) (simp add: toggle_expanded_def expand_offered_def INITIAL_BODY_def shown_content_def)
  qed
qed

text \<open>An image edit made in the detail sheet reaches only the local card. The next change of the slot's own card, here the answer
  to a pin, replaces it, so the card shows the images from before the edit again.\<close>

theorem pin_drops_changed_card:
  assumes "fp_mounted page" and "slotsStateOf (fp_ref page) = Some slots" and "distinct_cards slots"
    and "i < length slots" and "slots ! i = SlotIdle c" and "map_of (fp_pins page) (pinKey (fc_id c)) = Some (PinSaving a)"
    and "pa_cardId a = fc_id c"
  shows "rendered_card (onCardChanged changed local) (slots ! i) = changed \<and>
    (\<exists>after. slotsStateOf (fp_ref (pinResolved page a)) = Some after \<and>
       rendered_card (slot_effects True (after ! i) (onCardChanged changed local)) (after ! i) =
       c\<lparr>fc_pinned := pa_targetPinned a\<rparr>)"
proof -
  have "findLiveIdleSlotIndex slots (pa_cardId a) = Some i" using find_live_idle [OF assms(3-5)] assms(7) by simp
  then have "slotsStateOf (fp_ref (pinResolved page a)) = Some (slots[i := SlotIdle (c\<lparr>fc_pinned := pa_targetPinned a\<rparr>)])"
    using pin_resolved_current [of page slots a i] assms(1,2,5-7) by (simp add: apply_state_def setPinned_def)
  then show ?thesis
    using assms(4) by (simp add: rendered_card_def onCardChanged_def slot_effects_def liveCard_def)
qed

end
