(* ===== verification/Flow_Toolbar.thy ===== *)
theory Flow_Toolbar
  imports Flow_Page Flow_View
begin

text \<open>
  The toolbar and the pinned section of \<open>components/flow/Flow.tsx\<close>: the sort, layout and column preferences with their copies in
  the browser's storage (a string map), and dragging a pinned card, from the text the handle puts on the drag to the
  positions the drop handler writes on the list items before React renders them again.
\<close>

section \<open>Preferences\<close>

definition FLOW_SORT_STORAGE_KEY :: jsstring where "FLOW_SORT_STORAGE_KEY = ''denpie-flow-sort''"
definition FLOW_LAYOUT_STORAGE_KEY :: jsstring where "FLOW_LAYOUT_STORAGE_KEY = ''denpie-flow-layout''"
definition FLOW_GRID_COLUMNS_STORAGE_KEY :: jsstring where "FLOW_GRID_COLUMNS_STORAGE_KEY = ''denpie-flow-grid-columns''"

fun sort_text :: "FlowSortMode \<Rightarrow> jsstring" where
  "sort_text SortTopic = ''topic''"
| "sort_text SortDate = ''date''"

fun layout_text :: "FlowLayout \<Rightarrow> jsstring" where
  "layout_text LayoutGrid = ''grid''"
| "layout_text LayoutList = ''list''"

record FlowToolbar =
  ft_sortMode :: FlowSortMode
  ft_layout :: FlowLayout
  ft_gridColumns :: int
  ft_columnsMenuOpen :: bool
  ft_draggingCardId :: "bigint option"
  ft_storage :: "jsstring js_map"

definition initial_toolbar :: "jsstring js_map \<Rightarrow> FlowToolbar" where
  "initial_toolbar storage =
     \<lparr>ft_sortMode = parseFlowSortMode (map_of storage FLOW_SORT_STORAGE_KEY),
      ft_layout = parseFlowLayout (map_of storage FLOW_LAYOUT_STORAGE_KEY),
      ft_gridColumns = parseGridColumns (map_of storage FLOW_GRID_COLUMNS_STORAGE_KEY),
      ft_columnsMenuOpen = False, ft_draggingCardId = None, ft_storage = storage\<rparr>"

definition set_item :: "jsstring \<Rightarrow> jsstring \<Rightarrow> FlowToolbar \<Rightarrow> FlowToolbar" where
  "set_item key v tb = tb\<lparr>ft_storage := AList.update key v (ft_storage tb)\<rparr>"

definition onSortChange :: "jsstring list \<Rightarrow> FlowToolbar \<Rightarrow> FlowToolbar" where
  "onSortChange values tb =
     (case values of
        [] \<Rightarrow> tb
      | next # _ \<Rightarrow>
          let mode = parseFlowSortMode (Some next)
          in (set_item FLOW_SORT_STORAGE_KEY (sort_text mode) tb)\<lparr>ft_sortMode := mode\<rparr>)"

definition onGridMenuOpenChange :: "bool \<Rightarrow> FlowToolbar \<Rightarrow> FlowToolbar" where
  "onGridMenuOpenChange opened tb =
     (let tb' = tb\<lparr>ft_columnsMenuOpen := opened\<rparr>
      in if \<not> opened then tb' else (set_item FLOW_LAYOUT_STORAGE_KEY ''grid'' tb')\<lparr>ft_layout := LayoutGrid\<rparr>)"

definition onLayoutChange :: "jsstring list \<Rightarrow> FlowToolbar \<Rightarrow> FlowToolbar" where
  "onLayoutChange values tb =
     (case values of
        [] \<Rightarrow> tb
      | next # _ \<Rightarrow>
          let parsed = parseFlowLayout (Some next);
              tb' = (set_item FLOW_LAYOUT_STORAGE_KEY (layout_text parsed) tb)\<lparr>ft_layout := parsed\<rparr>
          in if parsed = LayoutList then tb'\<lparr>ft_columnsMenuOpen := False\<rparr> else tb')"

definition onColumnsSelect :: "jsstring \<Rightarrow> FlowToolbar \<Rightarrow> FlowToolbar" where
  "onColumnsSelect v tb =
     (let columns = parseGridColumns (Some v)
      in (set_item FLOW_LAYOUT_STORAGE_KEY ''grid''
            (set_item FLOW_GRID_COLUMNS_STORAGE_KEY (dec_of_int columns) tb))
         \<lparr>ft_gridColumns := columns, ft_layout := LayoutGrid, ft_columnsMenuOpen := False\<rparr>)"

definition layoutClasses :: "jsstring \<Rightarrow> FlowToolbar \<Rightarrow> jsstring" where
  "layoutClasses listClasses tb =
     (if ft_layout tb = LayoutList then listClasses else gridClassesForColumns (ft_gridColumns tb))"

section \<open>Dragging a pinned card\<close>

definition onPinnedDragStart :: "bigint \<Rightarrow> FlowToolbar \<Rightarrow> FlowToolbar" where
  "onPinnedDragStart cardId tb = tb\<lparr>ft_draggingCardId := Some cardId\<rparr>"

definition onPinnedDragEnd :: "FlowToolbar \<Rightarrow> FlowToolbar" where
  "onPinnedDragEnd tb = tb\<lparr>ft_draggingCardId := None\<rparr>"

text \<open>The text of the drag, and the drop on the item of a card: a text that is no card id drops nothing.\<close>

definition drag_text :: "bigint \<Rightarrow> jsstring" where
  "drag_text cardId = dec_of_int cardId"

definition list_onDrop :: "FlowPage \<Rightarrow> jsstring \<Rightarrow> bigint \<Rightarrow> FlowPage \<times> bigint list option" where
  "list_onDrop page data targetId =
     (case parsePinnedCardId data of None \<Rightarrow> (page, None) | Some source \<Rightarrow> onPinnedDrop page source targetId)"

text \<open>The positions the handler writes on the items it finds, and those of the next render.\<close>

definition drop_styles :: "bigint set \<Rightarrow> bigint list \<Rightarrow> (bigint \<times> nat) list" where
  "drop_styles items next = map (\<lambda>(index, n). (n, index)) (filter (\<lambda>(index, n). n \<in> items) (enumerate 0 next))"

definition rendered_styles :: "ReviewSlot list \<Rightarrow> (bigint \<times> nat) list" where
  "rendered_styles pinned = map (\<lambda>(index, slot). (sm_id (slotMetadata slot), index)) (enumerate 0 pinned)"

section \<open>Preferences survive a reload\<close>

datatype ToolbarEvent =
    SortEv "jsstring list" | GridMenuEv bool | LayoutEv "jsstring list" | ColumnsEv jsstring
  | DragStartEv bigint | DragEndEv

fun toolbar_step :: "FlowToolbar \<Rightarrow> ToolbarEvent \<Rightarrow> FlowToolbar" where
  "toolbar_step tb (SortEv values) = onSortChange values tb"
| "toolbar_step tb (GridMenuEv opened) = onGridMenuOpenChange opened tb"
| "toolbar_step tb (LayoutEv values) = onLayoutChange values tb"
| "toolbar_step tb (ColumnsEv v) = onColumnsSelect v tb"
| "toolbar_step tb (DragStartEv cardId) = onPinnedDragStart cardId tb"
| "toolbar_step tb DragEndEv = onPinnedDragEnd tb"

lemma parse_sort_text [simp]: "parseFlowSortMode (Some (sort_text m)) = m"
  by (cases m) (simp_all add: parseFlowSortMode_def)

lemma parse_layout_text [simp]: "parseFlowLayout (Some (layout_text l)) = l" "parseFlowLayout (Some ''grid'') = LayoutGrid"
  "parseFlowLayout (Some ''list'') = LayoutList"
  by (cases l) (simp_all add: parseFlowLayout_def)

lemma columns_range: "parseGridColumns v \<in> {1, 2, 3, 4}"
  by (auto simp: parseGridColumns_def clampGridColumns_def Let_def split: option.split)

lemma digit_texts: "dec_of_int 1 = ''1''" "dec_of_int 2 = ''2''" "dec_of_int 3 = ''3''" "dec_of_int 4 = ''4''"
  by code_simp+

lemma parse_columns_text: "c \<in> {1, 2, 3, 4} \<Longrightarrow> parseGridColumns (Some (dec_of_int c)) = c"
  by (elim insertE emptyE; simp only: digit_texts; code_simp)

lemma storage_keys_differ [simp]:
  "FLOW_SORT_STORAGE_KEY \<noteq> FLOW_LAYOUT_STORAGE_KEY" "FLOW_LAYOUT_STORAGE_KEY \<noteq> FLOW_SORT_STORAGE_KEY"
  "FLOW_SORT_STORAGE_KEY \<noteq> FLOW_GRID_COLUMNS_STORAGE_KEY" "FLOW_GRID_COLUMNS_STORAGE_KEY \<noteq> FLOW_SORT_STORAGE_KEY"
  "FLOW_LAYOUT_STORAGE_KEY \<noteq> FLOW_GRID_COLUMNS_STORAGE_KEY" "FLOW_GRID_COLUMNS_STORAGE_KEY \<noteq> FLOW_LAYOUT_STORAGE_KEY"
  by (simp_all add: FLOW_SORT_STORAGE_KEY_def FLOW_LAYOUT_STORAGE_KEY_def FLOW_GRID_COLUMNS_STORAGE_KEY_def)

definition preferences_stored :: "FlowToolbar \<Rightarrow> bool" where
  "preferences_stored tb \<longleftrightarrow>
     parseFlowSortMode (map_of (ft_storage tb) FLOW_SORT_STORAGE_KEY) = ft_sortMode tb \<and>
     parseFlowLayout (map_of (ft_storage tb) FLOW_LAYOUT_STORAGE_KEY) = ft_layout tb \<and>
     parseGridColumns (map_of (ft_storage tb) FLOW_GRID_COLUMNS_STORAGE_KEY) = ft_gridColumns tb"

lemma stored_step: "preferences_stored tb \<Longrightarrow> preferences_stored (toolbar_step tb e)"
  using parse_columns_text [OF columns_range]
  by (cases e) (auto simp: preferences_stored_def onSortChange_def onGridMenuOpenChange_def onLayoutChange_def
      onColumnsSelect_def onPinnedDragStart_def onPinnedDragEnd_def set_item_def Let_def split: list.split)

lemma stored_run: "preferences_stored tb \<Longrightarrow> preferences_stored (foldl toolbar_step tb es)"
  by (induction es arbitrary: tb) (auto simp: stored_step)

text \<open>C39: Whatever was stored before and whatever the toolbar does, a page opened afterwards starts with the sort mode, the layout and
  the columns on screen, with one to four columns.\<close>

theorem preferences_survive_reload:
  "let tb = foldl toolbar_step (initial_toolbar storage) es
   in initial_toolbar (ft_storage tb) = tb\<lparr>ft_columnsMenuOpen := False, ft_draggingCardId := None\<rparr> \<and>
      1 \<le> ft_gridColumns tb \<and> ft_gridColumns tb \<le> 4"
proof -
  define tb where "tb = foldl toolbar_step (initial_toolbar storage) es"
  have "preferences_stored (initial_toolbar storage)" by (simp add: preferences_stored_def initial_toolbar_def)
  then have st: "preferences_stored tb" unfolding tb_def by (rule stored_run)
  moreover have "ft_gridColumns tb \<in> {1, 2, 3, 4}"
    using st columns_range [of "map_of (ft_storage tb) FLOW_GRID_COLUMNS_STORAGE_KEY"] by (simp add: preferences_stored_def)
  ultimately show ?thesis
    unfolding tb_def [symmetric] Let_def by (auto simp: preferences_stored_def initial_toolbar_def)
qed

section \<open>The drop shows the order it stores\<close>

lemma enumerate_ids: "rendered_styles pinned = map (\<lambda>(index, n). (n, index)) (enumerate 0 (map slotCardId pinned))"
  by (simp add: rendered_styles_def enumerate_map_upt map_nth comp_def split_def enumerate_eq_zip zip_map2)

lemma drop_all: "set next \<subseteq> items \<Longrightarrow> drop_styles items next = map (\<lambda>(index, n). (n, index)) (enumerate 0 next)"
  unfolding drop_styles_def
  by (subst filter_True) (auto simp: in_set_enumerate_eq dest!: nth_mem)

lemma sorted_by_position:
  assumes "distinct ks"
  shows "sorted_wrt (\<lambda>a b. the (saved_rank ks a) \<le> the (saved_rank ks b)) ks"
  using saved_rank_distinct [OF assms] by (auto simp: sorted_wrt_iff_nth_less)

lemma ranked_order:
  assumes "distinct ks" and "distinct_cards pinned" and "slotCardId ` set pinned = set ks"
  shows "map slotCardId (js_sort (compareRank (saved_rank ks)) pinned) = ks"
proof (rule sorted_wrt_unique [where P = "\<lambda>a b. the (saved_rank ks a) \<le> the (saved_rank ks b)"])
  have "the (saved_rank ks (slotCardId a)) \<le> the (saved_rank ks (slotCardId b))"
    if "a \<in> set pinned" "b \<in> set pinned" "compareRank (saved_rank ks) a b \<le> 0" for a b
  proof -
    have "slotCardId a \<in> set ks" "slotCardId b \<in> set ks" using that assms(3) by blast+
    then obtain r s where "saved_rank ks (slotCardId a) = Some r" "saved_rank ks (slotCardId b) = Some s"
      by (meson option.exhaust saved_rank_dom)
    with that(3) show ?thesis by (simp add: compareRank_le)
  qed
  then show "sorted_wrt (\<lambda>a b. the (saved_rank ks a) \<le> the (saved_rank ks b))
      (map slotCardId (js_sort (compareRank (saved_rank ks)) pinned))"
    unfolding sorted_wrt_map
    by (intro sorted_wrt_mono_rel [OF _ sorted_js_sort [OF compareRank_consistent]]) simp
  show "sorted_wrt (\<lambda>a b. the (saved_rank ks a) \<le> the (saved_rank ks b)) ks" by (rule sorted_by_position [OF assms(1)])
  show "mset (map slotCardId (js_sort (compareRank (saved_rank ks)) pinned)) = mset ks"
    using assms set_eq_iff_mset_eq_distinct [of "map slotCardId pinned" ks] by (simp add: distinct_cards_def)
  show "x = y" if "x \<in> set (map slotCardId (js_sort (compareRank (saved_rank ks)) pinned))"
    "y \<in> set (map slotCardId (js_sort (compareRank (saved_rank ks)) pinned))"
    "the (saved_rank ks x) \<le> the (saved_rank ks y)" "the (saved_rank ks y) \<le> the (saved_rank ks x)" for x y
  proof -
    have "x \<in> set ks" "y \<in> set ks" using that(1,2) assms(3) by auto
    then obtain r s where "saved_rank ks x = Some r" "saved_rank ks y = Some s" by (meson option.exhaust saved_rank_dom)
    with that(3,4) show ?thesis using saved_rank_inj by simp
  qed
qed simp

lemma move_set_distinct: "distinct ks \<Longrightarrow> distinct (movePinnedCard ks i j) \<and> set (movePinnedCard ks i j) = set ks"
proof (cases "i \<in> set ks \<and> j \<in> set ks \<and> i \<noteq> j")
  case True
  moreover assume "distinct ks"
  ultimately have "mset (movePinnedCard ks i j) = mset ks" using move_effect by blast
  then show ?thesis using \<open>distinct ks\<close> by (metis mset_eq_imp_distinct_iff mset_eq_setD)
next
  case False
  moreover assume "distinct ks"
  ultimately show ?thesis using move_noop by auto
qed

text \<open>C38: Dropping a dragged card on another pinned card moves it to that card's place in the saved order, and the positions the handler
  writes on the items at once are exactly the ones of the next render from that order.\<close>

theorem drop_order_rendered:
  assumes "slotsStateOf (fp_ref page) = Some slots" and "distinct_cards slots" and "0 < source" and "source \<le> I64_MAX"
    and "list_onDrop page (drag_text source) target = (page', Some next)"
    and "slotCardId ` set (filter slot_pinned slots) \<subseteq> items"
  shows "next = movePinnedCard
           (normalizeCardOrder (fp_pinnedOrder page) (map slotCardId (filter slot_pinned slots))) source target \<and>
         fp_pinnedOrder page' = next \<and>
         drop_styles items next = rendered_styles (fst (organizeFlowSlots slots mode (Some (fp_pinnedOrder page'))))"
proof -
  let ?ids = "map slotCardId (filter slot_pinned slots)"
  have pins: "filter (\<lambda>slot. sm_pinned (slotMetadata slot)) slots = filter slot_pinned slots"
    by (simp add: slot_pinned_def [abs_def])
  have nx: "next = movePinnedCard (normalizeCardOrder (fp_pinnedOrder page) ?ids) source target" "fp_pinnedOrder page' = next"
    using assms(1,5) parse_id_dec [OF assms(3,4)]
    by (auto simp: list_onDrop_def drag_text_def onPinnedDrop_def Let_def pins applyPinnedOrder_def)
  have d: "distinct next" and s: "set next = slotCardId ` set (filter slot_pinned slots)"
    using move_set_distinct [OF normalize_distinct] normalize_set by (simp_all add: nx(1))
  have pd: "distinct_cards (filter slot_pinned slots)" using assms(2) by (rule distinct_cards_filter)
  have "map slotCardId (fst (organizeFlowSlots slots mode (Some next))) = next"
  proof (cases "next = []")
    case True
    then have "filter slot_pinned slots = []" using s by simp
    with True show ?thesis by (simp add: organizeFlowSlots_def Let_def pins)
  next
    case False
    then show ?thesis using ranked_order [OF d pd] s by (simp add: organize_pinned_rank)
  qed
  then show ?thesis using nx drop_all [of "next" items] assms(6) s by (simp add: enumerate_ids)
qed

lemma drop_order_rendered_witness:
  "let a = SlotIdle (sample_card 1 ''a'' ''casual_tip'' True); b = SlotIdle (sample_card 2 ''b'' ''casual_tip'' True);
       page = (initial_page None None)\<lparr>fp_ref := FlowReady [a, b] CursorEnd False, fp_pinnedOrder := [1, 2]\<rparr>
   in drop_styles {1, 2} [2, 1] = rendered_styles (fst (organizeFlowSlots [a, b] SortTopic (Some [2, 1])))"
proof -
  let ?a = "SlotIdle (sample_card 1 ''a'' ''casual_tip'' True)" and ?b = "SlotIdle (sample_card 2 ''b'' ''casual_tip'' True)"
  let ?page = "(initial_page None None)\<lparr>fp_ref := FlowReady [?a, ?b] CursorEnd False, fp_pinnedOrder := [1, 2]\<rparr>"
  have m: "movePinnedCard (normalizeCardOrder [1, 2] [1, 2]) 2 1 = [2, 1]" by code_simp
  have d: "list_onDrop ?page (drag_text 2) 1 = (applyPinnedOrder ?page [2, 1], Some [2, 1])"
    by (simp add: list_onDrop_def drag_text_def parse_id_dec I64_MAX_def onPinnedDrop_def slotMetadata_def Let_def m)
  have "drop_styles {1, 2} [2, 1] =
      rendered_styles (fst (organizeFlowSlots [?a, ?b] SortTopic (Some (fp_pinnedOrder (applyPinnedOrder ?page [2, 1])))))"
    by (rule drop_order_rendered [OF _ _ _ _ d, THEN conjunct2, THEN conjunct2])
      (simp_all add: distinct_cards_def slotCardId_def I64_MAX_def)
  then show ?thesis by (simp add: applyPinnedOrder_def Let_def)
qed

end
