(* ===== verification/Add_View.thy ===== *)
theory Add_View
  imports Add_Hook Http_Session
begin

text \<open>
  \<open>components/flow/FlowAddForm.tsx\<close>: the fields of the add form and its handlers, an image selection split at the await of its
  compression. The form is given the lifecycle of the page and whether it is disabled; a field that \<open>controlsDisabled\<close>
  disables does not react. A payload it passes to \<open>onAdd\<close> is the second component of a step.
\<close>

definition PREFILL_TOPIC_STORAGE_KEY :: jsstring where "PREFILL_TOPIC_STORAGE_KEY = ''denpie_prefill_topic''"
definition PREFILL_TYPE_STORAGE_KEY :: jsstring where "PREFILL_TYPE_STORAGE_KEY = ''denpie_prefill_type''"

definition clearAddPrefill :: "jsstring js_map \<Rightarrow> jsstring js_map" where
  "clearAddPrefill storage = AList.delete PREFILL_TYPE_STORAGE_KEY (AList.delete PREFILL_TOPIC_STORAGE_KEY storage)"

record AddFormView =
  af_topics :: jsstring
  af_kind :: AddCardKind
  af_manualContent :: jsstring
  af_images :: "jsstring list"
  af_processing :: "ImageFile list option"
  af_imageError :: "jsstring option"
  af_validationError :: "jsstring option"

definition mount_add_form :: "jsstring js_map \<Rightarrow> AddFormView" where
  "mount_add_form storage =
     \<lparr>af_topics = (case map_of storage PREFILL_TOPIC_STORAGE_KEY of None \<Rightarrow> [] | Some topics \<Rightarrow> topics),
      af_kind = parseStoredCardKind (map_of storage PREFILL_TYPE_STORAGE_KEY), af_manualContent = [], af_images = [],
      af_processing = None, af_imageError = None, af_validationError = None\<rparr>"

definition add_form_pending :: "AddLifecycle \<Rightarrow> bool" where
  "add_form_pending lifecycle \<longleftrightarrow> is_AddSubmitting lifecycle \<or> is_AddResolving lifecycle"

definition add_controlsDisabled :: "bool \<Rightarrow> AddLifecycle \<Rightarrow> AddFormView \<Rightarrow> bool" where
  "add_controlsDisabled disabled lifecycle v \<longleftrightarrow> disabled \<or> add_form_pending lifecycle \<or> af_processing v \<noteq> None"

definition form_payload :: "jsstring \<Rightarrow> AddFormView \<Rightarrow> AddTipsPayload" where
  "form_payload freshKey v =
     \<lparr>ap_kind = af_kind v, ap_topics = parseTopicsCsv (af_topics v), ap_manualContent = af_manualContent v,
      ap_manualImageData = af_images v, ap_idempotencyKey = freshKey\<rparr>"

definition form_onSubmit :: "bool \<Rightarrow> AddLifecycle \<Rightarrow> jsstring \<Rightarrow> AddFormView \<Rightarrow> AddFormView \<times> AddTipsPayload option" where
  "form_onSubmit disabled lifecycle freshKey v =
     (if add_controlsDisabled disabled lifecycle v then (v, None)
      else case buildTipsRequest (form_payload freshKey v) of
             Inl e \<Rightarrow> (v\<lparr>af_validationError := Some (js_message e)\<rparr>, None)
           | Inr request \<Rightarrow> (v\<lparr>af_validationError := None\<rparr>, Some (form_payload freshKey v)))"

text \<open>Shift and Enter in the text field submit.\<close>

definition textarea_submits :: "jsstring \<Rightarrow> bool \<Rightarrow> bool" where
  "textarea_submits key shiftKey \<longleftrightarrow> key = ''Enter'' \<and> shiftKey"

definition onImagesSelected :: "ImageFile list \<Rightarrow> AddFormView \<Rightarrow> AddFormView" where
  "onImagesSelected files v =
     (case selectImages files (length (af_images v)) of
        SelectionRejected reason \<Rightarrow> v\<lparr>af_imageError := Some reason\<rparr>
      | SelectionOk accepted \<Rightarrow> v\<lparr>af_imageError := None, af_processing := Some files\<rparr>)"

definition imagesCompressed :: "js_error + jsstring list \<Rightarrow> AddFormView \<Rightarrow> AddFormView" where
  "imagesCompressed outcome v =
     (case outcome of
        Inr urls \<Rightarrow> v\<lparr>af_images := af_images v @ urls, af_processing := None\<rparr>
      | Inl e \<Rightarrow> v\<lparr>af_imageError := Some (js_message e), af_processing := None\<rparr>)"

definition onClearImages :: "AddFormView \<Rightarrow> AddFormView" where
  "onClearImages v = v\<lparr>af_images := [], af_imageError := None\<rparr>"

definition onKindChange :: "jsstring list \<Rightarrow> AddFormView \<Rightarrow> AddFormView" where
  "onKindChange values v = (case values of [] \<Rightarrow> v | next # _ \<Rightarrow> v\<lparr>af_kind := parseAddCardKind next\<rparr>)"

section \<open>Runs of the form\<close>

datatype AddFormEvent =
    TopicsEv jsstring | KindEv "jsstring list" | ContentEv jsstring | FilesEv "ImageFile list" | ClearImagesEv
  | CompressedEv ImageDeps | SubmitEv jsstring

text \<open>The manual fields are there only for a manual card, and the Clear button only with images.\<close>

fun add_form_step :: "bool \<Rightarrow> AddLifecycle \<Rightarrow> AddFormEvent \<Rightarrow> AddFormView \<Rightarrow> AddFormView \<times> AddTipsPayload option" where
  "add_form_step disabled lifecycle (SubmitEv key) v = form_onSubmit disabled lifecycle key v"
| "add_form_step disabled lifecycle (CompressedEv deps) v =
     (case af_processing v of
        None \<Rightarrow> (v, None) | Some files \<Rightarrow> (imagesCompressed (compressFilesToDataUrls deps files) v, None))"
| "add_form_step disabled lifecycle e v =
     (if add_controlsDisabled disabled lifecycle v then (v, None)
      else (case e of
              TopicsEv topics \<Rightarrow> v\<lparr>af_topics := topics\<rparr>
            | KindEv values \<Rightarrow> onKindChange values v
            | ContentEv content \<Rightarrow> if af_kind v = KindManual then v\<lparr>af_manualContent := content\<rparr> else v
            | FilesEv files \<Rightarrow> if af_kind v = KindManual then onImagesSelected files v else v
            | _ \<Rightarrow> if af_kind v = KindManual \<and> af_images v \<noteq> [] then onClearImages v else v, None))"

text \<open>A run, each event with what the page passes to the form at that moment, and the payloads passed to \<open>onAdd\<close>.\<close>

fun add_form_run :: "AddFormView \<Rightarrow> (bool \<times> AddLifecycle \<times> AddFormEvent) list \<Rightarrow>
    AddFormView \<times> (bool \<times> AddLifecycle \<times> AddTipsPayload) list" where
  "add_form_run v [] = (v, [])"
| "add_form_run v ((disabled, lifecycle, e) # es) =
     (let (v', passed) = add_form_step disabled lifecycle e v;
          (v'', rest) = add_form_run v' es
      in (v'', (case passed of None \<Rightarrow> rest | Some payload \<Rightarrow> (disabled, lifecycle, payload) # rest)))"

section \<open>Lemmas\<close>

text \<open>The images there and the ones being compressed together stay within the limit.\<close>

definition images_within :: "AddFormView \<Rightarrow> bool" where
  "images_within v \<longleftrightarrow>
     length (af_images v) + (case af_processing v of None \<Rightarrow> 0 | Some files \<Rightarrow> length files) \<le> MAX_MANUAL_IMAGES"

lemma compressed_length: "compressFilesToDataUrls deps files = Inr urls \<Longrightarrow> length urls = length files"
  by (auto simp: compressFilesToDataUrls_def sum_bind_Inr map_result_Inr dest: list_all2_lengthD)

lemma selected_within:
  "images_within v \<Longrightarrow> af_processing v = None \<Longrightarrow> images_within (onImagesSelected files v)"
  by (auto simp: images_within_def onImagesSelected_def selectImages_def split: option.split)

lemma compressed_within:
  "images_within v \<Longrightarrow> af_processing v = Some files \<Longrightarrow> images_within (imagesCompressed (compressFilesToDataUrls deps files) v)"
  by (auto simp: images_within_def imagesCompressed_def compressed_length split: sum.split)

lemma submit_within: "images_within v \<Longrightarrow> images_within (fst (form_onSubmit disabled lifecycle key v))"
  by (simp add: form_onSubmit_def images_within_def split: sum.split)

lemma edited_within [simp]:
  "images_within (v\<lparr>af_topics := t\<rparr>) = images_within v" "images_within (v\<lparr>af_manualContent := t\<rparr>) = images_within v"
  "images_within (v\<lparr>af_kind := k\<rparr>) = images_within v"
  by (simp_all add: images_within_def)

lemma cleared_within: "images_within v \<Longrightarrow> images_within (onClearImages v)"
  by (simp add: images_within_def onClearImages_def)

lemma step_within: "images_within v \<Longrightarrow> images_within (fst (add_form_step disabled lifecycle e v))"
  by (cases e)
    (auto simp: submit_within compressed_within selected_within cleared_within add_controlsDisabled_def onKindChange_def
      split: option.split list.split)

lemma step_passes:
  "snd (add_form_step disabled lifecycle e v) = Some payload \<Longrightarrow>
   \<not> disabled \<and> \<not> add_form_pending lifecycle \<and> ap_manualImageData payload = af_images v \<and>
   (\<exists>request. buildTipsRequest payload = Inr request)"
  by (cases e) (auto simp: form_onSubmit_def add_controlsDisabled_def form_payload_def split: if_splits sum.splits option.splits)

section \<open>Properties\<close>

definition payload_ok :: "bool \<times> AddLifecycle \<times> AddTipsPayload \<Rightarrow> bool" where
  "payload_ok passed =
     (let (disabled, lifecycle, payload) = passed
      in \<not> disabled \<and> \<not> add_form_pending lifecycle \<and>
         (case buildTipsRequest payload of
            Inl e \<Rightarrow> False
          | Inr request \<Rightarrow> tr_topics request \<noteq> [] \<and> length (tr_manualImageData request) \<le> MAX_MANUAL_IMAGES))"

lemma request_within:
  "buildTipsRequest payload = Inr request \<Longrightarrow> length (ap_manualImageData payload) \<le> MAX_MANUAL_IMAGES \<Longrightarrow>
   tr_topics request \<noteq> [] \<and> length (tr_manualImageData request) \<le> MAX_MANUAL_IMAGES"
  by (auto simp: build_ok)

lemma passed_ok:
  assumes "images_within v" and "snd (add_form_step disabled lifecycle e v) = Some payload"
  shows "payload_ok (disabled, lifecycle, payload)"
proof -
  obtain request where "buildTipsRequest payload = Inr request" using step_passes [OF assms(2)] by blast
  moreover have "length (ap_manualImageData payload) \<le> MAX_MANUAL_IMAGES"
    using step_passes [OF assms(2)] assms(1) by (simp add: images_within_def)
  ultimately show ?thesis using request_within step_passes [OF assms(2)] by (simp add: payload_ok_def)
qed

lemma run_ok: "images_within v \<Longrightarrow> list_all payload_ok (snd (add_form_run v es))"
proof (induction es arbitrary: v)
  case (Cons ev es)
  obtain disabled lifecycle e where ev: "ev = (disabled, lifecycle, e)" by (cases ev)
  obtain v' passed where st: "add_form_step disabled lifecycle e v = (v', passed)" by fastforce
  have "list_all payload_ok (snd (add_form_run v' es))"
    using Cons step_within [OF Cons.prems, of disabled lifecycle e] st by simp
  moreover have "payload_ok (disabled, lifecycle, payload)" if "passed = Some payload" for payload
    using passed_ok [OF Cons.prems, of disabled lifecycle e] st that by simp
  ultimately show ?case by (auto simp: ev st case_prod_beta' Let_def split: option.split)
qed simp

text \<open>C37: Whatever is typed, selected and submitted, and however the compressions end: every payload the form passes on was submitted
  while the form was neither disabled nor pending, it builds a request, and that request has a topic and at most four images.\<close>

theorem add_form_payloads: "list_all payload_ok (snd (add_form_run (mount_add_form storage) es))"
  by (rule run_ok) (simp add: images_within_def mount_add_form_def)

text \<open>The form on the page: what it passes goes to \<open>onAddSubmit\<close>.\<close>

definition form_on_page :: "FlowPage \<times> AddFormView \<Rightarrow> bool \<times> AddFormEvent \<Rightarrow> FlowPage \<times> AddFormView" where
  "form_on_page w ev =
     (let (v', passed) = add_form_step (fst ev) (fp_add (fst w)) (snd ev) (snd w)
      in (case passed of None \<Rightarrow> fst w | Some payload \<Rightarrow> fst (onAddSubmit (fst w) payload), v'))"

lemma errored_submit: "is_AddMutationError (fp_add page) \<Longrightarrow> onAddSubmit page payload = (page, None)"
  by (cases "fp_add page") (simp_all add: onAddSubmit_def canStartAdd_def)

text \<open>C12: After a failed add the form is enabled again and accepts what is submitted, but no event of the form changes the page any
  more: a corrected submission sends nothing, and the retry sends the content of the failed one.\<close>

theorem corrected_add_ignored:
  assumes "fp_add page = AddMutationError a message indeterminate"
  shows "fst (foldl form_on_page (page, v) es) = page \<and>
         snd (onAddSubmit page payload) = None \<and>
         (af_processing v = None \<and> buildTipsRequest (form_payload key v) = Inr request \<longrightarrow>
            snd (add_form_step False (fp_add page) (SubmitEv key) v) = Some (form_payload key v)) \<and>
         (snd (onAddRetryMutation page key) = Some b \<longrightarrow> without_key (aa_payload b) = without_key (aa_payload a))"
proof (intro conjI impI)
  show "fst (foldl form_on_page (page, v) es) = page"
  proof (induction es arbitrary: v)
    case (Cons ev es)
    have "fst (form_on_page (page, v) ev) = page"
      using assms by (auto simp: form_on_page_def case_prod_beta' errored_submit Let_def split: option.split)
    then show ?case using Cons by (cases "form_on_page (page, v) ev") simp
  qed simp
  show "snd (onAddSubmit page payload) = None" using assms by (simp add: errored_submit)
  show "snd (add_form_step False (fp_add page) (SubmitEv key) v) = Some (form_payload key v)"
    if "af_processing v = None \<and> buildTipsRequest (form_payload key v) = Inr request"
    using that assms by (simp add: form_onSubmit_def add_controlsDisabled_def add_form_pending_def)
  show "without_key (aa_payload b) = without_key (aa_payload a)" if "snd (onAddRetryMutation page key) = Some b"
    using that assms by (auto simp: onAddRetryMutation_def retry_attempt_def Let_def split: if_splits)
qed

lemma corrected_add_ignored_witness:
  "let page = (initial_page None None)\<lparr>fp_add := AddMutationError
         \<lparr>aa_ref = 0, aa_payloadRef = 1, aa_payload = demo_payload, aa_submissionGeneration = 1\<rparr> ''no such topic'' False\<rparr>
   in fst (foldl form_on_page (page, mount_add_form []) [(False, TopicsEv ''history''), (False, SubmitEv ''k2'')]) = page"
  unfolding Let_def
  by (rule corrected_add_ignored [where a = "\<lparr>aa_ref = 0, aa_payloadRef = 1, aa_payload = demo_payload, aa_submissionGeneration = 1\<rparr>"
      and message = "''no such topic''" and indeterminate = False, THEN conjunct1]) simp

end
