(* ===== verification/Markdown.thy ===== *)
theory Markdown
  imports Json
begin

text \<open>
  \<open>lib/markdown-content.ts\<close> and \<open>components/content/MarkdownContent.tsx\<close>: the policy for the links of a card's Markdown, the
  names of code languages, and a code fence with what it hands to the page as HTML. The Markdown parser and the
  highlighter (\<open>Prism.highlight\<close>, by language) are packages: the second is an argument.
\<close>

section \<open>Links\<close>

definition safeMarkdownUrl :: "jsstring \<Rightarrow> jsstring" where
  "safeMarkdownUrl value =
     (let url = js_trim value
      in if js_starts_with ''https:'' url \<or> js_starts_with ''http:'' url \<or> js_starts_with ''mailto:'' url \<or>
            js_starts_with ''/'' url \<or> js_starts_with ''#'' url \<or> js_starts_with ''?'' url
         then url else ''#'')"

text \<open>The transform of the parser and the renderer of a link, one after the other.\<close>

definition link_href :: "jsstring option \<Rightarrow> jsstring" where
  "link_href href = safeMarkdownUrl (case href of None \<Rightarrow> [] | Some h \<Rightarrow> safeMarkdownUrl h)"

section \<open>Languages\<close>

definition remove_prefix :: "jsstring \<Rightarrow> jsstring \<Rightarrow> jsstring" where
  "remove_prefix p s = (if js_starts_with p s then drop (length p) s else s)"

text \<open>\<open>split(/\s+/, 1)[0]\<close> of a trimmed text is what precedes its first space.\<close>

definition language_word :: "jsstring option \<Rightarrow> jsstring" where
  "language_word value =
     js_lower (filter (\<lambda>c. c \<noteq> CHR ''{'' \<and> c \<noteq> CHR ''}'')
       (remove_prefix ''language-'' (takeWhile (\<lambda>c. \<not> is_js_space c) (js_trim (case value of None \<Rightarrow> [] | Some v \<Rightarrow> v)))))"

definition LANGUAGE_ALIASES :: "(jsstring \<times> jsstring) list" where
  "LANGUAGE_ALIASES =
     [(''rs'', ''rust''), (''rust'', ''rust''),
      (''sh'', ''bash''), (''shell'', ''bash''), (''zsh'', ''bash''), (''fish'', ''bash''), (''console'', ''bash''),
      (''terminal'', ''bash''), (''bash'', ''bash''),
      (''js'', ''javascript''), (''jsx'', ''javascript''), (''javascript'', ''javascript''),
      (''ts'', ''typescript''), (''tsx'', ''typescript''), (''typescript'', ''typescript''),
      (''py'', ''python''), (''python'', ''python''), (''yml'', ''yaml''), (''yaml'', ''yaml''),
      (''md'', ''markdown''), (''markdown'', ''markdown''),
      (''c++'', ''cpp''), (''cc'', ''cpp''), (''cpp'', ''cpp''), (''cxx'', ''cpp''),
      (''cs'', ''csharp''), (''csharp'', ''csharp''), (''c#'', ''csharp''), (''go'', ''go''), (''golang'', ''go'')] @
     map (\<lambda>l. (l, l))
       [''html'', ''htm'', ''css'', ''json'', ''toml'', ''sql'', ''java'', ''kotlin'', ''lua'', ''php'', ''ruby'', ''swift'',
        ''diff'', ''ini'', ''dockerfile'']"

definition prismLanguage :: "jsstring option \<Rightarrow> jsstring" where
  "prismLanguage value =
     (case map_of LANGUAGE_ALIASES (language_word value) of None \<Rightarrow> ''plaintext'' | Some l \<Rightarrow> l)"

section \<open>Code fences\<close>

definition is_newline :: "char \<Rightarrow> bool" where
  "is_newline c \<longleftrightarrow> c = CHR 0x0A"

definition isLongCodeFence :: "jsstring \<Rightarrow> bool" where
  "isLongCodeFence value \<longleftrightarrow> length (split_on is_newline value) > 5"

definition replace_all :: "char \<Rightarrow> jsstring \<Rightarrow> jsstring \<Rightarrow> jsstring" where
  "replace_all c r s = concat (map (\<lambda>d. if d = c then r else [d]) s)"

definition escapeCode :: "jsstring \<Rightarrow> jsstring" where
  "escapeCode value =
     replace_all CHR ''>'' ''&gt;'' (replace_all CHR ''<'' ''&lt;'' (replace_all CHR ''&'' ''&amp;'' value))"

text \<open>\<open>Prism.languages[language]\<close> with \<open>Prism.highlight\<close> for it.\<close>

type_synonym highlighter = "jsstring \<rightharpoonup> (jsstring \<Rightarrow> jsstring)"

definition highlighted :: "highlighter \<Rightarrow> jsstring \<Rightarrow> jsstring \<Rightarrow> jsstring" where
  "highlighted prism code language = (case prism language of None \<Rightarrow> escapeCode code | Some highlight \<Rightarrow> highlight code)"

record CodeFence =
  fence_expanded :: bool
  fence_copied :: bool

definition INITIAL_FENCE :: CodeFence where
  "INITIAL_FENCE = \<lparr>fence_expanded = False, fence_copied = False\<rparr>"

definition toggle_fence :: "jsstring \<Rightarrow> CodeFence \<Rightarrow> CodeFence" where
  "toggle_fence code fence = (if isLongCodeFence code then fence\<lparr>fence_expanded := \<not> fence_expanded fence\<rparr> else fence)"

definition clipped :: "jsstring \<Rightarrow> CodeFence \<Rightarrow> bool" where
  "clipped code fence \<longleftrightarrow> isLongCodeFence code \<and> \<not> fence_expanded fence"

definition fence_copy_settled :: "bool \<Rightarrow> CodeFence \<Rightarrow> CodeFence" where
  "fence_copy_settled ok fence = fence\<lparr>fence_copied := ok\<rparr>"

definition copied_timeout :: "CodeFence \<Rightarrow> CodeFence" where
  "copied_timeout fence = fence\<lparr>fence_copied := False\<rparr>"

text \<open>\<open>/language-([^\s]+)/.exec(codeClassName ?? "")\<close>: the first occurrence that a character that is no space follows.\<close>

fun language_class :: "jsstring \<Rightarrow> jsstring option" where
  "language_class [] = None"
| "language_class (c # s) =
     (if js_starts_with ''language-'' (c # s) \<and> takeWhile (\<lambda>d. \<not> is_js_space d) (drop 9 (c # s)) \<noteq> []
      then Some (takeWhile (\<lambda>d. \<not> is_js_space d) (drop 9 (c # s))) else language_class s)"

definition fence_code :: "jsstring \<Rightarrow> jsstring" where
  "fence_code children = (if children \<noteq> [] \<and> is_newline (last children) then butlast children else children)"

text \<open>The renderer of a code element: a fence with its code and language, or \<open>None\<close> for inline code.\<close>

definition render_code :: "jsstring option \<Rightarrow> jsstring \<Rightarrow> (jsstring \<times> jsstring) option" where
  "render_code codeClassName children =
     map_option (\<lambda>language. (fence_code children, prismLanguage (Some language)))
       (language_class (case codeClassName of None \<Rightarrow> [] | Some n \<Rightarrow> n))"

section \<open>A link never runs a script\<close>

text \<open>The scheme a browser reads at the start of a link: it skips leading control characters and spaces, ignores tabs and
  line ends, and takes letters, digits and \<open>+ - .\<close> after a letter up to a colon, without regard to case.\<close>

definition url_text :: "jsstring \<Rightarrow> jsstring" where
  "url_text s = filter (\<lambda>c. c \<notin> {CHR 0x09, CHR 0x0A, CHR 0x0D}) (dropWhile (\<lambda>c. (of_char c :: nat) \<le> 32) s)"

definition is_letter :: "char \<Rightarrow> bool" where
  "is_letter c \<longleftrightarrow> c \<in> set ''abcdefghijklmnopqrstuvwxyzABCDEFGHIJKLMNOPQRSTUVWXYZ''"

definition scheme_char :: "char \<Rightarrow> bool" where
  "scheme_char c \<longleftrightarrow> is_letter c \<or> is_digit c \<or> c \<in> set ''+-.''"

definition url_scheme :: "jsstring \<Rightarrow> jsstring option" where
  "url_scheme s =
     (let t = url_text s; name = takeWhile scheme_char t
      in if name \<noteq> [] \<and> is_letter (hd name) \<and> drop (length name) t \<noteq> [] \<and> hd (drop (length name) t) = CHR '':''
         then Some (js_lower name) else None)"

lemma starts_with_append: "js_starts_with p s \<longleftrightarrow> (\<exists>r. s = p @ r)"
  by (metis append_take_drop_id append_eq_conv_conj js_starts_with_def)

lemma scheme_of_prefix:
  "url_scheme (''https:'' @ r) = Some ''https''" "url_scheme (''http:'' @ r) = Some ''http''"
  "url_scheme (''mailto:'' @ r) = Some ''mailto''"
  "url_scheme (''/'' @ r) = None" "url_scheme (''#'' @ r) = None" "url_scheme (''?'' @ r) = None"
  by (simp_all add: url_scheme_def url_text_def scheme_char_def is_letter_def is_digit_def js_lower_def js_lower_char_def Let_def)

text \<open>C11: Whatever link a card contains, the one that is rendered names no scheme or one of http, https and mailto.\<close>

theorem links_are_safe:
  "url_scheme (link_href href) \<in> {None, Some ''http'', Some ''https'', Some ''mailto''} \<and>
   link_href (Some (link_href href)) = link_href href"
proof -
  have safe: "url_scheme (safeMarkdownUrl v) \<in> {None, Some ''http'', Some ''https'', Some ''mailto''}" for v
    by (auto simp: safeMarkdownUrl_def starts_with_append scheme_of_prefix scheme_of_prefix(5) [of "[]", simplified] Let_def
        simp del: append.simps)
  have hash: "js_trim ''#'' = ''#''" by code_simp
  have same: "safeMarkdownUrl (safeMarkdownUrl v) = safeMarkdownUrl v" for v
    by (simp add: safeMarkdownUrl_def Let_def hash)
  show ?thesis using safe same by (simp add: link_href_def split: option.split)
qed

section \<open>A fence shows its code\<close>

definition html_escape_char :: "char \<Rightarrow> jsstring" where
  "html_escape_char c =
     (if c = CHR ''&'' then ''&amp;'' else if c = CHR ''<'' then ''&lt;'' else if c = CHR ''>'' then ''&gt;'' else [c])"

lemma escape_by_char: "escapeCode s = concat (map html_escape_char s)"
  by (induction s) (auto simp: escapeCode_def replace_all_def html_escape_char_def)

text \<open>The text a browser makes of markup without tags, for the references that \<open>escapeCode\<close> writes.\<close>

fun html_text :: "jsstring \<Rightarrow> jsstring" where
  "html_text [] = []"
| "html_text (c # s) =
     (if c = CHR ''&'' \<and> js_starts_with ''amp;'' s then CHR ''&'' # html_text (drop 4 s)
      else if c = CHR ''&'' \<and> js_starts_with ''lt;'' s then CHR ''<'' # html_text (drop 3 s)
      else if c = CHR ''&'' \<and> js_starts_with ''gt;'' s then CHR ''>'' # html_text (drop 3 s)
      else c # html_text s)"

lemma html_text_escaped: "html_text (html_escape_char c @ s) = c # html_text s"
  by (simp add: html_escape_char_def js_starts_with_def)

text \<open>Code in a language without a grammar reaches the page as markup with no tag in it whose text is exactly the code.\<close>

theorem plain_code_shown:
  "html_text (escapeCode code) = code \<and> CHR ''<'' \<notin> set (escapeCode code) \<and> CHR ''>'' \<notin> set (escapeCode code)"
proof -
  have "html_text (concat (map html_escape_char code)) = code"
    by (induction code) (simp_all add: html_text_escaped)
  moreover have "CHR ''<'' \<notin> set (html_escape_char c)" "CHR ''>'' \<notin> set (html_escape_char c)" for c
    by (simp_all add: html_escape_char_def)
  ultimately show ?thesis by (simp add: escape_by_char)
qed

lemma language_values: "list_all (\<lambda>(a, l). prismLanguage (Some l) = l) LANGUAGE_ALIASES"
  by code_simp

text \<open>A language name is normalized once: normalizing the result again changes nothing.\<close>

theorem language_idempotent: "prismLanguage (Some (prismLanguage value)) = prismLanguage value"
proof (cases "map_of LANGUAGE_ALIASES (language_word value)")
  case None
  have "prismLanguage (Some ''plaintext'') = ''plaintext''" by code_simp
  with None show ?thesis by (simp add: prismLanguage_def [of "value"])
next
  case (Some l)
  then have "(language_word value, l) \<in> set LANGUAGE_ALIASES" by (rule map_of_SomeD)
  with language_values have "prismLanguage (Some l) = l" by (auto simp: list_all_iff)
  with Some show ?thesis by (simp add: prismLanguage_def [of "value"])
qed

end
