(* ===== verification/Appearance.thy ===== *)
theory Appearance
  imports Http_Session Settings_Page
begin

text \<open>
  How the appearance (theme, transparency, blur) reaches the page and survives a reload: \<open>lib/appearance-client.ts\<close>, the effect of
  \<open>islands/AppShell.tsx\<close> after a sign-in, the preview effect of \<open>components/pages/SettingsPage.tsx\<close>, and the inline script
  of \<open>layouts/AppLayout.astro\<close> that runs before the first paint. Also \<open>useViewRefresh\<close>, which decides when a view loads again.
\<close>

section \<open>The client\<close>

record AppearancePreferences =
  app_theme :: jsstring
  app_transparency :: jsstring
  app_blur :: jsstring

definition parseAppearancePreferences :: "json \<Rightarrow> js_error + AppearancePreferences" where
  "parseAppearancePreferences value =
     (case value of
        JObj props \<Rightarrow>
          (case (json_field props ''color_scheme'', json_field props ''transparency'', json_field props ''blur_intensity'') of
             (Some (JStr theme), Some (JStr transparency), Some (JStr blur)) \<Rightarrow>
               Inr \<lparr>app_theme = theme, app_transparency = transparency, app_blur = blur\<rparr>
           | _ \<Rightarrow> Inl (TypeError ''Settings returned invalid appearance preferences''))
      | _ \<Rightarrow> Inl (TypeError ''Settings returned invalid appearance preferences''))"

definition fetchAppearancePreferences :: "fetcher \<Rightarrow> Raised + AppearancePreferences" where
  "fetchAppearancePreferences fetch =
     sum_bind (fetch (session_request ''GET'' ''/admin/settings'' None)) (\<lambda>response.
       if \<not> hr_ok response
       then Inl (RaisedError (PlainError (''Appearance settings failed with status '' @ dec_of_int (hr_status response))))
       else sum_bind (hr_json response) (\<lambda>value. lift_error (parseAppearancePreferences value)))"

section \<open>The document\<close>

text \<open>The three data attributes of the root element, and the stored text.\<close>

record AppearanceDoc =
  doc_theme :: "jsstring option"
  doc_transparency :: "jsstring option"
  doc_blurIntensity :: "jsstring option"
  doc_stored :: "jsstring option"

definition appearance_json :: "AppearancePreferences \<Rightarrow> json" where
  "appearance_json appearance =
     JObj [(''theme'', JStr (app_theme appearance)), (''transparency'', JStr (app_transparency appearance)),
           (''blur'', JStr (app_blur appearance))]"

definition apply_appearance :: "AppearancePreferences \<Rightarrow> AppearanceDoc \<Rightarrow> AppearanceDoc" where
  "apply_appearance appearance doc =
     doc\<lparr>doc_theme := Some (app_theme appearance), doc_transparency := Some (app_transparency appearance),
         doc_blurIntensity := Some (app_blur appearance), doc_stored := Some (json_text (appearance_json appearance))\<rparr>"

text \<open>The answer of the fetch after a sign-in; a failure, or an effect that was cleaned up, changes nothing.\<close>

definition appearance_effect :: "bool \<Rightarrow> Raised + AppearancePreferences \<Rightarrow> AppearanceDoc \<Rightarrow> AppearanceDoc" where
  "appearance_effect active answer doc =
     (case answer of Inl e \<Rightarrow> doc | Inr appearance \<Rightarrow> if active then apply_appearance appearance doc else doc)"

definition draft_appearance :: "SettingsDraft \<Rightarrow> AppearancePreferences" where
  "draft_appearance draft =
     \<lparr>app_theme = sd_colorScheme draft, app_transparency = sd_transparency draft, app_blur = sd_blurIntensity draft\<rparr>"

definition preview_effect :: "SettingsDraft option \<Rightarrow> AppearanceDoc \<Rightarrow> AppearanceDoc" where
  "preview_effect draft doc = (case draft of None \<Rightarrow> doc | Some d \<Rightarrow> apply_appearance (draft_appearance d) doc)"

text \<open>The page as it is delivered, and the inline script on it. An array is an object without the three properties.\<close>

definition fresh_document :: "jsstring option \<Rightarrow> AppearanceDoc" where
  "fresh_document stored =
     \<lparr>doc_theme = Some ''shadcn'', doc_transparency = None, doc_blurIntensity = None, doc_stored = stored\<rparr>"

definition set_if_string :: "json option \<Rightarrow> jsstring option \<Rightarrow> jsstring option" where
  "set_if_string value current = (case value of Some (JStr s) \<Rightarrow> Some s | _ \<Rightarrow> current)"

definition boot_script :: "AppearanceDoc \<Rightarrow> AppearanceDoc" where
  "boot_script doc =
     (case json_parse (case doc_stored doc of None \<Rightarrow> ''null'' | Some s \<Rightarrow> s) of
        Some (JObj props) \<Rightarrow>
          doc\<lparr>doc_theme := set_if_string (json_field props ''theme'') (doc_theme doc),
              doc_transparency := set_if_string (json_field props ''transparency'') (doc_transparency doc),
              doc_blurIntensity := set_if_string (json_field props ''blur'') (doc_blurIntensity doc)\<rparr>
      | _ \<Rightarrow> doc)"

section \<open>Loading a view again\<close>

definition REFRESH_INTERVAL_MS :: nat where
  "REFRESH_INTERVAL_MS = 60000"

text \<open>The two effects of \<open>useViewRefresh\<close> as a machine: whether the view is active, and the age of its interval.
  \<open>ViewRender\<close> is a render in which \<open>active\<close> or the identity of \<open>refresh\<close> differs from the last one.\<close>

record ViewRefresh =
  vr_active :: bool
  vr_age :: nat

datatype ViewEvent = ViewRender bool | ViewVisibility bool | ViewPassed nat

fun view_refresh :: "ViewRefresh \<Rightarrow> ViewEvent \<Rightarrow> ViewRefresh \<times> nat" where
  "view_refresh v (ViewRender active) = (\<lparr>vr_active = active, vr_age = 0\<rparr>, if active then 1 else 0)"
| "view_refresh v (ViewVisibility visible) = (v, if vr_active v \<and> visible then 1 else 0)"
| "view_refresh v (ViewPassed ms) =
     (if vr_active v
      then (v\<lparr>vr_age := vr_age v + ms\<rparr>, (vr_age v + ms) div REFRESH_INTERVAL_MS - vr_age v div REFRESH_INTERVAL_MS)
      else (v, 0))"

fun view_run :: "ViewRefresh \<Rightarrow> ViewEvent list \<Rightarrow> ViewRefresh \<times> nat" where
  "view_run v [] = (v, 0)"
| "view_run v (e # es) = (let (v', n) = view_refresh v e; (v'', m) = view_run v' es in (v'', n + m))"

section \<open>Properties\<close>

lemma printable_appearance: "printable (appearance_json appearance)"
  by (simp add: appearance_json_def)

text \<open>After the effect of a sign-in or the preview of the settings form, a reload paints the same theme, transparency and blur
  at once, before any request.\<close>

theorem appearance_survives_reload:
  "boot_script (fresh_document (doc_stored (apply_appearance appearance doc))) = apply_appearance appearance doc"
proof -
  have "json_parse (json_text (appearance_json appearance)) = Some (appearance_json appearance)"
    by (rule json_round_trip [OF printable_appearance])
  then show ?thesis
    by (simp add: boot_script_def apply_appearance_def fresh_document_def appearance_json_def set_if_string_def json_field_def)
qed

text \<open>A view that is not active never loads. An active one loads once for each return of the tab to the foreground and once for each
  full minute, whatever the events in between.\<close>

fun keeps_active :: "ViewEvent \<Rightarrow> bool" where
  "keeps_active (ViewRender active) = False"
| "keeps_active e = True"

fun_cases keeps_activeE: "keeps_active e"

fun passed :: "ViewEvent \<Rightarrow> nat" where
  "passed (ViewPassed ms) = ms" | "passed e = 0"

lemma inactive_run: "\<not> vr_active v \<Longrightarrow> list_all keeps_active es \<Longrightarrow> snd (view_run v es) = 0"
proof (induction es)
  case (Cons e es)
  then show ?case by (auto simp: case_prod_beta' Let_def elim!: keeps_activeE)
qed simp

lemma active_run:
  "vr_active v \<Longrightarrow> list_all keeps_active es \<Longrightarrow>
   snd (view_run v es) + vr_age v div REFRESH_INTERVAL_MS =
   length (filter ((=) (ViewVisibility True)) es) + (vr_age v + sum_list (map passed es)) div REFRESH_INTERVAL_MS"
proof (induction es arbitrary: v)
  case (Cons e es)
  then show ?case
  proof (cases e)
    case (ViewPassed ms)
    then show ?thesis
      using Cons.prems Cons.IH [of "v\<lparr>vr_age := vr_age v + ms\<rparr>"]
        div_le_mono [of "vr_age v" "vr_age v + ms" REFRESH_INTERVAL_MS]
      by (simp add: case_prod_beta' Let_def add.assoc)
  qed (simp_all add: case_prod_beta' Let_def)
qed simp

theorem active_views_refresh:
  assumes "list_all keeps_active es"
  shows "snd (view_run v (ViewRender active # es)) =
    (if active then 1 + length (filter ((=) (ViewVisibility True)) es) + sum_list (map passed es) div REFRESH_INTERVAL_MS else 0)"
  using inactive_run [OF _ assms, of "\<lparr>vr_active = False, vr_age = 0\<rparr>"]
    active_run [OF _ assms, of "\<lparr>vr_active = True, vr_age = 0\<rparr>"]
  by (simp add: case_prod_beta' Let_def)

lemma active_views_refresh_witness:
  "snd (view_run v [ViewRender True, ViewPassed 45000, ViewVisibility True, ViewPassed 45000]) = 3"
  using active_views_refresh [of "[ViewPassed 45000, ViewVisibility True, ViewPassed 45000]" v True]
  by (simp add: REFRESH_INTERVAL_MS_def)

end
