(* ===== verification/Service_Worker.thy ===== *)
theory Service_Worker
  imports Prelude
begin

text \<open>
  \<open>public/service-worker.js\<close>: what the service worker serves from the caches of the browser. A request is its URL with the
  parts the worker reads; the caches are named handles to cache objects, and an object whose name is deleted
  lives on for the handlers that opened it. A handler runs from its launch to the answer of the network, and a \<open>put\<close>
  that is not awaited settles in a step of its own, successfully or not. \<open>cache.add\<close>, and the count and the deletion of
  \<open>boundAssetCache\<close>, are one step each; \<open>caches.open\<close> and \<open>match\<close> do not fail.
\<close>

section \<open>Cache storage\<close>

record SwResponse =
  swr_ok :: bool
  swr_opaque :: bool
  swr_body :: jsstring

record Caches =
  cst_names :: "(jsstring \<times> nat) list"
  cst_objects :: "nat \<Rightarrow> (jsstring \<times> SwResponse) list"
  cst_next :: nat

definition cache_open :: "jsstring \<Rightarrow> Caches \<Rightarrow> nat \<times> Caches" where
  "cache_open name s =
     (case map_of (cst_names s) name of
        Some c \<Rightarrow> (c, s)
      | None \<Rightarrow> (cst_next s, s\<lparr>cst_names := (name, cst_next s) # cst_names s, cst_next := cst_next s + 1\<rparr>))"

definition cache_match :: "Caches \<Rightarrow> nat \<Rightarrow> jsstring \<Rightarrow> SwResponse option" where
  "cache_match s c url = map_of (cst_objects s c) url"

definition cache_put :: "nat \<Rightarrow> jsstring \<Rightarrow> SwResponse \<Rightarrow> Caches \<Rightarrow> Caches" where
  "cache_put c url response s =
     s\<lparr>cst_objects := (cst_objects s)(c := AList.update url response (cst_objects s c))\<rparr>"

definition cache_delete :: "jsstring \<Rightarrow> Caches \<Rightarrow> Caches" where
  "cache_delete name s = s\<lparr>cst_names := AList.delete name (cst_names s)\<rparr>"

text \<open>What the worker needs of the storage to serve only what it was given: lookups change by puts alone.\<close>

locale response_cache =
  fixes lookup :: "'s \<Rightarrow> nat \<Rightarrow> 'u \<Rightarrow> 'r option"
    and put :: "nat \<Rightarrow> 'u \<Rightarrow> 'r \<Rightarrow> 's \<Rightarrow> 's"
    and opened :: "jsstring \<Rightarrow> 's \<Rightarrow> nat \<times> 's"
    and deleted :: "jsstring \<Rightarrow> 's \<Rightarrow> 's"
  assumes lookup_put: "lookup (put c u r s) d v = (if c = d \<and> u = v then Some r else lookup s d v)"
    and lookup_opened: "lookup (snd (opened name s)) = lookup s"
    and lookup_deleted: "lookup (deleted name s) = lookup s"
begin

definition holds_only :: "('u \<Rightarrow> 'r \<Rightarrow> bool) \<Rightarrow> 's \<Rightarrow> bool" where
  "holds_only P s \<longleftrightarrow> (\<forall>c u r. lookup s c u = Some r \<longrightarrow> P u r)"

lemma holds_only_put: "holds_only P s \<Longrightarrow> P u r \<Longrightarrow> holds_only P (put c u r s)"
  by (auto simp: holds_only_def lookup_put)

lemma holds_only_same:
  "holds_only P (snd (opened name s)) = holds_only P s" "holds_only P (deleted name s) = holds_only P s"
  by (simp_all add: holds_only_def lookup_opened lookup_deleted)

lemma holds_only_mono: "holds_only P s \<Longrightarrow> (\<And>u r. P u r \<Longrightarrow> Q u r) \<Longrightarrow> holds_only Q s"
  by (auto simp: holds_only_def)

lemma holds_only_match: "holds_only P s \<Longrightarrow> lookup s c u = Some r \<Longrightarrow> P u r"
  by (auto simp: holds_only_def)

end

interpretation sw_cache: response_cache cache_match cache_put cache_open cache_delete
  by unfold_locales
     (auto simp: cache_match_def cache_put_def cache_open_def cache_delete_def update_conv fun_eq_iff split: option.splits)

section \<open>The worker\<close>

definition CACHE_PREFIX :: jsstring where "CACHE_PREFIX = ''denpie''"
definition APP_CACHE :: jsstring where "APP_CACHE = ''denpie-app-v1''"
definition ASSET_CACHE :: jsstring where "ASSET_CACHE = ''denpie-assets-v1''"
definition ASSET_CACHE_MAX_ENTRIES :: nat where "ASSET_CACHE_MAX_ENTRIES = 250"

record SwRequest =
  swq_get :: bool
  swq_navigate :: bool
  swq_url :: jsstring
  swq_origin :: jsstring
  swq_pathname :: jsstring

definition isImmutableAsset :: "jsstring \<Rightarrow> SwRequest \<Rightarrow> bool" where
  "isImmutableAsset origin q = (swq_origin q = origin \<and> js_starts_with ''/_astro/'' (swq_pathname q))"

definition isRevalidatedAsset :: "jsstring \<Rightarrow> SwRequest \<Rightarrow> bool" where
  "isRevalidatedAsset origin q = (swq_origin q = origin \<and> js_starts_with ''/static/'' (swq_pathname q))"

datatype SwRoute = NetworkFirst | CacheFirst | StaleWhileRevalidate

definition sw_route :: "jsstring \<Rightarrow> SwRequest \<Rightarrow> SwRoute option" where
  "sw_route origin q =
     (if \<not> swq_get q then None
      else if swq_navigate q then Some NetworkFirst
      else if isImmutableAsset origin q then Some CacheFirst
      else if isRevalidatedAsset origin q then Some StaleWhileRevalidate
      else None)"

text \<open>A handler waits for the network, or for \<open>boundAssetCache\<close> with the response it will give.\<close>

datatype SwPhase = Fetching | Bounding SwResponse

record SwHandler =
  swh_request :: SwRequest
  swh_route :: SwRoute
  swh_cache :: nat
  swh_answered :: bool
  swh_phase :: SwPhase

text \<open>\<open>Response.error()\<close>, a rejected promise and an undefined response are all a network error to the page.\<close>

datatype SwAnswer = SwRespond SwResponse | SwNetworkError

record Worker =
  swk_caches :: Caches
  swk_running :: "(nat \<times> SwHandler) list"
  swk_launched :: nat
  swk_puts :: "(nat \<times> jsstring \<times> SwResponse) list"
  swk_answers :: "(nat \<times> SwRequest \<times> SwAnswer) list"
  swk_network :: "(jsstring \<times> SwResponse) list"

definition EMPTY_WORKER :: Worker where
  "EMPTY_WORKER = \<lparr>swk_caches = \<lparr>cst_names = [], cst_objects = \<lambda>_. [], cst_next = 0\<rparr>, swk_running = [], swk_launched = 0,
     swk_puts = [], swk_answers = [], swk_network = []\<rparr>"

definition root_url :: "jsstring \<Rightarrow> jsstring" where
  "root_url origin = origin @ ''/''"

definition sw_answer :: "nat \<Rightarrow> SwRequest \<Rightarrow> SwAnswer \<Rightarrow> Worker \<Rightarrow> Worker" where
  "sw_answer n q a w = w\<lparr>swk_answers := (n, q, a) # swk_answers w\<rparr>"

definition sw_finish :: "nat \<Rightarrow> Worker \<Rightarrow> Worker" where
  "sw_finish n w = w\<lparr>swk_running := AList.delete n (swk_running w)\<rparr>"

definition start_put :: "nat \<Rightarrow> jsstring \<Rightarrow> SwResponse \<Rightarrow> Worker \<Rightarrow> Worker" where
  "start_put c url response w = w\<lparr>swk_puts := swk_puts w @ [(c, url, response)]\<rparr>"

definition boundAssetCache :: "Caches \<Rightarrow> Caches" where
  "boundAssetCache s =
     (let (c, s) = cache_open ASSET_CACHE s
      in if length (cst_objects s c) > ASSET_CACHE_MAX_ENTRIES then cache_delete ASSET_CACHE s else s)"

definition sw_install :: "jsstring \<Rightarrow> SwResponse option \<Rightarrow> Worker \<Rightarrow> Worker" where
  "sw_install origin reply w =
     (let (c, s) = cache_open APP_CACHE (swk_caches w)
      in case reply of
           Some r \<Rightarrow> w\<lparr>swk_caches := if swr_ok r then cache_put c (root_url origin) r s else s,
                       swk_network := (root_url origin, r) # swk_network w\<rparr>
         | None \<Rightarrow> w\<lparr>swk_caches := s\<rparr>)"

definition outdated_cache :: "jsstring \<Rightarrow> bool" where
  "outdated_cache key = (js_starts_with CACHE_PREFIX key \<and> key \<noteq> APP_CACHE \<and> key \<noteq> ASSET_CACHE)"

definition sw_activate :: "Worker \<Rightarrow> Worker" where
  "sw_activate w =
     w\<lparr>swk_caches := boundAssetCache
         (fold cache_delete (filter outdated_cache (map fst (cst_names (swk_caches w)))) (swk_caches w))\<rparr>"

definition sw_launch :: "SwRequest \<Rightarrow> SwRoute \<Rightarrow> nat \<Rightarrow> bool \<Rightarrow> Worker \<Rightarrow> Worker" where
  "sw_launch q route c answered w =
     w\<lparr>swk_running := (swk_launched w, \<lparr>swh_request = q, swh_route = route, swh_cache = c, swh_answered = answered, swh_phase = Fetching\<rparr>)
         # swk_running w\<rparr>"

definition sw_fetch :: "jsstring \<Rightarrow> SwRequest \<Rightarrow> Worker \<Rightarrow> Worker" where
  "sw_fetch origin q w =
     (case sw_route origin q of
        None \<Rightarrow> w
      | Some route \<Rightarrow>
          let (c, s) = cache_open (if route = NetworkFirst then APP_CACHE else ASSET_CACHE) (swk_caches w);
              w1 = w\<lparr>swk_caches := s\<rparr>;
              w2 = (case (route, cache_match s c (swq_url q)) of
                      (NetworkFirst, _) \<Rightarrow> sw_launch q route c False w1
                    | (CacheFirst, Some r) \<Rightarrow> sw_answer (swk_launched w) q (SwRespond r) w1
                    | (CacheFirst, None) \<Rightarrow> sw_launch q route c False w1
                    | (StaleWhileRevalidate, Some r) \<Rightarrow> sw_answer (swk_launched w) q (SwRespond r) (sw_launch q route c True w1)
                    | (StaleWhileRevalidate, None) \<Rightarrow> sw_launch q route c False w1)
          in w2\<lparr>swk_launched := swk_launched w + 1\<rparr>)"

definition sw_cacheable :: "SwRoute \<Rightarrow> SwResponse \<Rightarrow> bool" where
  "sw_cacheable route r = (swr_ok r \<or> (route \<noteq> NetworkFirst \<and> swr_opaque r))"

definition sw_received :: "nat \<Rightarrow> SwHandler \<Rightarrow> SwResponse \<Rightarrow> Worker \<Rightarrow> Worker" where
  "sw_received n h r w =
     (let q = swh_request h; w0 = w\<lparr>swk_network := (swq_url q, r) # swk_network w\<rparr>;
          w1 = (if sw_cacheable (swh_route h) r then start_put (swh_cache h) (swq_url q) r w0 else w0)
      in if swh_route h = CacheFirst then w1\<lparr>swk_running := AList.update n (h\<lparr>swh_phase := Bounding r\<rparr>) (swk_running w1)\<rparr>
         else if swh_answered h then sw_finish n w1
         else sw_answer n q (SwRespond r) (sw_finish n w1))"

definition sw_unreachable :: "jsstring \<Rightarrow> nat \<Rightarrow> SwHandler \<Rightarrow> Worker \<Rightarrow> Worker" where
  "sw_unreachable origin n h w =
     (let q = swh_request h; found = cache_match (swk_caches w) (swh_cache h);
          answer = (if swh_route h \<noteq> NetworkFirst then SwNetworkError
                    else case found (swq_url q) of Some r \<Rightarrow> SwRespond r
                       | None \<Rightarrow> (case found (root_url origin) of Some r \<Rightarrow> SwRespond r | None \<Rightarrow> SwNetworkError))
      in if swh_answered h then sw_finish n w else sw_answer n q answer (sw_finish n w))"

datatype SwEvent =
    EvInstall "SwResponse option"
  | EvActivate
  | EvFetch SwRequest
  | EvNetwork nat "SwResponse option"
  | EvBounded nat
  | EvPut nat bool

fun sw_step :: "jsstring \<Rightarrow> Worker \<Rightarrow> SwEvent \<Rightarrow> Worker" where
  "sw_step origin w (EvInstall reply) = sw_install origin reply w"
| "sw_step origin w EvActivate = sw_activate w"
| "sw_step origin w (EvFetch q) = sw_fetch origin q w"
| "sw_step origin w (EvNetwork n reply) =
     (case map_of (swk_running w) n of
        None \<Rightarrow> w
      | Some h \<Rightarrow> if swh_phase h \<noteq> Fetching then w
                  else (case reply of Some r \<Rightarrow> sw_received n h r w | None \<Rightarrow> sw_unreachable origin n h w))"
| "sw_step origin w (EvBounded n) =
     (case map_of (swk_running w) n of
        None \<Rightarrow> w
      | Some h \<Rightarrow>
          (case swh_phase h of
             Fetching \<Rightarrow> w
           | Bounding r \<Rightarrow> sw_answer n (swh_request h) (SwRespond r) (sw_finish n (w\<lparr>swk_caches := boundAssetCache (swk_caches w)\<rparr>))))"
| "sw_step origin w (EvPut i stored) =
     (if i < length (swk_puts w)
      then (case swk_puts w ! i of (c, url, r) \<Rightarrow>
              w\<lparr>swk_puts := take i (swk_puts w) @ drop (i + 1) (swk_puts w),
                swk_caches := if stored then cache_put c url r (swk_caches w) else swk_caches w\<rparr>)
      else w)"

definition sw_run :: "jsstring \<Rightarrow> Worker \<Rightarrow> SwEvent list \<Rightarrow> Worker" where
  "sw_run origin w es = foldl (sw_step origin) w es"

section \<open>What is served came from the network\<close>

definition sw_given :: "jsstring \<Rightarrow> Worker \<Rightarrow> SwRequest \<Rightarrow> SwResponse \<Rightarrow> bool" where
  "sw_given origin w q r \<longleftrightarrow> (swq_url q, r) \<in> set (swk_network w) \<or> (swq_navigate q \<and> (root_url origin, r) \<in> set (swk_network w))"

definition handler_ok :: "(jsstring \<times> SwResponse) set \<Rightarrow> SwHandler \<Rightarrow> bool" where
  "handler_ok log h \<longleftrightarrow> (swh_route h = NetworkFirst \<longrightarrow> swq_navigate (swh_request h)) \<and>
     (\<forall>r. swh_phase h = Bounding r \<longrightarrow> (swq_url (swh_request h), r) \<in> log)"

definition worker_ok :: "jsstring \<Rightarrow> Worker \<Rightarrow> bool" where
  "worker_ok origin w \<longleftrightarrow>
     sw_cache.holds_only (\<lambda>u r. (u, r) \<in> set (swk_network w)) (swk_caches w) \<and>
     (\<forall>(c, u, r) \<in> set (swk_puts w). (u, r) \<in> set (swk_network w)) \<and>
     (\<forall>(n, h) \<in> set (swk_running w). handler_ok (set (swk_network w)) h) \<and>
     (\<forall>(n, q, a) \<in> set (swk_answers w). \<forall>r. a = SwRespond r \<longrightarrow> sw_given origin w q r)"

lemma bound_holds [simp]: "sw_cache.holds_only P (boundAssetCache s) = sw_cache.holds_only P s"
proof -
  have "sw_cache.holds_only P (snd (cache_open ASSET_CACHE s)) = sw_cache.holds_only P s"
    by (rule sw_cache.holds_only_same)
  then show ?thesis
    by (cases "cache_open ASSET_CACHE s") (simp add: boundAssetCache_def sw_cache.holds_only_same)
qed

lemma delete_all_holds: "sw_cache.holds_only P (fold cache_delete names s) = sw_cache.holds_only P s"
  by (induction names arbitrary: s) (simp_all add: sw_cache.holds_only_same)

lemma handler_mono: "handler_ok log h \<Longrightarrow> log \<subseteq> log' \<Longrightarrow> handler_ok log' h"
  by (auto simp: handler_ok_def)

text \<open>More of the network changes nothing that was served.\<close>

lemma ok_received: "worker_ok origin w \<Longrightarrow> worker_ok origin (w\<lparr>swk_network := (u, r) # swk_network w\<rparr>)"
  unfolding worker_ok_def
  by (auto simp: sw_given_def sw_cache.holds_only_def intro: handler_mono)

lemma ok_answer: "worker_ok origin w \<Longrightarrow> (\<And>r. a = SwRespond r \<Longrightarrow> sw_given origin w q r) \<Longrightarrow> worker_ok origin (sw_answer n q a w)"
  by (auto simp: worker_ok_def sw_answer_def sw_given_def)

lemma ok_finish: "worker_ok origin w \<Longrightarrow> worker_ok origin (sw_finish n w)"
  by (auto simp: worker_ok_def sw_finish_def sw_given_def AList.delete_eq)

lemma ok_put: "worker_ok origin w \<Longrightarrow> (u, r) \<in> set (swk_network w) \<Longrightarrow> worker_ok origin (start_put c u r w)"
  by (auto simp: worker_ok_def start_put_def sw_given_def)

lemma ok_caches: "worker_ok origin w \<Longrightarrow> sw_cache.holds_only (\<lambda>u r. (u, r) \<in> set (swk_network w)) s \<Longrightarrow> worker_ok origin (w\<lparr>swk_caches := s\<rparr>)"
  by (auto simp: worker_ok_def sw_given_def)

lemma ok_launch:
  "worker_ok origin w \<Longrightarrow> (route = NetworkFirst \<Longrightarrow> swq_navigate q) \<Longrightarrow> worker_ok origin (sw_launch q route c answered w)"
  by (auto simp: worker_ok_def sw_launch_def sw_given_def handler_ok_def)

lemma ok_counted [simp]: "worker_ok origin (w\<lparr>swk_launched := k\<rparr>) = worker_ok origin w"
  by (simp add: worker_ok_def sw_given_def)

lemma set_update: "set (AList.update k v xs) \<subseteq> insert (k, v) (set xs)"
  by (induction xs) auto

lemma ok_bounding:
  assumes "worker_ok origin w" "handler_ok (set (swk_network w)) h"
  shows "worker_ok origin (w\<lparr>swk_running := AList.update n h (swk_running w)\<rparr>)"
  using assms set_update [of n h "swk_running w"] by (fastforce simp: worker_ok_def sw_given_def)

lemma running_ok: "worker_ok origin w \<Longrightarrow> map_of (swk_running w) n = Some h \<Longrightarrow> handler_ok (set (swk_network w)) h"
  by (auto simp: worker_ok_def dest!: map_of_SomeD)

lemma cached_given: "worker_ok origin w \<Longrightarrow> cache_match (swk_caches w) c (swq_url q) = Some r \<Longrightarrow> sw_given origin w q r"
  using sw_cache.holds_only_match by (fastforce simp: worker_ok_def sw_given_def)

lemma finish_network [simp]: "swk_network (sw_finish n w) = swk_network w" "swk_caches (sw_finish n w) = swk_caches w"
  by (simp_all add: sw_finish_def)

lemma given_finish [simp]: "sw_given origin (sw_finish n w) q r = sw_given origin w q r"
  by (simp add: sw_given_def)

lemma received_ok:
  assumes "worker_ok origin w" "map_of (swk_running w) n = Some h" "swh_phase h = Fetching"
  shows "worker_ok origin (sw_received n h r w)"
proof -
  define w0 where "w0 = w\<lparr>swk_network := (swq_url (swh_request h), r) # swk_network w\<rparr>"
  define w1 where "w1 = (if sw_cacheable (swh_route h) r then start_put (swh_cache h) (swq_url (swh_request h)) r w0 else w0)"
  have "worker_ok origin w0" unfolding w0_def using assms(1) by (rule ok_received)
  then have w1: "worker_ok origin w1" using ok_put [of origin w0 "swq_url (swh_request h)" r] by (simp add: w1_def w0_def)
  have log: "(swq_url (swh_request h), r) \<in> set (swk_network w1)" by (simp add: w1_def w0_def start_put_def)
  have "set (swk_network w) \<subseteq> set (swk_network w1)" by (auto simp: w1_def w0_def start_put_def)
  then have h: "handler_ok (set (swk_network w1)) (h\<lparr>swh_phase := Bounding r\<rparr>)"
    using running_ok [OF assms(1,2)] log by (auto simp: handler_ok_def)
  have "sw_received n h r w =
     (if swh_route h = CacheFirst then w1\<lparr>swk_running := AList.update n (h\<lparr>swh_phase := Bounding r\<rparr>) (swk_running w1)\<rparr>
      else if swh_answered h then sw_finish n w1 else sw_answer n (swh_request h) (SwRespond r) (sw_finish n w1))"
    by (simp only: sw_received_def Let_def w1_def w0_def)
  then show ?thesis
    using ok_bounding [OF w1 h, of n] ok_finish [OF w1, of n] log by (auto simp: sw_given_def intro!: ok_answer)
qed

lemma unreachable_ok:
  assumes "worker_ok origin w" "map_of (swk_running w) n = Some h"
  shows "worker_ok origin (sw_unreachable origin n h w)"
proof -
  have cached: "cache_match (swk_caches w) c u = Some r \<Longrightarrow> (u, r) \<in> set (swk_network w)" for c u r
    using assms(1) sw_cache.holds_only_match by (fastforce simp: worker_ok_def)
  have nav: "swh_route h = NetworkFirst \<Longrightarrow> swq_navigate (swh_request h)"
    using running_ok [OF assms] by (simp add: handler_ok_def)
  show ?thesis
    using cached nav
    by (auto simp: sw_unreachable_def Let_def sw_given_def intro!: ok_finish ok_answer assms(1) split: option.splits if_splits)
qed

lemma given_launch [simp]: "sw_given origin (sw_launch q' route c b w) q r = sw_given origin w q r"
  by (simp add: sw_given_def sw_launch_def)

lemma opened_ok:
  "worker_ok origin w \<Longrightarrow> cache_open name (swk_caches w) = (c, s) \<Longrightarrow> worker_ok origin (w\<lparr>swk_caches := s\<rparr>)"
  using sw_cache.holds_only_same(1) [of "\<lambda>u r. (u, r) \<in> set (swk_network w)" name "swk_caches w"]
  by (intro ok_caches) (simp_all add: worker_ok_def)

lemma fetch_ok:
  assumes "worker_ok origin w"
  shows "worker_ok origin (sw_fetch origin q w)"
proof (cases "sw_route origin q")
  case (Some route)
  obtain c s where hnd: "cache_open (if route = NetworkFirst then APP_CACHE else ASSET_CACHE) (swk_caches w) = (c, s)"
    by (metis surj_pair)
  let ?w1 = "w\<lparr>swk_caches := s\<rparr>"
  have w1: "worker_ok origin ?w1" using opened_ok [OF assms hnd] .
  have nav: "route = NetworkFirst \<Longrightarrow> swq_navigate q" using Some by (auto simp: sw_route_def split: if_splits)
  have hit: "cache_match s c (swq_url q) = Some r \<Longrightarrow> sw_given origin ?w1 q r" for r
    using cached_given [OF w1, of c q r] by simp
  show ?thesis
    using w1 nav hit by (auto simp: sw_fetch_def Some hnd Let_def intro!: ok_launch ok_answer
        split: SwRoute.splits option.splits)
qed (simp add: sw_fetch_def assms)

lemma install_ok:
  assumes "worker_ok origin w" shows "worker_ok origin (sw_install origin reply w)"
proof -
  obtain c s where hnd: "cache_open APP_CACHE (swk_caches w) = (c, s)" by (metis surj_pair)
  have s: "worker_ok origin (w\<lparr>swk_caches := s\<rparr>)" using opened_ok [OF assms hnd] .
  show ?thesis
  proof (cases reply)
    case (Some r)
    let ?w = "w\<lparr>swk_caches := s, swk_network := (root_url origin, r) # swk_network w\<rparr>"
    let ?s = "if swr_ok r then cache_put c (root_url origin) r s else s"
    have w: "worker_ok origin ?w" using ok_received [OF s, of "root_url origin" r] by simp
    have "sw_cache.holds_only (\<lambda>u r. (u, r) \<in> set (swk_network ?w)) ?s"
      using w sw_cache.holds_only_put [of "\<lambda>u r. (u, r) \<in> set (swk_network ?w)" s "root_url origin" r c] by (simp add: worker_ok_def)
    from ok_caches [OF w this] have "worker_ok origin (?w\<lparr>swk_caches := ?s\<rparr>)" .
    moreover have "sw_install origin reply w = ?w\<lparr>swk_caches := ?s\<rparr>" by (simp add: sw_install_def hnd Some)
    ultimately show ?thesis by (simp only:)
  qed (use s in \<open>simp add: sw_install_def hnd\<close>)
qed

lemma activate_ok: "worker_ok origin w \<Longrightarrow> worker_ok origin (sw_activate w)"
  unfolding sw_activate_def by (rule ok_caches) (simp_all add: delete_all_holds worker_ok_def)

lemma put_settled_ok:
  assumes "worker_ok origin w" shows "worker_ok origin (sw_step origin w (EvPut i stored))"
proof (cases "i < length (swk_puts w)")
  case True
  obtain c u r where p: "swk_puts w ! i = (c, u, r)" by (metis surj_pair)
  have log: "(u, r) \<in> set (swk_network w)" using assms True p nth_mem by (fastforce simp: worker_ok_def)
  let ?w = "w\<lparr>swk_puts := take i (swk_puts w) @ drop (i + 1) (swk_puts w)\<rparr>"
  have w: "worker_ok origin ?w"
    using assms by (auto simp: worker_ok_def sw_given_def dest: in_set_takeD in_set_dropD)
  have "sw_cache.holds_only (\<lambda>u r. (u, r) \<in> set (swk_network ?w)) (if stored then cache_put c u r (swk_caches w) else swk_caches w)"
    using sw_cache.holds_only_put [of "\<lambda>u r. (u, r) \<in> set (swk_network w)" "swk_caches w" u r c] log w by (simp add: worker_ok_def)
  from ok_caches [OF w this] show ?thesis using True p by simp
qed (simp add: assms)

lemma bounded_ok:
  assumes "worker_ok origin w" shows "worker_ok origin (sw_step origin w (EvBounded n))"
proof (cases "map_of (swk_running w) n")
  case (Some h)
  show ?thesis
  proof (cases "swh_phase h")
    case (Bounding r)
    have "(swq_url (swh_request h), r) \<in> set (swk_network w)"
      using running_ok [OF assms Some] Bounding by (simp add: handler_ok_def)
    moreover have "worker_ok origin (w\<lparr>swk_caches := boundAssetCache (swk_caches w)\<rparr>)"
      by (rule ok_caches [OF assms]) (use assms in \<open>simp add: worker_ok_def\<close>)
    ultimately show ?thesis using Some Bounding by (auto simp: sw_given_def intro!: ok_answer ok_finish)
  qed (simp add: assms Some)
qed (simp add: assms)

lemma worker_step_ok: "worker_ok origin w \<Longrightarrow> worker_ok origin (sw_step origin w e)"
proof (cases e)
  case (EvNetwork n reply)
  then show "worker_ok origin w \<Longrightarrow> ?thesis" by (auto intro: received_ok unreachable_ok split: option.splits)
qed (auto intro: install_ok activate_ok fetch_ok bounded_ok [simplified] put_settled_ok [simplified] simp del: sw_step.simps(5,6) simp: bounded_ok put_settled_ok)

lemma worker_run_ok: "worker_ok origin w \<Longrightarrow> worker_ok origin (sw_run origin w es)"
  unfolding sw_run_def by (induction es arbitrary: w) (simp_all add: worker_step_ok)

lemma worker_ok_empty: "worker_ok origin EMPTY_WORKER"
  by (simp add: worker_ok_def EMPTY_WORKER_def sw_cache.holds_only_def cache_match_def)

text \<open>C10: In every run of the worker, whatever the network answers and however the puts and deletions of the caches
  interleave, a response that a page gets is one the network gave: for the URL the page asked for, or, when a
  navigation fails, for the root page.\<close>

theorem worker_serves_network:
  "list_all (\<lambda>(n, q, a). case a of SwNetworkError \<Rightarrow> True
     | SwRespond r \<Rightarrow> sw_given origin (sw_run origin EMPTY_WORKER es) q r) (swk_answers (sw_run origin EMPTY_WORKER es))"
  using worker_run_ok [OF worker_ok_empty, of origin es]
  by (auto simp: worker_ok_def list_all_iff split: SwAnswer.splits)

section \<open>A page without the network\<close>

text \<open>The application cache is never deleted, and what was put into it is only ever replaced.\<close>

definition root_cached :: "jsstring \<Rightarrow> nat \<Rightarrow> Worker \<Rightarrow> bool" where
  "root_cached origin c w \<longleftrightarrow> map_of (cst_names (swk_caches w)) APP_CACHE = Some c \<and>
     cache_match (swk_caches w) c (root_url origin) \<noteq> None \<and>
     (\<forall>(n, h) \<in> set (swk_running w). (swh_route h = NetworkFirst \<longrightarrow> swh_cache h = c) \<and>
        (swq_navigate (swh_request h) \<longrightarrow> swh_route h = NetworkFirst)) \<and>
     (\<forall>(n, q, a) \<in> set (swk_answers w). swq_navigate q \<longrightarrow> a \<noteq> SwNetworkError)"

definition keeps_app :: "Caches \<Rightarrow> Caches \<Rightarrow> bool" where
  "keeps_app s s' \<longleftrightarrow> (\<forall>c. map_of (cst_names s) APP_CACHE = Some c \<longrightarrow> map_of (cst_names s') APP_CACHE = Some c \<and>
     (\<forall>u. cache_match s c u \<noteq> None \<longrightarrow> cache_match s' c u \<noteq> None))"

lemma keeps_trans: "keeps_app s t \<Longrightarrow> keeps_app t u \<Longrightarrow> keeps_app s u"
  by (simp add: keeps_app_def)

lemma keeps_refl [simp]: "keeps_app s s"
  by (simp add: keeps_app_def)

lemma names_differ: "APP_CACHE \<noteq> ASSET_CACHE" "\<not> outdated_cache APP_CACHE"
  by (simp_all add: APP_CACHE_def ASSET_CACHE_def outdated_cache_def)

lemma keeps_open: "keeps_app s (snd (cache_open name s))"
  by (auto simp: keeps_app_def cache_open_def cache_match_def split: option.splits)

lemma keeps_delete: "name \<noteq> APP_CACHE \<Longrightarrow> keeps_app s (cache_delete name s)"
  by (auto simp: keeps_app_def cache_delete_def cache_match_def delete_conv)

lemma keeps_delete_all: "\<forall>n \<in> set names. n \<noteq> APP_CACHE \<Longrightarrow> keeps_app s (fold cache_delete names s)"
  by (induction names arbitrary: s) (auto intro: keeps_trans keeps_delete)

lemma keeps_put: "keeps_app s (cache_put c u r s)"
  unfolding keeps_app_def by (simp add: sw_cache.lookup_put) (simp add: cache_put_def)

lemma keeps_bound: "keeps_app s (boundAssetCache s)"
proof -
  obtain c t where o: "cache_open ASSET_CACHE s = (c, t)" by (metis surj_pair)
  then have "keeps_app s t" using keeps_open [of s ASSET_CACHE] by simp
  moreover have "keeps_app t (cache_delete ASSET_CACHE t)" using names_differ(1) by (intro keeps_delete) simp
  ultimately show ?thesis using keeps_trans by (auto simp: boundAssetCache_def o)
qed

lemma root_caches: "root_cached origin c w \<Longrightarrow> keeps_app (swk_caches w) s \<Longrightarrow> root_cached origin c (w\<lparr>swk_caches := s\<rparr>)"
  by (auto simp: root_cached_def keeps_app_def)

lemma root_answer: "root_cached origin c w \<Longrightarrow> (swq_navigate q \<Longrightarrow> a \<noteq> SwNetworkError) \<Longrightarrow> root_cached origin c (sw_answer n q a w)"
  by (auto simp: root_cached_def sw_answer_def)

lemma root_finish: "root_cached origin c w \<Longrightarrow> root_cached origin c (sw_finish n w)"
  by (auto simp: root_cached_def sw_finish_def AList.delete_eq)

lemma root_launch:
  "root_cached origin c w \<Longrightarrow> (route = NetworkFirst \<Longrightarrow> d = c) \<Longrightarrow> (swq_navigate q \<Longrightarrow> route = NetworkFirst) \<Longrightarrow>
   root_cached origin c (sw_launch q route d b w)"
  by (auto simp: root_cached_def sw_launch_def)

lemma root_other [simp]:
  "root_cached origin c (w\<lparr>swk_network := log\<rparr>) = root_cached origin c w"
  "root_cached origin c (w\<lparr>swk_launched := k\<rparr>) = root_cached origin c w"
  "root_cached origin c (w\<lparr>swk_puts := ps\<rparr>) = root_cached origin c w"
  "root_cached origin c (start_put d u r w) = root_cached origin c w"
  by (simp_all add: root_cached_def start_put_def)

lemma root_bounding:
  "root_cached origin c w \<Longrightarrow> map_of (swk_running w) n = Some h \<Longrightarrow>
   root_cached origin c (w\<lparr>swk_running := AList.update n (h\<lparr>swh_phase := p\<rparr>) (swk_running w)\<rparr>)"
  using set_update [of n "h\<lparr>swh_phase := p\<rparr>" "swk_running w"] map_of_SomeD [of "swk_running w" n h]
  by (fastforce simp: root_cached_def)

lemma root_received:
  "root_cached origin c w \<Longrightarrow> map_of (swk_running w) n = Some h \<Longrightarrow> root_cached origin c (sw_received n h r w)"
  unfolding sw_received_def Let_def
  using root_bounding [of origin c "start_put d u r (w\<lparr>swk_network := l\<rparr>)" n h "Bounding r" for d u l]
    root_bounding [of origin c "w\<lparr>swk_network := l\<rparr>" n h "Bounding r" for l]
  by (auto simp: start_put_def [THEN arg_cong, of swk_running] intro!: root_answer root_finish)

lemma root_unreachable:
  assumes "root_cached origin c w" "map_of (swk_running w) n = Some h"
  shows "root_cached origin c (sw_unreachable origin n h w)"
proof -
  have "swh_route h = NetworkFirst \<Longrightarrow> swh_cache h = c" "swq_navigate (swh_request h) \<Longrightarrow> swh_route h = NetworkFirst"
    using assms by (auto simp: root_cached_def dest: map_of_SomeD)
  moreover have "cache_match (swk_caches w) c (root_url origin) \<noteq> None" using assms(1) by (simp add: root_cached_def)
  ultimately show ?thesis
    by (auto simp: sw_unreachable_def Let_def intro!: root_answer root_finish assms(1) split: option.splits if_splits)
qed

lemma root_fetch:
  assumes "root_cached origin c w" shows "root_cached origin c (sw_fetch origin q w)"
proof (cases "sw_route origin q")
  case (Some route)
  obtain d s where hnd: "cache_open (if route = NetworkFirst then APP_CACHE else ASSET_CACHE) (swk_caches w) = (d, s)"
    by (metis surj_pair)
  have w1: "root_cached origin c (w\<lparr>swk_caches := s\<rparr>)"
    using root_caches [OF assms keeps_open] hnd by (metis snd_conv)
  have d: "route = NetworkFirst \<Longrightarrow> d = c"
    using hnd assms by (auto simp: root_cached_def cache_open_def)
  have "swq_navigate q \<Longrightarrow> route = NetworkFirst" using Some by (auto simp: sw_route_def split: if_splits)
  with w1 d show ?thesis
    by (auto simp: sw_fetch_def Some hnd Let_def intro!: root_launch root_answer split: SwRoute.splits option.splits)
qed (simp add: sw_fetch_def assms)

lemma root_install:
  assumes "root_cached origin c w" shows "root_cached origin c (sw_install origin reply w)"
proof -
  obtain d s where hnd: "cache_open APP_CACHE (swk_caches w) = (d, s)" by (metis surj_pair)
  have s: "keeps_app (swk_caches w) s" using keeps_open [of "swk_caches w" APP_CACHE] hnd by simp
  then have "keeps_app (swk_caches w) (cache_put d u r s)" for u r using keeps_put keeps_trans by blast
  with s show ?thesis
    by (auto simp: sw_install_def hnd intro!: root_caches assms split: option.splits)
qed

lemma root_step: "root_cached origin c w \<Longrightarrow> root_cached origin c (sw_step origin w e)"
proof (cases e)
  case EvActivate
  assume "root_cached origin c w"
  moreover have "keeps_app (swk_caches w) (boundAssetCache
      (fold cache_delete (filter outdated_cache (map fst (cst_names (swk_caches w)))) (swk_caches w)))"
    by (rule keeps_trans [OF keeps_delete_all keeps_bound]) (use names_differ(2) in auto)
  ultimately show ?thesis using EvActivate root_caches by (simp add: sw_activate_def)
next
  case (EvBounded n)
  assume "root_cached origin c w"
  from root_caches [OF this keeps_bound] EvBounded \<open>root_cached origin c w\<close> show ?thesis
    by (auto intro!: root_answer root_finish split: option.splits SwPhase.splits)
next
  case (EvPut i stored)
  assume "root_cached origin c w"
  then show ?thesis using EvPut by (auto intro!: root_caches keeps_put split: prod.splits)
qed (auto intro: root_install root_fetch root_received root_unreachable split: option.splits)

lemma root_run: "root_cached origin c w \<Longrightarrow> root_cached origin c (sw_run origin w es)"
  unfolding sw_run_def by (induction es arbitrary: w) (simp_all add: root_step)

text \<open>C40: Once the worker was installed with its root page, no navigation of any later run ends in a network error: it gets a page
  also without the network and after any activation.\<close>

theorem offline_navigation_answered:
  assumes "swr_ok page"
  shows "list_all (\<lambda>(n, q, a). \<not> (swq_navigate q \<and> a = SwNetworkError))
    (swk_answers (sw_run origin (sw_install origin (Some page) EMPTY_WORKER) es))"
proof -
  have "root_cached origin 0 (sw_install origin (Some page) EMPTY_WORKER)"
    using assms by (simp add: root_cached_def sw_install_def cache_open_def EMPTY_WORKER_def cache_put_def cache_match_def)
  from root_run [OF this, of es] show ?thesis by (auto simp: root_cached_def list_all_iff)
qed

lemma offline_navigation_answered_witness:
  "let page = \<lparr>swr_ok = True, swr_opaque = False, swr_body = ''shell''\<rparr>;
       visit = \<lparr>swq_get = True, swq_navigate = True, swq_url = ''https://d/flow'', swq_origin = ''https://d'', swq_pathname = ''/flow''\<rparr>;
       w = sw_run ''https://d'' (sw_install ''https://d'' (Some page) EMPTY_WORKER) [EvActivate, EvFetch visit, EvNetwork 0 None]
   in swk_answers w = [(0, visit, SwRespond page)] \<and> list_all (\<lambda>(n, q, a). \<not> (swq_navigate q \<and> a = SwNetworkError)) (swk_answers w)"
  unfolding Let_def by (rule conjI, code_simp, rule offline_navigation_answered, code_simp)

section \<open>The size of the asset cache\<close>

definition asset_entries :: "Worker \<Rightarrow> nat" where
  "asset_entries w =
     (case map_of (cst_names (swk_caches w)) ASSET_CACHE of
        None \<Rightarrow> 0 | Some c \<Rightarrow> length (cst_objects (swk_caches w) c))"

lemma bound_entries: "asset_entries (w\<lparr>swk_caches := boundAssetCache s\<rparr>) \<le> ASSET_CACHE_MAX_ENTRIES"
proof -
  obtain c t where o: "cache_open ASSET_CACHE s = (c, t)" by (metis surj_pair)
  then have "map_of (cst_names t) ASSET_CACHE = Some c" by (auto simp: cache_open_def split: option.splits)
  then show ?thesis by (auto simp: asset_entries_def boundAssetCache_def o cache_delete_def delete_conv)
qed

definition static_request :: "jsstring \<Rightarrow> nat \<Rightarrow> SwRequest" where
  "static_request origin k = \<lparr>swq_get = True, swq_navigate = False, swq_url = origin @ ''/static/'' @ replicate k CHR ''a'',
     swq_origin = origin, swq_pathname = ''/static/'' @ replicate k CHR ''a''\<rparr>"

definition ok_response :: SwResponse where
  "ok_response = \<lparr>swr_ok = True, swr_opaque = False, swr_body = ''icon''\<rparr>"

definition static_visit :: "jsstring \<Rightarrow> nat \<Rightarrow> SwEvent list" where
  "static_visit origin k = [EvFetch (static_request origin k), EvNetwork k (Some ok_response), EvPut 0 True]"

definition static_entries :: "jsstring \<Rightarrow> nat \<Rightarrow> (jsstring \<times> SwResponse) list" where
  "static_entries origin n = map (\<lambda>k. (swq_url (static_request origin k), ok_response)) [0..<n]"

definition static_state :: "jsstring \<Rightarrow> nat \<Rightarrow> Worker \<Rightarrow> bool" where
  "static_state origin n w \<longleftrightarrow> swk_running w = [] \<and> swk_puts w = [] \<and> swk_launched w = n \<and>
     (n \<noteq> 0 \<longrightarrow> map_of (cst_names (swk_caches w)) ASSET_CACHE \<noteq> None) \<and>
     (let (c, s) = cache_open ASSET_CACHE (swk_caches w) in cst_objects s c = static_entries origin n)"

lemma static_route: "sw_route origin (static_request origin k) = Some StaleWhileRevalidate"
  by (simp add: sw_route_def static_request_def isImmutableAsset_def isRevalidatedAsset_def js_starts_with_def)

lemma update_absent: "k \<notin> fst ` set xs \<Longrightarrow> AList.update k v xs = xs @ [(k, v)]"
  by (induction xs) auto

lemma static_url_new: "swq_url (static_request origin n) \<notin> fst ` set (static_entries origin n)"
  by (auto simp: static_entries_def static_request_def)

lemma opened_again: "cache_open name s = (c, t) \<Longrightarrow> cache_open name t = (c, t)"
  by (auto simp: cache_open_def split: option.splits)

lemma static_visited:
  assumes "static_state origin n w"
  shows "static_state origin (Suc n) (foldl (sw_step origin) w (static_visit origin n))"
proof -
  obtain c t where o: "cache_open ASSET_CACHE (swk_caches w) = (c, t)" by (metis surj_pair)
  have e: "cst_objects t c = static_entries origin n" using assms o by (simp add: static_state_def)
  have miss: "cache_match t c (swq_url (static_request origin n)) = None"
    using static_url_new [of origin n] by (simp add: cache_match_def e map_of_eq_None_iff)
  have again: "cache_open ASSET_CACHE (cache_put c u r t) = (c, cache_put c u r t)" for u r
    using o by (auto simp: cache_open_def cache_put_def split: option.splits)
  have "cst_objects (cache_put c (swq_url (static_request origin n)) ok_response t) c = static_entries origin (Suc n)"
    using update_absent [OF static_url_new, of origin n ok_response] by (simp add: cache_put_def e) (simp add: static_entries_def)
  moreover have "map_of (cst_names (cache_put c u r t)) ASSET_CACHE \<noteq> None" for u r
    using o by (auto simp: cache_open_def cache_put_def split: option.splits)
  ultimately show ?thesis
    using assms again
    by (simp add: static_visit_def static_state_def sw_fetch_def static_route o miss sw_launch_def sw_received_def Let_def
        sw_cacheable_def ok_response_def start_put_def sw_answer_def sw_finish_def)
qed

lemma static_run: "static_state origin n (sw_run origin EMPTY_WORKER (concat (map (static_visit origin) [0..<n])))"
proof (induction n)
  case 0
  show ?case by (simp add: sw_run_def static_state_def EMPTY_WORKER_def cache_open_def static_entries_def)
next
  case (Suc n)
  from static_visited [OF this] show ?case by (simp add: sw_run_def)
qed

text \<open>The asset cache is cut back to its bound by an activation and by every immutable asset that was fetched; but the
  files under \<open>/static/\<close> are put without that, and visits to them alone fill the cache to any size.\<close>

theorem asset_cache_bound:
  "asset_entries (sw_step origin w EvActivate) \<le> ASSET_CACHE_MAX_ENTRIES \<and>
   (case map_of (swk_running w) k of
      Some h \<Rightarrow> swh_phase h = Fetching \<or> asset_entries (sw_step origin w (EvBounded k)) \<le> ASSET_CACHE_MAX_ENTRIES
    | None \<Rightarrow> True) \<and>
   asset_entries (sw_run origin EMPTY_WORKER (concat (map (static_visit origin) [0..<Suc n]))) = Suc n"
proof (intro conjI)
  show "asset_entries (sw_step origin w EvActivate) \<le> ASSET_CACHE_MAX_ENTRIES"
    by (simp add: sw_activate_def bound_entries)
  have keep: "asset_entries (sw_answer i q a (sw_finish i v)) = asset_entries v" for i q a v
    by (simp add: asset_entries_def sw_answer_def sw_finish_def split: option.split)
  show "case map_of (swk_running w) k of
      Some h \<Rightarrow> swh_phase h = Fetching \<or> asset_entries (sw_step origin w (EvBounded k)) \<le> ASSET_CACHE_MAX_ENTRIES
    | None \<Rightarrow> True"
    by (auto simp: keep bound_entries split: option.splits SwPhase.splits)
  have "length (static_entries origin (Suc n)) = Suc n" by (simp add: static_entries_def)
  moreover have "static_entries origin (Suc n) \<noteq> []" by (simp add: static_entries_def)
  ultimately show "asset_entries (sw_run origin EMPTY_WORKER (concat (map (static_visit origin) [0..<Suc n]))) = Suc n"
    using static_run [of origin "Suc n"]
    by (auto simp: static_state_def asset_entries_def cache_open_def split: option.splits)
qed

text \<open>A static file that is not cached is not served when the network fails: the promise of the refresh counts as an
  answer, so the last alternative, another fetch, never runs.\<close>

theorem static_miss_fails:
  assumes "map_of (swk_running w) n = Some h" and "swh_route h = StaleWhileRevalidate" and "swh_phase h = Fetching" and "\<not> swh_answered h"
  shows "sw_step origin w (EvNetwork n None) = sw_answer n (swh_request h) SwNetworkError (sw_finish n w)"
  using assms by (simp add: sw_unreachable_def Let_def)

end
